(* ===== verification/Prelude.thy ===== *)
theory Prelude
  imports Main "HOL-Library.Word" "HOL-Library.AList" "HOL-Library.Sublist"
begin

section \<open>Prelude: Python values, results and the lemmas every component shares\<close>

text \<open>
  What the components have in common. Python text is a \<open>string\<close> (one \<open>char\<close> per code
  point, so code points up to 255; every pattern of the program is ASCII and refuses the rest
  alike), bytes are 8-bit words, JSON-shaped values are the datatype \<open>json\<close> with dictionaries
  as association lists in insertion order, an optional value is an \<open>option\<close>, and a function
  that may raise returns \<open>error + value\<close>. \<open>or_else\<close> is Python's \<open>a or b\<close> on optional
  values and \<open>result_bind\<close> is "go on unless it raised".
\<close>

named_theorems result_simps \<open>unfolding the error plumbing\<close>
named_theorems text_simps \<open>character classes and text helpers\<close>

type_synonym bytes = "8 word list"

datatype json =
    JNull
  | JBool bool
  | JInt int
  | JFloat string
  | JStr string
  | JList "json list"
  | JObj "(string \<times> json) list"

subsection \<open>Results\<close>

definition result_bind :: "'e + 'a \<Rightarrow> ('a \<Rightarrow> 'e + 'b) \<Rightarrow> 'e + 'b" where
  "result_bind r f = (case r of Inl e \<Rightarrow> Inl e | Inr a \<Rightarrow> f a)"

definition or_else :: "'a option \<Rightarrow> 'a option \<Rightarrow> 'a option" where
  "or_else a b = (case a of None \<Rightarrow> b | Some x \<Rightarrow> Some x)"

definition result_ok :: "'e + 'a \<Rightarrow> bool" where
  "result_ok r = (case r of Inl _ \<Rightarrow> False | Inr _ \<Rightarrow> True)"

lemma result_bind_simps [simp, result_simps]:
  "result_bind (Inl e) f = Inl e"
  "result_bind (Inr a) f = f a"
  by (simp_all add: result_bind_def)

lemma result_bind_Inr [result_simps]:
  "result_bind r f = Inr b \<longleftrightarrow> (\<exists>a. r = Inr a \<and> f a = Inr b)"
  by (cases r) (auto simp: result_bind_def)

lemma result_bind_Inl [result_simps]:
  "result_bind r f = Inl e \<longleftrightarrow> r = Inl e \<or> (\<exists>a. r = Inr a \<and> f a = Inl e)"
  by (cases r) (auto simp: result_bind_def)

lemma result_bind_pair:
  "result_bind r (\<lambda>(a, b). f a b) = Inr c \<longleftrightarrow> (\<exists>a b. r = Inr (a, b) \<and> f a b = Inr c)"
  by (cases r) (auto simp: result_bind_def split: prod.splits)

lemma or_else_simps [simp]:
  "or_else None b = b"
  "or_else (Some x) b = Some x"
  by (simp_all add: or_else_def)

lemma or_else_None [simp]: "or_else a b = None \<longleftrightarrow> a = None \<and> b = None"
  by (cases a) auto

lemma or_else_Some: "or_else a b = Some x \<longleftrightarrow> a = Some x \<or> (a = None \<and> b = Some x)"
  by (cases a) auto

lemma result_ok_simps [simp]: "\<not> result_ok (Inl e)" "result_ok (Inr a)"
  by (simp_all add: result_ok_def)

lemma result_ok_iff: "result_ok r \<longleftrightarrow> (\<exists>a. r = Inr a)"
  by (cases r) auto

subsection \<open>Characters and text\<close>

definition code :: "char \<Rightarrow> nat" where
  "code c = of_char c"

definition is_digit :: "char \<Rightarrow> bool" where
  "is_digit c \<longleftrightarrow> 48 \<le> code c \<and> code c \<le> 57"

definition is_upper :: "char \<Rightarrow> bool" where
  "is_upper c \<longleftrightarrow> 65 \<le> code c \<and> code c \<le> 90"

definition is_lower :: "char \<Rightarrow> bool" where
  "is_lower c \<longleftrightarrow> 97 \<le> code c \<and> code c \<le> 122"

definition is_hex :: "char \<Rightarrow> bool" where
  "is_hex c \<longleftrightarrow> is_digit c \<or> (65 \<le> code c \<and> code c \<le> 70) \<or> (97 \<le> code c \<and> code c \<le> 102)"

definition lower :: "char \<Rightarrow> char" where
  "lower c = (if is_upper c then char_of (code c + 32) else c)"

definition upper :: "char \<Rightarrow> char" where
  "upper c = (if is_lower c then char_of (code c - 32) else c)"

definition str_lower :: "string \<Rightarrow> string" where
  "str_lower = map lower"

definition str_upper :: "string \<Rightarrow> string" where
  "str_upper = map upper"

lemma code_less [simp]: "code c < 256"
proof -
  have "of_char c mod 256 = (of_char c :: nat)" by simp
  then show ?thesis unfolding code_def by (metis mod_less_divisor zero_less_numeral)
qed

lemma code_char_of [simp]: "n < 256 \<Longrightarrow> code (char_of n) = n"
  by (simp add: code_def)

lemma code_inject: "code c = code d \<longleftrightarrow> c = d"
  by (simp add: code_def)

lemma char_of_code [simp]: "char_of (code c) = c"
  by (simp add: code_def)

lemmas char_class_defs [text_simps] = is_digit_def is_upper_def is_lower_def is_hex_def

lemma lower_idem [simp]: "lower (lower c) = lower c"
  by (auto simp: lower_def is_upper_def)

lemma is_hex_lower [simp]: "is_hex (lower c) \<longleftrightarrow> is_hex c"
  by (auto simp: lower_def char_class_defs)

lemma str_lower_idem [simp]: "str_lower (str_lower s) = str_lower s"
  by (simp add: str_lower_def)

lemma length_str_lower [simp]: "length (str_lower s) = length s"
  by (simp add: str_lower_def)

lemma all_hex_str_lower [simp]: "list_all is_hex (str_lower s) \<longleftrightarrow> list_all is_hex s"
  by (simp add: str_lower_def list_all_iff)

subsection \<open>Decimal numerals: \<open>str(n)\<close> and \<open>int(text)\<close>\<close>

definition digit_char :: "nat \<Rightarrow> char" where
  "digit_char d = char_of (48 + d)"

definition digit_val :: "char \<Rightarrow> nat" where
  "digit_val c = code c - 48"

fun dec :: "nat \<Rightarrow> string" where
  "dec n = (if n < 10 then [digit_char n] else dec (n div 10) @ [digit_char (n mod 10)])"

declare dec.simps [simp del]

definition int_str :: "int \<Rightarrow> string" where
  "int_str i = (if i < 0 then ''-'' @ dec (nat (- i)) else dec (nat i))"

definition undec :: "string \<Rightarrow> nat" where
  "undec s = foldl (\<lambda>n c. n * 10 + digit_val c) 0 s"

lemma is_digit_digit_char [simp]: "d < 10 \<Longrightarrow> is_digit (digit_char d)"
  by (simp add: digit_char_def is_digit_def)

lemma digit_val_digit_char [simp]: "d < 10 \<Longrightarrow> digit_val (digit_char d) = d"
  by (simp add: digit_char_def digit_val_def)

lemma digit_char_digit_val [simp]: "is_digit c \<Longrightarrow> digit_char (digit_val c) = c"
  by (simp add: digit_char_def digit_val_def is_digit_def)

lemma digit_val_less [simp]: "is_digit c \<Longrightarrow> digit_val c < 10"
  by (auto simp: digit_val_def is_digit_def)

lemma undec_snoc [simp]: "undec (s @ [c]) = undec s * 10 + digit_val c"
  by (simp add: undec_def)

lemma undec_single [simp]: "undec [c] = digit_val c"
  by (simp add: undec_def)

lemma dec_small: "n < 10 \<Longrightarrow> dec n = [digit_char n]"
  by (simp add: dec.simps)

lemma dec_step: "\<not> n < 10 \<Longrightarrow> dec n = dec (n div 10) @ [digit_char (n mod 10)]"
  by (simp add: dec.simps [of n])

lemma dec_not_Nil [simp]: "dec n \<noteq> []"
  by (simp add: dec.simps [of n])

lemma undec_dec [simp]: "undec (dec n) = n"
proof (induction n rule: dec.induct)
  case (1 n)
  show ?case
  proof (cases "n < 10")
    case True
    then show ?thesis by (simp add: dec_small)
  next
    case False
    with 1 show ?thesis by (simp add: dec_step)
  qed
qed

lemma all_digits_dec: "list_all is_digit (dec n)"
proof (induction n rule: dec.induct)
  case (1 n)
  then show ?case by (cases "n < 10") (simp_all add: dec_small dec_step)
qed

lemma length_dec: "n < 10 ^ Suc k \<Longrightarrow> length (dec n) \<le> Suc k"
proof (induction k arbitrary: n)
  case 0
  then show ?case by (simp add: dec_small)
next
  case (Suc k)
  show ?case
  proof (cases "n < 10")
    case True
    then show ?thesis by (simp add: dec_small)
  next
    case False
    from Suc.prems have "n div 10 < 10 ^ Suc k"
      by (simp add: div_less_iff_less_mult mult.commute)
    then have "length (dec (n div 10)) \<le> Suc k" by (rule Suc.IH)
    with False show ?thesis by (simp add: dec_step)
  qed
qed

lemma hd_dec: "0 < n \<Longrightarrow> hd (dec n) \<noteq> CHR ''0''"
proof (induction n rule: dec.induct)
  case (1 n)
  show ?case
  proof (cases "n < 10")
    case True
    with 1(2) have "code (digit_char n) \<noteq> code CHR ''0''"
      by (simp add: digit_char_def) (simp add: code_def)
    with True show ?thesis by (auto simp: dec_small)
  next
    case False
    with 1 show ?thesis by (simp add: dec_step)
  qed
qed

lemma undec_positive:
  "\<lbrakk>s \<noteq> []; hd s \<noteq> CHR ''0''; list_all is_digit s\<rbrakk> \<Longrightarrow> 0 < undec s"
proof (induction s rule: rev_induct)
  case Nil
  then show ?case by simp
next
  case (snoc c s)
  show ?case
  proof (cases "s = []")
    case True
    have "digit_char 0 = CHR ''0''" by code_simp
    moreover from snoc.prems have "digit_char (digit_val c) = c" by simp
    moreover from True snoc.prems(2) have "c \<noteq> CHR ''0''" by simp
    ultimately have "digit_val c \<noteq> 0" by metis
    with True show ?thesis by simp
  next
    case False
    with snoc show ?thesis by simp
  qed
qed

lemma dec_undec:
  "\<lbrakk>s \<noteq> []; hd s \<noteq> CHR ''0'' \<or> length s = 1; list_all is_digit s\<rbrakk> \<Longrightarrow> dec (undec s) = s"
proof (induction s rule: rev_induct)
  case Nil
  then show ?case by simp
next
  case (snoc c s)
  show ?case
  proof (cases "s = []")
    case True
    with snoc.prems show ?thesis by (simp add: dec_small)
  next
    case False
    from snoc.prems False have s: "hd s \<noteq> CHR ''0''" "list_all is_digit s" and c: "is_digit c"
      by auto
    from False s have pos: "0 < undec s" by (simp add: undec_positive)
    have "dec (undec s * 10 + digit_val c) = dec (undec s) @ [digit_char (digit_val c)]"
      using pos c digit_val_less [OF c] by (simp add: dec_step)
    with snoc.IH False s c show ?thesis by simp
  qed
qed

lemma int_str_inject [simp]: "int_str a = int_str b \<longleftrightarrow> a = b"
proof
  assume e: "int_str a = int_str b"
  have minus: "hd (dec n) \<noteq> CHR ''-''" for n
  proof
    assume "hd (dec n) = CHR ''-''"
    then have "is_digit CHR ''-''"
      using all_digits_dec [of n] dec_not_Nil [of n] by (cases "dec n") auto
    then show False by (simp add: is_digit_def code_def)
  qed
  have dec_inj: "dec m = dec n \<longleftrightarrow> m = n" for m n
    by (metis undec_dec)
  have sign: "CHR ''-'' # s \<noteq> dec n" for s n
    using minus [of n] by (metis list.sel(1))
  from e show "a = b"
    by (auto simp: int_str_def dec_inj sign sign [symmetric] nat_eq_iff split: if_splits)
qed simp

lemma byte_of_nat_eq: "\<lbrakk>m < 256; n < 256\<rbrakk> \<Longrightarrow> (word_of_nat m :: 8 word) = word_of_nat n \<longleftrightarrow> m = n"
proof
  assume b: "m < 256" "n < 256" and "(word_of_nat m :: 8 word) = word_of_nat n"
  then have "unat (word_of_nat m :: 8 word) = unat (word_of_nat n :: 8 word)" by simp
  with b show "m = n" by (simp only: unat_of_nat) simp
qed simp

lemma byte_of_code_eq: "(word_of_nat (code c) :: 8 word) = word_of_nat (code d) \<longleftrightarrow> c = d"
  by (simp add: byte_of_nat_eq code_inject)

subsection \<open>Hexadecimal: \<open>bytes.hex()\<close> and \<open>bytes.fromhex(text)\<close>\<close>

definition hex_char :: "nat \<Rightarrow> char" where
  "hex_char d = (if d < 10 then char_of (48 + d) else char_of (87 + d))"

definition hex_val :: "char \<Rightarrow> nat" where
  "hex_val c = (if is_digit c then code c - 48
     else if code c \<le> 70 then code c - 55 else code c - 87)"

fun to_hex :: "bytes \<Rightarrow> string" where
  "to_hex [] = []"
| "to_hex (b # bs) = hex_char (unat b div 16) # hex_char (unat b mod 16) # to_hex bs"

definition is_space :: "char \<Rightarrow> bool" where
  "is_space c \<longleftrightarrow> code c = 32 \<or> (9 \<le> code c \<and> code c \<le> 13)"

text \<open>\<open>bytes.fromhex\<close> skips ASCII white space between bytes and raises on anything else.\<close>

fun fromhex :: "string \<Rightarrow> bytes option" where
  "fromhex [] = Some []"
| "fromhex (c # cs) =
     (if is_space c then fromhex cs
      else case cs of
        [] \<Rightarrow> None
      | d # ds \<Rightarrow> if is_hex c \<and> is_hex d
          then map_option (\<lambda>bs. word_of_nat (16 * hex_val c + hex_val d) # bs) (fromhex ds)
          else None)"

lemma hex_val_less [simp]: "is_hex c \<Longrightarrow> hex_val c < 16"
  by (auto simp: hex_val_def char_class_defs)

lemma hex_val_hex_char [simp]: "d < 16 \<Longrightarrow> hex_val (hex_char d) = d"
  by (auto simp: hex_val_def hex_char_def char_class_defs)

lemma is_hex_hex_char [simp]: "d < 16 \<Longrightarrow> is_hex (hex_char d)"
  by (auto simp: hex_char_def char_class_defs)

lemma lower_hex_char [simp]: "d < 16 \<Longrightarrow> lower (hex_char d) = hex_char d"
  by (auto simp: hex_char_def lower_def is_upper_def)

lemma hex_not_space: "is_hex c \<Longrightarrow> \<not> is_space c"
  by (auto simp: is_space_def char_class_defs)

lemma hex_char_hex_val:
  assumes "is_hex c"
  shows "hex_char (hex_val c) = lower c"
proof -
  from assms consider "48 \<le> code c \<and> code c \<le> 57" | "65 \<le> code c \<and> code c \<le> 70"
    | "97 \<le> code c \<and> code c \<le> 102"
    by (auto simp: char_class_defs)
  then show ?thesis
    by cases (auto simp: hex_char_def hex_val_def lower_def char_class_defs)
qed

lemma length_to_hex [simp]: "length (to_hex bs) = 2 * length bs"
  by (induction bs) auto

lemma unat_byte_div [simp]: "unat (b :: 8 word) div 16 < 16"
  using unsigned_less [of b] by (simp add: div_less_iff_less_mult)

lemma all_hex_to_hex [simp]: "list_all is_hex (to_hex bs)"
  by (induction bs) auto

lemma str_lower_to_hex [simp]: "str_lower (to_hex bs) = to_hex bs"
  by (induction bs) (auto simp: str_lower_def)

lemma fromhex_to_hex [simp]: "fromhex (to_hex bs) = Some bs"
proof (induction bs)
  case Nil
  then show ?case by simp
next
  case (Cons b bs)
  have "16 * (unat b div 16) + unat b mod 16 = unat b" by simp
  with Cons show ?case by (simp add: hex_not_space del: mult_div_mod_eq)
qed

lemma to_hex_fromhex:
  "\<lbrakk>list_all is_hex s; fromhex s = Some bs\<rbrakk> \<Longrightarrow> to_hex bs = str_lower s"
proof (induction s arbitrary: bs rule: fromhex.induct)
  case 1
  then show ?case by (simp add: str_lower_def)
next
  case (2 c cs)
  then have c: "is_hex c" "\<not> is_space c" by (auto simp: hex_not_space)
  with 2 obtain d ds bs' where cs: "cs = d # ds" and d: "is_hex d"
    and bs': "fromhex ds = Some bs'"
    and bs: "bs = word_of_nat (16 * hex_val c + hex_val d) # bs'"
    by (auto split: list.splits)
  have lt: "16 * hex_val c + hex_val d < 256"
    using hex_val_less [OF c(1)] hex_val_less [OF d] by linarith
  then have u: "unat (word_of_nat (16 * hex_val c + hex_val d) :: 8 word) = 16 * hex_val c + hex_val d"
    by (simp only: unat_of_nat) simp
  have q: "(16 * hex_val c + hex_val d) div 16 = hex_val c"
    "(16 * hex_val c + hex_val d) mod 16 = hex_val d"
    using hex_val_less [OF d] by simp_all
  have ih: "to_hex bs' = str_lower ds"
    using "2.IH"(2) [OF c(2) cs] 2(3) c d cs bs' by auto
  have "to_hex bs = hex_char (hex_val c) # hex_char (hex_val d) # to_hex bs'"
    by (simp only: bs to_hex.simps u q)
  with c d ih show ?case by (simp add: cs hex_char_hex_val str_lower_def)
qed

lemma fromhex_total:
  "\<lbrakk>list_all is_hex s; even (length s)\<rbrakk> \<Longrightarrow> \<exists>bs. fromhex s = Some bs \<and> 2 * length bs = length s"
proof (induction s rule: fromhex.induct)
  case 1
  then show ?case by simp
next
  case (2 c cs)
  then have c: "is_hex c" "\<not> is_space c" by (auto simp: hex_not_space)
  from 2(4) obtain d ds where cs: "cs = d # ds" by (cases cs) auto
  with 2 c show ?case by fastforce
qed

subsection \<open>Splitting text\<close>

text \<open>\<open>s.partition(c)\<close> without the separator it found, and \<open>s.split(c)\<close>.\<close>

definition partition_at :: "char \<Rightarrow> string \<Rightarrow> string \<times> string" where
  "partition_at c s = (takeWhile (\<lambda>x. x \<noteq> c) s, tl (dropWhile (\<lambda>x. x \<noteq> c) s))"

fun split_at :: "char \<Rightarrow> string \<Rightarrow> string list" where
  "split_at c [] = [[]]"
| "split_at c (x # xs) =
     (if x = c then [] # split_at c xs
      else case split_at c xs of [] \<Rightarrow> [[x]] | p # ps \<Rightarrow> (x # p) # ps)"

definition join :: "string \<Rightarrow> string list \<Rightarrow> string" where
  "join sep ps = (case ps of [] \<Rightarrow> [] | p # qs \<Rightarrow> p @ concat (map (\<lambda>q. sep @ q) qs))"

subsection \<open>Dictionaries in insertion order\<close>

definition dict_keys :: "('k \<times> 'v) list \<Rightarrow> 'k list" where
  "dict_keys d = map fst d"

definition has_key :: "('k \<times> 'v) list \<Rightarrow> 'k \<Rightarrow> bool" where
  "has_key d k \<longleftrightarrow> map_of d k \<noteq> None"

definition wf_dict :: "('k \<times> 'v) list \<Rightarrow> bool" where
  "wf_dict d \<longleftrightarrow> distinct (map fst d)"

lemma wf_dict_update [simp]: "wf_dict d \<Longrightarrow> wf_dict (AList.update k v d)"
  by (simp add: wf_dict_def distinct_update)

lemma wf_dict_delete [simp]: "wf_dict d \<Longrightarrow> wf_dict (AList.delete k d)"
  by (simp add: wf_dict_def distinct_delete)

lemma has_key_iff: "has_key d k \<longleftrightarrow> k \<in> set (dict_keys d)"
  by (simp add: has_key_def dict_keys_def map_of_eq_None_iff)

lemma map_of_AList_update [simp]: "map_of (AList.update k v d) x = (if x = k then Some v else map_of d x)"
  by (simp add: update_conv')

lemma map_of_AList_delete [simp]: "map_of (AList.delete k d) x = (if x = k then None else map_of d x)"
  by (simp add: delete_conv')

end
