(* ===== verification/Values.thy ===== *)
theory Values
  imports Prelude
begin

section \<open>Value objects of the protocol\<close>

text \<open>
  The classes of packages/protocol/src/negotiation_protocol/values.py: \<open>MinorAmount\<close>,
  \<open>Sequence\<close>, \<open>Address\<close> and \<open>Digest\<close>. Each constructor returns the canonical value or
  \<open>ProtocolValueError\<close>. A dynamically typed Python argument is a \<open>json\<close> value, so that a
  \<open>bool\<close>, a float or a wrong type is refused in the model as it is in the code.
  The EIP-55 checksum is \<open>eth_utils\<close>, a third-party package, and so the two functions the
  code calls are the fields of a parameter record \<open>eth_utils\<close>.
\<close>

datatype protocol_error = ProtocolValueError

definition UINT256_MAX :: int where
  "UINT256_MAX = 2 ^ 256 - 1"

definition UINT64_MAX :: int where
  "UINT64_MAX = 2 ^ 64 - 1"

subsection \<open>Integers: amounts and sequences\<close>

fun require_int :: "json \<Rightarrow> protocol_error + int" where
  "require_int (JInt i) = Inr i"
| "require_int _ = Inl ProtocolValueError"

definition MinorAmount :: "json \<Rightarrow> protocol_error + int" where
  "MinorAmount value = result_bind (require_int value) (\<lambda>number.
     if 0 \<le> number \<and> number \<le> UINT256_MAX then Inr number else Inl ProtocolValueError)"

text \<open>The pattern \<open>^(0|[1-9][0-9]{0,77})$\<close>, matched over the whole text.\<close>

fun matches_minor_amount :: "string \<Rightarrow> bool" where
  "matches_minor_amount [] = False"
| "matches_minor_amount (c # cs) =
     (if c = CHR ''0'' then cs = []
      else is_digit c \<and> length cs \<le> 77 \<and> list_all is_digit cs)"

definition parse_amount :: "json \<Rightarrow> protocol_error + int" where
  "parse_amount v = (case v of
     JStr text \<Rightarrow> if matches_minor_amount text then MinorAmount (JInt (int (undec text)))
                 else Inl ProtocolValueError
   | _ \<Rightarrow> Inl ProtocolValueError)"

definition amount_to_json :: "int \<Rightarrow> string" where
  "amount_to_json a = int_str a"

datatype amount_input = Already int | Raw json
datatype validation_mode = JsonMode | PythonMode

definition validate_minor_amount :: "amount_input \<Rightarrow> validation_mode \<Rightarrow> protocol_error + int" where
  "validate_minor_amount value mode = (case value of
     Already a \<Rightarrow> Inr a
   | Raw v \<Rightarrow> (case v of
       JStr _ \<Rightarrow> parse_amount v
     | _ \<Rightarrow> if mode = JsonMode then Inl ProtocolValueError
           else result_bind (require_int v) (\<lambda>i. MinorAmount (JInt i))))"

definition Sequence :: "json \<Rightarrow> protocol_error + int" where
  "Sequence value = result_bind (require_int value) (\<lambda>number.
     if 0 \<le> number \<and> number \<le> UINT64_MAX then Inr number else Inl ProtocolValueError)"

subsection \<open>Hex values: addresses, digests, session ids\<close>

record eth_utils =
  is_checksum_address :: "string \<Rightarrow> bool"
  to_checksum_address :: "string \<Rightarrow> string"

fun hex_body :: "nat \<Rightarrow> string \<Rightarrow> string option" where
  "hex_body n (z # x # body) =
     (if z = CHR ''0'' \<and> x = CHR ''x'' \<and> length body = n \<and> list_all is_hex body
      then Some body else None)"
| "hex_body n _ = None"

definition Address :: "('a) eth_utils_scheme \<Rightarrow> json \<Rightarrow> protocol_error + string" where
  "Address U value = (case value of
     JStr s \<Rightarrow> (case hex_body 40 s of
         None \<Rightarrow> Inl ProtocolValueError
       | Some body \<Rightarrow>
           let mixed_case = (body \<noteq> str_lower body \<and> body \<noteq> str_upper body)
           in if mixed_case \<and> \<not> is_checksum_address U s then Inl ProtocolValueError
              else Inr (to_checksum_address U s))
   | _ \<Rightarrow> Inl ProtocolValueError)"

definition Digest_of_bytes :: "bytes \<Rightarrow> protocol_error + string" where
  "Digest_of_bytes value =
     (if length value \<noteq> 32 then Inl ProtocolValueError else Inr (''0x'' @ to_hex value))"

definition Digest :: "json \<Rightarrow> protocol_error + string" where
  "Digest value = (case value of
     JStr s \<Rightarrow> (case hex_body 64 s of
         None \<Rightarrow> Inl ProtocolValueError
       | Some _ \<Rightarrow> Inr (str_lower s))
   | _ \<Rightarrow> Inl ProtocolValueError)"

text \<open>\<open>bytes.fromhex(self[2:])\<close>: total on every digest, \<open>[]\<close> standing for its ValueError.\<close>

definition digest_to_bytes :: "string \<Rightarrow> bytes" where
  "digest_to_bytes d = (case fromhex (drop 2 d) of None \<Rightarrow> [] | Some bs \<Rightarrow> bs)"

abbreviation (input) SessionId :: "json \<Rightarrow> protocol_error + string" where
  "SessionId \<equiv> Digest"

text \<open>What a value is once it exists.\<close>

definition is_amount :: "int \<Rightarrow> bool" where
  "is_amount a \<longleftrightarrow> 0 \<le> a \<and> a \<le> UINT256_MAX"

definition is_sequence :: "int \<Rightarrow> bool" where
  "is_sequence s \<longleftrightarrow> 0 \<le> s \<and> s \<le> UINT64_MAX"

definition is_digest :: "string \<Rightarrow> bool" where
  "is_digest s \<longleftrightarrow> (\<exists>bs. length bs = 32 \<and> s = ''0x'' @ to_hex bs)"

subsection \<open>Amounts\<close>

lemma require_int_Inr: "require_int v = Inr i \<longleftrightarrow> v = JInt i"
  by (cases v) auto

lemma MinorAmount_Inr: "MinorAmount v = Inr a \<longleftrightarrow> v = JInt a \<and> is_amount a"
  by (auto simp: MinorAmount_def is_amount_def result_simps require_int_Inr)

lemma Sequence_Inr: "Sequence v = Inr s \<longleftrightarrow> v = JInt s \<and> is_sequence s"
  by (auto simp: Sequence_def is_sequence_def result_simps require_int_Inr)

lemma matches_minor_amount_digits:
  "matches_minor_amount s \<Longrightarrow>
     s \<noteq> [] \<and> list_all is_digit s \<and> (hd s \<noteq> CHR ''0'' \<or> length s = 1)"
  by (cases s) (auto split: if_splits simp: is_digit_def code_def)

lemma matches_minor_amount_dec:
  assumes "n < 10 ^ 78"
  shows "matches_minor_amount (dec n)"
proof (cases "n = 0")
  case True
  then show ?thesis by (simp only:) code_simp
next
  case False
  have len: "length (dec n) \<le> 78"
    using length_dec [of n 77] assms by simp
  obtain c cs where cs: "dec n = c # cs" using dec_not_Nil [of n] by (cases "dec n") auto
  with False have "c \<noteq> CHR ''0''" using hd_dec [of n] by simp
  with cs len all_digits_dec [of n] show ?thesis by simp
qed

lemma parse_amount_Inr:
  "parse_amount v = Inr a \<longleftrightarrow>
     (\<exists>s. v = JStr s \<and> matches_minor_amount s \<and> a = int (undec s) \<and> is_amount a)"
  by (cases v) (auto simp: parse_amount_def MinorAmount_Inr)

lemma parse_amount_not_str [simp]: "(\<And>s. v \<noteq> JStr s) \<Longrightarrow> parse_amount v = Inl ProtocolValueError"
  by (cases v) (auto simp: parse_amount_def)

lemma Digest_not_str [simp]: "(\<And>s. v \<noteq> JStr s) \<Longrightarrow> Digest v = Inl ProtocolValueError"
  by (cases v) (auto simp: Digest_def)

lemma nat_amount_bound: "is_amount a \<Longrightarrow> nat a < 10 ^ 78"
proof -
  assume "is_amount a"
  then have "nat a \<le> 2 ^ 256 - 1"
    by (simp add: is_amount_def UINT256_MAX_def nat_le_iff)
  also have "(2 ^ 256 - 1 :: nat) < 10 ^ 78" by simp
  finally show ?thesis .
qed

lemma parse_amount_of_str: "is_amount a \<Longrightarrow> parse_amount (JStr (int_str a)) = Inr a"
  using matches_minor_amount_dec [OF nat_amount_bound [of a]]
  by (auto simp: parse_amount_Inr is_amount_def int_str_def)

lemma parse_amount_canonical: "parse_amount v = Inr a \<Longrightarrow> v = JStr (int_str a)"
  by (auto simp: parse_amount_Inr int_str_def dest!: matches_minor_amount_digits dec_undec)

subsection \<open>Digests\<close>

lemma hex_body_Some:
  "hex_body n s = Some b \<longleftrightarrow> s = ''0x'' @ b \<and> length b = n \<and> list_all is_hex b"
  by (cases "(n, s)" rule: hex_body.cases) auto

lemma Digest_of_bytes_Inr:
  "Digest_of_bytes bs = Inr d \<longleftrightarrow> length bs = 32 \<and> d = ''0x'' @ to_hex bs"
  by (auto simp: Digest_of_bytes_def)

lemma str_lower_0x [simp]: "str_lower (CHR ''0'' # CHR ''x'' # s) = CHR ''0'' # CHR ''x'' # str_lower s"
  by (simp add: str_lower_def) code_simp

lemma Digest_Inr_is_digest: "Digest v = Inr d \<Longrightarrow> is_digest d"
proof -
  assume "Digest v = Inr d"
  then obtain b where b: "length b = 64" "list_all is_hex b" and d: "d = ''0x'' @ str_lower b"
    by (auto simp: Digest_def hex_body_Some split: json.splits option.splits)
  from b obtain bs where bs: "fromhex b = Some bs" "2 * length bs = 64"
    using fromhex_total [of b] by auto
  from to_hex_fromhex [OF b(2) bs(1)] d bs(2) show ?thesis
    by (auto simp: is_digest_def intro!: exI [of _ bs])
qed

lemma Digest_fixed: "is_digest d \<Longrightarrow> Digest (JStr d) = Inr d"
  by (auto simp: is_digest_def Digest_def hex_body_Some split: option.splits)

lemma digest_to_bytes_of_bytes: "digest_to_bytes (''0x'' @ to_hex bs) = bs"
  by (simp add: digest_to_bytes_def)

lemma is_digest_bytes:
  "is_digest d \<Longrightarrow> length (digest_to_bytes d) = 32 \<and> Digest_of_bytes (digest_to_bytes d) = Inr d"
  by (auto simp: is_digest_def Digest_of_bytes_Inr digest_to_bytes_def)

lemma digest_to_bytes_inject:
  "\<lbrakk>is_digest d; is_digest e\<rbrakk> \<Longrightarrow> digest_to_bytes d = digest_to_bytes e \<longleftrightarrow> d = e"
  by (auto simp: is_digest_def digest_to_bytes_def)

end
