(* ===== verification/Observation.thy ===== *)
theory Observation
  imports Values
begin

section \<open>The typed observation\<close>

text \<open>
  services/agent/src/agent/observation.py: the read-only view of one observation document.
  \<open>from_json\<close> functions read a JSON object field by field; a missing key is \<open>ViewKeyError\<close>, a
  value its value object refuses is \<open>ViewValueError\<close>, and a value that is not of the JSON type
  the schema \<open>observation.v1.json\<close> (checked before) admits there is \<open>ViewTypeError\<close>.
  A run id is kept as its 32 lower-case hexadecimal digits, the value a \<open>UUID\<close> compares by.
\<close>

datatype view_error = ViewValueError | ViewKeyError | ViewTypeError

datatype role = Buyer | Seller

definition role_str :: "role \<Rightarrow> string" where
  "role_str r = (case r of Buyer \<Rightarrow> ''buyer'' | Seller \<Rightarrow> ''seller'')"

definition counterparty :: "role \<Rightarrow> role" where
  "counterparty r = (if r = Buyer then Seller else Buyer)"

definition as_role :: "string \<Rightarrow> view_error + role" where
  "as_role value = (if value = ''buyer'' then Inr Buyer
     else if value = ''seller'' then Inr Seller else Inl ViewValueError)"

subsection \<open>Reading fields\<close>

definition data_field :: "json \<Rightarrow> string \<Rightarrow> view_error + json" where
  "data_field data k = (case data of
     JObj d \<Rightarrow> (case map_of d k of None \<Rightarrow> Inl ViewKeyError | Some v \<Rightarrow> Inr v)
   | _ \<Rightarrow> Inl ViewTypeError)"

definition data_get :: "json \<Rightarrow> string \<Rightarrow> view_error + json" where
  "data_get data k = (case data of
     JObj d \<Rightarrow> (case map_of d k of None \<Rightarrow> Inr JNull | Some v \<Rightarrow> Inr v)
   | _ \<Rightarrow> Inl ViewTypeError)"

definition as_view :: "protocol_error + 'a \<Rightarrow> view_error + 'a" where
  "as_view r = (case r of Inl _ \<Rightarrow> Inl ViewValueError | Inr a \<Rightarrow> Inr a)"

definition as_int :: "json \<Rightarrow> view_error + int" where
  "as_int v = (case v of JInt i \<Rightarrow> Inr i | _ \<Rightarrow> Inl ViewTypeError)"

definition as_str :: "json \<Rightarrow> view_error + string" where
  "as_str v = (case v of JStr s \<Rightarrow> Inr s | _ \<Rightarrow> Inl ViewTypeError)"

definition optionally :: "(json \<Rightarrow> view_error + 'a) \<Rightarrow> json \<Rightarrow> view_error + 'a option" where
  "optionally read v = (if v = JNull then Inr None else result_bind (read v) (\<lambda>a. Inr (Some a)))"

definition UUID :: "json \<Rightarrow> view_error + string" where
  "UUID v = result_bind (as_str v) (\<lambda>s.
     let digits = filter (\<lambda>c. c \<noteq> CHR ''-'') s in
     if length digits = 32 \<and> list_all is_hex digits then Inr (str_lower digits)
     else Inl ViewValueError)"

abbreviation "read_amount v \<equiv> as_view (parse_amount v)"
abbreviation "read_digest v \<equiv> as_view (Digest v)"
abbreviation "read_sequence v \<equiv> as_view (Sequence v)"
abbreviation "read_address U v \<equiv> as_view (Address U v)"

subsection \<open>The parts of an observation\<close>

record mandate =
  reservation_price :: int
  min_remaining_inventory :: int
  instructions :: string

definition mandate_from_json :: "json \<Rightarrow> view_error + mandate" where
  "mandate_from_json data =
     result_bind (result_bind (data_field data ''reservation_price_minor'') (\<lambda>v. read_amount v)) (\<lambda>r.
     result_bind (result_bind (data_field data ''min_remaining_inventory_minor'') (\<lambda>v. read_amount v)) (\<lambda>m.
     result_bind (result_bind (data_field data ''instructions'') as_str) (\<lambda>i.
     Inr \<lparr>reservation_price = r, min_remaining_inventory = m, instructions = i\<rparr>)))"

record session_view =
  sv_session_id :: string
  sv_config_hash :: string
  sv_chain_id :: int
  sv_exchange_address :: string
  sv_base_token :: string
  sv_quote_token :: string
  sv_base_amount :: int
  sv_expires_at :: int
  sv_max_offers :: int
  sv_token_decimals :: int

definition session_view_from_json :: "('a) eth_utils_scheme \<Rightarrow> json \<Rightarrow> view_error + session_view" where
  "session_view_from_json U data =
     result_bind (result_bind (data_field data ''session_id'') (\<lambda>v. read_digest v)) (\<lambda>sid.
     result_bind (result_bind (data_field data ''config_hash'') (\<lambda>v. read_digest v)) (\<lambda>ch.
     result_bind (result_bind (data_field data ''chain_id'') as_int) (\<lambda>ci.
     result_bind (result_bind (data_field data ''exchange_address'') (\<lambda>v. read_address U v)) (\<lambda>ea.
     result_bind (result_bind (data_field data ''base_token'') (\<lambda>v. read_address U v)) (\<lambda>bt.
     result_bind (result_bind (data_field data ''quote_token'') (\<lambda>v. read_address U v)) (\<lambda>qt.
     result_bind (result_bind (data_field data ''base_amount_minor'') (\<lambda>v. read_amount v)) (\<lambda>ba.
     result_bind (result_bind (data_field data ''expires_at'') as_int) (\<lambda>ex.
     result_bind (result_bind (data_field data ''max_offers'') as_int) (\<lambda>mo.
     result_bind (result_bind (data_field data ''token_decimals'') as_int) (\<lambda>td.
     Inr \<lparr>sv_session_id = sid, sv_config_hash = ch, sv_chain_id = ci, sv_exchange_address = ea,
          sv_base_token = bt, sv_quote_token = qt, sv_base_amount = ba, sv_expires_at = ex,
          sv_max_offers = mo, sv_token_decimals = td\<rparr>))))))))))"

record active_offer =
  ao_offer_hash :: string
  ao_proposer :: role
  ao_quote_amount :: int
  ao_valid_until :: int
  ao_sequence :: int

definition active_offer_from_json :: "json \<Rightarrow> view_error + active_offer" where
  "active_offer_from_json data =
     result_bind (result_bind (data_field data ''offer_hash'') (\<lambda>v. read_digest v)) (\<lambda>h.
     result_bind (result_bind (result_bind (data_field data ''proposer'') as_str) as_role) (\<lambda>p.
     result_bind (result_bind (data_field data ''quote_amount_minor'') (\<lambda>v. read_amount v)) (\<lambda>q.
     result_bind (result_bind (data_field data ''valid_until'') as_int) (\<lambda>vu.
     result_bind (result_bind (data_field data ''sequence'') (\<lambda>v. read_sequence v)) (\<lambda>s.
     Inr \<lparr>ao_offer_hash = h, ao_proposer = p, ao_quote_amount = q, ao_valid_until = vu,
          ao_sequence = s\<rparr>)))))"

record history_entry =
  he_sequence :: int
  he_actor :: string
  he_kind :: string
  he_quote_amount :: "int option"
  he_valid_until :: "int option"
  he_offer_hash :: "string option"
  he_status :: "string option"

definition history_entry_from_json :: "json \<Rightarrow> view_error + history_entry" where
  "history_entry_from_json data =
     result_bind (data_get data ''quote_amount_minor'') (\<lambda>quote.
     result_bind (data_get data ''offer_hash'') (\<lambda>offer_hash.
     result_bind (result_bind (data_field data ''sequence'') (\<lambda>v. read_sequence v)) (\<lambda>s.
     result_bind (result_bind (data_field data ''actor'') as_str) (\<lambda>a.
     result_bind (result_bind (data_field data ''kind'') as_str) (\<lambda>k.
     result_bind (optionally (\<lambda>v. read_amount v) quote) (\<lambda>q.
     result_bind (result_bind (data_get data ''valid_until'') (optionally as_int)) (\<lambda>vu.
     result_bind (optionally (\<lambda>v. read_digest v) offer_hash) (\<lambda>h.
     result_bind (result_bind (data_get data ''status'') (optionally as_str)) (\<lambda>st.
     Inr \<lparr>he_sequence = s, he_actor = a, he_kind = k, he_quote_amount = q, he_valid_until = vu,
          he_offer_hash = h, he_status = st\<rparr>)))))))))"

record balances =
  bal_base :: int
  bal_quote :: int

definition balances_from_json :: "json \<Rightarrow> view_error + balances" where
  "balances_from_json data =
     result_bind (result_bind (data_field data ''base_minor'') (\<lambda>v. read_amount v)) (\<lambda>b.
     result_bind (result_bind (data_field data ''quote_minor'') (\<lambda>v. read_amount v)) (\<lambda>q.
     Inr \<lparr>bal_base = b, bal_quote = q\<rparr>))"

record observation =
  ob_run_id :: string
  ob_role :: role
  ob_my_address :: string
  ob_session :: session_view
  ob_chain_time :: int
  ob_expected_sequence :: int
  ob_offers_remaining_for_me :: int
  ob_active_offer :: "active_offer option"
  ob_history :: "history_entry list"
  ob_my_balances :: balances
  ob_mandate :: mandate
  ob_document :: json

fun read_all :: "('a \<Rightarrow> 'e + 'b) \<Rightarrow> 'a list \<Rightarrow> 'e + 'b list" where
  "read_all f [] = Inr []"
| "read_all f (x # xs) = result_bind (f x) (\<lambda>y. result_bind (read_all f xs) (\<lambda>ys. Inr (y # ys)))"

definition observation_from_json :: "('a) eth_utils_scheme \<Rightarrow> json \<Rightarrow> view_error + observation" where
  "observation_from_json U data =
     result_bind (data_field data ''active_offer'') (\<lambda>active.
     result_bind (result_bind (data_field data ''run_id'') UUID) (\<lambda>rid.
     result_bind (result_bind (result_bind (data_field data ''role'') as_str) as_role) (\<lambda>r.
     result_bind (result_bind (data_field data ''my_address'') (\<lambda>v. read_address U v)) (\<lambda>ma.
     result_bind (result_bind (data_field data ''session'') (session_view_from_json U)) (\<lambda>s.
     result_bind (result_bind (data_field data ''chain_time'') as_int) (\<lambda>ct.
     result_bind (result_bind (data_field data ''expected_sequence'') (\<lambda>v. read_sequence v)) (\<lambda>es.
     result_bind (result_bind (data_field data ''offers_remaining_for_me'') as_int) (\<lambda>orm.
     result_bind (optionally active_offer_from_json active) (\<lambda>ao.
     result_bind (result_bind (data_field data ''history'')
       (\<lambda>v. case v of JList es \<Rightarrow> read_all history_entry_from_json es | _ \<Rightarrow> Inl ViewTypeError)) (\<lambda>hs.
     result_bind (result_bind (data_field data ''my_balances'') balances_from_json) (\<lambda>mb.
     result_bind (result_bind (data_field data ''mandate'') mandate_from_json) (\<lambda>m.
     Inr \<lparr>ob_run_id = rid, ob_role = r, ob_my_address = ma, ob_session = s, ob_chain_time = ct,
          ob_expected_sequence = es, ob_offers_remaining_for_me = orm, ob_active_offer = ao,
          ob_history = hs, ob_my_balances = mb, ob_mandate = m, ob_document = data\<rparr>))))))))))))"

subsection \<open>Reading the history\<close>

definition is_offer_entry :: "history_entry \<Rightarrow> bool" where
  "is_offer_entry e \<longleftrightarrow> he_kind e = ''offer''"

definition offers_recorded :: "observation \<Rightarrow> int" where
  "offers_recorded ob = int (length (filter is_offer_entry (ob_history ob)))"

definition own_offers_recorded :: "observation \<Rightarrow> int" where
  "own_offers_recorded ob =
     int (length (filter (\<lambda>e. is_offer_entry e \<and> he_actor e = role_str (ob_role ob)) (ob_history ob)))"

definition next_proposer :: "observation \<Rightarrow> view_error + role" where
  "next_proposer ob = (let offers = filter is_offer_entry (ob_history ob) in
     if offers = [] then Inr Buyer
     else result_bind (as_role (he_actor (last offers))) (\<lambda>r. Inr (counterparty r)))"

lemma counterparty_simps [simp]:
  "counterparty Buyer = Seller" "counterparty Seller = Buyer"
  by (simp_all add: counterparty_def)

lemma counterparty_invol [simp]: "counterparty (counterparty r) = r"
  by (cases r) simp_all

lemma as_role_str [simp]: "as_role (role_str r) = Inr r"
  by (cases r) (simp_all add: as_role_def role_str_def)

lemma as_role_Inr: "as_role s = Inr r \<longleftrightarrow> s = role_str r"
  by (cases r) (auto simp: as_role_def role_str_def)

lemma role_str_inject [simp]: "role_str r = role_str q \<longleftrightarrow> r = q"
  by (cases r; cases q) (simp_all add: role_str_def)

lemma as_view_Inr [simp]: "as_view r = Inr a \<longleftrightarrow> r = Inr a"
  by (cases r) (simp_all add: as_view_def)

lemma own_le_recorded: "0 \<le> own_offers_recorded ob \<and> own_offers_recorded ob \<le> offers_recorded ob"
proof -
  have "length (filter (\<lambda>e. is_offer_entry e \<and> he_actor e = role_str (ob_role ob)) xs)
      \<le> length (filter is_offer_entry xs)" for xs
    by (induction xs) auto
  then show ?thesis by (simp add: own_offers_recorded_def offers_recorded_def)
qed

text \<open>What \<open>from_json\<close> guarantees of the values the economic checks read.\<close>

definition typed_view :: "observation \<Rightarrow> bool" where
  "typed_view ob \<longleftrightarrow>
     is_amount (reservation_price (ob_mandate ob))
   \<and> is_amount (min_remaining_inventory (ob_mandate ob))
   \<and> is_amount (bal_base (ob_my_balances ob)) \<and> is_amount (bal_quote (ob_my_balances ob))
   \<and> is_amount (sv_base_amount (ob_session ob))
   \<and> is_sequence (ob_expected_sequence ob)
   \<and> is_digest (sv_session_id (ob_session ob)) \<and> is_digest (sv_config_hash (ob_session ob))
   \<and> (\<forall>a. ob_active_offer ob = Some a \<longrightarrow> is_amount (ao_quote_amount a) \<and> is_digest (ao_offer_hash a)
        \<and> is_sequence (ao_sequence a))"

lemma parse_amount_is_amount: "parse_amount v = Inr a \<Longrightarrow> is_amount a"
  by (auto simp: parse_amount_Inr)

lemma optionally_Inr:
  "optionally f v = Inr r \<longleftrightarrow> (v = JNull \<and> r = None) \<or> (v \<noteq> JNull \<and> (\<exists>a. f v = Inr a \<and> r = Some a))"
  by (auto simp: optionally_def result_simps)

lemma mandate_from_json_typed:
  "mandate_from_json d = Inr m \<Longrightarrow>
     is_amount (reservation_price m) \<and> is_amount (min_remaining_inventory m)"
  by (auto simp: mandate_from_json_def result_simps dest: parse_amount_is_amount)

lemma balances_from_json_typed:
  "balances_from_json d = Inr b \<Longrightarrow> is_amount (bal_base b) \<and> is_amount (bal_quote b)"
  by (auto simp: balances_from_json_def result_simps dest: parse_amount_is_amount)

lemma session_view_from_json_typed:
  "session_view_from_json U d = Inr s \<Longrightarrow>
     is_amount (sv_base_amount s) \<and> is_digest (sv_session_id s) \<and> is_digest (sv_config_hash s)"
  by (auto simp: session_view_from_json_def result_simps
      dest: parse_amount_is_amount Digest_Inr_is_digest)

lemma active_offer_from_json_typed:
  "active_offer_from_json d = Inr a \<Longrightarrow>
     is_amount (ao_quote_amount a) \<and> is_digest (ao_offer_hash a) \<and> is_sequence (ao_sequence a)"
  by (auto simp: active_offer_from_json_def result_simps Sequence_Inr
      dest: parse_amount_is_amount Digest_Inr_is_digest)

lemma observation_from_json_typed: "observation_from_json U d = Inr ob \<Longrightarrow> typed_view ob"
  by (auto simp: observation_from_json_def result_simps typed_view_def Sequence_Inr optionally_Inr
      dest!: mandate_from_json_typed balances_from_json_typed session_view_from_json_typed
        active_offer_from_json_typed)

end
