(* ===== verification/Agent_Errors.thy ===== *)
theory Agent_Errors
  imports Observation
begin

section \<open>The agent service's errors\<close>

text \<open>
  services/agent/src/agent/errors.py: one constructor per exception class, with the details a
  caller reads. \<open>Unhandled\<close> is any exception that is not an \<open>AgentError\<close>, which the route
  answers as \<open>internal_error\<close>. A differing field is a pair of plain JSON values.
\<close>

type_synonym differences = "(string \<times> (json \<times> json)) list"

datatype agent_error =
    BadRequest
  | Unauthorized
  | InvalidState string "string list"
  | IdempotencyConflict
  | SessionMismatch differences
  | KeyRefMismatch
  | AddressMismatch
  | RequestValidation "(string \<times> string) list"
  | ObservationInconsistent "(string \<times> string) list"
  | DependencyUnavailable string
  | OutboundContextRefused string
  | Unhandled

definition error_code :: "agent_error \<Rightarrow> string" where
  "error_code e = (case e of
     BadRequest \<Rightarrow> ''bad_request'' | Unauthorized \<Rightarrow> ''unauthorized''
   | InvalidState _ _ \<Rightarrow> ''invalid_state'' | IdempotencyConflict \<Rightarrow> ''idempotency_conflict''
   | SessionMismatch _ \<Rightarrow> ''session_mismatch'' | KeyRefMismatch \<Rightarrow> ''key_ref_mismatch''
   | AddressMismatch \<Rightarrow> ''address_mismatch'' | RequestValidation _ \<Rightarrow> ''validation_error''
   | ObservationInconsistent _ \<Rightarrow> ''observation_inconsistent''
   | DependencyUnavailable _ \<Rightarrow> ''dependency_unavailable''
   | OutboundContextRefused _ \<Rightarrow> ''outbound_context_refused'' | Unhandled \<Rightarrow> ''internal_error'')"

definition error_status :: "agent_error \<Rightarrow> int" where
  "error_status e = (case e of
     BadRequest \<Rightarrow> 400 | Unauthorized \<Rightarrow> 401 | InvalidState _ _ \<Rightarrow> 409 | IdempotencyConflict \<Rightarrow> 409
   | SessionMismatch _ \<Rightarrow> 409 | KeyRefMismatch \<Rightarrow> 409 | AddressMismatch \<Rightarrow> 409
   | RequestValidation _ \<Rightarrow> 422 | ObservationInconsistent _ \<Rightarrow> 422
   | DependencyUnavailable _ \<Rightarrow> 503 | OutboundContextRefused _ \<Rightarrow> 422 | Unhandled \<Rightarrow> 500)"

text \<open>\<open>dict.update\<close>: later values win, new keys go to the end.\<close>

definition dict_update :: "('k \<times> 'v) list \<Rightarrow> ('k \<times> 'v) list \<Rightarrow> ('k \<times> 'v) list" where
  "dict_update d e = foldl (\<lambda>acc (k, v). AList.update k v acc) d e"

lemma dict_update_Nil [simp]: "dict_update d [] = d"
  by (simp add: dict_update_def)

lemma update_not_Nil [simp]: "AList.update k v d \<noteq> []"
  by (cases d) auto

lemma dict_update_keeps: "d \<noteq> [] \<Longrightarrow> dict_update d e \<noteq> []"
proof (induction e arbitrary: d)
  case (Cons x e)
  from Cons.IH [of "AList.update (fst x) (snd x) d"] show ?case
    by (cases x) (simp add: dict_update_def)
qed simp

lemma dict_update_empty [simp]: "dict_update d e = [] \<longleftrightarrow> d = [] \<and> e = []"
proof (cases e)
  case (Cons x xs)
  then have "dict_update d e = dict_update (AList.update (fst x) (snd x) d) xs"
    by (simp add: dict_update_def split: prod.splits)
  with Cons show ?thesis using dict_update_keeps [OF update_not_Nil] by simp
qed simp

lemma dict_update_lookup:
  "map_of (dict_update d e) k = (case map_of (rev e) k of Some v \<Rightarrow> Some v | None \<Rightarrow> map_of d k)"
  by (induction e rule: rev_induct) (auto simp: dict_update_def split: option.splits)

end
