(* ===== verification/Eip712.thy ===== *)
theory Eip712
  imports Values
begin

section \<open>EIP-712: the domain, the three typed messages and the configuration hash\<close>

text \<open>
  packages/protocol/src/negotiation_protocol/eip712.py. \<open>keccak\<close> (eth_utils), \<open>abi.encode\<close>
  (eth_abi) and signature recovery (eth_account) are third-party packages and so fields of the
  parameter record \<open>eth_lib\<close>; an argument list of \<open>abi_encode\<close> carries its ABI types in the
  constructors of \<open>abi\<close>. The frozen dataclasses are records, the range checks of \<open>_uint\<close> and
  \<open>to_bytes32\<close> are branches to \<open>ProtocolValueError\<close>.
\<close>

datatype abi = ABytes32 bytes | AUint nat int | AAddress string

record eth_lib = eth_utils +
  keccak :: "bytes \<Rightarrow> bytes"
  abi_encode :: "abi list \<Rightarrow> bytes"
  recover_hash :: "bytes \<Rightarrow> bytes \<Rightarrow> string option"

definition ascii :: "string \<Rightarrow> bytes" where
  "ascii s = map (\<lambda>c. word_of_nat (code c)) s"

definition DOMAIN_NAME :: string where "DOMAIN_NAME = ''AgentNegotiationSandbox''"
definition DOMAIN_VERSION :: string where "DOMAIN_VERSION = ''1''"

definition EIP712_DOMAIN_TYPE :: string where
  "EIP712_DOMAIN_TYPE =
     ''EIP712Domain(string name,string version,uint256 chainId,address verifyingContract)''"

definition OFFER_TYPE :: string where
  "OFFER_TYPE = ''Offer(bytes32 sessionId,bytes32 configHash,uint64 sequence,'' @
     ''address proposer,uint256 quoteAmount,uint64 validUntil)''"

definition ACCEPT_TYPE :: string where
  "ACCEPT_TYPE =
     ''Accept(bytes32 sessionId,bytes32 configHash,uint64 sequence,address actor,bytes32 offerHash)''"

definition CLOSE_TYPE :: string where
  "CLOSE_TYPE =
     ''Close(bytes32 sessionId,bytes32 configHash,uint64 sequence,address actor,uint8 reason)''"

definition SECP256K1_ORDER :: int where
  "SECP256K1_ORDER = 0xFFFFFFFFFFFFFFFFFFFFFFFFFFFFFFFEBAAEDCE6AF48A03BBFD25E8CD0364141"

definition to_bytes32 :: "bytes \<Rightarrow> protocol_error + bytes" where
  "to_bytes32 raw = (if length raw \<noteq> 32 then Inl ProtocolValueError else Inr raw)"

definition to_hex32 :: "bytes \<Rightarrow> protocol_error + string" where
  "to_hex32 value = result_bind (to_bytes32 value) (\<lambda>raw. Inr (''0x'' @ to_hex raw))"

definition uint :: "int \<Rightarrow> nat \<Rightarrow> protocol_error + int" where
  "uint value bits = (let limit = (if bits = 256 then UINT256_MAX else 2 ^ bits - 1) in
     if 0 \<le> value \<and> value \<le> limit then Inr value else Inl ProtocolValueError)"

subsection \<open>Encoding argument lists\<close>

text \<open>
  The checked argument lists of \<open>abi_encode\<close>: each value through the check the code puts
  around it. All the checks raise the same exception, so their order does not matter.
\<close>

definition arg_bytes32 :: "bytes \<Rightarrow> protocol_error + abi" where
  "arg_bytes32 b = result_bind (to_bytes32 b) (\<lambda>r. Inr (ABytes32 r))"

definition arg_uint :: "nat \<Rightarrow> int \<Rightarrow> protocol_error + abi" where
  "arg_uint bits v = result_bind (uint v bits) (\<lambda>r. Inr (AUint bits r))"

definition arg_address :: "('a) eth_lib_scheme \<Rightarrow> string \<Rightarrow> protocol_error + abi" where
  "arg_address L a = Inr (AAddress (to_checksum_address L a))"

fun all_results :: "('e + 'a) list \<Rightarrow> 'e + 'a list" where
  "all_results [] = Inr []"
| "all_results (r # rs) = result_bind r (\<lambda>a. result_bind (all_results rs) (\<lambda>as. Inr (a # as)))"

definition keccak_text :: "('a) eth_lib_scheme \<Rightarrow> string \<Rightarrow> bytes" where
  "keccak_text L s = keccak L (ascii s)"

definition keccak_args :: "('a) eth_lib_scheme \<Rightarrow> (protocol_error + abi) list \<Rightarrow> protocol_error + bytes" where
  "keccak_args L args = result_bind (all_results args) (\<lambda>as. Inr (keccak L (abi_encode L as)))"

subsection \<open>Domain\<close>

record domain =
  chain_id :: int
  verifying_contract :: string
  domain_name :: string
  domain_version :: string

definition Domain :: "int \<Rightarrow> string \<Rightarrow> domain" where
  "Domain c v = \<lparr>chain_id = c, verifying_contract = v,
     domain_name = DOMAIN_NAME, domain_version = DOMAIN_VERSION\<rparr>"

definition domain_args :: "('a) eth_lib_scheme \<Rightarrow> domain \<Rightarrow> (protocol_error + abi) list" where
  "domain_args L d =
     [Inr (ABytes32 (keccak_text L EIP712_DOMAIN_TYPE)),
      Inr (ABytes32 (keccak_text L (domain_name d))),
      Inr (ABytes32 (keccak_text L (domain_version d))),
      arg_uint 256 (chain_id d),
      arg_address L (verifying_contract d)]"

definition separator :: "('a) eth_lib_scheme \<Rightarrow> domain \<Rightarrow> protocol_error + bytes" where
  "separator L d = keccak_args L (domain_args L d)"

definition domain_digest :: "('a) eth_lib_scheme \<Rightarrow> domain \<Rightarrow> bytes \<Rightarrow> protocol_error + bytes" where
  "domain_digest L d struct_hash =
     result_bind (separator L d) (\<lambda>sep. result_bind (to_bytes32 struct_hash) (\<lambda>h.
       Inr (keccak L ([0x19, 0x01] @ sep @ h))))"

subsection \<open>The session configuration\<close>

record session_config =
  sc_session_id :: bytes
  sc_buyer :: string
  sc_seller :: string
  sc_base_amount :: int
  sc_expires_at :: int
  sc_max_offers :: int

definition config_args ::
  "('a) eth_lib_scheme \<Rightarrow> session_config \<Rightarrow> string \<Rightarrow> string \<Rightarrow> (protocol_error + abi) list" where
  "config_args L c base_token quote_token =
     [arg_bytes32 (sc_session_id c),
      arg_address L (sc_buyer c),
      arg_address L (sc_seller c),
      arg_address L base_token,
      arg_address L quote_token,
      arg_uint 256 (sc_base_amount c),
      arg_uint 64 (sc_expires_at c),
      arg_uint 16 (sc_max_offers c)]"

definition config_hash ::
  "('a) eth_lib_scheme \<Rightarrow> session_config \<Rightarrow> string \<Rightarrow> string \<Rightarrow> protocol_error + bytes" where
  "config_hash L c base_token quote_token = keccak_args L (config_args L c base_token quote_token)"

subsection \<open>The typed messages\<close>

record offer =
  of_session_id :: bytes
  of_config_hash :: bytes
  of_sequence :: int
  of_proposer :: string
  of_quote_amount :: int
  of_valid_until :: int

record accept =
  ac_session_id :: bytes
  ac_config_hash :: bytes
  ac_sequence :: int
  ac_actor :: string
  ac_offer_hash :: bytes

record closure =
  cl_session_id :: bytes
  cl_config_hash :: bytes
  cl_sequence :: int
  cl_actor :: string
  cl_reason :: int

definition offer_args :: "('a) eth_lib_scheme \<Rightarrow> offer \<Rightarrow> (protocol_error + abi) list" where
  "offer_args L m =
     [Inr (ABytes32 (keccak_text L OFFER_TYPE)),
      arg_bytes32 (of_session_id m),
      arg_bytes32 (of_config_hash m),
      arg_uint 64 (of_sequence m),
      arg_address L (of_proposer m),
      arg_uint 256 (of_quote_amount m),
      arg_uint 64 (of_valid_until m)]"

definition accept_args :: "('a) eth_lib_scheme \<Rightarrow> accept \<Rightarrow> (protocol_error + abi) list" where
  "accept_args L m =
     [Inr (ABytes32 (keccak_text L ACCEPT_TYPE)),
      arg_bytes32 (ac_session_id m),
      arg_bytes32 (ac_config_hash m),
      arg_uint 64 (ac_sequence m),
      arg_address L (ac_actor m),
      arg_bytes32 (ac_offer_hash m)]"

definition close_args :: "('a) eth_lib_scheme \<Rightarrow> closure \<Rightarrow> (protocol_error + abi) list" where
  "close_args L m =
     [Inr (ABytes32 (keccak_text L CLOSE_TYPE)),
      arg_bytes32 (cl_session_id m),
      arg_bytes32 (cl_config_hash m),
      arg_uint 64 (cl_sequence m),
      arg_address L (cl_actor m),
      arg_uint 8 (cl_reason m)]"

definition offer_struct_hash :: "('a) eth_lib_scheme \<Rightarrow> offer \<Rightarrow> protocol_error + bytes" where
  "offer_struct_hash L m = keccak_args L (offer_args L m)"

definition accept_struct_hash :: "('a) eth_lib_scheme \<Rightarrow> accept \<Rightarrow> protocol_error + bytes" where
  "accept_struct_hash L m = keccak_args L (accept_args L m)"

definition close_struct_hash :: "('a) eth_lib_scheme \<Rightarrow> closure \<Rightarrow> protocol_error + bytes" where
  "close_struct_hash L m = keccak_args L (close_args L m)"

datatype message = MOffer offer | MAccept accept | MClose closure

definition message_args :: "('a) eth_lib_scheme \<Rightarrow> message \<Rightarrow> (protocol_error + abi) list" where
  "message_args L m = (case m of
     MOffer x \<Rightarrow> offer_args L x | MAccept x \<Rightarrow> accept_args L x | MClose x \<Rightarrow> close_args L x)"

definition struct_hash :: "('a) eth_lib_scheme \<Rightarrow> message \<Rightarrow> protocol_error + bytes" where
  "struct_hash L m = (case m of
     MOffer x \<Rightarrow> offer_struct_hash L x
   | MAccept x \<Rightarrow> accept_struct_hash L x
   | MClose x \<Rightarrow> close_struct_hash L x)"

definition digest :: "('a) eth_lib_scheme \<Rightarrow> domain \<Rightarrow> message \<Rightarrow> protocol_error + bytes" where
  "digest L d m = result_bind (struct_hash L m) (domain_digest L d)"

subsection \<open>Signatures\<close>

definition recover_signer :: "('a) eth_lib_scheme \<Rightarrow> bytes \<Rightarrow> bytes \<Rightarrow> protocol_error + string" where
  "recover_signer L dig signature =
     (if length signature \<noteq> 65 then Inl ProtocolValueError
      else case recover_hash L dig signature of
        None \<Rightarrow> Inl ProtocolValueError
      | Some a \<Rightarrow> Inr (to_checksum_address L a))"

definition big_endian :: "bytes \<Rightarrow> int" where
  "big_endian bs = foldl (\<lambda>n b. n * 256 + Word.uint b) 0 bs"

definition signature_is_canonical :: "bytes \<Rightarrow> bool" where
  "signature_is_canonical raw =
     (if length raw \<noteq> 65 then False
      else let s = big_endian (take 32 (drop 32 raw)) in 0 < s \<and> s \<le> SECP256K1_ORDER div 2)"

subsection \<open>What the third-party packages document\<close>

text \<open>
  Static ABI types are encoded as the concatenation of one 32-byte word each, a word determines
  the value of its type, \<open>keccak\<close> returns 32 bytes and checksumming is idempotent. Freedom of
  collisions is never assumed of \<open>keccak\<close> as a whole (no such function exists); a theorem that
  needs it names the finitely many inputs hashed.
\<close>

fun same_type :: "abi \<Rightarrow> abi \<Rightarrow> bool" where
  "same_type (ABytes32 _) (ABytes32 _) = True"
| "same_type (AUint n _) (AUint m _) = (n = m)"
| "same_type (AAddress _) (AAddress _) = True"
| "same_type _ _ = False"

fun abi_wf :: "('a) eth_lib_scheme \<Rightarrow> abi \<Rightarrow> bool" where
  "abi_wf L (ABytes32 b) = (length b = 32)"
| "abi_wf L (AUint n v) = (n \<le> 256 \<and> 0 \<le> v \<and> v < 2 ^ n)"
| "abi_wf L (AAddress a) = (to_checksum_address L a = a)"

definition eth_lib_ok :: "('a) eth_lib_scheme \<Rightarrow> bool" where
  "eth_lib_ok L \<longleftrightarrow>
     (\<forall>x. length (keccak L x) = 32)
   \<and> (\<forall>x xs. abi_encode L (x # xs) = abi_encode L [x] @ abi_encode L xs)
   \<and> abi_encode L [] = []
   \<and> (\<forall>x. length (abi_encode L [x]) = 32)
   \<and> (\<forall>x y. same_type x y \<longrightarrow> abi_wf L x \<longrightarrow> abi_wf L y \<longrightarrow>
        abi_encode L [x] = abi_encode L [y] \<longrightarrow> x = y)
   \<and> (\<forall>a. to_checksum_address L (to_checksum_address L a) = to_checksum_address L a)"

lemma eth_lib_okD:
  assumes "eth_lib_ok L"
  shows "length (keccak L x) = 32"
    and "abi_encode L (v # vs) = abi_encode L [v] @ abi_encode L vs"
    and "abi_encode L [] = []"
    and "length (abi_encode L [v]) = 32"
    and "\<lbrakk>same_type v w; abi_wf L v; abi_wf L w; abi_encode L [v] = abi_encode L [w]\<rbrakk> \<Longrightarrow> v = w"
    and "to_checksum_address L (to_checksum_address L a) = to_checksum_address L a"
  using assms unfolding eth_lib_ok_def by blast+

lemma length_abi_encode: "eth_lib_ok L \<Longrightarrow> length (abi_encode L vs) = 32 * length vs"
proof (induction vs)
  case Nil
  then show ?case by (simp add: eth_lib_okD(3))
next
  case (Cons v vs)
  then show ?case
    by (simp add: eth_lib_okD(2) [OF Cons.prems, of v vs] eth_lib_okD(4))
qed

lemma abi_encode_inject:
  assumes L: "eth_lib_ok L"
  shows "\<lbrakk>list_all2 same_type vs ws; list_all (abi_wf L) vs; list_all (abi_wf L) ws;
    abi_encode L vs = abi_encode L ws\<rbrakk> \<Longrightarrow> vs = ws"
proof (induction vs arbitrary: ws)
  case Nil
  then show ?case by simp
next
  case (Cons v vs)
  then obtain w ws' where ws: "ws = w # ws'" by (auto simp: list_all2_Cons1)
  have "abi_encode L [v] @ abi_encode L vs = abi_encode L [w] @ abi_encode L ws'"
    using Cons.prems(4) unfolding ws eth_lib_okD(2) [OF L, of v vs] eth_lib_okD(2) [OF L, of w ws'] .
  then have e: "abi_encode L [v] = abi_encode L [w]" "abi_encode L vs = abi_encode L ws'"
    by (simp_all add: append_eq_append_conv eth_lib_okD(4) [OF L])
  from Cons.prems ws have "v = w" by (intro eth_lib_okD(5) [OF L _ _ _ e(1)]) auto
  moreover from Cons ws e(2) have "vs = ws'" by auto
  ultimately show ?case by (simp add: ws)
qed

lemma ascii_inject [simp]: "ascii s = ascii t \<longleftrightarrow> s = t"
proof
  assume e: "ascii s = ascii t"
  have inv: "map (\<lambda>b. char_of (unat b)) (ascii u) = u" for u
  proof -
    have "char_of (unat (word_of_nat (code c) :: 8 word)) = c" for c
      by (simp add: unat_of_nat)
    then show ?thesis by (simp add: ascii_def o_def)
  qed
  from e have "map (\<lambda>b. char_of (unat b)) (ascii s) = map (\<lambda>b. char_of (unat b)) (ascii t)" by simp
  then show "s = t" by (simp only: inv)
qed simp

lemma all_results_Inr:
  "all_results rs = Inr as \<longleftrightarrow> list_all2 (\<lambda>r a. r = Inr a) rs as"
  by (induction rs arbitrary: as) (auto simp: result_simps list_all2_Cons1)

declare all_results.simps [simp del]

lemma arg_results:
  "arg_bytes32 b = Inr x \<longleftrightarrow> length b = 32 \<and> x = ABytes32 b"
  "arg_uint n v = Inr x \<longleftrightarrow> 0 \<le> v \<and> v < 2 ^ n \<and> x = AUint n v"
  "arg_address L a = Inr x \<longleftrightarrow> x = AAddress (to_checksum_address L a)"
  by (auto simp: arg_bytes32_def arg_uint_def arg_address_def to_bytes32_def uint_def
      UINT256_MAX_def Let_def split: if_splits)

lemma keccak_args_Inr:
  "keccak_args L args = Inr h \<longleftrightarrow>
     (\<exists>as. all_results args = Inr as \<and> h = keccak L (abi_encode L as))"
  by (auto simp: keccak_args_def result_simps)

lemmas args_defs = domain_args_def config_args_def offer_args_def accept_args_def close_args_def

lemma domain_args_Inr:
  "all_results (domain_args L d) = Inr as \<longleftrightarrow>
     0 \<le> chain_id d \<and> chain_id d < 2 ^ 256 \<and>
     as = [ABytes32 (keccak_text L EIP712_DOMAIN_TYPE), ABytes32 (keccak_text L (domain_name d)),
           ABytes32 (keccak_text L (domain_version d)), AUint 256 (chain_id d),
           AAddress (to_checksum_address L (verifying_contract d))]"
  by (auto simp: all_results_Inr domain_args_def list_all2_Cons1 arg_results)

subsection \<open>A digest binds its domain and its message\<close>

definition type_text :: "message \<Rightarrow> string" where
  "type_text m = (case m of MOffer _ \<Rightarrow> OFFER_TYPE | MAccept _ \<Rightarrow> ACCEPT_TYPE | MClose _ \<Rightarrow> CLOSE_TYPE)"

text \<open>Everything hashed on the way to one digest.\<close>

definition encoded :: "('a) eth_lib_scheme \<Rightarrow> (protocol_error + abi) list \<Rightarrow> bytes list" where
  "encoded L args = (case all_results args of Inl _ \<Rightarrow> [] | Inr as \<Rightarrow> [abi_encode L as])"

definition hashed :: "('a) eth_lib_scheme \<Rightarrow> domain \<Rightarrow> message \<Rightarrow> bytes list" where
  "hashed L d m =
     [ascii EIP712_DOMAIN_TYPE, ascii (domain_name d), ascii (domain_version d), ascii (type_text m)]
   @ encoded L (domain_args L d) @ encoded L (message_args L m)
   @ (case (separator L d, struct_hash L m) of
        (Inr sep, Inr h) \<Rightarrow> [[0x19, 0x01] @ sep @ h] | _ \<Rightarrow> [])"

lemma hashed_members:
  "{ascii (domain_name d), ascii (domain_version d), ascii (type_text m)} \<subseteq> set (hashed L d m)"
  "{abi_encode L as | as. all_results (domain_args L d) = Inr as} \<subseteq> set (hashed L d m)"
  "{abi_encode L as | as. all_results (message_args L m) = Inr as} \<subseteq> set (hashed L d m)"
  "\<lbrakk>separator L d = Inr sep; struct_hash L m = Inr h\<rbrakk> \<Longrightarrow>
     [0x19, 0x01] @ sep @ h \<in> set (hashed L d m)"
  by (auto simp: hashed_def encoded_def)

text \<open>A message up to the spelling of its address, which \<open>abi.encode\<close> reads in any case.\<close>

definition canonical_message :: "('a) eth_lib_scheme \<Rightarrow> message \<Rightarrow> message" where
  "canonical_message L m = (case m of
     MOffer x \<Rightarrow> MOffer (x\<lparr>of_proposer := to_checksum_address L (of_proposer x)\<rparr>)
   | MAccept x \<Rightarrow> MAccept (x\<lparr>ac_actor := to_checksum_address L (ac_actor x)\<rparr>)
   | MClose x \<Rightarrow> MClose (x\<lparr>cl_actor := to_checksum_address L (cl_actor x)\<rparr>))"

lemma struct_hash_args: "struct_hash L m = keccak_args L (message_args L m)"
  by (cases m) (simp_all add: struct_hash_def message_args_def offer_struct_hash_def
      accept_struct_hash_def close_struct_hash_def)

lemma message_args_shape:
  "all_results (message_args L m) = Inr as \<Longrightarrow>
     \<exists>rest. as = ABytes32 (keccak_text L (type_text m)) # rest \<and>
       (eth_lib_ok L \<longrightarrow> list_all (abi_wf L) as)"
  by (cases m) (auto simp: message_args_def type_text_def all_results_Inr list_all2_Cons1 args_defs
      arg_results keccak_text_def eth_lib_okD)

lemma message_args_same_type:
  "\<lbrakk>type_text m = type_text n; all_results (message_args L m) = Inr as;
    all_results (message_args L n) = Inr bs\<rbrakk> \<Longrightarrow> list_all2 same_type as bs"
  by (cases m; cases n) (auto simp: message_args_def type_text_def all_results_Inr list_all2_Cons1
      args_defs arg_results OFFER_TYPE_def ACCEPT_TYPE_def CLOSE_TYPE_def)

lemma message_args_canonical:
  "\<lbrakk>type_text m = type_text n; all_results (message_args L m) = Inr as;
    all_results (message_args L n) = Inr as\<rbrakk> \<Longrightarrow> canonical_message L m = canonical_message L n"
  by (cases m; cases n) (auto simp: message_args_def canonical_message_def type_text_def
      all_results_Inr list_all2_Cons1 args_defs arg_results OFFER_TYPE_def ACCEPT_TYPE_def
      CLOSE_TYPE_def)

lemma digest_Inr:
  "digest L d m = Inr h \<longleftrightarrow> (\<exists>sep s. separator L d = Inr sep \<and> struct_hash L m = Inr s \<and>
     length s = 32 \<and> h = keccak L ([0x19, 0x01] @ sep @ s))"
  by (auto simp: digest_def domain_digest_def result_simps to_bytes32_def split: if_splits)

lemma separator_inject:
  assumes L: "eth_lib_ok L" and inj: "inj_on (keccak L) A"
    and A: "{abi_encode L as | as. all_results (domain_args L d) = Inr as} \<subseteq> A"
      "{abi_encode L as | as. all_results (domain_args L e) = Inr as} \<subseteq> A"
      "{ascii (domain_name d), ascii (domain_version d)} \<subseteq> A"
      "{ascii (domain_name e), ascii (domain_version e)} \<subseteq> A"
    and sep: "separator L d = Inr s" "separator L e = Inr s"
  shows "chain_id d = chain_id e \<and> domain_name d = domain_name e \<and>
    domain_version d = domain_version e \<and>
    to_checksum_address L (verifying_contract d) = to_checksum_address L (verifying_contract e)"
proof -
  from sep obtain as bs where as: "all_results (domain_args L d) = Inr as"
    and bs: "all_results (domain_args L e) = Inr bs"
    and k: "keccak L (abi_encode L as) = keccak L (abi_encode L bs)"
    by (auto simp: separator_def keccak_args_Inr)
  from k as bs A inj have "abi_encode L as = abi_encode L bs" by (blast dest: inj_onD)
  moreover have "list_all2 same_type as bs" "list_all (abi_wf L) as" "list_all (abi_wf L) bs"
    using as bs by (auto simp: domain_args_Inr keccak_text_def eth_lib_okD [OF L])
  ultimately have "as = bs" by (blast intro: abi_encode_inject [OF L])
  with as bs have e: "chain_id d = chain_id e"
    "keccak_text L (domain_name d) = keccak_text L (domain_name e)"
    "keccak_text L (domain_version d) = keccak_text L (domain_version e)"
    "to_checksum_address L (verifying_contract d) = to_checksum_address L (verifying_contract e)"
    by (auto simp: domain_args_Inr)
  from e(2,3) A(3,4) inj have "ascii (domain_name d) = ascii (domain_name e)"
    "ascii (domain_version d) = ascii (domain_version e)"
    by (auto simp: keccak_text_def dest: inj_onD)
  with e show ?thesis by simp
qed

lemma struct_hash_inject:
  assumes L: "eth_lib_ok L" and inj: "inj_on (keccak L) A"
    and A: "{abi_encode L as | as. all_results (message_args L m) = Inr as} \<subseteq> A"
      "{abi_encode L as | as. all_results (message_args L n) = Inr as} \<subseteq> A"
      "{ascii (type_text m), ascii (type_text n)} \<subseteq> A"
    and h: "struct_hash L m = Inr h" "struct_hash L n = Inr h"
  shows "canonical_message L m = canonical_message L n"
proof -
  from h obtain as bs where as: "all_results (message_args L m) = Inr as"
    and bs: "all_results (message_args L n) = Inr bs"
    and k: "keccak L (abi_encode L as) = keccak L (abi_encode L bs)"
    by (auto simp: struct_hash_args keccak_args_Inr)
  from k as bs A inj have enc: "abi_encode L as = abi_encode L bs" by (blast dest: inj_onD)
  from message_args_shape [OF as] message_args_shape [OF bs] L obtain r q where
    shape: "as = ABytes32 (keccak_text L (type_text m)) # r"
      "bs = ABytes32 (keccak_text L (type_text n)) # q"
    and wf: "list_all (abi_wf L) as" "list_all (abi_wf L) bs" by blast
  from enc have "abi_encode L [ABytes32 (keccak_text L (type_text m))] =
      abi_encode L [ABytes32 (keccak_text L (type_text n))]"
    unfolding shape eth_lib_okD(2) [OF L, of _ r] eth_lib_okD(2) [OF L, of _ q]
    by (simp add: append_eq_append_conv eth_lib_okD(4) [OF L])
  then have "keccak_text L (type_text m) = keccak_text L (type_text n)"
    using eth_lib_okD(5) [OF L, of "ABytes32 (keccak_text L (type_text m))"
        "ABytes32 (keccak_text L (type_text n))"] wf shape by simp
  with A(3) inj have t: "type_text m = type_text n"
    by (auto simp: keccak_text_def dest: inj_onD)
  have "as = bs"
    using abi_encode_inject [OF L message_args_same_type [OF t as bs] wf enc] .
  with as bs t show ?thesis by (blast intro: message_args_canonical)
qed

end
