(* ===== verification/Session_Approval.thy ===== *)
theory Session_Approval
  imports Agent_Errors Eip712
begin

section \<open>Approving a session\<close>

text \<open>
  services/agent/src/agent/signing/session.py: the session this instance signs for and the
  check that earns it that status. A fault dictionary is an association list from the field
  to the expected and received JSON values; the session is approved when it is empty.
\<close>

definition ZERO_ADDRESS :: "('a) eth_lib_scheme \<Rightarrow> string" where
  "ZERO_ADDRESS L = to_checksum_address L (''0x'' @ replicate 40 CHR ''0'')"

record expected_session =
  es_chain_id :: int
  es_exchange_address :: string
  es_base_token :: string
  es_quote_token :: string
  es_base_amount :: int
  es_max_offers :: int
  es_session_duration_s :: int
  es_offer_lifetime_s :: int

record session_opened =
  so_session_id :: string
  so_buyer :: string
  so_seller :: string
  so_base_token :: string
  so_quote_token :: string
  so_base_amount :: int
  so_expires_at :: int
  so_max_offers :: int
  so_config_hash :: string
  so_opened_at :: int

definition opened_to_json :: "session_opened \<Rightarrow> (string \<times> json) list" where
  "opened_to_json s =
     [(''session_id'', JStr (so_session_id s)),
      (''buyer'', JStr (so_buyer s)),
      (''seller'', JStr (so_seller s)),
      (''base_token'', JStr (so_base_token s)),
      (''quote_token'', JStr (so_quote_token s)),
      (''base_amount_minor'', JStr (amount_to_json (so_base_amount s))),
      (''expires_at_ts'', JInt (so_expires_at s)),
      (''max_offers'', JInt (so_max_offers s)),
      (''config_hash'', JStr (so_config_hash s)),
      (''opened_at_ts'', JInt (so_opened_at s))]"

record approved_session =
  ap_chain_id :: int
  ap_exchange_address :: string
  ap_base_token :: string
  ap_quote_token :: string
  ap_session_id :: string
  ap_config_hash :: string
  ap_buyer :: string
  ap_seller :: string
  ap_base_amount :: int
  ap_expires_at :: int
  ap_max_offers :: int
  ap_offer_lifetime_s :: int

definition approved_domain :: "approved_session \<Rightarrow> domain" where
  "approved_domain a = Domain (ap_chain_id a) (ap_exchange_address a)"

definition party :: "approved_session \<Rightarrow> role \<Rightarrow> string" where
  "party a r = (if r = Buyer then ap_buyer a else ap_seller a)"

text \<open>\<open>_plain\<close>: an amount is its decimal string, text and numbers are themselves.\<close>

definition plain_amount :: "int \<Rightarrow> json" where
  "plain_amount a = JStr (amount_to_json a)"

definition differing :: "(string \<times> (json \<times> json)) list \<Rightarrow> differences" where
  "differing pairs = filter (\<lambda>(name, (expected, received)). expected \<noteq> received) pairs"

definition mismatches_with :: "approved_session \<Rightarrow> session_view \<Rightarrow> differences" where
  "mismatches_with a view = differing
     [(''session_id'', (JStr (ap_session_id a), JStr (sv_session_id view))),
      (''config_hash'', (JStr (ap_config_hash a), JStr (sv_config_hash view))),
      (''chain_id'', (JInt (ap_chain_id a), JInt (sv_chain_id view))),
      (''exchange_address'', (JStr (ap_exchange_address a), JStr (sv_exchange_address view))),
      (''base_token'', (JStr (ap_base_token a), JStr (sv_base_token view))),
      (''quote_token'', (JStr (ap_quote_token a), JStr (sv_quote_token view))),
      (''base_amount_minor'', (plain_amount (ap_base_amount a), plain_amount (sv_base_amount view))),
      (''expires_at'', (JInt (ap_expires_at a), JInt (sv_expires_at view))),
      (''max_offers'', (JInt (ap_max_offers a), JInt (sv_max_offers view)))]"

definition recompute_config_hash ::
  "('a) eth_lib_scheme \<Rightarrow> expected_session \<Rightarrow> session_opened \<Rightarrow> protocol_error + string" where
  "recompute_config_hash L expected opened =
     result_bind (config_hash L
       \<lparr>sc_session_id = digest_to_bytes (so_session_id opened),
        sc_buyer = so_buyer opened,
        sc_seller = so_seller opened,
        sc_base_amount = so_base_amount opened,
        sc_expires_at = so_expires_at opened,
        sc_max_offers = so_max_offers opened\<rparr>
       (es_base_token expected) (es_quote_token expected))
     Digest_of_bytes"

definition slot :: "session_opened \<Rightarrow> role \<Rightarrow> string" where
  "slot opened r = (if r = Buyer then so_buyer opened else so_seller opened)"

definition party_faults ::
  "('a) eth_lib_scheme \<Rightarrow> session_opened \<Rightarrow> role \<Rightarrow> string \<Rightarrow> differences" where
  "party_faults L opened r my_address =
     (let mine = r; theirs = counterparty r in
      (if slot opened mine \<noteq> my_address
       then [(role_str mine, (JStr my_address, JStr (slot opened mine)))] else [])
    @ (if slot opened theirs \<in> {my_address, ZERO_ADDRESS L}
       then [(role_str theirs,
         (JStr ''a counterparty other than this instance and not the zero address'',
          JStr (slot opened theirs)))] else []))"

definition expiry_fault :: "expected_session \<Rightarrow> session_opened \<Rightarrow> differences" where
  "expiry_fault expected opened =
     (let latest = so_opened_at opened + es_session_duration_s expected in
      if so_opened_at opened < so_expires_at opened \<and> so_expires_at opened \<le> latest then []
      else [(''expires_at_ts'',
        (JStr (''after '' @ int_str (so_opened_at opened) @ '' and at most '' @ int_str latest),
         JInt (so_expires_at opened)))])"

definition approve_session ::
  "('a) eth_lib_scheme \<Rightarrow> expected_session \<Rightarrow> session_opened \<Rightarrow> role \<Rightarrow> string
     \<Rightarrow> agent_error + approved_session" where
  "approve_session L expected opened r my_address =
     (case recompute_config_hash L expected opened of
        Inl _ \<Rightarrow> Inl Unhandled
      | Inr recomputed \<Rightarrow>
          let fields0 = differing
                [(''base_token'', (JStr (es_base_token expected), JStr (so_base_token opened))),
                 (''quote_token'', (JStr (es_quote_token expected), JStr (so_quote_token opened))),
                 (''base_amount_minor'',
                   (plain_amount (es_base_amount expected), plain_amount (so_base_amount opened))),
                 (''max_offers'', (JInt (es_max_offers expected), JInt (so_max_offers opened))),
                 (''config_hash'', (JStr recomputed, JStr (so_config_hash opened)))];
              fields1 = dict_update fields0 (party_faults L opened r my_address);
              fields = dict_update fields1 (expiry_fault expected opened)
          in if fields \<noteq> [] then Inl (SessionMismatch fields)
             else Inr
               \<lparr>ap_chain_id = es_chain_id expected,
                ap_exchange_address = es_exchange_address expected,
                ap_base_token = es_base_token expected,
                ap_quote_token = es_quote_token expected,
                ap_session_id = so_session_id opened,
                ap_config_hash = so_config_hash opened,
                ap_buyer = so_buyer opened,
                ap_seller = so_seller opened,
                ap_base_amount = so_base_amount opened,
                ap_expires_at = so_expires_at opened,
                ap_max_offers = so_max_offers opened,
                ap_offer_lifetime_s = es_offer_lifetime_s expected\<rparr>)"

subsection \<open>What an approval means\<close>

lemma plain_amount_inject [simp]: "plain_amount a = plain_amount b \<longleftrightarrow> a = b"
  by (simp add: plain_amount_def amount_to_json_def)

lemma differing_Nil: "differing ps = [] \<longleftrightarrow> (\<forall>(n, (e, r)) \<in> set ps. e = r)"
  by (auto simp: differing_def filter_empty_conv)

lemma mismatches_with_Nil:
  "mismatches_with a v = [] \<longleftrightarrow>
     sv_session_id v = ap_session_id a \<and> sv_config_hash v = ap_config_hash a \<and>
     sv_chain_id v = ap_chain_id a \<and> sv_exchange_address v = ap_exchange_address a \<and>
     sv_base_token v = ap_base_token a \<and> sv_quote_token v = ap_quote_token a \<and>
     sv_base_amount v = ap_base_amount a \<and> sv_expires_at v = ap_expires_at a \<and>
     sv_max_offers v = ap_max_offers a"
  by (auto simp: mismatches_with_def differing_Nil)

lemma party_faults_Nil:
  "party_faults L opened r me = [] \<longleftrightarrow>
     slot opened r = me \<and> slot opened (counterparty r) \<noteq> me \<and>
     slot opened (counterparty r) \<noteq> ZERO_ADDRESS L"
  by (auto simp: party_faults_def Let_def)

lemma expiry_fault_Nil:
  "expiry_fault e s = [] \<longleftrightarrow> so_opened_at s < so_expires_at s \<and>
     so_expires_at s \<le> so_opened_at s + es_session_duration_s e"
  by (auto simp: expiry_fault_def Let_def)

text \<open>The session an instance was provisioned for: the specification of an approval.\<close>

definition provisioned_for ::
  "('a) eth_lib_scheme \<Rightarrow> expected_session \<Rightarrow> session_opened \<Rightarrow> role \<Rightarrow> string \<Rightarrow> bool" where
  "provisioned_for L e s r me \<longleftrightarrow>
     so_base_token s = es_base_token e \<and> so_quote_token s = es_quote_token e \<and>
     so_base_amount s = es_base_amount e \<and> so_max_offers s = es_max_offers e \<and>
     recompute_config_hash L e s = Inr (so_config_hash s) \<and>
     slot s r = me \<and> slot s (counterparty r) \<noteq> me \<and> slot s (counterparty r) \<noteq> ZERO_ADDRESS L \<and>
     so_opened_at s < so_expires_at s \<and>
     so_expires_at s \<le> so_opened_at s + es_session_duration_s e"

lemma approve_session_Inr:
  "approve_session L e s r me = Inr a \<longleftrightarrow> provisioned_for L e s r me \<and>
     a = \<lparr>ap_chain_id = es_chain_id e, ap_exchange_address = es_exchange_address e,
          ap_base_token = so_base_token s, ap_quote_token = so_quote_token s,
          ap_session_id = so_session_id s, ap_config_hash = so_config_hash s,
          ap_buyer = so_buyer s, ap_seller = so_seller s, ap_base_amount = so_base_amount s,
          ap_expires_at = so_expires_at s, ap_max_offers = so_max_offers s,
          ap_offer_lifetime_s = es_offer_lifetime_s e\<rparr>"
  by (cases "recompute_config_hash L e s")
     (auto simp: approve_session_def Let_def provisioned_for_def differing_Nil party_faults_Nil
       expiry_fault_Nil)

lemma approve_session_party:
  "approve_session L e s r me = Inr a \<Longrightarrow> party a r = me \<and> party a (counterparty r) \<noteq> me"
  by (cases r) (auto simp: approve_session_Inr provisioned_for_def slot_def party_def)

end
