(* ===== verification/Setup_Approval.thy ===== *)
theory Setup_Approval
  imports Session_Approval
begin

section \<open>The participant's one setup transaction\<close>

text \<open>
  services/agent/src/agent/signing/setup.py and the signing capability of agent/keys/holder.py.
  The key and its signatures are \<open>eth_account\<close>'s: a run signer is the record of what the
  protocol \<open>RunSigner\<close> exposes, its two signing functions parameters.
\<close>

record transaction =
  tx_type :: int
  tx_chain_id :: int
  tx_nonce :: int
  tx_to :: string
  tx_value :: int
  tx_data :: bytes
  tx_gas :: int
  tx_max_fee_per_gas :: int
  tx_max_priority_fee_per_gas :: int

record key_derivation =
  kd_chain_id :: int
  kd_role :: role
  kd_run_id :: string

record run_signer =
  rs_address :: string
  rs_derivation :: key_derivation
  rs_sign_digest :: "bytes \<Rightarrow> bytes"
  rs_sign_transaction :: "transaction \<Rightarrow> bytes \<times> string"

definition SCHEME :: string where
  "SCHEME = ''agent-negotiation-sandbox/participant-key/v1''"

record setup_bounds =
  sb_gas_limit_max :: int
  sb_max_cost_wei :: int

record fee_terms =
  ft_nonce :: int
  ft_gas_limit :: int
  ft_max_fee_per_gas :: int
  ft_max_priority_fee_per_gas :: int

record setup_approval =
  sa_raw_tx :: string
  sa_tx_hash :: string
  sa_sender :: string
  sa_token :: string
  sa_spender :: string
  sa_amount :: int
  sa_nonce :: int

definition approval_to_json :: "setup_approval \<Rightarrow> (string \<times> json) list" where
  "approval_to_json a =
     [(''raw_tx'', JStr (sa_raw_tx a)),
      (''tx_hash'', JStr (sa_tx_hash a)),
      (''from'', JStr (sa_sender a)),
      (''token'', JStr (sa_token a)),
      (''spender'', JStr (sa_spender a)),
      (''amount_minor'', JStr (amount_to_json (sa_amount a))),
      (''nonce'', JInt (sa_nonce a))]"

definition check_terms :: "fee_terms \<Rightarrow> setup_bounds \<Rightarrow> agent_error option" where
  "check_terms terms bounds =
     (if ft_gas_limit terms > sb_gas_limit_max bounds then
        Some (RequestValidation [(''gas_limit'', ''at most '' @ int_str (sb_gas_limit_max bounds))])
      else if ft_gas_limit terms * ft_max_fee_per_gas terms > sb_max_cost_wei bounds then
        Some (RequestValidation [(''max_fee_per_gas_wei'',
          ''times gas_limit, at most '' @ int_str (sb_max_cost_wei bounds) @ '' wei'')])
      else if ft_max_priority_fee_per_gas terms > ft_max_fee_per_gas terms then
        Some (RequestValidation [(''max_priority_fee_per_gas_wei'',
          ''must not exceed max_fee_per_gas_wei'')])
      else None)"

definition approve_selector :: "('a) eth_lib_scheme \<Rightarrow> bytes" where
  "approve_selector L = take 4 (keccak_text L ''approve(address,uint256)'')"

definition approve_calldata :: "('a) eth_lib_scheme \<Rightarrow> string \<Rightarrow> int \<Rightarrow> bytes" where
  "approve_calldata L spender amount =
     approve_selector L @ abi_encode L [AAddress spender, AUint 256 amount]"

definition setup_token :: "expected_session \<Rightarrow> role \<Rightarrow> string" where
  "setup_token expected r = (if r = Buyer then es_quote_token expected else es_base_token expected)"

definition setup_transaction ::
  "('a) eth_lib_scheme \<Rightarrow> role \<Rightarrow> expected_session \<Rightarrow> int \<Rightarrow> fee_terms \<Rightarrow> transaction" where
  "setup_transaction L r expected allowance terms =
     \<lparr>tx_type = 2,
      tx_chain_id = es_chain_id expected,
      tx_nonce = ft_nonce terms,
      tx_to = setup_token expected r,
      tx_value = 0,
      tx_data = approve_calldata L (es_exchange_address expected) allowance,
      tx_gas = ft_gas_limit terms,
      tx_max_fee_per_gas = ft_max_fee_per_gas terms,
      tx_max_priority_fee_per_gas = ft_max_priority_fee_per_gas terms\<rparr>"

definition build_setup_approval ::
  "('a) eth_lib_scheme \<Rightarrow> role \<Rightarrow> expected_session \<Rightarrow> int \<Rightarrow> fee_terms \<Rightarrow> setup_bounds
     \<Rightarrow> run_signer \<Rightarrow> agent_error + setup_approval" where
  "build_setup_approval L r expected allowance terms bounds signer =
     (case check_terms terms bounds of Some e \<Rightarrow> Inl e
      | None \<Rightarrow>
          let (raw, hash) = rs_sign_transaction signer (setup_transaction L r expected allowance terms)
          in Inr
            \<lparr>sa_raw_tx = ''0x'' @ to_hex raw,
             sa_tx_hash = hash,
             sa_sender = rs_address signer,
             sa_token = setup_token expected r,
             sa_spender = es_exchange_address expected,
             sa_amount = allowance,
             sa_nonce = ft_nonce terms\<rparr>)"

lemma check_terms_None:
  "check_terms t b = None \<longleftrightarrow> ft_gas_limit t \<le> sb_gas_limit_max b \<and>
     ft_gas_limit t * ft_max_fee_per_gas t \<le> sb_max_cost_wei b \<and>
     ft_max_priority_fee_per_gas t \<le> ft_max_fee_per_gas t"
  by (auto simp: check_terms_def)

end
