(* ===== verification/Samples.thy ===== *)
theory Samples
  imports Setup_Approval
begin

section \<open>Concrete values\<close>

text \<open>
  A concrete library in place of the third-party packages, and one small session: the inputs
  at which the witnesses of the properties are evaluated. The library satisfies what
  \<open>eth_lib_ok\<close> asks of the packages; its hash tells inputs apart by their length only.
\<close>

definition ZEROS :: string where "ZEROS = replicate 40 CHR ''0''"

definition sample_checksum :: "string \<Rightarrow> string" where
  "sample_checksum s = (case hex_body 40 s of None \<Rightarrow> ''0x'' @ ZEROS | Some b \<Rightarrow> ''0x'' @ str_lower b)"

fun be :: "nat \<Rightarrow> int \<Rightarrow> bytes" where
  "be 0 v = []"
| "be (Suc n) v = be n (v div 256) @ [word_of_int v]"

definition word32 :: "abi \<Rightarrow> bytes" where
  "word32 x = (case x of
     ABytes32 b \<Rightarrow> take 32 (b @ replicate 32 0)
   | AUint n v \<Rightarrow> be 32 v
   | AAddress a \<Rightarrow> take 32 ((case fromhex (drop 2 a) of None \<Rightarrow> [] | Some b \<Rightarrow> b) @ replicate 32 0))"

definition sample_keccak :: "bytes \<Rightarrow> bytes" where
  "sample_keccak b = word_of_nat (length b) # replicate 31 0"

definition sample_lib :: eth_lib where
  "sample_lib =
     \<lparr>is_checksum_address = (\<lambda>s. s = sample_checksum s),
      to_checksum_address = sample_checksum,
      keccak = sample_keccak,
      abi_encode = (\<lambda>as. concat (map word32 as)),
      recover_hash = (\<lambda>digest sig. None)\<rparr>"

lemma length_be [simp]: "length (be n v) = n"
  by (induction n arbitrary: v) simp_all

lemma be_inject: "\<lbrakk>be n v = be n w; 0 \<le> v; v < 256 ^ n; 0 \<le> w; w < 256 ^ n\<rbrakk> \<Longrightarrow> v = w"
proof (induction n arbitrary: v w)
  case 0
  then show ?case by simp
next
  case (Suc n)
  from Suc.prems(1) have b: "be n (v div 256) = be n (w div 256)"
    and m: "(word_of_int v :: 8 word) = word_of_int w" by simp_all
  have "v div 256 = w div 256"
  proof (rule Suc.IH [OF b])
    show "0 \<le> v div 256" "0 \<le> w div 256" using Suc.prems by simp_all
    show "v div 256 < 256 ^ n" "w div 256 < 256 ^ n" using Suc.prems(3,5) by simp_all
  qed
  moreover from m have "v mod 256 = w mod 256"
    by (simp add: word_of_int_eq_iff take_bit_eq_mod)
  ultimately show ?case by (metis div_mult_mod_eq)
qed

lemma length_word32 [simp]: "length (word32 x) = 32"
  by (cases x) (auto simp: word32_def split: option.split)

lemma sample_checksum_idem [simp]: "sample_checksum (sample_checksum s) = sample_checksum s"
proof -
  have z: "hex_body 40 (''0x'' @ ZEROS) = Some ZEROS" by code_simp
  have "str_lower ZEROS = ZEROS" by code_simp
  with z show ?thesis
    by (auto simp: sample_checksum_def hex_body_Some split: option.splits)
qed

lemma sample_address_shape:
  "sample_checksum a = a \<Longrightarrow> \<exists>b. a = ''0x'' @ b \<and> length b = 40 \<and> list_all is_hex b \<and> str_lower b = b"
proof -
  assume a: "sample_checksum a = a"
  have "list_all is_hex ZEROS" "str_lower ZEROS = ZEROS" "length ZEROS = 40" by code_simp+
  with a show ?thesis
    by (cases "hex_body 40 a") (auto simp: sample_checksum_def hex_body_Some)
qed

lemma sample_address_inject:
  assumes "sample_checksum a = a" and "sample_checksum b = b" and "word32 (AAddress a) = word32 (AAddress b)"
  shows "a = b"
proof -
  from sample_address_shape [OF assms(1)] obtain x where x: "a = ''0x'' @ x" "length x = 40"
    "list_all is_hex x" "str_lower x = x" by blast
  from sample_address_shape [OF assms(2)] obtain y where y: "b = ''0x'' @ y" "length y = 40"
    "list_all is_hex y" "str_lower y = y" by blast
  from fromhex_total [OF x(3)] x(2) obtain bx where bx: "fromhex x = Some bx" "length bx = 20" by auto
  from fromhex_total [OF y(3)] y(2) obtain b' where b': "fromhex y = Some b'" "length b' = 20" by auto
  from assms(3) bx b' x(1) y(1) have "bx = b'" by (simp add: word32_def)
  with to_hex_fromhex [OF x(3) bx(1)] to_hex_fromhex [OF y(3) b'(1)] x y show ?thesis by simp
qed

lemma sample_word_inject:
  "\<lbrakk>same_type x y; abi_wf sample_lib x; abi_wf sample_lib y; word32 x = word32 y\<rbrakk> \<Longrightarrow> x = y"
proof (cases x)
  case (AUint n v)
  assume *: "same_type x y" "abi_wf sample_lib x" "abi_wf sample_lib y" "word32 x = word32 y"
  with AUint obtain w where y: "y = AUint n w" by (cases y) auto
  from * AUint y have "v < 2 ^ n" "w < 2 ^ n" "n \<le> 256" by auto
  moreover have "(2 :: int) ^ n \<le> 256 ^ 32" if "n \<le> 256" for n
    using power_increasing [OF that, of "2 :: int"] by simp
  ultimately have "v < 256 ^ 32" "w < 256 ^ 32" by (meson less_le_trans)+
  with * AUint y show ?thesis using be_inject [of 32 v w] by (simp add: word32_def)
next
  case (AAddress a)
  assume *: "same_type x y" "abi_wf sample_lib x" "abi_wf sample_lib y" "word32 x = word32 y"
  with AAddress obtain b where "y = AAddress b" by (cases y) auto
  with * AAddress show ?thesis by (auto simp: sample_lib_def intro: sample_address_inject)
next
  case (ABytes32 b)
  assume "same_type x y" "abi_wf sample_lib x" "abi_wf sample_lib y" "word32 x = word32 y"
  with ABytes32 show ?thesis by (cases y) (auto simp: word32_def)
qed

lemma sample_lib_ok: "eth_lib_ok sample_lib"
  using sample_word_inject unfolding eth_lib_ok_def
  by (simp add: sample_lib_def sample_keccak_def)

end
