(* ===== verification/Reasons.thy ===== *)
theory Reasons
  imports Prelude
begin

section \<open>Reason codes\<close>

text \<open>
  packages/protocol/src/negotiation_protocol/reasons.py: the participant's walk-away codes and
  the operator's abort codes, each table kept once and read in both directions. The reverse
  tables are computed from the forward ones as the code computes them.
\<close>

datatype reason_error = UnknownReasonCodeError

definition CLOSE_REASONS :: "(int \<times> string) list" where
  "CLOSE_REASONS =
     [(1, ''terms_unacceptable''), (2, ''inventory_constraint''), (3, ''no_further_concession'')]"

definition ABORT_REASONS :: "(int \<times> string) list" where
  "ABORT_REASONS =
     [(1, ''operator_request''), (2, ''model_failure''), (3, ''budget_exhausted''),
      (4, ''execution_failure'')]"

definition CLOSE_REASON_CODES :: "(string \<times> int) list" where
  "CLOSE_REASON_CODES = map (\<lambda>(code, name). (name, code)) CLOSE_REASONS"

definition ABORT_REASON_CODES :: "(string \<times> int) list" where
  "ABORT_REASON_CODES = map (\<lambda>(code, name). (name, code)) ABORT_REASONS"

definition close_reason_name :: "int \<Rightarrow> reason_error + string" where
  "close_reason_name c = (case map_of CLOSE_REASONS c of
     Some name \<Rightarrow> Inr name | None \<Rightarrow> Inl UnknownReasonCodeError)"

definition abort_reason_name :: "int \<Rightarrow> reason_error + string" where
  "abort_reason_name c = (case map_of ABORT_REASONS c of
     Some name \<Rightarrow> Inr name | None \<Rightarrow> Inl UnknownReasonCodeError)"

definition close_reason_code :: "string \<Rightarrow> reason_error + int" where
  "close_reason_code name = (case map_of CLOSE_REASON_CODES name of
     Some c \<Rightarrow> Inr c | None \<Rightarrow> Inl UnknownReasonCodeError)"

definition abort_reason_code :: "string \<Rightarrow> reason_error + int" where
  "abort_reason_code name = (case map_of ABORT_REASON_CODES name of
     Some c \<Rightarrow> Inr c | None \<Rightarrow> Inl UnknownReasonCodeError)"

lemmas close_defs = close_reason_name_def close_reason_code_def CLOSE_REASON_CODES_def
  CLOSE_REASONS_def
lemmas abort_defs = abort_reason_name_def abort_reason_code_def ABORT_REASON_CODES_def
  ABORT_REASONS_def

lemma close_name_code_iff: "close_reason_name c = Inr n \<longleftrightarrow> close_reason_code n = Inr c"
  by (auto simp: close_defs split: if_splits)

lemma abort_name_code_iff: "abort_reason_name c = Inr n \<longleftrightarrow> abort_reason_code n = Inr c"
  by (auto simp: abort_defs split: if_splits)

lemma close_name_range: "(\<exists>n. close_reason_name c = Inr n) \<longleftrightarrow> 1 \<le> c \<and> c \<le> 3"
  by (auto simp: close_defs split: if_splits)

lemma abort_name_range: "(\<exists>n. abort_reason_name c = Inr n) \<longleftrightarrow> 1 \<le> c \<and> c \<le> 4"
  by (auto simp: abort_defs split: if_splits)

lemma close_codes_lookup:
  "map_of CLOSE_REASON_CODES n = Some c \<longleftrightarrow> close_reason_name c = Inr n"
  by (auto simp: close_defs split: if_splits)

end
