(* ===== verification/Key_Refs.thy ===== *)
theory Key_Refs
  imports Prelude
begin

section \<open>Key references\<close>

text \<open>
  packages/protocol/src/negotiation_protocol/key_refs.py: the grammar a key reference must
  satisfy and the resolution of one to its 32 bytes. Errors carry their message text, because
  what the code promises of them is that they never quote anything shaped like a key. Opening
  a web3 keystore (the file, its JSON and \<open>eth_account\<close>'s decryption) is the parameter
  \<open>open_keystore\<close>, whose outcomes are the four the code distinguishes.
\<close>

datatype keystore_outcome = Unreadable string | NotJson | Undecryptable | Opened bytes

text \<open>\<open>_KEY_LIKE.search\<close>: some run of at least 32 hexadecimal characters.\<close>

definition hex_run_at :: "string \<Rightarrow> bool" where
  "hex_run_at s \<longleftrightarrow> 32 \<le> length (takeWhile is_hex s)"

fun key_like :: "string \<Rightarrow> bool" where
  "key_like [] = False"
| "key_like (c # cs) = (hex_run_at (c # cs) \<or> key_like cs)"

text \<open>\<open>_ENV_NAME\<close> and \<open>_KEYSTORE_PATH\<close>, matched over the whole target.\<close>

definition env_char :: "char \<Rightarrow> bool" where
  "env_char c \<longleftrightarrow> is_upper c \<or> is_digit c \<or> c = CHR ''_''"

fun is_env_name :: "string \<Rightarrow> bool" where
  "is_env_name [] = False"
| "is_env_name (c # cs) =
     ((is_upper c \<or> c = CHR ''_'') \<and> length cs \<le> 63 \<and> list_all env_char cs)"

definition path_char :: "char \<Rightarrow> bool" where
  "path_char c \<longleftrightarrow> is_upper c \<or> is_lower c \<or> is_digit c
     \<or> c = CHR ''.'' \<or> c = CHR ''_'' \<or> c = CHR ''/'' \<or> c = CHR ''-''"

fun is_keystore_path :: "string \<Rightarrow> bool" where
  "is_keystore_path [] = False"
| "is_keystore_path (c # cs) =
     (c = CHR ''/'' \<and> 6 \<le> length cs \<and> drop (length cs - 5) cs = ''.json''
      \<and> list_all path_char (take (length cs - 5) cs))"

definition is_key_reference :: "string \<Rightarrow> bool" where
  "is_key_reference text =
     (if key_like text then False
      else let (scheme, target) = partition_at (CHR '':'') text in
        if scheme = ''env'' then is_env_name target
        else if scheme = ''keystore'' then
          is_keystore_path target \<and> ''..'' \<notin> set (split_at (CHR ''/'') target)
        else False)"

definition KEY_REF_FORMS :: string where
  "KEY_REF_FORMS = ''env:NAME or keystore:/path.json''"

definition PASSWORD_VARIABLE :: string where
  "PASSWORD_VARIABLE = ''KEYSTORE_PASSWORD''"

definition environ_get :: "(string \<rightharpoonup> string) \<Rightarrow> string \<Rightarrow> string" where
  "environ_get environ name = (case environ name of None \<Rightarrow> [] | Some v \<Rightarrow> v)"

definition removeprefix :: "string \<Rightarrow> string \<Rightarrow> string" where
  "removeprefix p s = (if take (length p) s = p then drop (length p) s else s)"

definition from_environment :: "string \<Rightarrow> (string \<rightharpoonup> string) \<Rightarrow> string + bytes" where
  "from_environment name environ =
     (let value = environ_get environ name in
      if value = [] then Inl (''the environment variable '' @ name @ '' is not set'')
      else
        let key = (case fromhex (removeprefix ''0x'' value) of None \<Rightarrow> [] | Some k \<Rightarrow> k) in
        if length key \<noteq> 32
        then Inl (''the environment variable '' @ name @ '' is not 32 bytes of hex'')
        else Inr key)"

text \<open>
  \<open>str(Path(target))\<close> of an absolute POSIX path: empty and \<open>.\<close> components are dropped, and
  exactly two leading slashes are kept as two.
\<close>

definition path_str :: "string \<Rightarrow> string" where
  "path_str s =
     (let slashes = length (takeWhile (\<lambda>c. c = CHR ''/'') s);
          root = (if slashes = 0 then [] else if slashes = 2 then ''//'' else ''/'')
      in root @ join ''/'' (filter (\<lambda>p. p \<noteq> [] \<and> p \<noteq> ''.'') (split_at (CHR ''/'') s)))"

definition from_keystore ::
  "(string \<Rightarrow> string \<Rightarrow> keystore_outcome) \<Rightarrow> string \<Rightarrow> (string \<rightharpoonup> string) \<Rightarrow> string + bytes" where
  "from_keystore open_keystore path environ =
     (let password = environ_get environ PASSWORD_VARIABLE in
      if password = [] then
        Inl (PASSWORD_VARIABLE @ '' is not set, so the keystore '' @ path @ '' cannot be opened'')
      else case open_keystore path password of
        Unreadable why \<Rightarrow> Inl (''the keystore '' @ path @ '' cannot be read: '' @ why)
      | NotJson \<Rightarrow> Inl (path @ '' is not a keystore: it is not JSON text'')
      | Undecryptable \<Rightarrow>
          Inl (''the keystore '' @ path @ '' could not be decrypted with '' @ PASSWORD_VARIABLE)
      | Opened key \<Rightarrow> Inr key)"

definition resolve_key_reference ::
  "(string \<Rightarrow> string \<Rightarrow> keystore_outcome) \<Rightarrow> string \<Rightarrow> (string \<rightharpoonup> string) \<Rightarrow> string + bytes" where
  "resolve_key_reference open_keystore key_ref environ =
     (if \<not> is_key_reference key_ref
      then Inl (''a key reference must be '' @ KEY_REF_FORMS @ ''; it is not repeated here'')
      else let (scheme, target) = partition_at (CHR '':'') key_ref in
        if scheme = ''env'' then from_environment target environ
        else from_keystore open_keystore (path_str target) environ)"

subsection \<open>Runs of hexadecimal characters\<close>

lemma hex_run_at_iff: "hex_run_at s \<longleftrightarrow> (\<exists>r. prefix r s \<and> length r = 32 \<and> list_all is_hex r)"
proof
  assume h: "hex_run_at s"
  let ?r = "take 32 (takeWhile is_hex s)"
  have "prefix ?r s"
    by (rule prefix_order.trans [OF take_is_prefix takeWhile_is_prefix])
  moreover have "list_all is_hex ?r"
    by (auto simp: list_all_iff dest!: in_set_takeD set_takeWhileD)
  ultimately show "\<exists>r. prefix r s \<and> length r = 32 \<and> list_all is_hex r"
    using h by (intro exI [of _ ?r]) (simp add: hex_run_at_def)
next
  assume "\<exists>r. prefix r s \<and> length r = 32 \<and> list_all is_hex r"
  then obtain r q where s: "s = r @ q" and r: "length r = 32" "\<forall>x\<in>set r. is_hex x"
    by (auto simp: prefix_def list_all_iff)
  from r(2) have "takeWhile is_hex s = r @ takeWhile is_hex q"
    unfolding s by (intro takeWhile_append2) auto
  with r(1) show "hex_run_at s" by (simp add: hex_run_at_def)
qed

lemma key_like_iff: "key_like s \<longleftrightarrow> (\<exists>r. sublist r s \<and> length r = 32 \<and> list_all is_hex r)"
proof (induction s)
  case Nil
  then show ?case by auto
next
  case (Cons c cs)
  then show ?case by (auto simp: hex_run_at_iff sublist_Cons_right)
qed

text \<open>A character that is not hexadecimal separates runs.\<close>

lemma key_like_split:
  assumes "\<not> is_hex c"
  shows "key_like (xs @ c # ys) \<longleftrightarrow> key_like xs \<or> key_like ys"
proof -
  have "sublist r (xs @ c # ys) \<longleftrightarrow> sublist r xs \<or> sublist r ys"
    if r: "length r = 32" "list_all is_hex r" for r
  proof
    from assms r(2) have c: "c \<notin> set r" by (auto simp: list_all_iff)
    assume "sublist r (xs @ c # ys)"
    then obtain p q where e: "xs @ c # ys = p @ r @ q" by (auto simp: sublist_def)
    from e consider us where "xs = p @ us" "us @ c # ys = r @ q"
      | us where "p = xs @ us" "c # ys = us @ r @ q"
      by (auto simp: append_eq_append_conv2)
    then show "sublist r xs \<or> sublist r ys"
    proof cases
      case 1
      with c obtain vs where "us = r @ vs"
        by (auto simp: append_eq_append_conv2 Cons_eq_append_conv)
      with 1 show ?thesis by (auto simp: sublist_def)
    next
      case 2
      with c r(1) obtain vs where "us = c # vs" by (cases us; cases r) auto
      with 2 show ?thesis by (auto simp: sublist_def)
    qed
  next
    assume "sublist r xs \<or> sublist r ys"
    then show "sublist r (xs @ c # ys)" by (auto simp: sublist_append sublist_Cons_right)
  qed
  then show ?thesis by (auto simp: key_like_iff)
qed

lemma key_like_append_left: "key_like ys \<Longrightarrow> key_like (xs @ ys)"
  by (auto simp: key_like_iff sublist_append)

lemma partition_at_target:
  assumes "partition_at c s = (a, b)" and "b \<noteq> []"
  shows "s = a @ c # b"
proof -
  from assms have d: "dropWhile (\<lambda>x. x \<noteq> c) s \<noteq> []"
    unfolding partition_at_def by (metis list.sel(2) prod.inject)
  then have "hd (dropWhile (\<lambda>x. x \<noteq> c) s) = c" using hd_dropWhile [OF d] by simp
  with d assms show ?thesis
    by (metis list.collapse partition_at_def prod.inject takeWhile_dropWhile_id)
qed

text \<open>A reference holds nothing shaped like a key, and neither does its target.\<close>

lemma reference_target:
  assumes "is_key_reference s" and "partition_at (CHR '':'') s = (scheme, target)"
  shows "\<not> key_like target \<and> target \<noteq> [] \<and>
     (scheme = ''env'' \<and> is_env_name target \<or>
      scheme = ''keystore'' \<and> is_keystore_path target \<and> ''..'' \<notin> set (split_at (CHR ''/'') target))"
proof -
  from assms have nk: "\<not> key_like s" and g: "scheme = ''env'' \<and> is_env_name target \<or>
      scheme = ''keystore'' \<and> is_keystore_path target \<and> ''..'' \<notin> set (split_at (CHR ''/'') target)"
    by (auto simp: is_key_reference_def split: if_splits)
  then have ne: "target \<noteq> []" by auto
  from partition_at_target [OF assms(2) ne] have "s = (scheme @ [CHR '':'']) @ target" by simp
  with nk key_like_append_left have "\<not> key_like target" by blast
  with g ne show ?thesis by blast
qed

subsection \<open>Parts of a text without a key\<close>

lemma key_like_sublist: "key_like p \<Longrightarrow> sublist p s \<Longrightarrow> key_like s"
  by (auto simp: key_like_iff sublist_def) (metis append.assoc)

lemma split_at_parts:
  "split_at c s = q # qs \<Longrightarrow> prefix q s \<and> (\<forall>p \<in> set qs. sublist p s)"
proof (induction s arbitrary: q qs)
  case (Cons x s)
  show ?case
  proof (cases "split_at c s")
    case Nil
    with Cons.prems show ?thesis by (auto split: if_splits)
  next
    case (Cons r rs)
    from Cons.IH [OF Cons] have r: "prefix r s" "\<forall>p \<in> set rs. sublist p s" by blast+
    then have all: "\<forall>p \<in> set (split_at c s). sublist p s"
      by (simp add: Cons prefix_imp_sublist)
    with r Cons Cons.prems show ?thesis
      by (cases "x = c") (auto simp: sublist_Cons_right)
  qed
qed simp

lemma split_at_sublist: "p \<in> set (split_at c s) \<Longrightarrow> sublist p s"
  by (cases "split_at c s") (auto dest: split_at_parts prefix_imp_sublist)

lemma key_like_join:
  assumes "\<not> is_hex c"
  shows "key_like (join [c] ps) \<longleftrightarrow> (\<exists>p \<in> set ps. key_like p)"
proof (cases ps)
  case Nil
  then show ?thesis by (simp add: join_def)
next
  case (Cons p qs)
  have "key_like (p @ concat (map ((@) [c]) qs)) \<longleftrightarrow> (\<exists>r \<in> set (p # qs). key_like r)" for p
    by (induction qs arbitrary: p) (use assms in \<open>auto simp: key_like_split\<close>)
  with Cons show ?thesis by (simp add: join_def)
qed

lemma path_str_not_key_like: "\<not> key_like s \<Longrightarrow> \<not> key_like (path_str s)"
proof -
  assume s: "\<not> key_like s"
  have slash: "\<not> is_hex (CHR ''/'')" by code_simp
  let ?ps = "filter (\<lambda>p. p \<noteq> [] \<and> p \<noteq> ''.'') (split_at (CHR ''/'') s)"
  have "\<not> key_like (join ''/'' ?ps)"
    unfolding key_like_join [OF slash] using s key_like_sublist split_at_sublist by fastforce
  moreover have "key_like (CHR ''/'' # u) \<longleftrightarrow> key_like u" for u
    using key_like_split [OF slash, of "[]" u] by simp
  ultimately show ?thesis
    by (simp add: path_str_def Let_def del: key_like.simps)
qed

text \<open>A text between two separators, in a message.\<close>

lemma message_key_like:
  assumes "\<not> is_hex c" and "\<not> is_hex d"
  shows "key_like (xs @ c # ys @ d # zs) \<longleftrightarrow> key_like xs \<or> key_like ys \<or> key_like zs"
  using assms by (simp add: key_like_split)

text \<open>Every message quotes the target between spaces, and constant text around it.\<close>

lemma space_not_hex: "\<not> is_hex (CHR '' '')"
  by code_simp

lemma message_safe:
  assumes "\<not> key_like xs" and "\<not> key_like target" and "\<not> key_like zs"
    and "message = xs @ '' '' @ target @ '' '' @ zs"
  shows "\<not> key_like message"
  using assms message_key_like [OF space_not_hex space_not_hex, of xs target zs] by simp

lemma constant_texts:
  "\<not> key_like ''cannot be read:''" "\<not> key_like ''is not a keystore: it is not JSON text''"
  by code_simp+

lemma from_environment_message:
  assumes "from_environment target environ = Inl message" and t: "\<not> key_like target"
  shows "\<not> key_like message"
proof -
  from assms(1) consider "message = ''the environment variable '' @ target @ '' is not set''"
    | "message = ''the environment variable '' @ target @ '' is not 32 bytes of hex''"
    by (auto simp: from_environment_def Let_def split: if_splits)
  then show ?thesis
  proof cases
    case 1
    show ?thesis by (rule message_safe [OF _ t, of "''the environment variable''" "''is not set''"])
      (code_simp, code_simp, simp add: 1)
  next
    case 2
    show ?thesis by (rule message_safe [OF _ t, of "''the environment variable''" "''is not 32 bytes of hex''"])
      (code_simp, code_simp, simp add: 2)
  qed
qed

lemma from_keystore_message:
  assumes "from_keystore open_keystore path environ = Inl message" and t: "\<not> key_like path"
    and why: "\<And>why password. open_keystore path password = Unreadable why \<Longrightarrow> \<not> key_like why"
  shows "\<not> key_like message"
proof -
  from assms(1) consider
      "message = ''KEYSTORE_PASSWORD is not set, so the keystore '' @ path @ '' cannot be opened''"
    | w pw where "open_keystore path pw = Unreadable w"
        "message = ''the keystore '' @ path @ '' cannot be read: '' @ w"
    | "message = path @ '' is not a keystore: it is not JSON text''"
    | "message = ''the keystore '' @ path @ '' could not be decrypted with KEYSTORE_PASSWORD''"
    by (auto simp: from_keystore_def PASSWORD_VARIABLE_def Let_def split: if_splits keystore_outcome.splits)
  then show ?thesis
  proof cases
    case 1
    show ?thesis by (rule message_safe [OF _ t, of "''KEYSTORE_PASSWORD is not set, so the keystore''" "''cannot be opened''"])
      (code_simp, code_simp, simp add: 1)
  next
    case 2
    have w: "\<not> key_like (''cannot be read:'' @ CHR '' '' # w)"
      unfolding key_like_split [OF space_not_hex] using why [OF 2(1)] constant_texts by blast
    show ?thesis by (rule message_safe [OF _ t w, of "''the keystore''"]) (code_simp, simp add: 2)
  next
    case 3
    have "\<not> key_like (path @ CHR '' '' # ''is not a keystore: it is not JSON text'')"
      unfolding key_like_split [OF space_not_hex] using t constant_texts by blast
    with 3 show ?thesis by simp
  next
    case 4
    show ?thesis by (rule message_safe [OF _ t, of "''the keystore''" "''could not be decrypted with KEYSTORE_PASSWORD''"])
      (code_simp, code_simp, simp add: 4)
  qed
qed

end
