(* ===== verification/Hashing.thy ===== *)
theory Hashing
  imports Prelude "HOL-Library.List_Lexorder" "HOL-Library.Char_ord"
begin

section \<open>Canonical JSON\<close>

text \<open>
  packages/protocol/src/negotiation_protocol/hashing.py: the one encoding both services hash.
  \<open>json.dumps\<close> with sorted keys, no white space and \<open>ensure_ascii=False\<close> is written out
  (\<open>dump\<close>), so is UTF-8; SHA-256 is a parameter. The dictionaries of \<open>json\<close> have string keys
  by type, so the only refusal left of \<open>_refuse_floats\<close> is a float.
\<close>

datatype canonical_error = FloatRefused

subsection \<open>UTF-8 and JSON text\<close>

definition utf8_char :: "char \<Rightarrow> bytes" where
  "utf8_char c = (if code c < 128 then [word_of_nat (code c)]
     else [word_of_nat (192 + code c div 64), word_of_nat (128 + code c mod 64)])"

definition utf8 :: "string \<Rightarrow> bytes" where
  "utf8 s = concat (map utf8_char s)"

definition SHORT_ESCAPES :: "(char \<times> char) list" where
  "SHORT_ESCAPES =
     [(CHR 0x22, CHR 0x22), (CHR 0x5C, CHR 0x5C),
      (CHR 0x0A, CHR ''n''), (CHR 0x0D, CHR ''r''), (CHR 0x09, CHR ''t''),
      (CHR 0x08, CHR ''b''), (CHR 0x0C, CHR ''f'')]"

definition escape_char :: "char \<Rightarrow> string" where
  "escape_char c = (case map_of SHORT_ESCAPES c of
     Some e \<Rightarrow> [CHR 0x5C, e]
   | None \<Rightarrow> if code c < 32
       then [CHR 0x5C, CHR ''u'', CHR ''0'', CHR ''0'', hex_char (code c div 16), hex_char (code c mod 16)]
       else [c])"

definition quote :: "string \<Rightarrow> string" where
  "quote s = [CHR 0x22] @ concat (map escape_char s) @ [CHR 0x22]"

fun dump :: "json \<Rightarrow> string" where
  "dump JNull = ''null''"
| "dump (JBool b) = (if b then ''true'' else ''false'')"
| "dump (JInt i) = int_str i"
| "dump (JFloat t) = t"
| "dump (JStr s) = quote s"
| "dump (JList xs) = ''['' @ join '','' (map dump xs) @ '']''"
| "dump (JObj d) = ''{'' @ join '','' (map (\<lambda>(k, t). quote k @ '':'' @ t)
     (sort_key fst (map (\<lambda>(k, v). (k, dump v)) d))) @ ''}''"

subsection \<open>The encoding\<close>

fun refuse_floats :: "json \<Rightarrow> bool" where
  "refuse_floats (JFloat _) = True"
| "refuse_floats (JObj d) = list_ex (\<lambda>(k, v). refuse_floats v) d"
| "refuse_floats (JList xs) = list_ex refuse_floats xs"
| "refuse_floats _ = False"

definition canonical_json :: "json \<Rightarrow> canonical_error + bytes" where
  "canonical_json v = (if refuse_floats v then Inl FloatRefused else Inr (utf8 (dump v)))"

definition json_sha256 :: "(bytes \<Rightarrow> bytes) \<Rightarrow> json \<Rightarrow> canonical_error + string" where
  "json_sha256 sha256 v = result_bind (canonical_json v) (\<lambda>b. Inr (''0x'' @ to_hex (sha256 b)))"

subsection \<open>One document, in whatever order its keys came\<close>

fun sorted_keys :: "json \<Rightarrow> json" where
  "sorted_keys (JList xs) = JList (map sorted_keys xs)"
| "sorted_keys (JObj d) = JObj (sort_key fst (map (\<lambda>(k, v). (k, sorted_keys v)) d))"
| "sorted_keys v = v"

text \<open>The printer on a document whose keys are already in order.\<close>

fun plain :: "json \<Rightarrow> string" where
  "plain JNull = ''null''"
| "plain (JBool b) = (if b then ''true'' else ''false'')"
| "plain (JInt i) = int_str i"
| "plain (JFloat t) = t"
| "plain (JStr s) = quote s"
| "plain (JList xs) = ''['' @ join '','' (map plain xs) @ '']''"
| "plain (JObj d) = ''{'' @ join '','' (map (\<lambda>(k, v). quote k @ '':'' @ plain v) d) @ ''}''"

lemma insort_key_apsnd:
  "insort_key fst (k, f v) (map (\<lambda>(k, v). (k, f v)) d) = map (\<lambda>(k, v). (k, f v)) (insort_key fst (k, v) d)"
  by (induction d) (auto split: prod.splits)

lemma sort_key_apsnd:
  "sort_key fst (map (\<lambda>(k, v). (k, f v)) d) = map (\<lambda>(k, v). (k, f v)) (sort_key fst d)"
  by (induction d) (auto simp: insort_key_apsnd split: prod.splits)

lemma sorted_items:
  "map (\<lambda>(k, t). g k t) (sort_key fst (map (\<lambda>(k, v). (k, f v)) d)) = map (\<lambda>(k, v). g k (f v)) (sort_key fst d)"
  by (simp only: sort_key_apsnd map_map) (simp add: comp_def split_def)

lemma dump_plain: "dump v = plain (sorted_keys v)"
proof (induction v)
  case (JList xs)
  then have "map dump xs = map (plain \<circ> sorted_keys) xs" by simp
  then show ?case by (simp del: map_eq_conv)
next
  case (JObj d)
  have "dump v = plain (sorted_keys v)" if "(k, v) \<in> set d" for k v
    using JObj that by (metis snds.intros snd_conv)
  then have "map (\<lambda>(k, v). quote k @ '':'' @ dump v) (sort_key fst d) =
      map (\<lambda>(k, v). quote k @ '':'' @ plain (sorted_keys v)) (sort_key fst d)"
    by (intro map_cong) auto
  then show ?case
    unfolding dump.simps sorted_keys.simps plain.simps sorted_items by (rule arg_cong)
qed simp_all

subsection \<open>The text determines the document\<close>

text \<open>
  Every value's text can be told where it ends: after a value comes a separator or nothing, and
  no text of a value followed by one is the text of another value followed by one.
\<close>

definition stops :: "string \<Rightarrow> bool" where
  "stops s \<longleftrightarrow> (case s of [] \<Rightarrow> True | c # _ \<Rightarrow> c \<in> {CHR '','', CHR '']'', CHR ''}''})"

lemma stops_simps [simp]:
  "stops []" "stops (CHR '','' # s)" "stops (CHR '']'' # s)" "stops (CHR ''}'' # s)"
  by (simp_all add: stops_def)

lemma SHORT_ESCAPES_inject:
  "\<lbrakk>map_of SHORT_ESCAPES c = Some e; map_of SHORT_ESCAPES d = Some e\<rbrakk> \<Longrightarrow> c = d"
  by (drule map_of_SomeD, drule map_of_SomeD) (auto simp: SHORT_ESCAPES_def)

lemma escape_char_cases:
  obtains (short) e where "map_of SHORT_ESCAPES c = Some e" "escape_char c = [CHR 0x5C, e]" "e \<noteq> CHR ''u''"
  | (control) "code c < 32"
      "escape_char c = [CHR 0x5C, CHR ''u'', CHR ''0'', CHR ''0'', hex_char (code c div 16), hex_char (code c mod 16)]"
  | (raw) "escape_char c = [c]" "c \<noteq> CHR 0x5C" "c \<noteq> CHR 0x22"
proof (cases "map_of SHORT_ESCAPES c")
  case None
  then have "c \<noteq> CHR 0x5C" "c \<noteq> CHR 0x22" by (auto simp: SHORT_ESCAPES_def)
  with None show ?thesis using control raw by (cases "code c < 32") (simp_all add: escape_char_def)
next
  case (Some e)
  then have "e \<noteq> CHR ''u''" by (auto simp: SHORT_ESCAPES_def split: if_splits)
  with Some show ?thesis using short by (simp add: escape_char_def)
qed

lemma hex_char_inject: "\<lbrakk>a < 16; b < 16\<rbrakk> \<Longrightarrow> hex_char a = hex_char b \<longleftrightarrow> a = b"
  by (metis hex_val_hex_char)

lemma escape_char_prefix_free:
  assumes e: "escape_char c @ s = escape_char d @ t"
  shows "c = d \<and> s = t"
proof (cases c rule: escape_char_cases)
  case (short x)
  with e show ?thesis
    by (cases d rule: escape_char_cases) (auto dest: SHORT_ESCAPES_inject)
next
  case control
  show ?thesis
  proof (cases d rule: escape_char_cases)
    case control2: control
    from e control control2 have h: "hex_char (code c div 16) = hex_char (code d div 16)"
      "hex_char (code c mod 16) = hex_char (code d mod 16)" and st: "s = t" by simp_all
    have "code c div 16 = code d div 16" "code c mod 16 = code d mod 16"
      using h control(1) control2(1) by (simp_all add: hex_char_inject)
    then have "code c = code d" by (metis div_mult_mod_eq)
    with st show ?thesis by (simp add: code_inject)
  qed (use e control in auto)
next
  case raw
  with e show ?thesis by (cases d rule: escape_char_cases) auto
qed

lemma escape_char_start: "\<exists>x xs. escape_char c = x # xs \<and> x \<noteq> CHR 0x22"
  by (cases c rule: escape_char_cases) auto

lemma quote_body_inject:
  "concat (map escape_char s) @ CHR 0x22 # u = concat (map escape_char t) @ CHR 0x22 # v
     \<Longrightarrow> s = t \<and> u = v"
proof (induction s arbitrary: t)
  case Nil
  show ?case
  proof (cases t)
    case (Cons d t')
    with Nil escape_char_start [of d] show ?thesis by auto
  qed (use Nil in simp)
next
  case (Cons c s)
  show ?case
  proof (cases t)
    case Nil
    with Cons.prems escape_char_start [of c] show ?thesis by auto
  next
    case (Cons d t')
    with Cons.prems have "escape_char c @ concat (map escape_char s) @ CHR 0x22 # u =
        escape_char d @ concat (map escape_char t') @ CHR 0x22 # v" by simp
    from escape_char_prefix_free [OF this] Cons.IH [of t'] Cons show ?thesis by simp
  qed
qed

lemma quote_inject: "quote s @ u = quote t @ v \<longleftrightarrow> s = t \<and> u = v"
  using quote_body_inject [of s u t v] unfolding quote_def by auto

lemma items_inject:
  assumes "\<And>x y s t. \<lbrakk>x \<in> set xs; y \<in> set ys; stops s; stops t; f x @ s = f y @ t\<rbrakk> \<Longrightarrow> x = y \<and> s = t"
    and "c = CHR '']'' \<or> c = CHR ''}''"
    and "concat (map (\<lambda>x. '','' @ f x) xs) @ c # s = concat (map (\<lambda>x. '','' @ f x) ys) @ c # t"
  shows "xs = ys \<and> s = t"
  using assms
proof (induction xs arbitrary: ys)
  case Nil
  then show ?case by (cases ys) auto
next
  case (Cons x xs)
  show ?case
  proof (cases ys)
    case Nil
    with Cons.prems(2,3) show ?thesis by auto
  next
    case (Cons y ys')
    have st: "stops (concat (map (\<lambda>x. '','' @ f x) zs) @ c # u)" for zs u
      using \<open>c = CHR '']'' \<or> c = CHR ''}''\<close> by (cases zs) auto
    from Cons Cons.prems(3) have
      "f x @ (concat (map (\<lambda>x. '','' @ f x) xs) @ c # s) = f y @ (concat (map (\<lambda>x. '','' @ f x) ys') @ c # t)"
      by simp
    from Cons.prems(1) [OF _ _ st st this] Cons have
      xy: "x = y" and r: "concat (map (\<lambda>x. '','' @ f x) xs) @ c # s = concat (map (\<lambda>x. '','' @ f x) ys') @ c # t"
      by simp_all
    have "xs = ys' \<and> s = t"
      by (rule Cons.IH [OF _ Cons.prems(2) r]) (use Cons.prems(1) Cons in auto)
    with xy Cons show ?thesis by simp
  qed
qed

lemma join_items: "join '','' (map f (x # xs)) = f x @ concat (map (\<lambda>x. '','' @ f x) xs)"
  by (simp add: join_def comp_def)

lemma join_inject:
  assumes inj: "\<And>x y s t. \<lbrakk>x \<in> set xs; y \<in> set ys; stops s; stops t; f x @ s = f y @ t\<rbrakk> \<Longrightarrow> x = y \<and> s = t"
    and c: "c = CHR '']'' \<or> c = CHR ''}''"
    and start: "\<And>x. x \<in> set xs \<union> set ys \<Longrightarrow> f x \<noteq> [] \<and> hd (f x) \<noteq> c"
    and eq: "join '','' (map f xs) @ c # s = join '','' (map f ys) @ c # t"
  shows "xs = ys \<and> s = t"
proof (cases xs)
  case Nil
  show ?thesis
  proof (cases ys)
    case (Cons y ys')
    with start [of y] eq Nil show ?thesis
      by (cases "f y") (auto simp: join_def)
  qed (use eq Nil in simp)
next
  case (Cons x xs')
  note xs = Cons
  show ?thesis
  proof (cases ys)
    case Nil
    with start [of x] eq xs show ?thesis
      by (cases "f x") (auto simp: join_def)
  next
    case (Cons y ys')
    have st: "stops (concat (map (\<lambda>x. '','' @ f x) zs) @ c # u)" for zs u
      using c by (cases zs) auto
    from eq xs Cons have
      "f x @ (concat (map (\<lambda>x. '','' @ f x) xs') @ c # s) = f y @ (concat (map (\<lambda>x. '','' @ f x) ys') @ c # t)"
      by (simp only: join_items append_assoc)
    from inj [OF _ _ st st this] xs Cons have
      xy: "x = y" and r: "concat (map (\<lambda>x. '','' @ f x) xs') @ c # s = concat (map (\<lambda>x. '','' @ f x) ys') @ c # t"
      by simp_all
    have "xs' = ys' \<and> s = t"
      by (rule items_inject [OF _ c r]) (use inj xs Cons in auto)
    with xy xs Cons show ?thesis by simp
  qed
qed

definition num_char :: "char \<Rightarrow> bool" where
  "num_char c \<longleftrightarrow> is_digit c \<or> c = CHR ''-''"

lemma num_char_literals [simp]:
  "\<not> num_char (CHR ''n'')" "\<not> num_char (CHR ''t'')" "\<not> num_char (CHR ''f'')" "\<not> num_char (CHR 0x22)"
  "\<not> num_char (CHR ''['')" "\<not> num_char (CHR ''{'')" "\<not> num_char (CHR '']'')" "\<not> num_char (CHR ''}'')"
  "\<not> num_char (CHR '','')"
  by code_simp+

lemma int_str_chars: "list_all num_char (int_str i)"
  using all_digits_dec by (auto simp: int_str_def num_char_def list_all_iff)

lemma int_str_Cons: "\<exists>c cs. int_str i = c # cs \<and> num_char c"
proof -
  have "int_str i \<noteq> []" by (simp add: int_str_def)
  with int_str_chars [of i] show ?thesis by (cases "int_str i") auto
qed

lemma int_text_inject:
  assumes "stops s" and "stops t" and "int_str i @ s = int_str j @ t"
  shows "i = j \<and> s = t"
proof -
  have stop: "takeWhile num_char (xs @ u) = xs" if "list_all num_char xs" "stops u" for xs u
  proof -
    from that(2) have "takeWhile num_char u = []"
      by (cases u) (auto simp: stops_def)
    with that(1) show ?thesis by (simp add: takeWhile_append2 list_all_iff)
  qed
  from stop [OF int_str_chars assms(1)] stop [OF int_str_chars assms(2)] assms(3)
  have "int_str i = int_str j" by metis
  with assms(3) show ?thesis by simp
qed

lemma plain_start:
  "\<not> refuse_floats v \<Longrightarrow> plain v \<noteq> [] \<and> hd (plain v) \<noteq> CHR '']'' \<and> hd (plain v) \<noteq> CHR ''}''"
proof (cases v)
  case (JInt i)
  then show ?thesis using int_str_Cons [of i] by auto
qed (auto simp: quote_def)

text \<open>The first character tells the constructor.\<close>

fun starts_as :: "json \<Rightarrow> char \<Rightarrow> bool" where
  "starts_as JNull c = (c = CHR ''n'')"
| "starts_as (JBool b) c = (c = (if b then CHR ''t'' else CHR ''f''))"
| "starts_as (JInt i) c = num_char c"
| "starts_as (JFloat t) c = False"
| "starts_as (JStr s) c = (c = CHR 0x22)"
| "starts_as (JList xs) c = (c = CHR ''['')"
| "starts_as (JObj d) c = (c = CHR ''{'')"

lemma plain_starts_as: "\<not> refuse_floats v \<Longrightarrow> \<exists>c cs. plain v = c # cs \<and> starts_as v c"
proof (cases v)
  case (JInt i)
  then show ?thesis using int_str_Cons [of i] by simp
qed (auto simp: quote_def)

lemma plain_inject:
  "\<lbrakk>\<not> refuse_floats v; \<not> refuse_floats w; stops s; stops t; plain v @ s = plain w @ t\<rbrakk> \<Longrightarrow> v = w \<and> s = t"
proof (induction v arbitrary: w s t)
  case (JList xs)
  obtain c where c: "starts_as w c" "c = CHR ''[''"
    using plain_starts_as [OF JList.prems(2)] JList.prems(5) by auto
  then obtain ys where w: "w = JList ys" by (cases w) (auto split: if_splits)
  have "xs = ys \<and> s = t"
  proof (rule join_inject [where f = plain and c = "CHR '']''"])
    show "join '','' (map plain xs) @ CHR '']'' # s = join '','' (map plain ys) @ CHR '']'' # t"
      using JList.prems(5) w by simp
    show "x = y \<and> u = u'" if "x \<in> set xs" "y \<in> set ys" "stops u" "stops u'" "plain x @ u = plain y @ u'"
      for x y u u'
      using JList.IH [OF that(1) _ _ that(3-5)] that(1,2) JList.prems(1,2) w by (auto simp: list_ex_iff)
    show "plain x \<noteq> [] \<and> hd (plain x) \<noteq> CHR '']''" if "x \<in> set xs \<union> set ys" for x
      using plain_start [of x] that JList.prems(1,2) w by (auto simp: list_ex_iff)
  qed simp
  with w show ?case by simp
next
  case (JObj d)
  obtain c where c: "starts_as w c" "c = CHR ''{''"
    using plain_starts_as [OF JObj.prems(2)] JObj.prems(5) by auto
  then obtain e where w: "w = JObj e" by (cases w) (auto split: if_splits)
  let ?f = "\<lambda>(k, v). quote k @ '':'' @ plain v"
  have "d = e \<and> s = t"
  proof (rule join_inject [where f = ?f and c = "CHR ''}''"])
    show "join '','' (map ?f d) @ CHR ''}'' # s = join '','' (map ?f e) @ CHR ''}'' # t"
      using JObj.prems(5) w by simp
    show "x = y \<and> u = u'" if that: "x \<in> set d" "y \<in> set e" "stops u" "stops u'" "?f x @ u = ?f y @ u'"
      for x y u u'
    proof -
      obtain k v l z where xy: "x = (k, v)" "y = (l, z)" by (cases x; cases y) auto
      with that(5) have q: "quote k @ ('':'' @ plain v @ u) = quote l @ ('':'' @ plain z @ u')" by simp
      then have k: "k = l" and r: "plain v @ u = plain z @ u'"
        using quote_inject [of k "'':'' @ plain v @ u" l "'':'' @ plain z @ u'"] by simp_all
      have "v \<in> Basic_BNFs.snds x" using xy by (simp add: prod_set_defs)
      moreover have "\<not> refuse_floats v" "\<not> refuse_floats z"
        using JObj.prems(1,2) w that(1,2) xy by (auto simp: list_ex_iff)
      ultimately show ?thesis using JObj.IH [OF that(1) _ _ _ that(3,4) r] k xy by blast
    qed
    show "?f x \<noteq> [] \<and> hd (?f x) \<noteq> CHR ''}''" for x
      by (cases x) (simp add: quote_def)
  qed simp
  with w show ?case by simp
next
  case (JInt i)
  then obtain j where w: "w = JInt j"
    using plain_starts_as [OF JInt.prems(2)] int_str_Cons [of i] by (cases w) (auto split: if_splits)
  with JInt.prems int_text_inject [of s t i j] show ?case by simp
next
  case (JStr x)
  then obtain y where w: "w = JStr y"
    using plain_starts_as [OF JStr.prems(2)] by (cases w) (auto simp: quote_def split: if_splits)
  with JStr.prems quote_inject [of x s y t] show ?case by simp
next
  case (JBool b)
  then obtain e where w: "w = JBool e"
    using plain_starts_as [OF JBool.prems(2)] by (cases w) (auto split: if_splits)
  with JBool.prems show ?case by (auto split: if_splits)
next
  case JNull
  then have w: "w = JNull"
    using plain_starts_as [OF JNull.prems(2)] by (cases w) (auto split: if_splits)
  with JNull.prems show ?case by simp
qed simp

lemma utf8_char_prefix_free:
  assumes "utf8_char c @ s = utf8_char d @ t"
  shows "c = d \<and> s = t"
proof -
  note w = byte_of_nat_eq
  have low: "192 + code x div 64 < 256" "128 + code x mod 64 < 256" for x
    using code_less [of x] by linarith+
  have sep: "code x < 128 \<Longrightarrow> code x \<noteq> 192 + k" for x k by simp
  show ?thesis
  proof (cases "code c < 128"; cases "code d < 128")
    assume "\<not> code c < 128" "\<not> code d < 128"
    with assms have "(word_of_nat (192 + code c div 64) :: 8 word) = word_of_nat (192 + code d div 64)"
      "(word_of_nat (128 + code c mod 64) :: 8 word) = word_of_nat (128 + code d mod 64)" and st: "s = t"
      by (simp_all add: utf8_char_def del: of_nat_add)
    then have "code c div 64 = code d div 64" "code c mod 64 = code d mod 64"
      unfolding w [OF low(1) low(1)] w [OF low(2) low(2)] by simp_all
    then have "code c = code d" by (metis div_mult_mod_eq)
    with st show ?thesis by (simp add: code_inject)
  next
    assume c: "code c < 128" "\<not> code d < 128"
    with assms have "(word_of_nat (code c) :: 8 word) = word_of_nat (192 + code d div 64)"
      by (simp add: utf8_char_def del: of_nat_add)
    then show ?thesis using w [OF code_less [of c] low(1) [of d]] sep [OF c(1)] by blast
  next
    assume c: "\<not> code c < 128" "code d < 128"
    with assms have "(word_of_nat (192 + code c div 64) :: 8 word) = word_of_nat (code d)"
      by (simp add: utf8_char_def del: of_nat_add)
    then show ?thesis using w [OF low(1) [of c] code_less [of d]] sep [OF c(2)] by metis
  next
    assume "code c < 128" "code d < 128"
    with assms show ?thesis using w [OF code_less [of c] code_less [of d]]
      by (simp add: utf8_char_def code_inject)
  qed
qed

lemma utf8_inject [simp]: "utf8 s = utf8 t \<longleftrightarrow> s = t"
proof
  have ne: "utf8_char c \<noteq> []" for c by (simp add: utf8_char_def)
  show "utf8 s = utf8 t \<Longrightarrow> s = t"
  proof (induction s arbitrary: t)
    case Nil
    with ne show ?case by (cases t) (auto simp: utf8_def)
  next
    case (Cons c s)
    with ne obtain d t' where t: "t = d # t'" by (cases t) (auto simp: utf8_def)
    with Cons.prems have "utf8_char c @ utf8 s = utf8_char d @ utf8 t'" by (simp add: utf8_def)
    with utf8_char_prefix_free [OF this] Cons.IH t show ?case by blast
  qed
qed simp

lemma refuse_floats_sorted [simp]: "refuse_floats (sorted_keys v) \<longleftrightarrow> refuse_floats v"
proof (induction v)
  case (JObj d)
  have "refuse_floats (sorted_keys v) \<longleftrightarrow> refuse_floats v" if "(k, v) \<in> set d" for k v
    using JObj that by (metis snds.intros snd_conv)
  then show ?case by (auto simp: list_ex_iff split: prod.splits) force+
qed (auto simp: list_ex_iff)

lemma canonical_json_eq:
  assumes "\<not> refuse_floats v" and "\<not> refuse_floats w"
  shows "canonical_json v = canonical_json w \<longleftrightarrow> sorted_keys v = sorted_keys w"
proof
  assume "canonical_json v = canonical_json w"
  with assms have "plain (sorted_keys v) @ [] = plain (sorted_keys w) @ []"
    by (simp add: canonical_json_def dump_plain)
  with assms plain_inject [of "sorted_keys v" "sorted_keys w" "[]" "[]"] show "sorted_keys v = sorted_keys w"
    by simp
next
  assume "sorted_keys v = sorted_keys w"
  with assms show "canonical_json v = canonical_json w"
    by (simp add: canonical_json_def dump_plain)
qed

end
