(* ===== verification/Agent_Auth.thy ===== *)
theory Agent_Auth
  imports Hashing
begin

section \<open>Authentication of the agent internal API\<close>

text \<open>
  packages/protocol/src/negotiation_protocol/agent_auth.py: the bytes a request's MAC covers and
  the check of a presented MAC. HMAC-SHA256 is a parameter, from secret and message to digest.
  \<open>method.upper()\<close> is written out for Latin-1 text: ASCII letters, and the sharp s, the one
  character whose upper case is ASCII; any other non-ASCII character makes the encoding raise.
\<close>

datatype auth_error = AuthValueError

definition NEWLINE :: char where "NEWLINE = CHR 0x0A"

definition py_upper :: "string \<Rightarrow> string" where
  "py_upper s = concat (map (\<lambda>c. if code c = 0xDF then ''SS'' else [upper c]) s)"

definition encode_ascii :: "string \<Rightarrow> auth_error + bytes" where
  "encode_ascii s =
     (if list_all (\<lambda>c. code c < 128) s then Inr (map (\<lambda>c. word_of_nat (code c)) s)
      else Inl AuthValueError)"

definition agent_request_message :: "string \<Rightarrow> string \<Rightarrow> bytes \<Rightarrow> auth_error + bytes" where
  "agent_request_message meth path body =
     (if NEWLINE \<in> set meth \<or> NEWLINE \<in> set path then Inl AuthValueError
      else result_bind (encode_ascii (py_upper meth)) (\<lambda>m.
        Inr (m @ [10] @ utf8 path @ [10] @ body)))"

definition agent_request_mac ::
  "(bytes \<Rightarrow> bytes \<Rightarrow> bytes) \<Rightarrow> bytes \<Rightarrow> string \<Rightarrow> string \<Rightarrow> bytes \<Rightarrow> auth_error + string" where
  "agent_request_mac hmac secret meth path body =
     (if secret = [] then Inl AuthValueError
      else result_bind (agent_request_message meth path body) (\<lambda>m. Inr (to_hex (hmac secret m))))"

definition verify_agent_request ::
  "(bytes \<Rightarrow> bytes \<Rightarrow> bytes) \<Rightarrow> bytes \<Rightarrow> string \<Rightarrow> string \<Rightarrow> bytes \<Rightarrow> string option \<Rightarrow> auth_error + bool" where
  "verify_agent_request hmac secret meth path body presented =
     (case presented of
        None \<Rightarrow> Inr False
      | Some p \<Rightarrow> if p = [] then Inr False
          else result_bind (agent_request_mac hmac secret meth path body) (\<lambda>expected.
            Inr (utf8 expected = utf8 p)))"

subsection \<open>The three parts cannot run into one another\<close>

lemma NEWLINE_code [simp]: "code NEWLINE = 10"
  by (simp add: NEWLINE_def code_def)

lemma byte_is_newline: "(word_of_nat (code c) :: 8 word) = 10 \<longleftrightarrow> c = NEWLINE"
  using byte_of_code_eq [of c NEWLINE] by simp

lemma utf8_char_newline: "c \<noteq> NEWLINE \<Longrightarrow> 10 \<notin> set (utf8_char c)"
proof -
  assume c: "c \<noteq> NEWLINE"
  have b: "192 + code c div 64 < 256" "128 + code c mod 64 < 256"
    using code_less [of c] by linarith+
  show ?thesis
    using c byte_is_newline [of c] byte_of_nat_eq [OF b(1), of 10] byte_of_nat_eq [OF b(2), of 10]
    by (auto simp: utf8_char_def simp del: of_nat_add)
qed

lemma utf8_newline: "NEWLINE \<notin> set s \<Longrightarrow> 10 \<notin> set (utf8 s)"
proof
  assume s: "NEWLINE \<notin> set s" and "10 \<in> set (utf8 s)"
  then obtain c where "c \<in> set s" "10 \<in> set (utf8_char c)" by (auto simp: utf8_def)
  with utf8_char_newline [of c] s show False by blast
qed

lemma upper_newline: "upper c = NEWLINE \<longleftrightarrow> c = NEWLINE"
proof -
  have "code (upper c) = 10 \<longleftrightarrow> code c = 10"
    by (auto simp: upper_def is_lower_def)
  then show ?thesis by (metis NEWLINE_code code_inject)
qed

lemma py_upper_newline: "NEWLINE \<notin> set s \<Longrightarrow> NEWLINE \<notin> set (py_upper s)"
proof
  have n: "NEWLINE \<noteq> CHR ''S''" by (simp add: NEWLINE_def)
  assume s: "NEWLINE \<notin> set s" and "NEWLINE \<in> set (py_upper s)"
  then obtain c where "c \<in> set s" "NEWLINE = upper c" using n by (auto simp: py_upper_def split: if_splits)
  with upper_newline [of c] s show False by auto
qed

lemma encode_ascii_Inr:
  "encode_ascii s = Inr b \<longleftrightarrow> list_all (\<lambda>c. code c < 128) s \<and> b = map (\<lambda>c. word_of_nat (code c)) s"
  by (auto simp: encode_ascii_def)

lemma ascii_bytes_inject:
  "map (\<lambda>c. word_of_nat (code c) :: 8 word) s = map (\<lambda>c. word_of_nat (code c)) t \<Longrightarrow> s = t"
  by (erule list.inj_map_strong [rotated]) (simp add: byte_of_code_eq)

lemma separated:
  "\<lbrakk>xs @ x # ys = xs' @ x # ys'; x \<notin> set xs; x \<notin> set xs'\<rbrakk> \<Longrightarrow> xs = xs' \<and> ys = ys'"
  by (auto simp: append_eq_append_conv2 Cons_eq_append_conv append_eq_Cons_conv)

lemma agent_request_message_inject:
  assumes m: "agent_request_message meth path body = Inr m"
    and n: "agent_request_message meth' path' body' = Inr m"
  shows "py_upper meth = py_upper meth' \<and> path = path' \<and> body = body'"
proof -
  let ?b = "map (\<lambda>c. word_of_nat (code c) :: 8 word)"
  have nl: "10 \<notin> set (?b (py_upper s))" if "NEWLINE \<notin> set s" for s
    using py_upper_newline [OF that] byte_is_newline by (metis (no_types, lifting) imageE list.set_map)
  from m n have p: "NEWLINE \<notin> set meth" "NEWLINE \<notin> set meth'" "NEWLINE \<notin> set path" "NEWLINE \<notin> set path'"
    and e: "?b (py_upper meth) @ 10 # utf8 path @ 10 # body = ?b (py_upper meth') @ 10 # utf8 path' @ 10 # body'"
    by (auto simp: agent_request_message_def result_bind_Inr encode_ascii_Inr split: if_splits)
  from separated [OF e nl [OF p(1)] nl [OF p(2)]] have
    "?b (py_upper meth) = ?b (py_upper meth')" and e2: "utf8 path @ 10 # body = utf8 path' @ 10 # body'"
    by blast+
  moreover from separated [OF e2 utf8_newline [OF p(3)] utf8_newline [OF p(4)]]
  have "path = path' \<and> body = body'" by simp
  ultimately show ?thesis using ascii_bytes_inject by blast
qed

lemma verify_agent_request_True:
  "verify_agent_request hmac secret meth path body presented = Inr True \<longleftrightarrow>
     (\<exists>mac. presented = Some mac \<and> mac \<noteq> [] \<and> agent_request_mac hmac secret meth path body = Inr mac)"
  by (auto simp: verify_agent_request_def result_bind_Inr split: option.splits)

lemma agent_request_mac_Inr:
  "agent_request_mac hmac secret meth path body = Inr mac \<longleftrightarrow> secret \<noteq> [] \<and>
     (\<exists>m. agent_request_message meth path body = Inr m \<and> mac = to_hex (hmac secret m))"
  by (auto simp: agent_request_mac_def result_bind_Inr)

end
