(* ===== verification/Protocol_Properties.thy ===== *)
theory Protocol_Properties
  imports Samples Reasons Key_Refs Agent_Auth
begin

section \<open>Properties of the protocol package\<close>

text \<open>
C14: Two signing requests with the same digest are the same request. If the domain separator,
the struct hashes and the final hash of two (domain, message) pairs do not collide among the
finitely many inputs hashed on the way, then equal EIP-712 digests mean the same chain, the same
exchange contract, the same message kind and the same field values (addresses up to the spelling
\<open>to_checksum_address\<close> removes): an offer's signature cannot be replayed as an acceptance, for
another session, another sequence or another deployment.
\<close>

theorem digest_binding:
  assumes "eth_lib_ok L"
    and "inj_on (keccak L) (set (hashed L d m) \<union> set (hashed L e n))"
    and "digest L d m = Inr h" and "digest L e n = Inr h"
  shows "chain_id d = chain_id e \<and> domain_name d = domain_name e \<and>
    domain_version d = domain_version e \<and>
    to_checksum_address L (verifying_contract d) = to_checksum_address L (verifying_contract e) \<and>
    canonical_message L m = canonical_message L n"
proof -
  let ?A = "set (hashed L d m) \<union> set (hashed L e n)"
  from assms(3,4) obtain sd sm se sn where
    d: "separator L d = Inr sd" "struct_hash L m = Inr sm" "h = keccak L ([0x19, 0x01] @ sd @ sm)" and
    e: "separator L e = Inr se" "struct_hash L n = Inr sn" "h = keccak L ([0x19, 0x01] @ se @ sn)"
    by (auto simp: digest_Inr)
  have "[0x19, 0x01] @ sd @ sm \<in> ?A" "[0x19, 0x01] @ se @ sn \<in> ?A"
    using hashed_members(4) [OF d(1,2)] hashed_members(4) [OF e(1,2)] by blast+
  with d(3) e(3) assms(2) have "[0x19, 0x01] @ sd @ sm = [0x19, 0x01] @ se @ sn"
    by (metis inj_onD)
  moreover have "length sd = length se"
    using d(1) e(1) eth_lib_okD(1) [OF assms(1)] by (auto simp: separator_def keccak_args_Inr)
  ultimately have s: "sd = se" "sm = sn" by simp_all
  have sub: "set (hashed L d m) \<subseteq> ?A" "set (hashed L e n) \<subseteq> ?A" by blast+
  note md = subset_trans [OF hashed_members(1) sub(1)] subset_trans [OF hashed_members(2) sub(1)]
    subset_trans [OF hashed_members(3) sub(1)]
  note me = subset_trans [OF hashed_members(1) sub(2)] subset_trans [OF hashed_members(2) sub(2)]
    subset_trans [OF hashed_members(3) sub(2)]
  have "chain_id d = chain_id e \<and> domain_name d = domain_name e \<and> domain_version d = domain_version e \<and>
      to_checksum_address L (verifying_contract d) = to_checksum_address L (verifying_contract e)"
    using md(1) me(1) by (intro separator_inject [OF assms(1,2) md(2) me(2) _ _ d(1)]) (simp_all add: e(1) s)
  moreover have "canonical_message L m = canonical_message L n"
    using md(1) me(1) by (intro struct_hash_inject [OF assms(1,2) md(3) me(3) _ d(2)]) (simp_all add: e(2) s)
  ultimately show ?thesis by blast
qed

definition sample_domain :: domain where
  "sample_domain = Domain 31337 (''0x'' @ replicate 40 CHR ''e'')"

definition sample_closure :: "char \<Rightarrow> message" where
  "sample_closure c = MClose \<lparr>cl_session_id = replicate 32 7, cl_config_hash = replicate 32 9,
     cl_sequence = 3, cl_actor = ''0x'' @ replicate 40 c, cl_reason = 1\<rparr>"

lemma sample_keccak_inj:
  "distinct (map (\<lambda>b. length b mod 256) xs) \<Longrightarrow> inj_on sample_keccak (set xs)"
proof -
  assume d: "distinct (map (\<lambda>b. length b mod 256) xs)"
  then have i: "inj_on (\<lambda>b. length b mod 256) (set xs)" by (simp add: distinct_map)
  have "length x mod 256 = length y mod 256" if "sample_keccak x = sample_keccak y" for x y
  proof -
    have u: "unat (word_of_nat n :: 8 word) = n mod 256" for n
      by (simp only: unat_of_nat) simp
    from that have "(word_of_nat (length x) :: 8 word) = word_of_nat (length y)"
      unfolding sample_keccak_def by (simp only: list.inject)
    then have "unat (word_of_nat (length x) :: 8 word) = unat (word_of_nat (length y) :: 8 word)"
      by (rule arg_cong)
    then show ?thesis by (simp only: u)
  qed
  then show ?thesis by (intro inj_onI inj_onD [OF i]) blast+
qed

lemma sample_lib_simps [simp]:
  "keccak sample_lib = sample_keccak" "to_checksum_address sample_lib = sample_checksum"
  "length (sample_keccak b) = 32" "length (ascii t) = length t"
  by (simp_all add: sample_lib_def sample_keccak_def ascii_def)

lemma sample_actor: "sample_checksum (''0x'' @ replicate 40 CHR ''A'') = sample_checksum (''0x'' @ replicate 40 CHR ''a'')"
  by code_simp

lemma sample_domain_args:
  "all_results (domain_args sample_lib sample_domain) =
     Inr [ABytes32 (keccak_text sample_lib EIP712_DOMAIN_TYPE), ABytes32 (keccak_text sample_lib DOMAIN_NAME),
          ABytes32 (keccak_text sample_lib DOMAIN_VERSION), AUint 256 31337,
          AAddress (sample_checksum (''0x'' @ replicate 40 CHR ''e''))]"
  by (simp add: sample_domain_def Domain_def domain_args_Inr)

lemma sample_closure_args:
  "c = CHR ''a'' \<or> c = CHR ''A'' \<Longrightarrow> all_results (message_args sample_lib (sample_closure c)) =
     Inr [ABytes32 (keccak_text sample_lib CLOSE_TYPE), ABytes32 (replicate 32 7), ABytes32 (replicate 32 9),
          AUint 64 3, AAddress (sample_checksum (''0x'' @ replicate 40 CHR ''a'')), AUint 8 1]"
  using sample_actor
  by (auto simp: sample_closure_def message_args_def close_args_def all_results_Inr arg_results)

lemma protocol_sample_parts:
  "domain_name sample_domain = DOMAIN_NAME" "domain_version sample_domain = DOMAIN_VERSION"
  "type_text (sample_closure c) = CLOSE_TYPE"
  by (simp_all add: sample_domain_def Domain_def type_text_def sample_closure_def)

lemma sample_encoded: "length (abi_encode sample_lib as) = 32 * length as"
  by (rule length_abi_encode [OF sample_lib_ok])

lemmas sample_hash_simps = separator_def keccak_args_def struct_hash_args sample_domain_args
  sample_closure_args sample_encoded

lemma sample_hashed:
  "map length (hashed sample_lib sample_domain (sample_closure CHR ''a'')) = [82, 23, 1, 86, 160, 192, 66]"
  "hashed sample_lib sample_domain (sample_closure CHR ''A'') =
     hashed sample_lib sample_domain (sample_closure CHR ''a'')"
  by (simp_all add: hashed_def encoded_def sample_hash_simps protocol_sample_parts
      DOMAIN_NAME_def DOMAIN_VERSION_def EIP712_DOMAIN_TYPE_def CLOSE_TYPE_def)

lemma sample_hash_free:
  "inj_on (keccak sample_lib) (set (hashed sample_lib sample_domain (sample_closure CHR ''a'')) \<union>
     set (hashed sample_lib sample_domain (sample_closure CHR ''A'')))"
proof -
  have "map (\<lambda>b. length b mod 256) (hashed sample_lib sample_domain (sample_closure CHR ''a''))
      = map (\<lambda>n. n mod 256) (map length (hashed sample_lib sample_domain (sample_closure CHR ''a'')))"
    by simp
  also have "\<dots> = [82, 23, 1, 86, 160, 192, 66]" unfolding sample_hashed by simp
  finally have "inj_on sample_keccak (set (hashed sample_lib sample_domain (sample_closure CHR ''a'')))"
    by (intro sample_keccak_inj) simp
  then show ?thesis by (simp add: sample_hashed(2))
qed

lemma sample_digests:
  "digest sample_lib sample_domain (sample_closure CHR ''a'') = Inr (sample_keccak (replicate 66 0))"
  "digest sample_lib sample_domain (sample_closure CHR ''A'') = Inr (sample_keccak (replicate 66 0))"
  by (auto simp: digest_Inr sample_hash_simps) (simp_all add: sample_keccak_def)

theorem digest_binding_witness:
  "canonical_message sample_lib (sample_closure CHR ''a'') =
     canonical_message sample_lib (sample_closure CHR ''A'') \<and>
   sample_closure CHR ''a'' \<noteq> sample_closure CHR ''A''"
proof -
  have "sample_closure CHR ''a'' \<noteq> sample_closure CHR ''A''" by code_simp
  with digest_binding [OF sample_lib_ok sample_hash_free sample_digests] show ?thesis by blast
qed

text \<open>
C15: A MAC of one request authenticates no other. If \<open>verify_agent_request\<close> accepts for one
request the value computed for another under the same secret, and HMAC does not collide on the
two messages, the two requests have the same method (up to case), the same path and the same
body: the method, the path and the body cannot run into one another in the authenticated bytes.
\<close>

theorem auth_binds_request:
  assumes "agent_request_mac hmac secret meth path body = Inr mac"
    and "verify_agent_request hmac secret meth' path' body' (Some mac) = Inr True"
    and "\<And>m n. \<lbrakk>agent_request_message meth path body = Inr m; agent_request_message meth' path' body' = Inr n;
      to_hex (hmac secret m) = to_hex (hmac secret n)\<rbrakk> \<Longrightarrow> m = n"
  shows "py_upper meth = py_upper meth' \<and> path = path' \<and> body = body'"
proof -
  from assms(1) obtain m where m: "agent_request_message meth path body = Inr m" "mac = to_hex (hmac secret m)"
    by (auto simp: agent_request_mac_Inr)
  from assms(2) obtain n where n: "agent_request_message meth' path' body' = Inr n" "mac = to_hex (hmac secret n)"
    by (auto simp: agent_request_mac_Inr verify_agent_request_True)
  from assms(3) [OF m(1) n(1)] m n have "m = n" by simp
  with m(1) n(1) show ?thesis by (metis agent_request_message_inject)
qed

theorem auth_binds_request_witness:
  "agent_request_mac (\<lambda>k m. k @ m) [1] ''post'' ''/a'' [2] = agent_request_mac (\<lambda>k m. k @ m) [1] ''POST'' ''/a'' [2]
   \<and> ''post'' \<noteq> ''POST'' \<and> py_upper ''post'' = py_upper ''POST''"
proof -
  let ?h = "\<lambda>k m :: bytes. k @ m"
  let ?mac = "to_hex ([1] @ [80, 79, 83, 84, 10, 47, 97, 10, 2])"
  have a: "agent_request_mac ?h [1] ''post'' ''/a'' [2] = Inr ?mac"
    and a': "agent_request_mac ?h [1] ''POST'' ''/a'' [2] = Inr ?mac"
    and b: "verify_agent_request ?h [1] ''POST'' ''/a'' [2] (Some ?mac) = Inr True" by code_simp+
  have "py_upper ''post'' = py_upper ''POST'' \<and> ''/a'' = ''/a'' \<and> [2 :: 8 word] = [2]"
    by (rule auth_binds_request [OF a b]) (auto dest!: arg_cong [where f = fromhex])
  with a a' show ?thesis by simp
qed

text \<open>
C25: Canonical JSON is one text per document. For float-free documents the encodings are equal
exactly when the documents are equal up to the order of their object keys, at every depth, so a
hash of the canonical text commits to the whole document and to nothing else (the key order a
service happened to build it in).
\<close>

theorem canonical_json_binding:
  assumes "canonical_json v = Inr b" and "canonical_json w = Inr c"
  shows "b = c \<longleftrightarrow> sorted_keys v = sorted_keys w"
proof -
  from assms have "\<not> refuse_floats v" "\<not> refuse_floats w"
    by (auto simp: canonical_json_def split: if_splits)
  from canonical_json_eq [OF this] assms show ?thesis by simp
qed

theorem canonical_json_binding_witness:
  "sorted_keys (JObj [(''b'', JInt 1), (''a'', JList [JStr ''x'', JNull])]) =
   sorted_keys (JObj [(''a'', JList [JStr ''x'', JNull]), (''b'', JInt 1)])"
proof -
  have a: "canonical_json (JObj [(''b'', JInt 1), (''a'', JList [JStr ''x'', JNull])]) =
      Inr (utf8 (dump (JObj [(''a'', JList [JStr ''x'', JNull]), (''b'', JInt 1)])))"
    and b: "canonical_json (JObj [(''a'', JList [JStr ''x'', JNull]), (''b'', JInt 1)]) =
      Inr (utf8 (dump (JObj [(''a'', JList [JStr ''x'', JNull]), (''b'', JInt 1)])))"
    by code_simp+
  from canonical_json_binding [OF a b] show ?thesis by simp
qed

text \<open>
C36: Amounts round-trip exactly. \<open>MinorAmount.parse\<close> succeeds on a JSON value and returns \<open>a\<close>
exactly when \<open>a\<close> is a uint256 and the value is the text \<open>to_json\<close> writes for it: no second
spelling (signs, leading zeros, exponents, numbers that are not strings) is an amount.
\<close>

theorem amount_roundtrip:
  "parse_amount v = Inr a \<longleftrightarrow> v = JStr (amount_to_json a) \<and> is_amount a"
  using parse_amount_of_str parse_amount_canonical parse_amount_Inr [of v a]
  by (auto simp: amount_to_json_def)

text \<open>
C37: Digests round-trip exactly. 32 bytes have one text, that text gives the bytes back, it is
accepted unchanged by \<open>Digest\<close>, and nothing but such a text is left unchanged by it.
\<close>

theorem digest_roundtrip:
  "(Digest_of_bytes bs = Inr d \<longleftrightarrow> is_digest d \<and> digest_to_bytes d = bs) \<and>
   (Digest (JStr d) = Inr d \<longleftrightarrow> is_digest d)"
  using Digest_Inr_is_digest Digest_fixed is_digest_bytes [of d]
  by (auto simp: Digest_of_bytes_Inr is_digest_def digest_to_bytes_of_bytes digest_to_bytes_def)


text \<open>
C35: No refusal of a key reference quotes a key. Whatever was configured as the reference, be it
a pasted private key, and whatever the environment and the keystore file hold, the message of
the error \<open>resolve_key_reference\<close> raises holds no run of 32 hexadecimal characters, as long as
the operating system's own error text (\<open>strerror\<close>) holds none.
\<close>

theorem key_reference_messages_safe:
  assumes "resolve_key_reference open_keystore key_ref environ = Inl message"
    and "\<And>path password why. open_keystore path password = Unreadable why \<Longrightarrow> \<not> key_like why"
  shows "\<not> key_like message"
proof (cases "is_key_reference key_ref")
  case False
  have "\<not> key_like (''a key reference must be '' @ KEY_REF_FORMS @ ''; it is not repeated here'')"
    by code_simp
  with False assms(1) show ?thesis by (simp add: resolve_key_reference_def)
next
  case True
  obtain scheme target where p: "partition_at (CHR '':'') key_ref = (scheme, target)" by fastforce
  from reference_target [OF True p] have t: "\<not> key_like target" by blast
  show ?thesis
  proof (cases "scheme = ''env''")
    case env: True
    with True p assms(1) have "from_environment target environ = Inl message"
      by (simp add: resolve_key_reference_def)
    then show ?thesis using t by (rule from_environment_message)
  next
    case False
    with True p assms(1) have "from_keystore open_keystore (path_str target) environ = Inl message"
      by (simp add: resolve_key_reference_def)
    then show ?thesis using path_str_not_key_like [OF t] assms(2) by (rule from_keystore_message)
  qed
qed

theorem key_reference_messages_safe_witness:
  "\<not> key_like ''the environment variable ROOT is not 32 bytes of hex''"
proof -
  have "resolve_key_reference (\<lambda>p w. NotJson) ''env:ROOT'' [''ROOT'' \<mapsto> ''0xdeadbeef''] =
      Inl ''the environment variable ROOT is not 32 bytes of hex''"
    by code_simp
  then show ?thesis by (rule key_reference_messages_safe) simp
qed

end
