(* ===== verification/Outbound.thy ===== *)
theory Outbound
  imports Prelude
begin

section \<open>The outbound-context assertion\<close>

text \<open>
  services/agent/src/agent/outbound.py: what may never leave in a model request. The three
  regular expressions are matchers giving the length of their (greedy) match at the head of a
  text; \<open>search\<close> and \<open>sub\<close> are \<open>re.search\<close> and \<open>re.sub\<close> over a matcher whose matches are
  never empty. A probe is the predicate \<open>appears_in\<close> of the key holder behind it, and the
  escaped forms of a secret are given by the parameter \<open>dumps\<close>, which is \<open>json.dumps\<close> of one
  text with its two \<open>ensure_ascii\<close> modes.
\<close>

type_synonym matcher = "string \<Rightarrow> nat option"

definition CREDENTIAL_MASK :: string where
  "CREDENTIAL_MASK = ''[credential-shaped text]''"

definition key_char :: "char \<Rightarrow> bool" where
  "key_char c \<longleftrightarrow> is_upper c \<or> is_lower c \<or> is_digit c \<or> c = CHR ''_'' \<or> c = CHR ''-''"

definition pem_char :: "char \<Rightarrow> bool" where
  "pem_char c \<longleftrightarrow> is_upper c \<or> is_digit c \<or> c = CHR '' ''"

definition re_space :: "char \<Rightarrow> bool" where
  "re_space c \<longleftrightarrow> (9 \<le> code c \<and> code c \<le> 13) \<or> (28 \<le> code c \<and> code c \<le> 32)
     \<or> code c = 133 \<or> code c = 160"

definition starts :: "string \<Rightarrow> string \<Rightarrow> bool" where
  "starts p s \<longleftrightarrow> take (length p) s = p"

definition SK_ANT :: string where "SK_ANT = ''sk-ant-''"

definition match_anthropic_key :: matcher where
  "match_anthropic_key s =
     (let run = takeWhile key_char (drop (length SK_ANT) s) in
      if starts SK_ANT s \<and> run \<noteq> [] then Some (length SK_ANT + length run) else None)"

definition PEM_BEGIN :: string where "PEM_BEGIN = ''-----BEGIN ''"
definition PEM_END :: string where "PEM_END = ''PRIVATE KEY-----''"

text \<open>Greedy, with backtracking: the longest run after which the end marker stands.\<close>

fun pem_tail :: "nat \<Rightarrow> string \<Rightarrow> nat option" where
  "pem_tail 0 s = (if starts PEM_END s then Some 0 else None)"
| "pem_tail (Suc k) s = (if starts PEM_END (drop (Suc k) s) then Some (Suc k) else pem_tail k s)"

definition match_pem_private_key :: matcher where
  "match_pem_private_key s =
     (if starts PEM_BEGIN s then
        let rest = drop (length PEM_BEGIN) s in
        map_option (\<lambda>k. length PEM_BEGIN + k + length PEM_END)
          (pem_tail (length (takeWhile pem_char rest)) rest)
      else None)"

definition backslashes :: "string \<Rightarrow> nat" where
  "backslashes s = length (takeWhile (\<lambda>c. code c = 92) s)"

definition match_keystore_document :: matcher where
  "match_keystore_document s =
     (let b1 = backslashes s; s1 = drop b1 s in
      if \<not> starts ''\"'' s1 then None else
      let s2 = drop 1 s1 in
      if \<not> (starts ''ciphertext'' s2 \<or> starts ''kdfparams'' s2) then None else
      let w = (if starts ''ciphertext'' s2 then 10 else 9); s3 = drop w s2;
          b2 = backslashes s3; s4 = drop b2 s3 in
      if \<not> starts ''\"'' s4 then None else
      let s5 = drop 1 s4; sp = length (takeWhile re_space s5) in
      if starts '':'' (drop sp s5) then Some (b1 + 1 + w + b2 + 1 + sp + 1) else None)"

definition CREDENTIAL_PATTERNS :: "(string \<times> matcher) list" where
  "CREDENTIAL_PATTERNS =
     [(''anthropic_key_shaped'', match_anthropic_key),
      (''pem_private_key'', match_pem_private_key),
      (''keystore_document'', match_keystore_document)]"

fun search :: "matcher \<Rightarrow> string \<Rightarrow> bool" where
  "search m [] = (m [] \<noteq> None)"
| "search m (c # cs) = (m (c # cs) \<noteq> None \<or> search m cs)"

text \<open>\<open>skip\<close> counts the characters of the current match still to be dropped.\<close>

fun sub_from :: "matcher \<Rightarrow> string \<Rightarrow> nat \<Rightarrow> string \<Rightarrow> string" where
  "sub_from m repl skip [] = []"
| "sub_from m repl (Suc k) (c # cs) = sub_from m repl k cs"
| "sub_from m repl 0 (c # cs) =
     (case m (c # cs) of
        Some n \<Rightarrow> repl @ sub_from m repl (n - 1) cs
      | None \<Rightarrow> c # sub_from m repl 0 cs)"

definition credential_kind :: "string \<Rightarrow> string option" where
  "credential_kind text =
     (case filter (\<lambda>(kind, pattern). search pattern text) CREDENTIAL_PATTERNS of
        [] \<Rightarrow> None | (kind, pattern) # _ \<Rightarrow> Some kind)"

definition mask_credentials :: "string \<Rightarrow> string" where
  "mask_credentials text =
     foldl (\<lambda>t (kind, pattern). sub_from pattern CREDENTIAL_MASK 0 t) text CREDENTIAL_PATTERNS"

subsection \<open>The denylist\<close>

record outbound_check =
  oc_secrets :: "(string \<times> string) list"
  oc_probes :: "(string \<times> (string \<Rightarrow> bool)) list"

definition OutboundCheck ::
  "(string \<times> string) list \<Rightarrow> (string \<times> (string \<Rightarrow> bool)) list \<Rightarrow> outbound_check" where
  "OutboundCheck secrets probes =
     \<lparr>oc_secrets = filter (\<lambda>(kind, value). value \<noteq> []) secrets, oc_probes = probes\<rparr>"

definition with_secret :: "string \<Rightarrow> string \<Rightarrow> outbound_check \<Rightarrow> outbound_check" where
  "with_secret kind value c = OutboundCheck (AList.update kind value (oc_secrets c)) (oc_probes c)"

definition with_probe :: "string \<Rightarrow> (string \<Rightarrow> bool) \<Rightarrow> outbound_check \<Rightarrow> outbound_check" where
  "with_probe kind p c = OutboundCheck (oc_secrets c) (AList.update kind p (oc_probes c))"

text \<open>\<open>{"run_key": run_key, **probes}\<close>: first in order, and a \<open>run_key\<close> already there wins.\<close>

definition for_run :: "(string \<Rightarrow> bool) \<Rightarrow> outbound_check \<Rightarrow> outbound_check" where
  "for_run run_key c = OutboundCheck (oc_secrets c)
     (foldl (\<lambda>d (k, p). AList.update k p d) [(''run_key'', run_key)] (oc_probes c))"

definition check_kinds :: "outbound_check \<Rightarrow> string list" where
  "check_kinds c = map fst (oc_secrets c) @ map fst (oc_probes c) @ map fst CREDENTIAL_PATTERNS"

definition escaped_forms :: "(bool \<Rightarrow> string \<Rightarrow> string) \<Rightarrow> string \<Rightarrow> string list" where
  "escaped_forms dumps value =
     value # concat (map (\<lambda>ascii_only.
       let inner = (\<lambda>t. butlast (tl (dumps ascii_only t))); once = inner value
       in [once, inner once]) [False, True])"

fun strings :: "json \<Rightarrow> string list" where
  "strings (JStr s) = [s]"
| "strings (JObj d) = concat (map (\<lambda>(k, v). k # strings v) d)"
| "strings (JList xs) = concat (map strings xs)"
| "strings _ = []"

definition contains :: "string \<Rightarrow> string \<Rightarrow> bool" where
  "contains form text \<longleftrightarrow> search (\<lambda>s. if starts form s then Some 0 else None) text"

definition first_kind :: "('k \<Rightarrow> bool) \<Rightarrow> (string \<times> 'k) list \<Rightarrow> string option" where
  "first_kind hit xs = map_option fst (List.find (\<lambda>(kind, x). hit x) xs)"

definition violation :: "(bool \<Rightarrow> string \<Rightarrow> string) \<Rightarrow> outbound_check \<Rightarrow> json \<Rightarrow> string option" where
  "violation dumps c document = (let texts = strings document in
     or_else (first_kind (\<lambda>value. list_ex (\<lambda>text. list_ex (\<lambda>form. contains form text)
                (escaped_forms dumps value)) texts) (oc_secrets c))
    (or_else (first_kind (\<lambda>appears_in. list_ex appears_in texts) (oc_probes c))
       (case filter (\<lambda>t. credential_kind t \<noteq> None) texts of
          [] \<Rightarrow> None | t # _ \<Rightarrow> credential_kind t)))"

end
