(* ===== verification/Decision_Structure.thy ===== *)
theory Decision_Structure
  imports Values Reasons Outbound "HOL-Library.Char_ord" "HOL-Library.List_Lexorder"
begin

section \<open>Decisions and their structural validation\<close>

text \<open>
  services/agent/src/agent/validation: the closed set of refusal codes (codes.py), the two
  families of decision types (decisions.py) and \<open>parse_decision\<close> (structure.py), one rule at a
  time in the code's order, with the feedback text each refusal carries.
\<close>

datatype refusal_code =
    SCHEMA_ERROR | EXTRA_FIELDS | INVALID_AMOUNT | ZERO_AMOUNT | INVALID_OFFER_HASH | INVALID_REASON
  | NOT_YOUR_TURN | OFFER_LIMIT_REACHED | NO_ACTIVE_OFFER | SELF_ACCEPTANCE | STALE_OFFER_HASH
  | OFFER_EXPIRED | ABOVE_RESERVATION | BELOW_RESERVATION | INSUFFICIENT_BALANCE | INVENTORY_FLOOR

definition code_str :: "refusal_code \<Rightarrow> string" where
  "code_str c = (case c of
     SCHEMA_ERROR \<Rightarrow> ''schema_error'' | EXTRA_FIELDS \<Rightarrow> ''extra_fields''
   | INVALID_AMOUNT \<Rightarrow> ''invalid_amount'' | ZERO_AMOUNT \<Rightarrow> ''zero_amount''
   | INVALID_OFFER_HASH \<Rightarrow> ''invalid_offer_hash'' | INVALID_REASON \<Rightarrow> ''invalid_reason''
   | NOT_YOUR_TURN \<Rightarrow> ''not_your_turn'' | OFFER_LIMIT_REACHED \<Rightarrow> ''offer_limit_reached''
   | NO_ACTIVE_OFFER \<Rightarrow> ''no_active_offer'' | SELF_ACCEPTANCE \<Rightarrow> ''self_acceptance''
   | STALE_OFFER_HASH \<Rightarrow> ''stale_offer_hash'' | OFFER_EXPIRED \<Rightarrow> ''offer_expired''
   | ABOVE_RESERVATION \<Rightarrow> ''above_reservation'' | BELOW_RESERVATION \<Rightarrow> ''below_reservation''
   | INSUFFICIENT_BALANCE \<Rightarrow> ''insufficient_balance'' | INVENTORY_FLOOR \<Rightarrow> ''inventory_floor'')"

definition HOLDINGS_CODES :: "refusal_code list" where
  "HOLDINGS_CODES = [INSUFFICIENT_BALANCE, INVENTORY_FLOOR]"

datatype proposal =
    ProposedOffer (proposed_amount: int)
  | ProposedAccept string
  | ProposedWalkAway string int

datatype valid_decision =
    ValidOffer int
  | ValidAccept string
  | ValidWalkAway string int

record refusal =
  rf_code :: refusal_code
  rf_feedback :: string

definition Refusal :: "refusal_code \<Rightarrow> string \<Rightarrow> refusal" where
  "Refusal c f = \<lparr>rf_code = c, rf_feedback = f\<rparr>"

type_synonym parse_result = "refusal + proposal"

definition EXPLANATION_MAX_CHARS :: nat where "EXPLANATION_MAX_CHARS = 280"

definition ENVELOPE_FIELDS :: "string list" where
  "ENVELOPE_FIELDS = [''decision'', ''explanation'']"

definition ENVELOPE_FEEDBACK :: string where
  "ENVELOPE_FEEDBACK =
     ''Your response must be a JSON object: {\"decision\": {...}} with an optional \"explanation\".''"

definition ACTION_FEEDBACK :: string where
  "ACTION_FEEDBACK = ''\"decision.action\" must be \"offer\", \"accept\" or \"walk_away\".''"

definition AMOUNT_FEEDBACK :: string where
  "AMOUNT_FEEDBACK =
     ''\"quote_amount_minor\" must be a whole number of minor units written as a base-10 string, '' @
     ''with no sign, decimal point, exponent or leading zeros, for example \"94000000\".''"

definition HASH_FEEDBACK :: string where
  "HASH_FEEDBACK = ''\"offer_hash\" must be 0x followed by 64 hexadecimal characters.''"

definition REASON_FEEDBACK :: string where
  "REASON_FEEDBACK =
     ''\"reason\" must be \"terms_unacceptable\", \"inventory_constraint\" or '' @
     ''\"no_further_concession\".''"

definition quoted :: "string list \<Rightarrow> string" where
  "quoted names =
     mask_credentials (join '', '' (map (\<lambda>name. ''\"'' @ name @ ''\"'') (sort names)))"

definition is_explanation :: "json \<Rightarrow> bool" where
  "is_explanation value = (case value of JStr s \<Rightarrow> length s \<le> EXPLANATION_MAX_CHARS | _ \<Rightarrow> False)"

definition check_envelope :: "(string \<times> json) list \<Rightarrow> refusal option" where
  "check_envelope response =
     (let extra = filter (\<lambda>key. key \<notin> set ENVELOPE_FIELDS) (dict_keys response) in
      if extra \<noteq> [] then Some (Refusal EXTRA_FIELDS
        (''Your response may contain only \"decision\" and an optional \"explanation\"; remove '' @
         quoted extra @ ''.''))
      else if \<not> has_key response ''decision'' then Some (Refusal SCHEMA_ERROR
        ''Your response has no \"decision\". It must contain exactly one decision.'')
      else case map_of response ''explanation'' of
        Some v \<Rightarrow> if is_explanation v then None else Some (Refusal SCHEMA_ERROR
          (''\"explanation\" must be a string of at most '' @ dec EXPLANATION_MAX_CHARS @ '' characters.''))
      | None \<Rightarrow> None)"

definition read_amount_field :: "json \<Rightarrow> parse_result" where
  "read_amount_field value = (case value of
     JStr _ \<Rightarrow> (case parse_amount value of
         Inl _ \<Rightarrow> Inl (Refusal INVALID_AMOUNT AMOUNT_FEEDBACK)
       | Inr amount \<Rightarrow> if amount = 0
           then Inl (Refusal ZERO_AMOUNT ''\"quote_amount_minor\" must be greater than zero.'')
           else Inr (ProposedOffer amount))
   | _ \<Rightarrow> Inl (Refusal INVALID_AMOUNT AMOUNT_FEEDBACK))"

definition read_offer_hash :: "json \<Rightarrow> parse_result" where
  "read_offer_hash value = (case value of
     JStr _ \<Rightarrow> (case Digest value of
         Inl _ \<Rightarrow> Inl (Refusal INVALID_OFFER_HASH HASH_FEEDBACK)
       | Inr d \<Rightarrow> Inr (ProposedAccept d))
   | _ \<Rightarrow> Inl (Refusal INVALID_OFFER_HASH HASH_FEEDBACK))"

text \<open>\<open>close_reason_name\<close> of a code just read from the same table cannot raise.\<close>

definition read_reason :: "json \<Rightarrow> parse_result" where
  "read_reason value = (case value of
     JStr s \<Rightarrow> (case map_of CLOSE_REASON_CODES s of
         None \<Rightarrow> Inl (Refusal INVALID_REASON REASON_FEEDBACK)
       | Some c \<Rightarrow> (case close_reason_name c of
           Inr name \<Rightarrow> Inr (ProposedWalkAway name c)
         | Inl _ \<Rightarrow> Inl (Refusal INVALID_REASON REASON_FEEDBACK)))
   | _ \<Rightarrow> Inl (Refusal INVALID_REASON REASON_FEEDBACK))"

record shape =
  sh_article :: string
  sh_field :: string
  sh_read :: "json \<Rightarrow> parse_result"

definition SHAPES :: "(string \<times> shape) list" where
  "SHAPES =
     [(''offer'', \<lparr>sh_article = ''An offer'', sh_field = ''quote_amount_minor'', sh_read = read_amount_field\<rparr>),
      (''accept'', \<lparr>sh_article = ''An accept'', sh_field = ''offer_hash'', sh_read = read_offer_hash\<rparr>),
      (''walk_away'', \<lparr>sh_article = ''A walk_away'', sh_field = ''reason'', sh_read = read_reason\<rparr>)]"

definition shape_parse :: "shape \<Rightarrow> (string \<times> json) list \<Rightarrow> parse_result" where
  "shape_parse sh decision =
     (let extra = filter (\<lambda>key. key \<notin> {''action'', sh_field sh}) (dict_keys decision) in
      if extra \<noteq> [] then Inl (Refusal EXTRA_FIELDS
        (sh_article sh @ '' decision may contain only \"action\" and \"'' @ sh_field sh @
         ''\"; remove '' @ quoted extra @ ''.''))
      else case map_of decision (sh_field sh) of
        None \<Rightarrow> Inl (Refusal SCHEMA_ERROR
          (sh_article sh @ '' decision must include \"'' @ sh_field sh @ ''\".''))
      | Some v \<Rightarrow> sh_read sh v)"

definition parse_decision :: "json \<Rightarrow> parse_result" where
  "parse_decision response = (case response of
     JObj env \<Rightarrow> (case check_envelope env of
         Some r \<Rightarrow> Inl r
       | None \<Rightarrow> (case map_of env ''decision'' of
           Some (JObj decision) \<Rightarrow> (case map_of decision ''action'' of
               Some (JStr action) \<Rightarrow> (case map_of SHAPES action of
                   Some sh \<Rightarrow> shape_parse sh decision
                 | None \<Rightarrow> Inl (Refusal SCHEMA_ERROR ACTION_FEEDBACK))
             | _ \<Rightarrow> Inl (Refusal SCHEMA_ERROR ACTION_FEEDBACK))
         | _ \<Rightarrow> Inl (Refusal SCHEMA_ERROR ''\"decision\" must be a JSON object.'')))
   | _ \<Rightarrow> Inl (Refusal SCHEMA_ERROR ENVELOPE_FEEDBACK))"

subsection \<open>What parses\<close>

definition structural_codes :: "refusal_code set" where
  "structural_codes = {SCHEMA_ERROR, EXTRA_FIELDS, INVALID_AMOUNT, ZERO_AMOUNT, INVALID_OFFER_HASH,
     INVALID_REASON}"

definition well_formed_proposal :: "proposal \<Rightarrow> bool" where
  "well_formed_proposal p = (case p of
     ProposedOffer a \<Rightarrow> 1 \<le> a \<and> a \<le> UINT256_MAX
   | ProposedAccept h \<Rightarrow> is_digest h
   | ProposedWalkAway name c \<Rightarrow> close_reason_name c = Inr name)"

lemma Refusal_simps [simp]: "rf_code (Refusal c f) = c" "rf_feedback (Refusal c f) = f"
  by (simp_all add: Refusal_def)

lemma read_amount_field_Inr:
  "read_amount_field v = Inr p \<longleftrightarrow>
     (\<exists>a. parse_amount v = Inr a \<and> a \<noteq> 0 \<and> p = ProposedOffer a)"
  by (cases v; cases "parse_amount v") (auto simp: read_amount_field_def)

lemma read_offer_hash_Inr:
  "read_offer_hash v = Inr p \<longleftrightarrow> (\<exists>d. Digest v = Inr d \<and> p = ProposedAccept d)"
  by (cases v; cases "Digest v") (auto simp: read_offer_hash_def)

lemma read_reason_Inr:
  "read_reason v = Inr p \<longleftrightarrow>
     (\<exists>s c. v = JStr s \<and> close_reason_name c = Inr s \<and> p = ProposedWalkAway s c)"
proof (cases v)
  case (JStr s)
  then show ?thesis
  proof (cases "map_of CLOSE_REASON_CODES s")
    case None
    then have "close_reason_name c \<noteq> Inr s" for c using close_codes_lookup [of s c] by simp
    with None JStr show ?thesis by (simp add: read_reason_def)
  next
    case (Some c)
    then have c: "close_reason_name e = Inr s \<longleftrightarrow> e = c" for e
      using close_codes_lookup [of s e] by auto
    have "close_reason_name c = Inr s" unfolding c by (rule refl)
    with Some JStr have "read_reason v = Inr (ProposedWalkAway s c)" by (simp add: read_reason_def)
    with c JStr show ?thesis by auto
  qed
qed (auto simp: read_reason_def)

lemma map_of_SHAPES:
  "map_of SHAPES a = Some sh \<longleftrightarrow>
     (a = ''offer'' \<and> sh = \<lparr>sh_article = ''An offer'', sh_field = ''quote_amount_minor'', sh_read = read_amount_field\<rparr>)
   \<or> (a = ''accept'' \<and> sh = \<lparr>sh_article = ''An accept'', sh_field = ''offer_hash'', sh_read = read_offer_hash\<rparr>)
   \<or> (a = ''walk_away'' \<and> sh = \<lparr>sh_article = ''A walk_away'', sh_field = ''reason'', sh_read = read_reason\<rparr>)"
  by (auto simp: SHAPES_def)

lemma shape_parse_Inr:
  "shape_parse sh d = Inr p \<longleftrightarrow>
     (\<forall>k \<in> set (dict_keys d). k = ''action'' \<or> k = sh_field sh) \<and>
     (\<exists>v. map_of d (sh_field sh) = Some v \<and> sh_read sh v = Inr p)"
  by (auto simp: shape_parse_def Let_def filter_empty_conv split: option.splits)

lemma check_envelope_None:
  "check_envelope env = None \<longleftrightarrow>
     (\<forall>k \<in> set (dict_keys env). k = ''decision'' \<or> k = ''explanation'') \<and>
     (\<exists>v. map_of env ''decision'' = Some v) \<and>
     (\<forall>v. map_of env ''explanation'' = Some v \<longrightarrow> is_explanation v)"
  by (auto simp: check_envelope_def Let_def ENVELOPE_FIELDS_def has_key_def filter_empty_conv
      split: option.splits if_splits)

text \<open>The structure a response must have, stated over the response alone.\<close>

definition decision_fields :: "(string \<times> json) list \<Rightarrow> string \<Rightarrow> string \<Rightarrow> (json \<Rightarrow> bool) \<Rightarrow> bool" where
  "decision_fields d action field good \<longleftrightarrow>
     map_of d ''action'' = Some (JStr action) \<and> set (dict_keys d) \<subseteq> {''action'', field} \<and>
     (\<exists>v. map_of d field = Some v \<and> good v)"

definition conforms :: "json \<Rightarrow> proposal \<Rightarrow> bool" where
  "conforms response p \<longleftrightarrow> (\<exists>env d.
     response = JObj env \<and> set (dict_keys env) \<subseteq> {''decision'', ''explanation''} \<and>
     (\<forall>v. map_of env ''explanation'' = Some v \<longrightarrow> (\<exists>s. v = JStr s \<and> length s \<le> EXPLANATION_MAX_CHARS)) \<and>
     map_of env ''decision'' = Some (JObj d) \<and>
     (case p of
        ProposedOffer a \<Rightarrow> 1 \<le> a \<and> a \<le> UINT256_MAX \<and>
          decision_fields d ''offer'' ''quote_amount_minor'' (\<lambda>v. v = JStr (int_str a))
      | ProposedAccept h \<Rightarrow> decision_fields d ''accept'' ''offer_hash'' (\<lambda>v. Digest v = Inr h)
      | ProposedWalkAway r c \<Rightarrow> close_reason_name c = Inr r \<and>
          decision_fields d ''walk_away'' ''reason'' (\<lambda>v. v = JStr r)))"

lemma amount_spelling:
  "(parse_amount v = Inr a \<and> a \<noteq> 0) \<longleftrightarrow> (1 \<le> a \<and> a \<le> UINT256_MAX \<and> v = JStr (int_str a))"
  using parse_amount_of_str [of a] parse_amount_canonical [of v a] parse_amount_Inr [of v a]
  by (auto simp: is_amount_def)

lemma read_field_Inr:
  "read_amount_field v = Inr p \<longleftrightarrow>
     (\<exists>a. p = ProposedOffer a \<and> 1 \<le> a \<and> a \<le> UINT256_MAX \<and> v = JStr (int_str a))"
  "read_offer_hash v = Inr p \<longleftrightarrow> (\<exists>h. p = ProposedAccept h \<and> Digest v = Inr h)"
  "read_reason v = Inr p \<longleftrightarrow> (\<exists>r c. p = ProposedWalkAway r c \<and> close_reason_name c = Inr r \<and> v = JStr r)"
  using amount_spelling [of v] by (auto simp: read_amount_field_Inr read_offer_hash_Inr read_reason_Inr)

lemma shaped_decision:
  "(\<exists>a sh. map_of d ''action'' = Some (JStr a) \<and> map_of SHAPES a = Some sh \<and> shape_parse sh d = Inr p) \<longleftrightarrow>
     decision_fields d ''offer'' ''quote_amount_minor'' (\<lambda>v. read_amount_field v = Inr p) \<or>
     decision_fields d ''accept'' ''offer_hash'' (\<lambda>v. read_offer_hash v = Inr p) \<or>
     decision_fields d ''walk_away'' ''reason'' (\<lambda>v. read_reason v = Inr p)"
proof -
  have s: "map_of d ''action'' = Some (JStr act) \<and> shape_parse \<lparr>sh_article = art, sh_field = f, sh_read = rd\<rparr> d = Inr p
      \<longleftrightarrow> decision_fields d act f (\<lambda>v. rd v = Inr p)" for act art f rd
    unfolding shape_parse_Inr decision_fields_def shape.simps by blast
  show ?thesis
    unfolding map_of_SHAPES
      s [of "''offer''" "''An offer''" "''quote_amount_minor''" read_amount_field, symmetric]
      s [of "''accept''" "''An accept''" "''offer_hash''" read_offer_hash, symmetric]
      s [of "''walk_away''" "''A walk_away''" "''reason''" read_reason, symmetric]
    by blast
qed

lemma decision_fields_conj:
  "decision_fields d a f (\<lambda>v. P \<and> Q v) \<longleftrightarrow> P \<and> decision_fields d a f Q"
  "\<not> decision_fields d a f (\<lambda>v. False)"
  by (auto simp: decision_fields_def)

lemma is_explanation_iff: "is_explanation v \<longleftrightarrow> (\<exists>s. v = JStr s \<and> length s \<le> EXPLANATION_MAX_CHARS)"
  by (cases v) (auto simp: is_explanation_def)

lemma parse_decision_stages:
  "parse_decision r = Inr p \<longleftrightarrow> (\<exists>env d. r = JObj env \<and> check_envelope env = None \<and>
     map_of env ''decision'' = Some (JObj d) \<and>
     (\<exists>a sh. map_of d ''action'' = Some (JStr a) \<and> map_of SHAPES a = Some sh \<and> shape_parse sh d = Inr p))"
  by (auto simp: parse_decision_def split: json.splits option.splits)

lemma parse_decision_Inr: "parse_decision r = Inr p \<longleftrightarrow> conforms r p"
  unfolding parse_decision_stages shaped_decision check_envelope_None conforms_def
  by (cases p) (auto simp: read_field_Inr decision_fields_conj is_explanation_iff subset_iff)

lemma read_well_formed:
  "read_amount_field v = Inr p \<Longrightarrow> well_formed_proposal p"
  "read_offer_hash v = Inr p \<Longrightarrow> well_formed_proposal p"
  "read_reason v = Inr p \<Longrightarrow> well_formed_proposal p"
  by (auto simp: read_amount_field_Inr read_offer_hash_Inr read_reason_Inr well_formed_proposal_def
      parse_amount_Inr is_amount_def Digest_Inr_is_digest)

lemma conforms_well_formed: "conforms r p \<Longrightarrow> well_formed_proposal p"
  by (cases p) (auto simp: conforms_def well_formed_proposal_def decision_fields_def dest: Digest_Inr_is_digest)

lemma check_envelope_code: "check_envelope env = Some f \<Longrightarrow> rf_code f \<in> structural_codes"
  by (auto simp: check_envelope_def Let_def structural_codes_def split: if_splits option.splits)

lemma read_code:
  "read_amount_field v = Inl f \<Longrightarrow> rf_code f \<in> structural_codes"
  "read_offer_hash v = Inl f \<Longrightarrow> rf_code f \<in> structural_codes"
  "read_reason v = Inl f \<Longrightarrow> rf_code f \<in> structural_codes"
  by (auto simp: read_amount_field_def read_offer_hash_def read_reason_def structural_codes_def
      split: json.splits sum.splits option.splits if_splits)

lemma shape_parse_code:
  assumes "map_of SHAPES a = Some sh" and "shape_parse sh d = Inl f"
  shows "rf_code f \<in> structural_codes"
proof -
  from assms(1) have "sh_read sh v = Inl g \<Longrightarrow> rf_code g \<in> structural_codes" for v g
    by (auto simp: map_of_SHAPES dest: read_code)
  with assms(2) show ?thesis
    by (auto simp: shape_parse_def Let_def structural_codes_def split: if_splits option.splits)
qed

lemma parse_decision_Inl: "parse_decision r = Inl f \<Longrightarrow> rf_code f \<in> structural_codes"
  unfolding parse_decision_def
  by (auto split: json.splits option.splits dest: check_envelope_code shape_parse_code
      simp: structural_codes_def [THEN eqset_imp_iff])

text \<open>The three responses a policy writes by hand.\<close>

definition offer_response :: "int \<Rightarrow> json" where
  "offer_response a =
     JObj [(''action'', JStr ''offer''), (''quote_amount_minor'', JStr (int_str a))]"

definition accept_response :: "string \<Rightarrow> json" where
  "accept_response h = JObj [(''action'', JStr ''accept''), (''offer_hash'', JStr h)]"

definition walk_away_response :: "string \<Rightarrow> json" where
  "walk_away_response r = JObj [(''action'', JStr ''walk_away''), (''reason'', JStr r)]"

definition envelope :: "json \<Rightarrow> json" where
  "envelope d = JObj [(''decision'', d)]"

lemmas response_defs = envelope_def offer_response_def accept_response_def walk_away_response_def

lemma parse_envelope:
  "parse_decision (envelope (JObj d)) = (case map_of d ''action'' of
     Some (JStr a) \<Rightarrow> (case map_of SHAPES a of Some sh \<Rightarrow> shape_parse sh d
       | None \<Rightarrow> Inl (Refusal SCHEMA_ERROR ACTION_FEEDBACK))
   | _ \<Rightarrow> Inl (Refusal SCHEMA_ERROR ACTION_FEEDBACK))"
  by (simp add: envelope_def parse_decision_def check_envelope_def ENVELOPE_FIELDS_def dict_keys_def
      has_key_def)

lemma parse_offer_response:
  "is_amount a \<Longrightarrow> a \<noteq> 0 \<Longrightarrow> parse_decision (envelope (offer_response a)) = Inr (ProposedOffer a)"
  by (simp add: offer_response_def parse_envelope SHAPES_def shape_parse_def dict_keys_def
      read_amount_field_def parse_amount_of_str)

lemma parse_accept_response:
  "is_digest h \<Longrightarrow> parse_decision (envelope (accept_response h)) = Inr (ProposedAccept h)"
  by (simp add: accept_response_def parse_envelope SHAPES_def shape_parse_def dict_keys_def
      read_offer_hash_def Digest_fixed)

lemma parse_walk_away_response:
  "close_reason_name c = Inr r \<Longrightarrow>
     parse_decision (envelope (walk_away_response r)) = Inr (ProposedWalkAway r c)"
  by (simp add: walk_away_response_def parse_envelope SHAPES_def shape_parse_def dict_keys_def
      read_reason_Inr)

end
