(* ===== verification/Mandate_Validator.thy ===== *)
theory Mandate_Validator
  imports Observation Decision_Structure
begin

section \<open>The mandate validator: the complete trade, checked before anything is signed\<close>

text \<open>
  services/agent/src/agent/validation/mandate.py: the second half of validation. Each
  \<open>refuse_*\<close> function is one rule, \<open>or_else\<close> is the code's chain of \<open>or\<close>, and
  \<open>validate\<close> is \<open>MandateValidator.validate\<close>. The one rule that can raise is the turn order,
  which narrows a history actor to a role.
\<close>

record validation =
  vd_decision :: "valid_decision option"
  vd_code :: "refusal_code option"
  vd_feedback :: "string option"

definition validation_ok :: "validation \<Rightarrow> bool" where
  "validation_ok v \<longleftrightarrow> vd_decision v \<noteq> None"

definition accepted :: "valid_decision \<Rightarrow> validation" where
  "accepted d = \<lparr>vd_decision = Some d, vd_code = None, vd_feedback = None\<rparr>"

definition refused :: "refusal \<Rightarrow> validation" where
  "refused r = \<lparr>vd_decision = None, vd_code = Some (rf_code r), vd_feedback = Some (rf_feedback r)\<rparr>"

subsection \<open>Protocol legality\<close>

definition refuse_out_of_turn :: "observation \<Rightarrow> view_error + refusal option" where
  "refuse_out_of_turn ob = result_bind (next_proposer ob) (\<lambda>np.
     Inr (if np = ob_role ob then None else Some (Refusal NOT_YOUR_TURN
       (''It is not your turn to offer: the next offer belongs to the '' @ role_str np @ ''.''))))"

definition refuse_past_offer_limit :: "observation \<Rightarrow> refusal option" where
  "refuse_past_offer_limit ob =
     (let session_open = (offers_recorded ob < sv_max_offers (ob_session ob)) in
      if ob_offers_remaining_for_me ob > 0 \<and> session_open then None
      else Some (Refusal OFFER_LIMIT_REACHED
        (''You have no offers left in this session. '' @
         ''You may accept the active offer or walk away.'')))"

definition refuse_own_offer :: "observation \<Rightarrow> active_offer \<Rightarrow> refusal option" where
  "refuse_own_offer ob active =
     (if ao_proposer active \<noteq> ob_role ob then None
      else Some (Refusal SELF_ACCEPTANCE ''The active offer is your own; you cannot accept it.''))"

definition refuse_stale_hash :: "string \<Rightarrow> active_offer \<Rightarrow> refusal option" where
  "refuse_stale_hash offer_hash active =
     (if offer_hash = ao_offer_hash active then None
      else Some (Refusal STALE_OFFER_HASH
        (''\"offer_hash\" is not the active offer. The active offer is '' @ ao_offer_hash active @ ''.'')))"

definition refuse_expired :: "observation \<Rightarrow> active_offer \<Rightarrow> refusal option" where
  "refuse_expired ob active =
     (if ob_chain_time ob < ao_valid_until active then None
      else Some (Refusal OFFER_EXPIRED
        (''The active offer expired at chain time '' @ int_str (ao_valid_until active) @
         '' and the chain time is now '' @ int_str (ob_chain_time ob) @
         ''; it can no longer be accepted.'')))"

subsection \<open>The mandate and the holdings\<close>

definition refuse_outside_reservation :: "observation \<Rightarrow> int \<Rightarrow> string \<Rightarrow> refusal option" where
  "refuse_outside_reservation ob amount subject =
     (let bound = reservation_price (ob_mandate ob) in
      if ob_role ob = Buyer then
        (if amount \<le> bound then None
         else Some (Refusal ABOVE_RESERVATION
           (subject @ '' of '' @ int_str amount @ '' is above your reservation price of '' @
            int_str bound @ ''. As the buyer you may not pay more than that.'')))
      else if amount \<ge> bound then None
      else Some (Refusal BELOW_RESERVATION
        (subject @ '' of '' @ int_str amount @ '' is below your reservation price of '' @
         int_str bound @ ''. As the seller you may not accept less than that.'')))"

definition refuse_unaffordable :: "observation \<Rightarrow> int \<Rightarrow> refusal option" where
  "refuse_unaffordable ob amount =
     (let b = ob_my_balances ob; base_amount = sv_base_amount (ob_session ob) in
      if ob_role ob = Buyer then
        (if bal_quote b \<ge> amount then None
         else Some (Refusal INSUFFICIENT_BALANCE
           (''This trade would pay '' @ int_str amount @
            '' of the quote token, but your quote balance is only '' @ int_str (bal_quote b) @ ''.'')))
      else if bal_base b \<ge> base_amount then None
      else Some (Refusal INSUFFICIENT_BALANCE
        (''This trade would deliver '' @ int_str base_amount @
         '' of the base token, but your base balance is only '' @ int_str (bal_base b) @ ''.'')))"

definition refuse_below_inventory_floor :: "observation \<Rightarrow> int \<Rightarrow> refusal option" where
  "refuse_below_inventory_floor ob amount =
     (let (token, after) =
        (if ob_role ob = Buyer then (''quote'', bal_quote (ob_my_balances ob) - amount)
         else (''base'', bal_base (ob_my_balances ob) - sv_base_amount (ob_session ob)));
        floor = min_remaining_inventory (ob_mandate ob) in
      if after \<ge> floor then None
      else Some (Refusal INVENTORY_FLOOR
        (''This trade would leave you '' @ int_str after @ '' of the '' @ token @
         '' token, below your minimum remaining inventory of '' @ int_str floor @ ''.'')))"

subsection \<open>The validator\<close>

definition validate_offer :: "int \<Rightarrow> observation \<Rightarrow> view_error + validation" where
  "validate_offer amount ob = result_bind (refuse_out_of_turn ob) (\<lambda>out_of_turn.
     let refusal = or_else out_of_turn
         (or_else (refuse_past_offer_limit ob)
         (or_else (refuse_outside_reservation ob amount ''Your offer'')
         (or_else (refuse_unaffordable ob amount)
                  (refuse_below_inventory_floor ob amount)))) in
     Inr (case refusal of Some r \<Rightarrow> refused r | None \<Rightarrow> accepted (ValidOffer amount)))"

definition validate_accept :: "string \<Rightarrow> observation \<Rightarrow> validation" where
  "validate_accept offer_hash ob = (case ob_active_offer ob of
     None \<Rightarrow> refused (Refusal NO_ACTIVE_OFFER ''There is no active offer to accept.'')
   | Some active \<Rightarrow>
       (let refusal = or_else (refuse_own_offer ob active)
           (or_else (refuse_stale_hash offer_hash active)
           (or_else (refuse_expired ob active)
           (or_else (refuse_outside_reservation ob (ao_quote_amount active) ''The active offer'')
           (or_else (refuse_unaffordable ob (ao_quote_amount active))
                    (refuse_below_inventory_floor ob (ao_quote_amount active)))))) in
        case refusal of Some r \<Rightarrow> refused r | None \<Rightarrow> accepted (ValidAccept (ao_offer_hash active))))"

definition validate :: "json \<Rightarrow> observation \<Rightarrow> view_error + validation" where
  "validate response ob = (case parse_decision response of
     Inl r \<Rightarrow> Inr (refused r)
   | Inr (ProposedOffer amount) \<Rightarrow> validate_offer amount ob
   | Inr (ProposedAccept h) \<Rightarrow> Inr (validate_accept h ob)
   | Inr (ProposedWalkAway reason c) \<Rightarrow> Inr (accepted (ValidWalkAway reason c)))"

subsection \<open>The contract: which trades a mandate allows\<close>

text \<open>
  The specification the validator is held to, stated without its rules: what settling at a
  quote amount does to this party's holdings, and what its mandate says of the outcome.
\<close>

definition pays_quote :: "observation \<Rightarrow> int \<Rightarrow> int" where
  "pays_quote ob amount = (if ob_role ob = Buyer then amount else 0)"

definition delivers_base :: "observation \<Rightarrow> int" where
  "delivers_base ob = (if ob_role ob = Seller then sv_base_amount (ob_session ob) else 0)"

definition trade_within_mandate :: "observation \<Rightarrow> int \<Rightarrow> bool" where
  "trade_within_mandate ob amount \<longleftrightarrow>
     (let quote_after = bal_quote (ob_my_balances ob) - pays_quote ob amount;
          base_after = bal_base (ob_my_balances ob) - delivers_base ob;
          floor = min_remaining_inventory (ob_mandate ob);
          bound = reservation_price (ob_mandate ob) in
      case ob_role ob of
        Buyer \<Rightarrow> amount \<le> bound \<and> 0 \<le> quote_after \<and> floor \<le> quote_after
      | Seller \<Rightarrow> bound \<le> amount \<and> 0 \<le> base_after \<and> floor \<le> base_after)"

definition may_offer :: "observation \<Rightarrow> bool" where
  "may_offer ob \<longleftrightarrow> next_proposer ob = Inr (ob_role ob) \<and> 0 < ob_offers_remaining_for_me ob
     \<and> offers_recorded ob < sv_max_offers (ob_session ob)"

definition may_accept :: "observation \<Rightarrow> active_offer \<Rightarrow> bool" where
  "may_accept ob a \<longleftrightarrow> ob_active_offer ob = Some a \<and> ao_proposer a = counterparty (ob_role ob)
     \<and> ob_chain_time ob < ao_valid_until a"

definition legal_decision :: "observation \<Rightarrow> valid_decision \<Rightarrow> bool" where
  "legal_decision ob d = (case d of
     ValidOffer amount \<Rightarrow> may_offer ob \<and> 1 \<le> amount \<and> amount \<le> UINT256_MAX
       \<and> trade_within_mandate ob amount
   | ValidAccept h \<Rightarrow> (\<exists>a. may_accept ob a \<and> ao_offer_hash a = h
       \<and> trade_within_mandate ob (ao_quote_amount a))
   | ValidWalkAway reason c \<Rightarrow> close_reason_name c = Inr reason)"

text \<open>The decision a proposal becomes when nothing refuses it: the same values, unaltered.\<close>

definition as_decided :: "proposal \<Rightarrow> valid_decision" where
  "as_decided p = (case p of
     ProposedOffer a \<Rightarrow> ValidOffer a
   | ProposedAccept h \<Rightarrow> ValidAccept h
   | ProposedWalkAway r c \<Rightarrow> ValidWalkAway r c)"

subsection \<open>Rules\<close>

lemmas refuse_defs = refuse_past_offer_limit_def refuse_own_offer_def refuse_stale_hash_def
  refuse_expired_def refuse_outside_reservation_def refuse_unaffordable_def
  refuse_below_inventory_floor_def

lemma accepted_refused [simp]:
  "vd_decision (accepted d) = Some d" "vd_code (accepted d) = None" "vd_feedback (accepted d) = None"
  "vd_decision (refused r) = None" "vd_code (refused r) = Some (rf_code r)"
  "vd_feedback (refused r) = Some (rf_feedback r)"
  "validation_ok (accepted d)" "\<not> validation_ok (refused r)"
  "accepted d = accepted e \<longleftrightarrow> d = e" "accepted d \<noteq> refused r" "refused r \<noteq> accepted d"
  by (simp_all add: accepted_def refused_def validation_ok_def)

lemma refuse_out_of_turn_Inr:
  "refuse_out_of_turn ob = Inr None \<longleftrightarrow> next_proposer ob = Inr (ob_role ob)"
  by (cases "next_proposer ob") (auto simp: refuse_out_of_turn_def)

lemma mandate_rules_None:
  "or_else (refuse_outside_reservation ob amount subject)
     (or_else (refuse_unaffordable ob amount) (refuse_below_inventory_floor ob amount)) = None
   \<longleftrightarrow> trade_within_mandate ob amount"
  by (cases "ob_role ob") (auto simp: refuse_defs trade_within_mandate_def pays_quote_def
      delivers_base_def Let_def split: if_splits)

lemma refuse_past_offer_limit_None:
  "refuse_past_offer_limit ob = None \<longleftrightarrow>
     0 < ob_offers_remaining_for_me ob \<and> offers_recorded ob < sv_max_offers (ob_session ob)"
  by (auto simp: refuse_past_offer_limit_def)

lemma validate_offer_accepted:
  "validate_offer amount ob = Inr (accepted d) \<longleftrightarrow>
     may_offer ob \<and> trade_within_mandate ob amount \<and> d = ValidOffer amount"
proof -
  have "validate_offer amount ob = Inr (accepted d) \<longleftrightarrow>
      refuse_out_of_turn ob = Inr None \<and> refuse_past_offer_limit ob = None \<and>
      or_else (refuse_outside_reservation ob amount ''Your offer'')
        (or_else (refuse_unaffordable ob amount) (refuse_below_inventory_floor ob amount)) = None \<and>
      d = ValidOffer amount"
    by (auto simp: validate_offer_def result_simps split: option.splits)
  then show ?thesis
    by (simp only: refuse_out_of_turn_Inr refuse_past_offer_limit_None mandate_rules_None may_offer_def
        conj_assoc)
qed

lemma validate_accept_accepted:
  "validate_accept h ob = accepted d \<longleftrightarrow>
     (\<exists>a. may_accept ob a \<and> ao_offer_hash a = h \<and> trade_within_mandate ob (ao_quote_amount a)
        \<and> d = ValidAccept h)"
proof (cases "ob_active_offer ob")
  case None
  then show ?thesis by (simp add: validate_accept_def may_accept_def)
next
  case (Some a)
  have "validate_accept h ob = accepted d \<longleftrightarrow>
      refuse_own_offer ob a = None \<and> refuse_stale_hash h a = None \<and> refuse_expired ob a = None \<and>
      or_else (refuse_outside_reservation ob (ao_quote_amount a) ''The active offer'')
        (or_else (refuse_unaffordable ob (ao_quote_amount a))
          (refuse_below_inventory_floor ob (ao_quote_amount a))) = None \<and>
      d = ValidAccept (ao_offer_hash a)"
    using Some by (auto simp: validate_accept_def split: option.splits)
  also have "\<dots> \<longleftrightarrow> ao_proposer a \<noteq> ob_role ob \<and> h = ao_offer_hash a \<and>
      ob_chain_time ob < ao_valid_until a \<and> trade_within_mandate ob (ao_quote_amount a) \<and>
      d = ValidAccept (ao_offer_hash a)"
    unfolding mandate_rules_None
    by (auto simp: refuse_own_offer_def refuse_stale_hash_def refuse_expired_def)
  finally show ?thesis using Some
    by (cases "ao_proposer a"; cases "ob_role ob") (auto simp: may_accept_def)
qed

text \<open>Accepted exactly when the response parses and the decision is legal; never altered.\<close>

lemma validate_accepted:
  "validate response ob = Inr (accepted d) \<longleftrightarrow>
     (\<exists>p. parse_decision response = Inr p \<and> d = as_decided p \<and> legal_decision ob d)"
proof (cases "parse_decision response")
  case (Inl r)
  then show ?thesis by (simp add: validate_def)
next
  case (Inr p)
  then have "well_formed_proposal p" by (simp add: parse_decision_Inr conforms_well_formed)
  with Inr show ?thesis
    by (cases p) (auto simp: validate_def as_decided_def validate_offer_accepted
        validate_accept_accepted legal_decision_def well_formed_proposal_def)
qed

definition settled_shape :: "validation \<Rightarrow> bool" where
  "settled_shape v \<longleftrightarrow> (\<exists>d. v = accepted d) \<or> (\<exists>r. v = refused r)"

lemma settled_shapeI [intro]:
  "settled_shape (accepted d)" "settled_shape (refused r)"
  "settled_shape (case x of Some r \<Rightarrow> refused r | None \<Rightarrow> accepted d)"
  by (auto simp: settled_shape_def split: option.splits)

lemma validate_offer_settled: "validate_offer amount ob = Inr v \<Longrightarrow> settled_shape v"
  unfolding validate_offer_def Let_def by (clarsimp simp only: result_bind_Inr sum.inject) blast

lemma validate_accept_settled: "settled_shape (validate_accept h ob)"
  unfolding validate_accept_def Let_def by (cases "ob_active_offer ob") (simp_all only: option.case settled_shapeI)

lemma validate_settled: "validate response ob = Inr v \<Longrightarrow> settled_shape v"
  unfolding validate_def
  by (auto split: sum.splits proposal.splits dest: validate_offer_settled intro: validate_accept_settled)

lemma validate_shape:
  "validate response ob = Inr v \<Longrightarrow> (\<exists>d. v = accepted d) \<or> (\<exists>r. v = refused r)"
  using validate_settled by (simp add: settled_shape_def)

lemma validate_ok:
  "validate response ob = Inr v \<Longrightarrow> validation_ok v \<longleftrightarrow> (\<exists>d. v = accepted d)"
  by (auto dest: validate_shape)

lemma validate_decision:
  "validate response ob = Inr v \<Longrightarrow> vd_decision v = Some d \<Longrightarrow> v = accepted d"
  by (auto dest: validate_shape)

lemma validate_legal:
  "validate response ob = Inr v \<Longrightarrow> vd_decision v = Some d \<Longrightarrow> legal_decision ob d"
  using validate_decision validate_accepted by metis

end
