(* ===== verification/Signing.thy ===== *)
theory Signing
  imports Setup_Approval Mandate_Validator
begin

section \<open>The typed-message signer\<close>

text \<open>
  services/agent/src/agent/signing/messages.py: a message is built from the approved session,
  the validated decision, the observation's sequence and chain time and the run's own signer,
  and from nothing else. A \<open>valid_decision\<close> is one of the three types the code tests with
  \<open>isinstance\<close>, so its final \<open>TypeError\<close> has no value to be raised on. A
  \<open>ProtocolValueError\<close> of a digest leaves the service as an unhandled error.
\<close>

datatype action_kind = OfferAction | AcceptAction | CloseAction

definition kind_str :: "action_kind \<Rightarrow> string" where
  "kind_str k = (case k of OfferAction \<Rightarrow> ''offer'' | AcceptAction \<Rightarrow> ''accept'' | CloseAction \<Rightarrow> ''close'')"

type_synonym typed_message = "(string \<times> json) list"

record signed_action =
  sg_kind :: action_kind
  sg_typed_message :: typed_message
  sg_digest :: string
  sg_signature :: string
  sg_signer :: string

definition signed_to_json :: "signed_action \<Rightarrow> json" where
  "signed_to_json a = JObj
     [(''kind'', JStr (kind_str (sg_kind a))),
      (''typed_message'', JObj (sg_typed_message a)),
      (''digest'', JStr (sg_digest a)),
      (''signature'', JStr (sg_signature a)),
      (''signer'', JStr (sg_signer a))]"

definition signable_session ::
  "approved_session option \<Rightarrow> int \<Rightarrow> run_signer \<Rightarrow> agent_error + approved_session" where
  "signable_session approval chain_time signer = (case approval of
     None \<Rightarrow> Inl (InvalidState ''provisioned'' [''approved''])
   | Some a \<Rightarrow>
       if chain_time \<ge> ap_expires_at a
       then Inl (InvalidState ''session_deadline_passed'' [''approved''])
       else let r = kd_role (rs_derivation signer) in
         if party a r \<noteq> rs_address signer
         then Inl (SessionMismatch [(role_str r, (JStr (rs_address signer), JStr (party a r)))])
         else Inr a)"

definition offer_valid_until :: "approved_session \<Rightarrow> int \<Rightarrow> int" where
  "offer_valid_until s chain_time = min (chain_time + ap_offer_lifetime_s s) (ap_expires_at s)"

definition build_message ::
  "valid_decision \<Rightarrow> approved_session \<Rightarrow> int \<Rightarrow> int \<Rightarrow> run_signer
     \<Rightarrow> action_kind \<times> message \<times> typed_message" where
  "build_message decision session seq chain_time signer =
     (let session_id = digest_to_bytes (ap_session_id session);
          config = digest_to_bytes (ap_config_hash session);
          me = rs_address signer;
          bound = [(''sessionId'', JStr (ap_session_id session)),
                   (''configHash'', JStr (ap_config_hash session)),
                   (''sequence'', JInt seq)]
      in case decision of
        ValidOffer amount \<Rightarrow>
          (let valid_until = offer_valid_until session chain_time in
           (OfferAction,
            MOffer \<lparr>of_session_id = session_id, of_config_hash = config, of_sequence = seq,
              of_proposer = me, of_quote_amount = amount, of_valid_until = valid_until\<rparr>,
            bound @ [(''proposer'', JStr me), (''quoteAmount'', JStr (int_str amount)),
              (''validUntil'', JInt valid_until)]))
      | ValidAccept h \<Rightarrow>
          (let offer_hash = digest_to_bytes h in
           (AcceptAction,
            MAccept \<lparr>ac_session_id = session_id, ac_config_hash = config, ac_sequence = seq,
              ac_actor = me, ac_offer_hash = offer_hash\<rparr>,
            bound @ [(''actor'', JStr me), (''offerHash'', JStr (''0x'' @ to_hex offer_hash))]))
      | ValidWalkAway reason c \<Rightarrow>
          (CloseAction,
           MClose \<lparr>cl_session_id = session_id, cl_config_hash = config, cl_sequence = seq,
             cl_actor = me, cl_reason = c\<rparr>,
           bound @ [(''actor'', JStr me), (''reason'', JInt c)]))"

definition sign_decision ::
  "('a) eth_lib_scheme \<Rightarrow> valid_decision \<Rightarrow> approved_session option \<Rightarrow> int \<Rightarrow> int \<Rightarrow> run_signer
     \<Rightarrow> agent_error + signed_action" where
  "sign_decision L decision approval seq chain_time signer =
     result_bind (signable_session approval chain_time signer) (\<lambda>session.
       let (kind, msg, typed) = build_message decision session seq chain_time signer in
       case digest L (approved_domain session) msg of
         Inl _ \<Rightarrow> Inl Unhandled
       | Inr dig \<Rightarrow> Inr
           \<lparr>sg_kind = kind,
            sg_typed_message = typed,
            sg_digest = ''0x'' @ to_hex dig,
            sg_signature = ''0x'' @ to_hex (rs_sign_digest signer dig),
            sg_signer = rs_address signer\<rparr>)"

subsection \<open>What is signed\<close>

definition message_session :: "message \<Rightarrow> bytes \<times> bytes \<times> int" where
  "message_session m = (case m of
     MOffer x \<Rightarrow> (of_session_id x, of_config_hash x, of_sequence x)
   | MAccept x \<Rightarrow> (ac_session_id x, ac_config_hash x, ac_sequence x)
   | MClose x \<Rightarrow> (cl_session_id x, cl_config_hash x, cl_sequence x))"

definition message_actor :: "message \<Rightarrow> string" where
  "message_actor m = (case m of MOffer x \<Rightarrow> of_proposer x | MAccept x \<Rightarrow> ac_actor x | MClose x \<Rightarrow> cl_actor x)"

lemma signable_session_Inr:
  "signable_session approval t signer = Inr s \<longleftrightarrow> approval = Some s \<and> t < ap_expires_at s \<and>
     party s (kd_role (rs_derivation signer)) = rs_address signer"
  by (auto simp: signable_session_def Let_def split: option.splits if_splits)

lemma build_message_bound:
  "build_message d s seq t signer = (kind, msg, typed) \<Longrightarrow>
     message_session msg = (digest_to_bytes (ap_session_id s), digest_to_bytes (ap_config_hash s), seq) \<and>
     message_actor msg = rs_address signer"
  by (auto simp: build_message_def Let_def message_session_def message_actor_def
      split: valid_decision.splits)

lemma sign_decision_Inr:
  "sign_decision L d approval seq t signer = Inr a \<longleftrightarrow>
     (\<exists>s kind msg typed dig. approval = Some s \<and> t < ap_expires_at s \<and>
        party s (kd_role (rs_derivation signer)) = rs_address signer \<and>
        build_message d s seq t signer = (kind, msg, typed) \<and>
        digest L (approved_domain s) msg = Inr dig \<and>
        a = \<lparr>sg_kind = kind, sg_typed_message = typed, sg_digest = ''0x'' @ to_hex dig,
             sg_signature = ''0x'' @ to_hex (rs_sign_digest signer dig), sg_signer = rs_address signer\<rparr>)"
proof (cases "signable_session approval t signer")
  case (Inl e)
  then have "\<not> (approval = Some s \<and> t < ap_expires_at s \<and>
      party s (kd_role (rs_derivation signer)) = rs_address signer)" for s
    using signable_session_Inr [of approval t signer s] by auto
  with Inl show ?thesis by (auto simp: sign_decision_def)
next
  case (Inr s)
  then have s: "approval = Some s \<and> t < ap_expires_at s \<and>
      party s (kd_role (rs_derivation signer)) = rs_address signer"
    using signable_session_Inr by blast
  with Inr have i: "signable_session (Some s) t signer = Inr s" by simp
  obtain kind msg typed where b: "build_message d s seq t signer = (kind, msg, typed)"
    by (cases "build_message d s seq t signer") auto
  show ?thesis
    by (cases "digest L (approved_domain s) msg") (auto simp: sign_decision_def i b s)
qed

text \<open>A digest can always be made of values the value objects admit.\<close>

definition signable_values :: "approved_session \<Rightarrow> int \<Rightarrow> int \<Rightarrow> valid_decision \<Rightarrow> bool" where
  "signable_values s seq t d \<longleftrightarrow>
     is_digest (ap_session_id s) \<and> is_digest (ap_config_hash s) \<and> is_sequence seq \<and>
     0 \<le> ap_chain_id s \<and> ap_chain_id s \<le> UINT256_MAX \<and>
     (case d of
        ValidOffer amount \<Rightarrow> is_amount amount \<and> 0 \<le> offer_valid_until s t \<and>
          offer_valid_until s t \<le> UINT64_MAX
      | ValidAccept h \<Rightarrow> is_digest h
      | ValidWalkAway r c \<Rightarrow> 1 \<le> c \<and> c \<le> 3)"

lemma separator_total:
  "0 \<le> chain_id d \<Longrightarrow> chain_id d \<le> UINT256_MAX \<Longrightarrow> \<exists>sep. separator L d = Inr sep"
  by (simp add: separator_def keccak_args_Inr domain_args_Inr UINT256_MAX_def)

lemma approved_domain_simps [simp]:
  "chain_id (approved_domain s) = ap_chain_id s"
  "verifying_contract (approved_domain s) = ap_exchange_address s"
  by (simp_all add: approved_domain_def Domain_def)

lemma build_message_args:
  assumes "signable_values s seq t d" and "build_message d s seq t signer = (kind, msg, typed)"
  shows "\<exists>as. all_results (message_args L msg) = Inr as"
proof -
  have len: "is_digest x \<Longrightarrow> length (digest_to_bytes x) = 32" for x
    using is_digest_bytes by blast
  show ?thesis using assms
    by (cases d) (auto simp: build_message_def Let_def message_args_def all_results_Inr args_defs
        arg_results list_all2_Cons1 signable_values_def len is_sequence_def is_amount_def
        UINT64_MAX_def UINT256_MAX_def)
qed

lemma sign_decision_total:
  assumes "eth_lib_ok L" and "signable_values s seq t d" and "t < ap_expires_at s"
    and "party s (kd_role (rs_derivation signer)) = rs_address signer"
  shows "\<exists>a. sign_decision L d (Some s) seq t signer = Inr a"
proof -
  obtain kind msg typed where b: "build_message d s seq t signer = (kind, msg, typed)"
    by (cases "build_message d s seq t signer") auto
  obtain as where as: "all_results (message_args L msg) = Inr as"
    using build_message_args [OF assms(2) b] by blast
  obtain sep where sep: "separator L (approved_domain s) = Inr sep"
    using separator_total [of "approved_domain s"] assms(2) by (auto simp: signable_values_def)
  have "digest L (approved_domain s) msg
      = Inr (keccak L ([0x19, 0x01] @ sep @ keccak L (abi_encode L as)))"
    by (simp add: digest_Inr sep struct_hash_args keccak_args_Inr as eth_lib_okD(1) [OF assms(1)])
  with b assms(3,4) show ?thesis unfolding sign_decision_Inr by blast
qed

end
