(* ===== verification/Deterministic_Policy.thy ===== *)
theory Deterministic_Policy
  imports Mandate_Validator
begin

section \<open>The deterministic baseline policy\<close>

text \<open>
  services/agent/src/agent/policy/deterministic.py: the linear-concession schedule in exact
  integers and the choice of a move. \<open>ValueError\<close> of \<open>concession_price\<close> and of a history
  actor that is no role are \<open>ViewValueError\<close>.
\<close>

definition opportunities :: "role \<Rightarrow> int \<Rightarrow> int" where
  "opportunities r max_offers = (if r = Buyer then (max_offers + 1) div 2 else max_offers div 2)"

definition concession_price :: "role \<Rightarrow> int \<Rightarrow> int \<Rightarrow> int \<Rightarrow> view_error + int" where
  "concession_price r bound k n =
     (if n < 1 then Inl ViewValueError
      else let span = 5 * (n - 1);
        price = (if n = 1 then bound
          else if r = Buyer then min (bound * (4 * (n - 1) + k) div span) bound
          else max (- ((- bound * (6 * (n - 1) - k)) div span)) bound)
        in Inr (min (max price 1) UINT256_MAX))"

definition next_price :: "observation \<Rightarrow> view_error + int" where
  "next_price ob =
     concession_price (ob_role ob) (reservation_price (ob_mandate ob)) (own_offers_recorded ob)
       (opportunities (ob_role ob) (sv_max_offers (ob_session ob)))"

definition incoming_outside_bound :: "observation \<Rightarrow> bool" where
  "incoming_outside_bound ob = (case ob_active_offer ob of
     None \<Rightarrow> False
   | Some active \<Rightarrow> if ao_proposer active = ob_role ob then False
       else let bound = reservation_price (ob_mandate ob) in
         if ob_role ob = Buyer then ao_quote_amount active > bound
         else ao_quote_amount active < bound)"

definition walk_reason :: "observation \<Rightarrow> bool \<Rightarrow> string" where
  "walk_reason ob held_back =
     (if held_back then ''inventory_constraint''
      else if ob_offers_remaining_for_me ob = 0 \<and> incoming_outside_bound ob
      then ''terms_unacceptable'' else ''no_further_concession'')"

definition holdings_verdict :: "validation \<Rightarrow> bool" where
  "holdings_verdict v = (case vd_code v of None \<Rightarrow> False | Some c \<Rightarrow> c \<in> set HOLDINGS_CODES)"

text \<open>The first half of \<open>_choose\<close>: the acceptance, or whether holdings kept it from one.\<close>

definition try_accept :: "observation \<Rightarrow> view_error + (json option \<times> bool)" where
  "try_accept ob = (case ob_active_offer ob of
     None \<Rightarrow> Inr (None, False)
   | Some active \<Rightarrow> if ao_proposer active \<noteq> ob_role ob then
       let acceptance = accept_response (ao_offer_hash active) in
       result_bind (validate (envelope acceptance) ob) (\<lambda>verdict.
         Inr (if validation_ok verdict then (Some acceptance, False)
              else (None, holdings_verdict verdict)))
       else Inr (None, False))"

definition try_offer :: "observation \<Rightarrow> view_error + (json option \<times> bool)" where
  "try_offer ob =
     (if ob_offers_remaining_for_me ob > 0 then
        result_bind (next_price ob) (\<lambda>price.
          let offer = offer_response price in
          result_bind (validate (envelope offer) ob) (\<lambda>verdict.
            Inr (if validation_ok verdict then (Some offer, False)
                 else (None, holdings_verdict verdict))))
      else Inr (None, False))"

definition choose_move :: "observation \<Rightarrow> view_error + json" where
  "choose_move ob = result_bind (try_accept ob) (\<lambda>(acceptance, held1).
     case acceptance of Some a \<Rightarrow> Inr a
     | None \<Rightarrow> result_bind (try_offer ob) (\<lambda>(offer, held2).
         case offer of Some x \<Rightarrow> Inr x
         | None \<Rightarrow> Inr (walk_away_response (walk_reason ob (held1 \<or> held2)))))"

definition decide :: "observation \<Rightarrow> view_error + json" where
  "decide ob = result_bind (choose_move ob) (\<lambda>d. Inr (envelope d))"

subsection \<open>The schedule\<close>

lemma concession_price_Inr:
  "concession_price r bound k n = Inr p \<Longrightarrow> 1 \<le> p \<and> p \<le> UINT256_MAX"
  by (auto simp: concession_price_def Let_def UINT256_MAX_def split: if_splits)

lemma concession_price_total: "1 \<le> n \<Longrightarrow> \<exists>p. concession_price r bound k n = Inr p"
  by (simp add: concession_price_def Let_def)

text \<open>Within the policy's own bound, for any bound that is itself an offer a party could make.\<close>

lemma concession_within_bound:
  assumes "1 \<le> bound" and "bound \<le> UINT256_MAX" and "concession_price r bound k n = Inr p"
  shows "(r = Buyer \<longrightarrow> p \<le> bound) \<and> (r = Seller \<longrightarrow> bound \<le> p)"
  using assms by (auto simp: concession_price_def Let_def split: if_splits)

text \<open>Concessions move one way, towards the bound, and the last own offer is the bound.\<close>

lemma concession_monotone:
  assumes "0 \<le> bound" and "j \<le> k" and "concession_price r bound j n = Inr p"
    and "concession_price r bound k n = Inr q"
  shows "(r = Buyer \<longrightarrow> p \<le> q) \<and> (r = Seller \<longrightarrow> q \<le> p)"
proof (cases "n = 1")
  case True
  with assms(3,4) show ?thesis by (cases r) (auto simp: concession_price_def)
next
  case False
  with assms(3) have n: "1 < n" by (auto simp: concession_price_def split: if_splits)
  have b: "bound * (4 * (n - 1) + j) div (5 * (n - 1)) \<le> bound * (4 * (n - 1) + k) div (5 * (n - 1))"
    using n assms(1,2) by (intro zdiv_mono1 mult_left_mono) auto
  have "(- bound * (6 * (n - 1) - j)) div (5 * (n - 1)) \<le> (- bound * (6 * (n - 1) - k)) div (5 * (n - 1))"
    using n assms(1,2) by (intro zdiv_mono1 mult_left_mono_neg) auto
  with b n assms(3,4) show ?thesis
    by (cases r) (auto simp: concession_price_def Let_def)
qed

lemma concession_last:
  assumes "1 \<le> bound" and "bound \<le> UINT256_MAX" and "1 \<le> n"
  shows "concession_price r bound (n - 1) n = Inr bound"
proof (cases "n = 1")
  case True
  with assms show ?thesis by (simp add: concession_price_def)
next
  case False
  with assms(3) have n: "5 * (n - 1) \<noteq> 0" by simp
  have e: "4 * (n - 1) + (n - 1) = 5 * (n - 1)" "6 * (n - 1) - (n - 1) = 5 * (n - 1)" by simp_all
  have "bound * (5 * (n - 1)) div (5 * (n - 1)) = bound"
    "- bound * (5 * (n - 1)) div (5 * (n - 1)) = - bound"
    using n by (simp_all only: nonzero_mult_div_cancel_right not_False_eq_True)
  with False assms show ?thesis
    by (cases r) (simp_all add: concession_price_def Let_def e del: mult_minus_left)
qed

subsection \<open>The baseline is never refused\<close>

lemma try_accept_Some:
  "try_accept ob = Inr (Some d, h) \<Longrightarrow> \<exists>v. validate (envelope d) ob = Inr (accepted v)"
  by (auto simp: try_accept_def result_bind_Inr Let_def split: option.splits if_splits
      dest: validate_ok [THEN iffD1])

lemma try_offer_Some:
  "try_offer ob = Inr (Some d, h) \<Longrightarrow> \<exists>v. validate (envelope d) ob = Inr (accepted v)"
  by (auto simp: try_offer_def result_bind_Inr Let_def split: if_splits
      dest: validate_ok [THEN iffD1])

lemma walk_reason_name: "\<exists>c. close_reason_name c = Inr (walk_reason ob h)"
proof -
  have "close_reason_name 2 = Inr ''inventory_constraint''"
    "close_reason_name 1 = Inr ''terms_unacceptable''"
    "close_reason_name 3 = Inr ''no_further_concession''"
    by (simp_all add: close_defs)
  then show ?thesis by (auto simp only: walk_reason_def split: if_splits)
qed

lemma validate_walk_away: "\<exists>d. validate (envelope (walk_away_response (walk_reason ob h))) ob = Inr (accepted d)"
proof -
  from walk_reason_name obtain c where "close_reason_name c = Inr (walk_reason ob h)" by blast
  then show ?thesis by (simp add: validate_def parse_walk_away_response)
qed

lemma decide_accepted:
  "decide ob = Inr r \<Longrightarrow> \<exists>d. validate r ob = Inr (accepted d)"
proof -
  assume "decide ob = Inr r"
  then obtain d where c: "choose_move ob = Inr d" and r: "r = envelope d"
    by (auto simp: decide_def result_bind_Inr)
  from c obtain acc h1 where a: "try_accept ob = Inr (acc, h1)"
    and k: "(case acc of Some x \<Rightarrow> Inr x | None \<Rightarrow> result_bind (try_offer ob) (\<lambda>(off, h2).
       case off of Some x \<Rightarrow> Inr x
       | None \<Rightarrow> Inr (walk_away_response (walk_reason ob (h1 \<or> h2))))) = Inr d"
    by (auto simp: choose_move_def result_bind_Inr)
  show ?thesis
  proof (cases acc)
    case (Some x)
    with a k r try_accept_Some show ?thesis by auto
  next
    case None
    with k obtain off h2 where o2: "try_offer ob = Inr (off, h2)"
      and k2: "d = (case off of Some x \<Rightarrow> x
        | None \<Rightarrow> walk_away_response (walk_reason ob (h1 \<or> h2)))"
      by (auto simp: result_bind_pair split: option.splits)
    then show ?thesis using r validate_walk_away [of ob "h1 \<or> h2"] try_offer_Some
      by (cases off) auto
  qed
qed

end
