(* ===== verification/Agent_Turn.thy ===== *)
theory Agent_Turn
  imports Signing Deterministic_Policy
begin

section \<open>One turn inside the agent\<close>

text \<open>
  services/agent/src/agent/turns/__init__.py and agent/policy/base.py: decide, validate, repair
  at most as provisioned, sign. The policy is a state machine (a model policy carries its
  budget), the validator is the argument \<open>check\<close> as it is the executor's constructor argument,
  and what the attempt reads of the world (the clock, whether the run is still open at the
  moment of signing) is the record \<open>surroundings\<close>, indexed by the attempt. Times are in
  microseconds.
\<close>

record repair =
  rp_code :: string
  rp_feedback :: string

record policy_response =
  pr_raw_response :: json
  pr_stop_reason :: "string option"
  pr_usage :: "(string \<times> int) list option"
  pr_cost_estimated_usd :: "string option"
  pr_cost_reported_usd :: "string option"

definition computed :: "json \<Rightarrow> policy_response" where
  "computed raw = \<lparr>pr_raw_response = raw, pr_stop_reason = None, pr_usage = None,
     pr_cost_estimated_usd = None, pr_cost_reported_usd = None\<rparr>"

record policy_failure =
  pf_code :: string
  pf_detail :: string
  pf_response :: "policy_response option"

datatype policy_output = Answered policy_response | Failed policy_failure | PolicyRaised agent_error

record 'p policy =
  pl_kind :: string
  pl_version :: string
  pl_prompt_template_version :: "string option"
  pl_decide :: "'p \<Rightarrow> observation \<Rightarrow> repair option \<Rightarrow> int option \<Rightarrow> policy_output \<times> 'p"

type_synonym checker = "json \<Rightarrow> observation \<Rightarrow> view_error + validation"

definition RESPONSE_MARGIN_US :: int where
  "RESPONSE_MARGIN_US = 1000000"

definition NOT_VALIDATED :: validation where
  "NOT_VALIDATED = \<lparr>vd_decision = None, vd_code = None, vd_feedback = None\<rparr>"

record surroundings =
  su_now :: "nat \<Rightarrow> int"
  su_requested_at :: "nat \<Rightarrow> int"
  su_elapsed_ms :: "nat \<Rightarrow> int"
  su_still_open :: "nat \<Rightarrow> bool"

record decision_record =
  dr_attempt :: nat
  dr_response :: policy_response
  dr_validation :: validation
  dr_latency_ms :: int
  dr_prompt_template_version :: "string option"
  dr_observation_hash :: string
  dr_requested_at :: int

datatype turn_status = Signed | ModelFailed | BudgetExhausted

record turn_outcome =
  to_turn :: int
  to_status :: turn_status
  to_signed_action :: "signed_action option"
  to_decisions :: "decision_record list"
  to_failure :: "(string \<times> string) option"

record 'p turn_request =
  tr_turn :: int
  tr_observation :: observation
  tr_observation_hash :: string
  tr_policy :: "'p policy"
  tr_attempts :: nat
  tr_approval :: approved_session
  tr_signer :: run_signer
  tr_deadline :: "int option"

definition time_left :: "surroundings \<Rightarrow> nat \<Rightarrow> int option \<Rightarrow> int option" where
  "time_left W attempt deadline =
     (case deadline of None \<Rightarrow> None | Some d \<Rightarrow> Some ((d - su_now W attempt) - RESPONSE_MARGIN_US))"

definition failed :: "int \<Rightarrow> decision_record list \<Rightarrow> policy_failure \<Rightarrow> turn_outcome" where
  "failed turn records failure =
     \<lparr>to_turn = turn,
      to_status = (if pf_code failure = ''budget_exhausted'' then BudgetExhausted else ModelFailed),
      to_signed_action = None,
      to_decisions = records,
      to_failure = Some (pf_code failure, pf_detail failure)\<rparr>"

definition attempt_record ::
  "surroundings \<Rightarrow> 'p turn_request \<Rightarrow> nat \<Rightarrow> policy_response \<Rightarrow> validation \<Rightarrow> decision_record" where
  "attempt_record W R attempt answer v =
     \<lparr>dr_attempt = attempt,
      dr_response = answer,
      dr_validation = v,
      dr_latency_ms = max 0 (su_elapsed_ms W attempt),
      dr_prompt_template_version = pl_prompt_template_version (tr_policy R),
      dr_observation_hash = tr_observation_hash R,
      dr_requested_at = su_requested_at W attempt\<rparr>"

datatype attempt_result =
    Validated decision_record
  | Ended "decision_record option" policy_failure
  | Raised agent_error

definition make_attempt ::
  "checker \<Rightarrow> surroundings \<Rightarrow> 'p turn_request \<Rightarrow> nat \<Rightarrow> repair option \<Rightarrow> int option \<Rightarrow> 'p
     \<Rightarrow> attempt_result \<times> 'p" where
  "make_attempt check W R attempt repair left p =
     (case pl_decide (tr_policy R) p (tr_observation R) repair left of
        (PolicyRaised e, p') \<Rightarrow> (Raised e, p')
      | (Failed f, p') \<Rightarrow>
          (Ended (map_option (\<lambda>sent. attempt_record W R attempt sent NOT_VALIDATED) (pf_response f)) f, p')
      | (Answered answer, p') \<Rightarrow>
          (case check (pr_raw_response answer) (tr_observation R) of
             Inl _ \<Rightarrow> (Raised Unhandled, p')
           | Inr v \<Rightarrow> (Validated (attempt_record W R attempt answer v), p')))"

definition exhausted :: "'p turn_request \<Rightarrow> decision_record list \<Rightarrow> turn_outcome" where
  "exhausted R records =
     \<lparr>to_turn = tr_turn R,
      to_status = ModelFailed,
      to_signed_action = None,
      to_decisions = records,
      to_failure = Some
        (if pr_stop_reason (dr_response (last records)) = Some ''refusal''
         then (''refusal'', ''the model declined to answer on the last of '' @ dec (tr_attempts R) @ '' attempt(s)'')
         else (''repair_exhausted'', ''none of '' @ dec (tr_attempts R) @ '' attempt(s) passed validation''))\<rparr>"

definition no_time :: "nat \<Rightarrow> policy_failure" where
  "no_time attempt = \<lparr>pf_code = ''timeout'',
     pf_detail = ''the turn's deadline left no time for attempt '' @ dec attempt, pf_response = None\<rparr>"

text \<open>\<open>str(record.validation.code)\<close> is the code's value, and \<open>''None''\<close> where there is none.\<close>

definition repair_of :: "validation \<Rightarrow> repair" where
  "repair_of v =
     \<lparr>rp_code = (case vd_code v of None \<Rightarrow> ''None'' | Some c \<Rightarrow> code_str c),
      rp_feedback = (case vd_feedback v of None \<Rightarrow> [] | Some f \<Rightarrow> f)\<rparr>"

fun attempts_from ::
  "('a) eth_lib_scheme \<Rightarrow> checker \<Rightarrow> surroundings \<Rightarrow> 'p turn_request \<Rightarrow> nat \<Rightarrow> nat
     \<Rightarrow> decision_record list \<Rightarrow> repair option \<Rightarrow> 'p \<Rightarrow> (agent_error + turn_outcome) \<times> 'p" where
  "attempts_from L check W R 0 attempt records repair p = (Inr (exhausted R records), p)"
| "attempts_from L check W R (Suc remaining) attempt records repair p =
     (let left = time_left W attempt (tr_deadline R) in
      if (case left of None \<Rightarrow> False | Some l \<Rightarrow> l \<le> 0)
      then (Inr (failed (tr_turn R) records (no_time attempt)), p)
      else case make_attempt check W R attempt repair left p of
        (Raised e, p') \<Rightarrow> (Inl e, p')
      | (Ended ended f, p') \<Rightarrow>
          (Inr (failed (tr_turn R) (records @ (case ended of None \<Rightarrow> [] | Some r \<Rightarrow> [r])) f), p')
      | (Validated record, p') \<Rightarrow>
          (case vd_decision (dr_validation record) of
             Some decision \<Rightarrow>
               if \<not> su_still_open W attempt
               then (Inl (InvalidState ''released'' [''approved'']), p')
               else (case sign_decision L decision (Some (tr_approval R))
                       (ob_expected_sequence (tr_observation R)) (ob_chain_time (tr_observation R))
                       (tr_signer R) of
                   Inl e \<Rightarrow> (Inl e, p')
                 | Inr action \<Rightarrow> (Inr
                     \<lparr>to_turn = tr_turn R, to_status = Signed, to_signed_action = Some action,
                      to_decisions = records @ [record], to_failure = None\<rparr>, p'))
           | None \<Rightarrow> attempts_from L check W R remaining (Suc attempt) (records @ [record])
               (Some (repair_of (dr_validation record))) p'))"

definition run_turn ::
  "('a) eth_lib_scheme \<Rightarrow> checker \<Rightarrow> surroundings \<Rightarrow> 'p turn_request \<Rightarrow> 'p
     \<Rightarrow> (agent_error + turn_outcome) \<times> 'p" where
  "run_turn L check W R p =
     (if tr_attempts R < 1 then (Inl Unhandled, p)
      else attempts_from L check W R (tr_attempts R) 1 [] None p)"

text \<open>The deterministic policy as a \<open>Policy\<close>: stateless, no prompt, no cost.\<close>

definition DeterministicPolicy :: "unit policy" where
  "DeterministicPolicy =
     \<lparr>pl_kind = ''deterministic'', pl_version = ''det-1.0.0'', pl_prompt_template_version = None,
      pl_decide = (\<lambda>u ob repair left. (case decide ob of
         Inl _ \<Rightarrow> PolicyRaised Unhandled | Inr r \<Rightarrow> Answered (computed r), u))\<rparr>"

subsection \<open>What every turn guarantees\<close>

text \<open>
  The interface between the executor and its validator: whatever decision a check lets through
  is legal. The executor's guarantee is proved once from that law.
\<close>

locale decision_gate =
  fixes check :: checker
    and legal :: "observation \<Rightarrow> valid_decision \<Rightarrow> bool"
  assumes gate: "\<lbrakk>check response ob = Inr v; vd_decision v = Some d\<rbrakk> \<Longrightarrow> legal ob d"
begin

lemma validated_legal:
  assumes "make_attempt check W R attempt repair left p = (Validated r, p')"
    and "vd_decision (dr_validation r) = Some d"
  shows "legal (tr_observation R) d"
  using assms by (auto simp: make_attempt_def attempt_record_def split: prod.splits policy_output.splits
      sum.splits intro: gate)

lemma signed_legal:
  "\<lbrakk>attempts_from L check W R n attempt records repair p = (Inr out, p'); to_signed_action out = Some a\<rbrakk> \<Longrightarrow>
     \<exists>d i. attempt \<le> i \<and> i < attempt + n \<and> legal (tr_observation R) d \<and> su_still_open W i \<and>
       sign_decision L d (Some (tr_approval R)) (ob_expected_sequence (tr_observation R))
         (ob_chain_time (tr_observation R)) (tr_signer R) = Inr a"
proof (induction n arbitrary: attempt records repair p)
  case 0
  then show ?case by (auto simp: exhausted_def)
next
  case (Suc n)
  show ?case
  proof (cases "case time_left W attempt (tr_deadline R) of None \<Rightarrow> False | Some l \<Rightarrow> l \<le> 0")
    case True
    with Suc.prems show ?thesis by (auto simp: Let_def failed_def)
  next
    case False
    obtain res q where m: "make_attempt check W R attempt repair (time_left W attempt (tr_deadline R)) p = (res, q)"
      by fastforce
    show ?thesis
    proof (cases res)
      case (Raised e)
      with m False Suc.prems show ?thesis by (simp add: Let_def)
    next
      case (Ended ended f)
      with m False Suc.prems show ?thesis by (auto simp: Let_def failed_def)
    next
      case (Validated r)
      show ?thesis
      proof (cases "vd_decision (dr_validation r)")
        case None
        with Validated m False Suc.prems(1) have
          "attempts_from L check W R n (Suc attempt) (records @ [r])
             (Some (repair_of (dr_validation r))) q = (Inr out, p')"
          by (simp add: Let_def)
        from Suc.IH [OF this Suc.prems(2)] obtain d i where
          "Suc attempt \<le> i" "i < Suc attempt + n" "legal (tr_observation R) d" "su_still_open W i"
          "sign_decision L d (Some (tr_approval R)) (ob_expected_sequence (tr_observation R))
             (ob_chain_time (tr_observation R)) (tr_signer R) = Inr a" by blast
        then show ?thesis by (intro exI [of _ d] exI [of _ i]) simp
      next
        case (Some d)
        have "legal (tr_observation R) d"
          using validated_legal [OF m [unfolded Validated] Some] .
        with Some Validated m False Suc.prems show ?thesis
          by (intro exI [of _ d] exI [of _ attempt])
             (auto simp: Let_def split: if_splits sum.splits)
      qed
    qed
  qed
qed

end

interpretation mandate_gate: decision_gate validate legal_decision
  by unfold_locales (rule validate_legal)

text \<open>The records of a turn, and how its status, action and failure fit together.\<close>

definition well_formed_outcome :: "turn_outcome \<Rightarrow> bool" where
  "well_formed_outcome out \<longleftrightarrow>
     (to_status out = Signed \<longleftrightarrow> to_signed_action out \<noteq> None) \<and>
     (to_failure out = None \<longleftrightarrow> to_status out = Signed)"

definition numbered_records :: "decision_record list \<Rightarrow> bool" where
  "numbered_records rs \<longleftrightarrow> map dr_attempt rs = [1..<Suc (length rs)]"

lemma failed_well_formed [simp]: "well_formed_outcome (failed t rs f)"
  "to_decisions (failed t rs f) = rs" "to_turn (failed t rs f) = t"
  by (simp_all add: failed_def well_formed_outcome_def)

lemma exhausted_well_formed [simp]: "well_formed_outcome (exhausted R rs)"
  "to_decisions (exhausted R rs) = rs" "to_turn (exhausted R rs) = tr_turn R"
  by (simp_all add: exhausted_def well_formed_outcome_def)

lemma numbered_snoc:
  "numbered_records (rs @ [r]) \<longleftrightarrow> numbered_records rs \<and> dr_attempt r = Suc (length rs)"
  by (auto simp: numbered_records_def)

lemma attempt_record_simps [simp]:
  "dr_attempt (attempt_record W R i a v) = i"
  "dr_validation (attempt_record W R i a v) = v"
  "dr_response (attempt_record W R i a v) = a"
  "dr_observation_hash (attempt_record W R i a v) = tr_observation_hash R"
  by (simp_all add: attempt_record_def)

lemma make_attempt_number:
  "make_attempt check W R i repair left p = (Validated r, p') \<Longrightarrow> dr_attempt r = i"
  "make_attempt check W R i repair left p = (Ended (Some r) f, p') \<Longrightarrow> dr_attempt r = i"
  by (auto simp: make_attempt_def split: prod.splits policy_output.splits sum.splits)

lemma attempts_from_shape:
  "\<lbrakk>attempts_from L check W R n attempt records repair p = (Inr out, p');
    numbered_records records; attempt = Suc (length records)\<rbrakk> \<Longrightarrow>
     well_formed_outcome out \<and> numbered_records (to_decisions out) \<and>
     length (to_decisions out) \<le> length records + n \<and> to_turn out = tr_turn R"
proof (induction n arbitrary: attempt records repair p)
  case 0
  then show ?case by auto
next
  case (Suc n)
  show ?case
  proof (cases "case time_left W attempt (tr_deadline R) of None \<Rightarrow> False | Some l \<Rightarrow> l \<le> 0")
    case True
    with Suc.prems show ?thesis by (auto simp: Let_def)
  next
    case False
    obtain res q where m: "make_attempt check W R attempt repair (time_left W attempt (tr_deadline R)) p = (res, q)"
      by fastforce
    show ?thesis
    proof (cases res)
      case (Raised e)
      with m False Suc.prems show ?thesis by (simp add: Let_def)
    next
      case (Ended ended f)
      with m False Suc.prems make_attempt_number(2) [of check W R attempt repair _ p] show ?thesis
        by (cases ended) (auto simp: Let_def numbered_snoc)
    next
      case (Validated r)
      then have num: "dr_attempt r = attempt" using m by (simp add: make_attempt_number(1))
      show ?thesis
      proof (cases "vd_decision (dr_validation r)")
        case None
        with Validated m False Suc.prems(1) have
          "attempts_from L check W R n (Suc attempt) (records @ [r])
             (Some (repair_of (dr_validation r))) q = (Inr out, p')"
          by (simp add: Let_def)
        from Suc.IH [OF this] num Suc.prems(2,3) show ?thesis by (simp add: numbered_snoc)
      next
        case (Some d)
        with Validated m False Suc.prems num show ?thesis
          by (auto simp: Let_def well_formed_outcome_def numbered_snoc split: if_splits sum.splits)
      qed
    qed
  qed
qed

end
