(* ===== verification/Consistency.thy ===== *)
theory Consistency
  imports Session_Approval Deterministic_Policy
begin

section \<open>Does an observation agree with itself and with the approved session?\<close>

text \<open>
  services/agent/src/agent/consistency.py. Each problem is a location and a rule, as in the
  code; the observation is refused when there is any. Recomputing a digest can raise
  \<open>ProtocolValueError\<close> in principle, so the result is a sum.
\<close>

type_synonym problems = "(string \<times> string) list"

definition digest_matches ::
  "('a) eth_lib_scheme \<Rightarrow> approved_session \<Rightarrow> int \<Rightarrow> string \<Rightarrow> int \<Rightarrow> int \<Rightarrow> string
     \<Rightarrow> protocol_error + bool" where
  "digest_matches L approval seq proposer quote valid_until offer_hash =
     (if \<not> (0 \<le> valid_until \<and> valid_until \<le> UINT64_MAX) then Inr False
      else result_bind (digest L (approved_domain approval) (MOffer
          \<lparr>of_session_id = digest_to_bytes (ap_session_id approval),
           of_config_hash = digest_to_bytes (ap_config_hash approval),
           of_sequence = seq,
           of_proposer = proposer,
           of_quote_amount = quote,
           of_valid_until = valid_until\<rparr>)) (\<lambda>raw.
        result_bind (Digest_of_bytes raw) (\<lambda>d. Inr (d = offer_hash))))"

definition entry_where :: "nat \<Rightarrow> string" where
  "entry_where index = ''history/'' @ dec index"

definition expected_actor :: "nat \<Rightarrow> role" where
  "expected_actor index = (if index mod 2 = 0 then Buyer else Seller)"

definition expected_status :: "nat \<Rightarrow> nat \<Rightarrow> int \<Rightarrow> int \<Rightarrow> string" where
  "expected_status index count valid_until chain_time =
     (if index + 1 = count
      then (if valid_until > chain_time then ''active'' else ''expired'') else ''replaced'')"

definition entry_problems ::
  "('a) eth_lib_scheme \<Rightarrow> nat \<Rightarrow> history_entry \<Rightarrow> nat \<Rightarrow> observation \<Rightarrow> approved_session
     \<Rightarrow> protocol_error + problems" where
  "entry_problems L index entry count ob approval =
     (let loc = entry_where index; actor = expected_actor index in
      if he_sequence entry \<noteq> int index + 1 then
        Inr [(loc @ ''/sequence'', ''history must be in ascending sequence order from 1'')]
      else if he_kind entry \<noteq> ''offer'' then
        Inr [(loc @ ''/kind'', ''only offers can precede a turn; any other action is terminal'')]
      else if he_actor entry \<noteq> role_str actor then
        Inr [(loc @ ''/actor'', ''offers must alternate, beginning with the buyer'')]
      else case (he_quote_amount entry, he_valid_until entry, he_offer_hash entry, he_status entry) of
        (Some quote, Some valid_until, Some offer_hash, Some status) \<Rightarrow>
          result_bind (digest_matches L approval (he_sequence entry) (party approval actor)
              quote valid_until offer_hash) (\<lambda>matches. Inr
            ((if \<not> matches then [(loc @ ''/offer_hash'',
                ''is not the EIP-712 digest of this offer's own fields'')] else []) @
             (if status \<noteq> expected_status index count valid_until (ob_chain_time ob)
              then [(loc @ ''/status'',
                ''the last offer is active until valid_until and expired after; earlier ones replaced'')]
              else [])))
      | _ \<Rightarrow> Inr [(loc,
          ''an offer must carry quote_amount_minor, valid_until, offer_hash and status'')])"

definition standing :: "observation \<Rightarrow> bool" where
  "standing ob = (ob_history ob \<noteq> [] \<and>
     (case he_valid_until (last (ob_history ob)) of None \<Rightarrow> False | Some v \<Rightarrow> v > ob_chain_time ob))"

definition active_offer_problems :: "observation \<Rightarrow> problems" where
  "active_offer_problems ob = (case ob_active_offer ob of
     None \<Rightarrow> if standing ob
       then [(''active_offer'', ''is null while the last recorded offer is unexpired'')] else []
   | Some active \<Rightarrow>
       if \<not> standing ob
       then [(''active_offer'', ''is set, but no unexpired recorded offer stands'')]
       else let last_offer = last (ob_history ob);
           same = (Some (ao_offer_hash active) = he_offer_hash last_offer
             \<and> role_str (ao_proposer active) = he_actor last_offer
             \<and> Some (ao_quote_amount active) = he_quote_amount last_offer
             \<and> Some (ao_valid_until active) = he_valid_until last_offer
             \<and> ao_sequence active = he_sequence last_offer)
         in if same then [] else [(''active_offer'', ''is not the last recorded offer'')])"

fun all_entry_problems ::
  "('a) eth_lib_scheme \<Rightarrow> nat \<Rightarrow> history_entry list \<Rightarrow> nat \<Rightarrow> observation \<Rightarrow> approved_session
     \<Rightarrow> problems \<Rightarrow> protocol_error + problems" where
  "all_entry_problems L index [] count ob approval problems = Inr problems"
| "all_entry_problems L index (entry # rest) count ob approval problems =
     result_bind (entry_problems L index entry count ob approval) (\<lambda>found.
       all_entry_problems L (Suc index) rest count ob approval (dict_update problems found))"

definition contradictions ::
  "('a) eth_lib_scheme \<Rightarrow> observation \<Rightarrow> approved_session \<Rightarrow> protocol_error + problems" where
  "contradictions L ob approval =
     (let history = ob_history ob; count = length history in
      result_bind (all_entry_problems L 0 history count ob approval []) (\<lambda>p0.
        let p1 = (if int count > sv_max_offers (ob_session ob) then
              dict_update p0 [(''history'', ''holds more offers than the session's maxOffers'')] else p0);
            p2 = (if ob_expected_sequence ob \<noteq> int count + 1 then
              dict_update p1 [(''expected_sequence'', ''is not the sequence after the last history entry'')]
              else p1);
            own = own_offers_recorded ob;
            share = opportunities (ob_role ob) (sv_max_offers (ob_session ob));
            p3 = (if ob_offers_remaining_for_me ob \<noteq> max (share - own) 0 then
              dict_update p2 [(''offers_remaining_for_me'',
                ''is not this party's share less its recorded offers'')] else p2)
        in Inr (dict_update p3 (active_offer_problems ob))))"

subsection \<open>What a consistent observation is\<close>

definition coherent_entry ::
  "('a) eth_lib_scheme \<Rightarrow> approved_session \<Rightarrow> int \<Rightarrow> nat \<Rightarrow> nat \<Rightarrow> history_entry \<Rightarrow> bool" where
  "coherent_entry L approval chain_time count index e \<longleftrightarrow>
     he_sequence e = int index + 1 \<and> he_kind e = ''offer'' \<and>
     he_actor e = role_str (expected_actor index) \<and>
     (\<exists>quote vu h. he_quote_amount e = Some quote \<and> he_valid_until e = Some vu \<and>
        he_offer_hash e = Some h \<and>
        digest_matches L approval (int index + 1) (party approval (expected_actor index)) quote vu h = Inr True \<and>
        he_status e = Some (expected_status index count vu chain_time))"

lemma entry_problems_Nil:
  "entry_problems L i e n ob a = Inr [] \<longleftrightarrow> coherent_entry L a (ob_chain_time ob) n i e"
  by (auto simp: entry_problems_def coherent_entry_def Let_def result_bind_Inr
      split: option.splits if_splits)

lemma all_entry_problems_Nil:
  "all_entry_problems L i es n ob a ps = Inr [] \<longleftrightarrow>
     ps = [] \<and> (\<forall>j < length es. coherent_entry L a (ob_chain_time ob) n (i + j) (es ! j))"
proof (induction es arbitrary: i ps)
  case Nil
  then show ?case by auto
next
  case (Cons e es)
  show ?case
    by (auto simp: result_bind_Inr Cons.IH entry_problems_Nil All_less_Suc2)
qed

definition coherent :: "('a) eth_lib_scheme \<Rightarrow> observation \<Rightarrow> approved_session \<Rightarrow> bool" where
  "coherent L ob a \<longleftrightarrow>
     (\<forall>j < length (ob_history ob). coherent_entry L a (ob_chain_time ob) (length (ob_history ob)) j
        (ob_history ob ! j)) \<and>
     int (length (ob_history ob)) \<le> sv_max_offers (ob_session ob) \<and>
     ob_expected_sequence ob = int (length (ob_history ob)) + 1 \<and>
     ob_offers_remaining_for_me ob =
       max (opportunities (ob_role ob) (sv_max_offers (ob_session ob)) - own_offers_recorded ob) 0 \<and>
     active_offer_problems ob = []"

lemma contradictions_Nil: "contradictions L ob a = Inr [] \<longleftrightarrow> coherent L ob a"
  by (auto simp: contradictions_def Let_def result_bind_Inr all_entry_problems_Nil coherent_def)

lemma coherent_all_offers:
  assumes "coherent L ob a"
  shows "filter is_offer_entry (ob_history ob) = ob_history ob"
  using assms by (auto simp: coherent_def coherent_entry_def is_offer_entry_def in_set_conv_nth
      intro!: filter_True)

text \<open>The next proposer of a coherent observation is decided by parity alone.\<close>

lemma coherent_next_proposer:
  assumes "coherent L ob a"
  shows "next_proposer ob = Inr (expected_actor (length (ob_history ob)))"
proof (cases "ob_history ob = []")
  case True
  then show ?thesis by (simp add: next_proposer_def expected_actor_def)
next
  case False
  then obtain n where n: "length (ob_history ob) = Suc n" by (cases "ob_history ob") auto
  with assms have "coherent_entry L a (ob_chain_time ob) (Suc n) n (ob_history ob ! n)"
    by (simp add: coherent_def)
  with n False have l: "he_actor (last (ob_history ob)) = role_str (expected_actor n)"
    by (simp add: last_conv_nth coherent_entry_def)
  have "counterparty (expected_actor n) = expected_actor (Suc n)"
    by (simp add: expected_actor_def mod_Suc)
  with l n False show ?thesis
    by (simp add: next_proposer_def coherent_all_offers [OF assms] Let_def)
qed

lemma coherent_active:
  assumes "coherent L ob a" and "ob_active_offer ob = Some ao"
  shows "\<exists>n. length (ob_history ob) = Suc n \<and> ao_proposer ao = expected_actor n \<and>
    ob_chain_time ob < ao_valid_until ao \<and> ao_sequence ao = int (Suc n) \<and>
    digest_matches L a (int (Suc n)) (party a (ao_proposer ao)) (ao_quote_amount ao)
      (ao_valid_until ao) (ao_offer_hash ao) = Inr True"
proof -
  from assms have s: "standing ob" and e: "Some (ao_offer_hash ao) = he_offer_hash (last (ob_history ob))"
    "role_str (ao_proposer ao) = he_actor (last (ob_history ob))"
    "Some (ao_quote_amount ao) = he_quote_amount (last (ob_history ob))"
    "Some (ao_valid_until ao) = he_valid_until (last (ob_history ob))"
    "ao_sequence ao = he_sequence (last (ob_history ob))"
    by (auto simp: coherent_def active_offer_problems_def Let_def split: if_splits)
  from s obtain n where n: "length (ob_history ob) = Suc n"
    by (cases "ob_history ob") (auto simp: standing_def)
  then have l: "last (ob_history ob) = ob_history ob ! n" by (cases "ob_history ob = []") (auto simp: last_conv_nth)
  from assms(1) n have "coherent_entry L a (ob_chain_time ob) (Suc n) n (ob_history ob ! n)"
    by (simp add: coherent_def)
  with e l have "ao_proposer ao = expected_actor n" "ao_sequence ao = int (Suc n)"
    "digest_matches L a (int (Suc n)) (party a (expected_actor n)) (ao_quote_amount ao)
      (ao_valid_until ao) (ao_offer_hash ao) = Inr True"
    by (auto simp: coherent_entry_def add.commute)
  moreover have "ob_chain_time ob < ao_valid_until ao"
    using s e(4) by (auto simp: standing_def split: option.splits)
  ultimately show ?thesis using n by auto
qed

end
