(* ===== verification/Key_Holder.thy ===== *)
theory Key_Holder
  imports Setup_Approval Key_Refs
begin

section \<open>Root keys and run keys\<close>

text \<open>
  services/agent/src/agent/keys/derivation.py and keys/holder.py: the derivation of a run's key
  from the instance's root, and the holder that hands out run signers. The HMAC over the ABI
  encoding of the derivation (\<open>_candidate\<close>) and \<open>eth_account\<close> are the fields of \<open>key_lib\<close>.
  The holder's weak set of derived signers only serves \<open>appears_in\<close>; here it is the list of
  derivations handed out, a superset of the signers still referenced.
\<close>

record key_lib =
  kl_candidate :: "bytes \<Rightarrow> key_derivation \<Rightarrow> nat \<Rightarrow> int"
  kl_address :: "bytes \<Rightarrow> string"
  kl_sign_digest :: "bytes \<Rightarrow> bytes \<Rightarrow> bytes"
  kl_sign_transaction :: "bytes \<Rightarrow> transaction \<Rightarrow> bytes \<times> string"

datatype key_error = KeyRefError string

definition MAX_COUNTER :: nat where
  "MAX_COUNTER = 255"

text \<open>\<open>candidate.to_bytes(32, "big")\<close> of a value below the curve order.\<close>

fun to_big_endian :: "nat \<Rightarrow> int \<Rightarrow> bytes" where
  "to_big_endian 0 v = []"
| "to_big_endian (Suc n) v = to_big_endian n (v div 256) @ [word_of_int v]"

fun derive_from :: "key_lib \<Rightarrow> bytes \<Rightarrow> key_derivation \<Rightarrow> nat \<Rightarrow> nat \<Rightarrow> bytes option" where
  "derive_from K root spec counter 0 = None"
| "derive_from K root spec counter (Suc left) =
     (let candidate = kl_candidate K root spec counter in
      if 0 < candidate \<and> candidate < SECP256K1_ORDER then Some (to_big_endian 32 candidate)
      else derive_from K root spec (Suc counter) left)"

definition derive_run_key :: "key_lib \<Rightarrow> bytes \<Rightarrow> key_derivation \<Rightarrow> key_error + bytes" where
  "derive_run_key K root spec = (case derive_from K root spec 0 (MAX_COUNTER + 1) of
     Some key \<Rightarrow> Inr key
   | None \<Rightarrow> Inl (KeyRefError (''no key in range after '' @ dec (MAX_COUNTER + 1) @
       '' counters for this derivation'')))"

definition derivation_to_json :: "(string \<Rightarrow> string) \<Rightarrow> key_derivation \<Rightarrow> json" where
  "derivation_to_json uuid_str d = JObj
     [(''scheme'', JStr SCHEME), (''chain_id'', JInt (kd_chain_id d)),
      (''role'', JStr (role_str (kd_role d))), (''run_id'', JStr (uuid_str (kd_run_id d)))]"

definition local_run_signer :: "key_lib \<Rightarrow> key_derivation \<Rightarrow> bytes \<Rightarrow> run_signer" where
  "local_run_signer K d key =
     \<lparr>rs_address = kl_address K key, rs_derivation = d,
      rs_sign_digest = kl_sign_digest K key, rs_sign_transaction = kl_sign_transaction K key\<rparr>"

record key_holder =
  kh_key_ref :: string
  kh_root :: bytes
  kh_derived :: "key_derivation list"

definition resolve_root ::
  "(string \<Rightarrow> string \<Rightarrow> keystore_outcome) \<Rightarrow> string \<Rightarrow> (string \<rightharpoonup> string) \<Rightarrow> key_error + bytes" where
  "resolve_root open_keystore key_ref environ =
     (if \<not> is_key_reference key_ref
      then Inl (KeyRefError (''a root key reference must be '' @ KEY_REF_FORMS @ ''; it is not repeated here''))
      else case resolve_key_reference open_keystore key_ref environ of
        Inl message \<Rightarrow> Inl (KeyRefError message) | Inr root \<Rightarrow> Inr root)"

definition holder_from_ref ::
  "(string \<Rightarrow> string \<Rightarrow> keystore_outcome) \<Rightarrow> string \<Rightarrow> (string \<rightharpoonup> string) \<Rightarrow> key_error + key_holder" where
  "holder_from_ref open_keystore key_ref environ =
     result_bind (resolve_root open_keystore key_ref environ) (\<lambda>root.
       Inr \<lparr>kh_key_ref = key_ref, kh_root = root, kh_derived = []\<rparr>)"

definition signer_for :: "key_lib \<Rightarrow> key_holder \<Rightarrow> key_derivation \<Rightarrow> key_error + (run_signer \<times> key_holder)" where
  "signer_for K h d = result_bind (derive_run_key K (kh_root h) d) (\<lambda>key.
     Inr (local_run_signer K d key, h\<lparr>kh_derived := d # kh_derived h\<rparr>))"

subsection \<open>The derived key is a key of the curve, and the first candidate in range\<close>

lemma derive_from_Some:
  "derive_from K root spec c n = Some key \<longleftrightarrow>
     (\<exists>k < n. (\<forall>j < k. \<not> (0 < kl_candidate K root spec (c + j) \<and> kl_candidate K root spec (c + j) < SECP256K1_ORDER)) \<and>
        0 < kl_candidate K root spec (c + k) \<and> kl_candidate K root spec (c + k) < SECP256K1_ORDER \<and>
        key = to_big_endian 32 (kl_candidate K root spec (c + k)))"
  (is "_ \<longleftrightarrow> ?R c n")
proof (induction n arbitrary: c)
  case (Suc n)
  let ?ok = "\<lambda>i. 0 < kl_candidate K root spec i \<and> kl_candidate K root spec i < SECP256K1_ORDER"
  show ?case
  proof (cases "?ok c")
    case True
    then have "?R c (Suc n) \<longleftrightarrow> key = to_big_endian 32 (kl_candidate K root spec c)"
      by (metis add.right_neutral gr0I not_less_zero zero_less_Suc)
    with True show ?thesis by auto
  next
    case False
    then have "?R c (Suc n) \<longleftrightarrow> ?R (Suc c) n"
      by (auto simp: Ex_less_Suc2 All_less_Suc2)
    with False Suc show ?thesis by (simp only: derive_from.simps Let_def if_False)
  qed
qed simp

lemma length_to_big_endian [simp]: "length (to_big_endian n v) = n"
  by (induction n arbitrary: v) simp_all

lemma derive_run_key_length: "derive_run_key K root spec = Inr key \<Longrightarrow> length key = 32"
  by (auto simp: derive_run_key_def derive_from_Some simp del: derive_from.simps split: option.splits)

lemma signer_for_derivation:
  "signer_for K h d = Inr (signer, h') \<Longrightarrow> rs_derivation signer = d \<and> kh_root h' = kh_root h \<and> kh_key_ref h' = kh_key_ref h"
  by (auto simp: signer_for_def result_bind_Inr local_run_signer_def)

text \<open>The same root and derivation give the same signer: what makes re-provisioning safe.\<close>

lemma signer_for_deterministic:
  "\<lbrakk>signer_for K h d = Inr (s, h'); signer_for K g d = Inr (t, g'); kh_root h = kh_root g\<rbrakk> \<Longrightarrow> s = t"
  by (auto simp: signer_for_def result_bind_Inr)

end
