(* ===== verification/Agent_Service.thy ===== *)
theory Agent_Service
  imports Agent_Turn Consistency Key_Holder Hashing Complex_Main
begin

section \<open>The agent service\<close>

text \<open>
  services/agent/src/agent/state/__init__.py and agent/service.py: what an instance knows about
  its runs, and the use cases behind its internal API. A registry holds the provisioned runs and
  the tombstones of released ones. Each operation is a function from the registry to the answer
  (a JSON response or one of \<open>agent_error\<close>) and the new registry.

  Concurrency. Everything but a turn runs without awaiting, so it is one step. Two turns of one
  run exclude each other by \<open>turn_lock\<close>. A release may arrive while a turn's policy is deciding:
  \<open>released_at\<close> says at which attempt of the turn it does (\<open>Some 0\<close>: while the turn waits for
  the lock), and \<open>still_open\<close> is asked against it, exactly when the code asks it. The record of
  a run released meanwhile is no longer in the registry, so what the turn writes to it is lost.
\<close>

definition UNPROVISIONED :: string where "UNPROVISIONED = ''unprovisioned''"
definition PROVISIONED :: string where "PROVISIONED = ''provisioned''"
definition APPROVED :: string where "APPROVED = ''approved''"
definition RELEASED :: string where "RELEASED = ''released''"

record provisioning =
  pv_role :: role
  pv_policy :: string
  pv_model_id :: "string option"
  pv_effort :: "string option"
  pv_repair_attempts :: nat
  pv_model_call_ceiling :: int
  pv_model_spend_ceiling_usd :: rat
  pv_model_timeout_s :: int
  pv_expected :: expected_session
  pv_key_ref :: string
  pv_mandate_version_id :: string
  pv_mandate_document :: "(string \<times> json) list"
  pv_initial_base :: int
  pv_initial_quote :: int
  pv_allowance :: int
  pv_fingerprint :: string

record answered_turn =
  at_observation_hash :: string
  at_response :: turn_outcome

record 'p run_record =
  rr_run_id :: string
  rr_provisioning :: provisioning
  rr_policy :: "'p policy"
  rr_policy_state :: 'p
  rr_signer :: run_signer
  rr_provisioned_response :: json
  rr_opened :: "session_opened option"
  rr_approval :: "approved_session option"
  rr_turns :: "(int \<times> answered_turn) list"

definition run_record_state :: "'p run_record \<Rightarrow> string" where
  "run_record_state r = (if rr_approval r \<noteq> None then APPROVED else PROVISIONED)"

subsection \<open>The registry\<close>

record 'p registry =
  rg_runs :: "(string \<times> 'p run_record) list"
  rg_released :: "string list"

definition registry_get :: "'p registry \<Rightarrow> string \<Rightarrow> 'p run_record option" where
  "registry_get S run_id = map_of (rg_runs S) run_id"

definition is_released :: "'p registry \<Rightarrow> string \<Rightarrow> bool" where
  "is_released S run_id \<longleftrightarrow> run_id \<in> set (rg_released S)"

definition registry_add :: "'p registry \<Rightarrow> 'p run_record \<Rightarrow> agent_error + 'p registry" where
  "registry_add S r =
     (if registry_get S (rr_run_id r) \<noteq> None \<or> is_released S (rr_run_id r) then Inl Unhandled
      else Inr (S\<lparr>rg_runs := AList.update (rr_run_id r) r (rg_runs S)\<rparr>))"

definition registry_require :: "'p registry \<Rightarrow> string \<Rightarrow> string list \<Rightarrow> agent_error + 'p run_record" where
  "registry_require S run_id allowed =
     (let record = registry_get S run_id;
          state = (if is_released S run_id then RELEASED
            else case record of None \<Rightarrow> UNPROVISIONED | Some r \<Rightarrow> run_record_state r)
      in case record of
           None \<Rightarrow> Inl (InvalidState state allowed)
         | Some r \<Rightarrow> if state \<notin> set allowed then Inl (InvalidState state allowed) else Inr r)"

definition registry_release :: "'p registry \<Rightarrow> string \<Rightarrow> 'p registry" where
  "registry_release S run_id =
     S\<lparr>rg_runs := AList.delete run_id (rg_runs S), rg_released := List.insert run_id (rg_released S)\<rparr>"

text \<open>The effect of the assignments the service makes on a record it got from the registry.\<close>

definition registry_put :: "'p registry \<Rightarrow> 'p run_record \<Rightarrow> 'p registry" where
  "registry_put S r =
     (if registry_get S (rr_run_id r) = None then S
      else S\<lparr>rg_runs := AList.update (rr_run_id r) r (rg_runs S)\<rparr>)"

subsection \<open>The service\<close>

type_synonym 'p policy_factory = "provisioning \<Rightarrow> run_signer \<Rightarrow> agent_error + ('p policy \<times> 'p)"

record 'p agent_service =
  ag_role :: role
  ag_keys :: "key_holder option"
  ag_policies :: "(string \<times> 'p policy_factory) list"
  ag_setup_bounds :: setup_bounds

text \<open>
  What the service calls and is not of this repository or not modelled here: the signing
  library, SHA-256, the JSON schema check of an observation, and \<open>datetime.fromisoformat\<close>.
\<close>

record service_env =
  se_keys :: key_lib
  se_sha256 :: "bytes \<Rightarrow> bytes"
  se_schema_problems :: "json \<Rightarrow> (string \<times> string) list"
  se_fromisoformat :: "string \<Rightarrow> int option"

text \<open>\<open>str(UUID)\<close> of 32 hexadecimal digits.\<close>

definition uuid_str :: "string \<Rightarrow> string" where
  "uuid_str u = take 8 u @ ''-'' @ take 4 (drop 8 u) @ ''-'' @ take 4 (drop 12 u) @ ''-'' @
     take 4 (drop 16 u) @ ''-'' @ drop 20 u"

definition check_address :: "string \<Rightarrow> string option \<Rightarrow> agent_error option" where
  "check_address derived expected = (case expected of
     None \<Rightarrow> None | Some e \<Rightarrow> if e \<noteq> derived then Some AddressMismatch else None)"

definition reprovision :: "'p run_record \<Rightarrow> provisioning \<Rightarrow> string option \<Rightarrow> agent_error + json" where
  "reprovision r request expected_address =
     (if pv_fingerprint (rr_provisioning r) \<noteq> pv_fingerprint request then Inl IdempotencyConflict
      else case check_address (rs_address (rr_signer r)) expected_address of
        Some e \<Rightarrow> Inl e | None \<Rightarrow> Inr (rr_provisioned_response r))"

definition check_identity :: "role \<Rightarrow> provisioning \<Rightarrow> key_holder \<Rightarrow> agent_error option" where
  "check_identity my_role request keys =
     (if pv_key_ref request \<noteq> kh_key_ref keys then Some KeyRefMismatch
      else if pv_role request \<noteq> my_role
      then Some (RequestValidation [(''role'', ''this instance is the '' @ role_str my_role)])
      else None)"

definition find_policy :: "(string \<times> 'p policy_factory) list \<Rightarrow> string \<Rightarrow> string list \<Rightarrow> agent_error + 'p policy_factory" where
  "find_policy policies name available = (case map_of policies name of
     None \<Rightarrow> Inl (RequestValidation [(''policy'', ''one of: '' @ join '', '' available)])
   | Some f \<Rightarrow> Inr f)"

definition provisioned_response :: "run_signer \<Rightarrow> key_derivation \<Rightarrow> 'p policy \<Rightarrow> json" where
  "provisioned_response signer derivation policy = JObj
     [(''provisioned'', JBool True),
      (''my_address'', JStr (rs_address signer)),
      (''key_derivation'', derivation_to_json uuid_str derivation),
      (''policy_version'', JStr (pl_version policy)),
      (''prompt_template_version'', (case pl_prompt_template_version policy of None \<Rightarrow> JNull | Some v \<Rightarrow> JStr v))]"

definition as_agent :: "key_error + 'a \<Rightarrow> agent_error + 'a" where
  "as_agent r = (case r of Inl _ \<Rightarrow> Inl Unhandled | Inr a \<Rightarrow> Inr a)"

definition provision_new ::
  "service_env \<Rightarrow> 'p agent_service \<Rightarrow> string \<Rightarrow> provisioning \<Rightarrow> string option
     \<Rightarrow> agent_error + 'p run_record" where
  "provision_new E svc run_id request expected_address = (case ag_keys svc of
     None \<Rightarrow> Inl (DependencyUnavailable ''signer'')
   | Some keys \<Rightarrow> (case check_identity (ag_role svc) request keys of
       Some e \<Rightarrow> Inl e
     | None \<Rightarrow> result_bind (find_policy (ag_policies svc) (pv_policy request)
           (sort (map fst (ag_policies svc)))) (\<lambda>factory.
         let derivation = \<lparr>kd_chain_id = es_chain_id (pv_expected request), kd_role = ag_role svc, kd_run_id = run_id\<rparr> in
         result_bind (as_agent (signer_for (se_keys E) keys derivation)) (\<lambda>(signer, keys').
         result_bind (factory request signer) (\<lambda>(policy, p0).
         case check_address (rs_address signer) expected_address of
           Some e \<Rightarrow> Inl e
         | None \<Rightarrow> Inr
            \<lparr>rr_run_id = run_id, rr_provisioning = request, rr_policy = policy, rr_policy_state = p0,
             rr_signer = signer, rr_provisioned_response = provisioned_response signer derivation policy,
             rr_opened = None, rr_approval = None, rr_turns = []\<rparr>)))))"

definition provision ::
  "service_env \<Rightarrow> 'p agent_service \<Rightarrow> 'p registry \<Rightarrow> string \<Rightarrow> provisioning \<Rightarrow> string option
     \<Rightarrow> (agent_error + json) \<times> 'p registry" where
  "provision E svc S run_id request expected_address =
     (if is_released S run_id then (Inl (InvalidState ''released'' [UNPROVISIONED, PROVISIONED]), S)
      else case registry_get S run_id of
        Some existing \<Rightarrow> (reprovision existing request expected_address, S)
      | None \<Rightarrow> (case provision_new E svc run_id request expected_address of
          Inl e \<Rightarrow> (Inl e, S)
        | Inr r \<Rightarrow> (case registry_add S r of
            Inl e \<Rightarrow> (Inl e, S) | Inr S' \<Rightarrow> (Inr (rr_provisioned_response r), S'))))"

subsection \<open>Approving a session, setup, release\<close>

definition changed :: "(string \<times> json) list \<Rightarrow> (string \<times> json) list \<Rightarrow> differences" where
  "changed expected received =
     concat (map (\<lambda>(name, e). case map_of received name of
        None \<Rightarrow> [(name, (e, JNull))]
      | Some r \<Rightarrow> if e \<noteq> r then [(name, (e, r))] else []) expected)"

definition approved_response :: "approved_session \<Rightarrow> json" where
  "approved_response a = JObj [(''approved'', JBool True), (''config_hash'', JStr (ap_config_hash a))]"

definition approve ::
  "('a) eth_lib_scheme \<Rightarrow> 'p agent_service \<Rightarrow> 'p registry \<Rightarrow> string \<Rightarrow> session_opened
     \<Rightarrow> (agent_error + json) \<times> 'p registry" where
  "approve L svc S run_id opened = (case registry_require S run_id [PROVISIONED, APPROVED] of
     Inl e \<Rightarrow> (Inl e, S)
   | Inr r \<Rightarrow> (case (rr_opened r, rr_approval r) of
       (Some first, Some a) \<Rightarrow>
         (if opened \<noteq> first
          then Inl (SessionMismatch (changed (opened_to_json first) (opened_to_json opened)))
          else Inr (approved_response a), S)
     | _ \<Rightarrow> (case approve_session L (pv_expected (rr_provisioning r)) opened (ag_role svc)
               (rs_address (rr_signer r)) of
           Inl e \<Rightarrow> (Inl e, S)
         | Inr a \<Rightarrow> (Inr (approved_response a),
             registry_put S (r\<lparr>rr_approval := Some a, rr_opened := Some opened\<rparr>)))))"

definition setup_approval_for ::
  "('a) eth_lib_scheme \<Rightarrow> 'p agent_service \<Rightarrow> 'p registry \<Rightarrow> string \<Rightarrow> fee_terms \<Rightarrow> agent_error + json" where
  "setup_approval_for L svc S run_id terms =
     result_bind (registry_require S run_id [PROVISIONED, APPROVED]) (\<lambda>r.
     result_bind (build_setup_approval L (ag_role svc) (pv_expected (rr_provisioning r))
       (pv_allowance (rr_provisioning r)) terms (ag_setup_bounds svc) (rr_signer r)) (\<lambda>a.
     Inr (JObj (approval_to_json a))))"

definition release :: "'p registry \<Rightarrow> string \<Rightarrow> json \<times> 'p registry" where
  "release S run_id = (JObj [(''released'', JBool True)], registry_release S run_id)"

subsection \<open>A turn\<close>

definition iso_utc_read :: "(string \<Rightarrow> int option) \<Rightarrow> json option \<Rightarrow> int option" where
  "iso_utc_read fromisoformat value = (case value of
     Some (JStr s) \<Rightarrow> if s \<noteq> [] \<and> last s = CHR ''Z'' then fromisoformat (butlast s @ ''+00:00'') else None
   | _ \<Rightarrow> None)"

definition turn_number :: "(string \<times> json) list \<Rightarrow> int option" where
  "turn_number body = (case map_of body ''turn'' of
     Some (JInt n) \<Rightarrow> if n \<ge> 1 then Some n else None | _ \<Rightarrow> None)"

definition turn_envelope :: "service_env \<Rightarrow> (string \<times> json) list \<Rightarrow> agent_error + (int \<times> int)" where
  "turn_envelope E body =
     (let number = turn_number body;
          deadline = iso_utc_read (se_fromisoformat E) (map_of body ''deadline_at'') in
      case (number, deadline) of
        (Some n, Some d) \<Rightarrow> Inr (n, d)
      | _ \<Rightarrow> Inl (RequestValidation
          ((if number = None then [(''turn'', ''an integer of at least 1'')] else [])
         @ (if deadline = None then [(''deadline_at'', ''an ISO 8601 UTC timestamp ending in Z'')] else []))))"

definition observation_document ::
  "service_env \<Rightarrow> (string \<times> json) list \<Rightarrow> (string \<times> json) list \<Rightarrow> agent_error + json" where
  "observation_document E body mandate_document =
     (if has_key body ''mandate'' then
        Inl (RequestValidation [(''mandate'', ''sent once, at provisioning; this instance injects its own'')])
      else
        let document = JObj (filter (\<lambda>(k, v). k \<noteq> ''turn'' \<and> k \<noteq> ''deadline_at'') body
              @ [(''mandate'', JObj mandate_document)]);
            problems = se_schema_problems E document
        in if problems \<noteq> [] then Inl (RequestValidation problems) else Inr document)"

definition typed :: "('a) eth_lib_scheme \<Rightarrow> json \<Rightarrow> agent_error + observation" where
  "typed L document = (case observation_from_json L document of
     Inr ob \<Rightarrow> Inr ob
   | Inl ViewValueError \<Rightarrow> Inl (RequestValidation
       [(''observation'', ''a value is not in its type's canonical form or range'')])
   | Inl _ \<Rightarrow> Inl Unhandled)"

definition check_observation ::
  "('a) eth_lib_scheme \<Rightarrow> role \<Rightarrow> string \<Rightarrow> string \<Rightarrow> approved_session \<Rightarrow> observation \<Rightarrow> agent_error option" where
  "check_observation L my_role run_id my_address approval ob =
     (let fields = dict_update
            (changed [(''run_id'', JStr (uuid_str run_id)), (''role'', JStr (role_str my_role)),
                      (''my_address'', JStr my_address)]
                     [(''run_id'', JStr (uuid_str (ob_run_id ob))), (''role'', JStr (role_str (ob_role ob))),
                      (''my_address'', JStr (ob_my_address ob))])
            (map (\<lambda>(name, d). (''session.'' @ name, d)) (mismatches_with approval (ob_session ob)))
      in if fields \<noteq> [] then Some (SessionMismatch fields)
         else if ob_chain_time ob \<ge> ap_expires_at approval
         then Some (InvalidState ''session_deadline_passed'' [APPROVED])
         else case contradictions L ob approval of
           Inl _ \<Rightarrow> Some Unhandled
         | Inr problems \<Rightarrow> if problems \<noteq> [] then Some (ObservationInconsistent problems) else None)"

text \<open>What happens around the turn while it runs: the clock, and a release arriving meanwhile.\<close>

record turn_events = surroundings +
  te_released_at :: "nat option"

definition released_by :: "turn_events \<Rightarrow> nat \<Rightarrow> bool" where
  "released_by W attempt = (case te_released_at W of None \<Rightarrow> False | Some k \<Rightarrow> k \<le> attempt)"

definition world :: "turn_events \<Rightarrow> surroundings" where
  "world W = \<lparr>su_now = su_now W, su_requested_at = su_requested_at W, su_elapsed_ms = su_elapsed_ms W,
     su_still_open = (\<lambda>i. \<not> released_by W i)\<rparr>"

definition turn_request_of ::
  "int \<Rightarrow> observation \<Rightarrow> string \<Rightarrow> 'p run_record \<Rightarrow> approved_session \<Rightarrow> int \<Rightarrow> 'p turn_request" where
  "turn_request_of turn ob observation_hash r approval deadline =
     \<lparr>tr_turn = turn, tr_observation = ob, tr_observation_hash = observation_hash,
      tr_policy = rr_policy r, tr_attempts = 1 + pv_repair_attempts (rr_provisioning r),
      tr_approval = approval, tr_signer = rr_signer r, tr_deadline = Some deadline\<rparr>"

definition turn_inputs ::
  "service_env \<Rightarrow> (string \<times> json) list \<Rightarrow> (string \<times> json) list
     \<Rightarrow> agent_error + (int \<times> int \<times> json \<times> string)" where
  "turn_inputs E mandate_document body =
     result_bind (turn_envelope E body) (\<lambda>(turn, deadline).
     result_bind (observation_document E body mandate_document) (\<lambda>document.
     case json_sha256 (se_sha256 E) document of
       Inl _ \<Rightarrow> Inl Unhandled
     | Inr observation_hash \<Rightarrow> Inr (turn, deadline, document, observation_hash)))"

definition approval_of :: "'p run_record \<Rightarrow> agent_error + approved_session" where
  "approval_of r = (case rr_approval r of
     None \<Rightarrow> Inl (InvalidState PROVISIONED [APPROVED]) | Some approval \<Rightarrow> Inr approval)"

definition turn_observation ::
  "('a) eth_lib_scheme \<Rightarrow> role \<Rightarrow> 'p run_record \<Rightarrow> json \<Rightarrow> agent_error + (approved_session \<times> observation)" where
  "turn_observation L my_role r document =
     result_bind (approval_of r) (\<lambda>approval.
     result_bind (typed L document) (\<lambda>ob.
     case check_observation L my_role (rr_run_id r) (rs_address (rr_signer r)) approval ob of
       Some e \<Rightarrow> Inl e | None \<Rightarrow> Inr (approval, ob)))"

definition turn_on ::
  "('a) eth_lib_scheme \<Rightarrow> service_env \<Rightarrow> turn_events \<Rightarrow> role \<Rightarrow> 'p run_record
     \<Rightarrow> (string \<times> json) list \<Rightarrow> (agent_error + turn_outcome) \<times> 'p run_record" where
  "turn_on L E W my_role r body =
     (case turn_inputs E (pv_mandate_document (rr_provisioning r)) body of
        Inl e \<Rightarrow> (Inl e, r)
      | Inr (turn, deadline, document, observation_hash) \<Rightarrow>
        (case map_of (rr_turns r) turn of
           Some answered \<Rightarrow>
             (if at_observation_hash answered \<noteq> observation_hash then Inl IdempotencyConflict
              else Inr (at_response answered), r)
         | None \<Rightarrow>
           (case turn_observation L my_role r document of
              Inl e \<Rightarrow> (Inl e, r)
            | Inr (approval, ob) \<Rightarrow>
              (case run_turn L validate (world W)
                      (turn_request_of turn ob observation_hash r approval deadline) (rr_policy_state r) of
                 (Inl e, p') \<Rightarrow> (Inl e, r\<lparr>rr_policy_state := p'\<rparr>)
               | (Inr out, p') \<Rightarrow> (Inr out, r\<lparr>rr_policy_state := p',
                   rr_turns := AList.update turn
                     \<lparr>at_observation_hash = observation_hash, at_response = out\<rparr> (rr_turns r)\<rparr>)))))"

definition turn ::
  "('a) eth_lib_scheme \<Rightarrow> service_env \<Rightarrow> turn_events \<Rightarrow> 'p agent_service \<Rightarrow> 'p registry \<Rightarrow> string
     \<Rightarrow> (string \<times> json) list \<Rightarrow> (agent_error + turn_outcome) \<times> 'p registry" where
  "turn L E W svc S run_id body = (case registry_require S run_id [APPROVED] of
     Inl e \<Rightarrow> (Inl e, S)
   | Inr r \<Rightarrow>
       (let (answer, r') = turn_on L E W (ag_role svc) r body in
        (answer, case te_released_at W of
           None \<Rightarrow> registry_put S r' | Some _ \<Rightarrow> registry_release S run_id)))"

lemma turn_envelope_number: "turn_envelope E body = Inr (t, d) \<Longrightarrow> turn_number body = Some t"
  by (auto simp: turn_envelope_def Let_def split: option.splits)

lemma turn_inputs_number: "turn_inputs E m body = Inr (t, d, doc, h) \<Longrightarrow> turn_number body = Some t"
proof -
  assume i: "turn_inputs E m body = Inr (t, d, doc, h)"
  then obtain t' d' where e: "turn_envelope E body = Inr (t', d')"
    by (cases "turn_envelope E body") (auto simp: turn_inputs_def)
  with i obtain x where o: "observation_document E body m = Inr x"
    by (cases "observation_document E body m") (auto simp: turn_inputs_def)
  with i e have "t = t'"
    by (cases "json_sha256 (se_sha256 E) x") (auto simp: turn_inputs_def)
  with e show ?thesis by (simp add: turn_envelope_number)
qed

lemma turn_observation_Inr:
  "turn_observation L role r doc = Inr (ap, ob) \<longleftrightarrow> rr_approval r = Some ap \<and> typed L doc = Inr ob \<and>
     check_observation L role (rr_run_id r) (rs_address (rr_signer r)) ap ob = None"
  by (cases "rr_approval r"; cases "typed L doc")
     (auto simp: turn_observation_def approval_of_def split: option.splits)

lemma run_record_update_same [simp]: "r\<lparr>rr_policy_state := rr_policy_state r\<rparr> = r"
  by simp

lemma turn_on_cases [consumes 1, case_names refused again fresh]:
  assumes t: "turn_on L E W role r body = (ans, r')"
  obtains (refused) e p where "ans = Inl e" "r' = r\<lparr>rr_policy_state := p\<rparr>"
    | (again) t h where "ans = Inr (at_response h)" "turn_number body = Some t"
        "map_of (rr_turns r) t = Some h" "r' = r"
    | (fresh) t approval ob hash deadline p out where "ans = Inr out" "turn_number body = Some t"
        "map_of (rr_turns r) t = None" "rr_approval r = Some approval"
        "check_observation L role (rr_run_id r) (rs_address (rr_signer r)) approval ob = None"
        "run_turn L validate (world W) (turn_request_of t ob hash r approval deadline) (rr_policy_state r) = (Inr out, p)"
        "r' = r\<lparr>rr_policy_state := p,
           rr_turns := AList.update t \<lparr>at_observation_hash = hash, at_response = out\<rparr> (rr_turns r)\<rparr>"
proof (cases "turn_inputs E (pv_mandate_document (rr_provisioning r)) body")
  case (Inl e)
  with t refused [of e "rr_policy_state r"] show thesis by (simp add: turn_on_def)
next
  case head: (Inr h)
  obtain n dl doc hash where h: "h = (n, dl, doc, hash)" by (cases h) auto
  from head h have num: "turn_number body = Some n" by (simp add: turn_inputs_number)
  show thesis
  proof (cases "map_of (rr_turns r) n")
    case (Some old)
    show thesis
    proof (cases "at_observation_hash old = hash")
      case True
      with t head h Some have "ans = Inr (at_response old)" "r' = r" by (simp_all add: turn_on_def)
      with again [OF _ num Some] show thesis by blast
    next
      case False
      with t head h Some refused [of IdempotencyConflict "rr_policy_state r"] show thesis by (simp add: turn_on_def)
    qed
  next
    case None
    show thesis
    proof (cases "turn_observation L role r doc")
      case (Inl e)
      with t head h None refused [of e "rr_policy_state r"] show thesis by (simp add: turn_on_def)
    next
      case mid: (Inr m)
      obtain ap ob where m: "m = (ap, ob)" by (cases m) auto
      with mid have ok: "rr_approval r = Some ap"
        "check_observation L role (rr_run_id r) (rs_address (rr_signer r)) ap ob = None"
        by (simp_all add: turn_observation_Inr)
      obtain res p where run: "run_turn L validate (world W) (turn_request_of n ob hash r ap dl)
          (rr_policy_state r) = (res, p)" by fastforce
      show thesis
      proof (cases res)
        case (Inl e)
        with t head h None mid m run refused [of e p] show thesis by (simp add: turn_on_def)
      next
        case (Inr out)
        with t head h None mid m run
        have "ans = Inr out" "r' = r\<lparr>rr_policy_state := p, rr_turns := AList.update n
            \<lparr>at_observation_hash = hash, at_response = out\<rparr> (rr_turns r)\<rparr>"
          by (simp_all add: turn_on_def)
        with fresh [OF _ num None ok] run Inr show thesis by blast
      qed
    qed
  qed
qed

subsection \<open>Requests\<close>

datatype request =
    Provision string provisioning "string option"
  | Approve string session_opened
  | SetupApproval string fee_terms
  | Turn string "(string \<times> json) list" turn_events
  | Release string

datatype answer = Plain json | TurnAnswer turn_outcome | Refused agent_error

definition plain_answer :: "agent_error + json \<Rightarrow> answer" where
  "plain_answer r = (case r of Inl e \<Rightarrow> Refused e | Inr j \<Rightarrow> Plain j)"

fun serve ::
  "('a) eth_lib_scheme \<Rightarrow> service_env \<Rightarrow> 'p agent_service \<Rightarrow> 'p registry \<Rightarrow> request \<Rightarrow> answer \<times> 'p registry" where
  "serve L E svc S (Provision run req addr) =
     (let (r, S') = provision E svc S run req addr in (plain_answer r, S'))"
| "serve L E svc S (Approve run opened) =
     (let (r, S') = approve L svc S run opened in (plain_answer r, S'))"
| "serve L E svc S (SetupApproval run terms) = (plain_answer (setup_approval_for L svc S run terms), S)"
| "serve L E svc S (Turn run body W) =
     (let (r, S') = turn L E W svc S run body in
      (case r of Inl e \<Rightarrow> Refused e | Inr out \<Rightarrow> TurnAnswer out, S'))"
| "serve L E svc S (Release run) = (let (r, S') = release S run in (Plain r, S'))"

fun serve_all ::
  "('a) eth_lib_scheme \<Rightarrow> service_env \<Rightarrow> 'p agent_service \<Rightarrow> 'p registry \<Rightarrow> request list
     \<Rightarrow> (request \<times> answer) list \<times> 'p registry" where
  "serve_all L E svc S [] = ([], S)"
| "serve_all L E svc S (q # qs) =
     (let (a, S') = serve L E svc S q; (rest, S'') = serve_all L E svc S' qs in ((q, a) # rest, S''))"

definition empty_registry :: "'p registry" where
  "empty_registry = \<lparr>rg_runs = [], rg_released = []\<rparr>"

subsection \<open>What the registry keeps\<close>

text \<open>
  An answer a record keeps: a well-formed outcome of its own turn number and, if signed, the
  signature of a legal decision made on an observation of this very run and session.
\<close>

definition signed_for ::
  "('a) eth_lib_scheme \<Rightarrow> role \<Rightarrow> string \<Rightarrow> run_signer \<Rightarrow> approved_session \<Rightarrow> signed_action \<Rightarrow> bool" where
  "signed_for L role run_id signer approval a \<longleftrightarrow>
     (\<exists>ob d. check_observation L role run_id (rs_address signer) approval ob = None \<and> legal_decision ob d \<and>
        sign_decision L d (Some approval) (ob_expected_sequence ob) (ob_chain_time ob) signer = Inr a)"

definition answer_ok :: "('a) eth_lib_scheme \<Rightarrow> role \<Rightarrow> 'p run_record \<Rightarrow> int \<Rightarrow> turn_outcome \<Rightarrow> bool" where
  "answer_ok L role r t out \<longleftrightarrow> to_turn out = t \<and> well_formed_outcome out \<and> numbered_records (to_decisions out) \<and>
     length (to_decisions out) \<le> 1 + pv_repair_attempts (rr_provisioning r) \<and>
     (\<forall>a. to_signed_action out = Some a \<longrightarrow>
        (\<exists>approval. rr_approval r = Some approval \<and> signed_for L role (rr_run_id r) (rr_signer r) approval a))"

definition record_ok :: "('a) eth_lib_scheme \<Rightarrow> role \<Rightarrow> 'p run_record \<Rightarrow> bool" where
  "record_ok L role r \<longleftrightarrow>
     (rr_opened r = None \<longleftrightarrow> rr_approval r = None) \<and>
     (\<forall>a s. rr_approval r = Some a \<longrightarrow> rr_opened r = Some s \<longrightarrow>
        approve_session L (pv_expected (rr_provisioning r)) s role (rs_address (rr_signer r)) = Inr a) \<and>
     (\<forall>t h. map_of (rr_turns r) t = Some h \<longrightarrow> answer_ok L role r t (at_response h))"

definition registry_ok :: "('a) eth_lib_scheme \<Rightarrow> role \<Rightarrow> 'p registry \<Rightarrow> bool" where
  "registry_ok L role S \<longleftrightarrow>
     (\<forall>run r. registry_get S run = Some r \<longrightarrow> rr_run_id r = run \<and> \<not> is_released S run \<and> record_ok L role r)"

lemma run_turn_signed_legal:
  assumes "run_turn L validate W R p = (Inr out, p')" and "to_signed_action out = Some a"
  shows "\<exists>d i. 1 \<le> i \<and> i \<le> tr_attempts R \<and> legal_decision (tr_observation R) d \<and> su_still_open W i \<and>
    sign_decision L d (Some (tr_approval R)) (ob_expected_sequence (tr_observation R))
      (ob_chain_time (tr_observation R)) (tr_signer R) = Inr a"
proof -
  from assms(1) have "attempts_from L validate W R (tr_attempts R) 1 [] None p = (Inr out, p')"
    by (simp add: run_turn_def split: if_splits)
  from mandate_gate.signed_legal [OF this assms(2)] obtain d i where
    "1 \<le> i" "i < 1 + tr_attempts R" "legal_decision (tr_observation R) d" "su_still_open W i"
    "sign_decision L d (Some (tr_approval R)) (ob_expected_sequence (tr_observation R))
      (ob_chain_time (tr_observation R)) (tr_signer R) = Inr a" by blast
  then show ?thesis by (intro exI [of _ d] exI [of _ i]) simp
qed

lemma run_turn_shape:
  assumes "run_turn L check W R p = (Inr out, p')"
  shows "well_formed_outcome out \<and> numbered_records (to_decisions out) \<and>
    length (to_decisions out) \<le> tr_attempts R \<and> to_turn out = tr_turn R"
  using assms attempts_from_shape [of L check W R "tr_attempts R" 1 "[]" None p out p']
  by (auto simp: run_turn_def numbered_records_def split: if_splits)

lemma turn_request_of_simps [simp]:
  "tr_turn (turn_request_of t ob h r a d) = t"
  "tr_observation (turn_request_of t ob h r a d) = ob"
  "tr_attempts (turn_request_of t ob h r a d) = 1 + pv_repair_attempts (rr_provisioning r)"
  "tr_approval (turn_request_of t ob h r a d) = a"
  "tr_signer (turn_request_of t ob h r a d) = rr_signer r"
  by (simp_all add: turn_request_of_def)

lemma fresh_answer_ok:
  assumes "run_turn L validate W (turn_request_of t ob h r approval d) p = (Inr out, p')"
    and "check_observation L role (rr_run_id r) (rs_address (rr_signer r)) approval ob = None"
    and "rr_approval r = Some approval"
  shows "answer_ok L role r t out"
proof -
  from run_turn_shape [OF assms(1)] have s: "well_formed_outcome out" "numbered_records (to_decisions out)"
    "length (to_decisions out) \<le> 1 + pv_repair_attempts (rr_provisioning r)" "to_turn out = t"
    by simp_all
  have "signed_for L role (rr_run_id r) (rr_signer r) approval a" if "to_signed_action out = Some a" for a
    using run_turn_signed_legal [OF assms(1) that] assms(2) by (auto simp: signed_for_def)
  with s assms(3) show ?thesis by (simp add: answer_ok_def)
qed

lemma record_ok_policy_state [simp]: "record_ok L role (r\<lparr>rr_policy_state := p\<rparr>) \<longleftrightarrow> record_ok L role r"
  by (simp add: record_ok_def answer_ok_def)

lemma answer_ok_turns [simp]:
  "answer_ok L role (r\<lparr>rr_policy_state := p, rr_turns := ts\<rparr>) t out \<longleftrightarrow> answer_ok L role r t out"
  by (simp add: answer_ok_def)

lemma turn_on_record_ok:
  assumes "turn_on L E W role r body = (ans, r')" and "record_ok L role r"
  shows "record_ok L role r' \<and> rr_run_id r' = rr_run_id r"
  using assms
proof (cases rule: turn_on_cases)
  case (fresh t approval ob hash deadline p out)
  from fresh_answer_ok [OF fresh(6,5,4)] have "answer_ok L role r t out" .
  with assms(2) fresh(7) show ?thesis
    by (auto simp: record_ok_def answer_ok_def split: if_splits)
qed (use assms(2) in auto)

lemma turn_on_answer_ok:
  assumes "turn_on L E W role r body = (Inr out, r')" and "record_ok L role r"
  shows "\<exists>t. turn_number body = Some t \<and> answer_ok L role r t out \<and> map_of (rr_turns r') t \<noteq> None \<and>
    (\<forall>h. map_of (rr_turns r') t = Some h \<longrightarrow> at_response h = out) \<and>
    (\<forall>u h. map_of (rr_turns r) u = Some h \<longrightarrow> map_of (rr_turns r') u = Some h)"
  using assms(1)
proof (cases rule: turn_on_cases)
  case (again t h)
  with assms(2) show ?thesis by (auto simp: record_ok_def)
next
  case (fresh t approval ob hash deadline p out')
  with fresh_answer_ok [OF fresh(6,5,4)] show ?thesis by auto
qed simp

lemma registry_simps [simp]:
  "registry_get (registry_put S r) run = (if run = rr_run_id r \<and> registry_get S run \<noteq> None then Some r else registry_get S run)"
  "is_released (registry_put S r) run \<longleftrightarrow> is_released S run"
  "registry_get (registry_release S x) run = (if run = x then None else registry_get S run)"
  "is_released (registry_release S x) run \<longleftrightarrow> run = x \<or> is_released S run"
  by (auto simp: registry_get_def registry_put_def registry_release_def is_released_def)

lemma registry_require_Inr:
  "registry_require S run allowed = Inr r \<longleftrightarrow> registry_get S run = Some r \<and>
     (if is_released S run then RELEASED else run_record_state r) \<in> set allowed"
  by (auto simp: registry_require_def Let_def split: option.splits)

lemma state_names [simp]:
  "RELEASED \<noteq> APPROVED" "RELEASED \<noteq> PROVISIONED" "APPROVED \<noteq> PROVISIONED"
  "UNPROVISIONED \<noteq> APPROVED" "UNPROVISIONED \<noteq> PROVISIONED"
  by (simp_all add: RELEASED_def APPROVED_def PROVISIONED_def UNPROVISIONED_def)

lemma registry_require_released:
  "is_released S run \<Longrightarrow> RELEASED \<notin> set allowed \<Longrightarrow>
     registry_require S run allowed = Inl (InvalidState RELEASED allowed)"
  by (auto simp: registry_require_def Let_def split: option.splits)

lemma provision_effect:
  assumes "provision E svc S run req addr = (ans, S')"
  shows "S' = S \<or> (registry_get S run = None \<and> \<not> is_released S run \<and>
    (\<exists>r. provision_new E svc run req addr = Inr r \<and> S' = S\<lparr>rg_runs := AList.update run r (rg_runs S)\<rparr>))"
proof (cases "is_released S run \<or> registry_get S run \<noteq> None")
  case True
  with assms show ?thesis by (auto simp: provision_def split: if_splits)
next
  case False
  show ?thesis
  proof (cases "provision_new E svc run req addr")
    case (Inl e)
    with assms False show ?thesis by (auto simp: provision_def)
  next
    case (Inr r)
    then have "rr_run_id r = run"
      unfolding provision_new_def Let_def
      by (auto simp: result_bind_Inr split: option.split_asm prod.split_asm)
    with assms False Inr show ?thesis by (auto simp: provision_def registry_add_def)
  qed
qed

lemma provision_new_fresh:
  "provision_new E svc run req addr = Inr r \<Longrightarrow>
     rr_run_id r = run \<and> rr_opened r = None \<and> rr_approval r = None \<and> rr_turns r = [] \<and>
     rr_provisioning r = req"
  unfolding provision_new_def Let_def
  by (auto simp: result_bind_Inr split: option.split_asm prod.split_asm)

lemma approve_effect:
  assumes "approve L svc S run opened = (ans, S')" and "registry_ok L (ag_role svc) S"
  shows "S' = S \<or> (\<exists>r a. registry_get S run = Some r \<and> \<not> is_released S run \<and> rr_approval r = None \<and>
    approve_session L (pv_expected (rr_provisioning r)) opened (ag_role svc) (rs_address (rr_signer r)) = Inr a \<and>
    S' = registry_put S (r\<lparr>rr_approval := Some a, rr_opened := Some opened\<rparr>))"
proof (cases "registry_require S run [PROVISIONED, APPROVED]")
  case (Inl e)
  with assms(1) show ?thesis by (simp add: approve_def)
next
  case (Inr r)
  then have r: "registry_get S run = Some r" "\<not> is_released S run"
    by (auto simp: registry_require_Inr split: if_splits)
  with assms(2) have "rr_opened r = None \<longleftrightarrow> rr_approval r = None"
    by (auto simp: registry_ok_def record_ok_def)
  with Inr r assms(1) show ?thesis
    by (cases "rr_approval r"; cases "rr_opened r") (auto simp: approve_def split: sum.splits if_splits)
qed

lemma turn_effect:
  assumes "turn L E W svc S run body = (ans, S')"
  shows "(S' = S \<and> (\<exists>e. ans = Inl e)) \<or>
    (\<exists>r r'. registry_get S run = Some r \<and> \<not> is_released S run \<and>
       turn_on L E W (ag_role svc) r body = (ans, r') \<and>
       S' = (case te_released_at W of None \<Rightarrow> registry_put S r' | Some _ \<Rightarrow> registry_release S run))"
proof (cases "registry_require S run [APPROVED]")
  case (Inl e)
  with assms have "ans = Inl e" "S' = S" by (simp_all add: turn_def)
  then show ?thesis by blast
next
  case (Inr r)
  obtain a r' where t: "turn_on L E W (ag_role svc) r body = (a, r')" by fastforce
  with Inr assms have "ans = a" "S' = (case te_released_at W of None \<Rightarrow> registry_put S r' | Some _ \<Rightarrow> registry_release S run)"
    by (simp_all add: turn_def)
  with Inr t show ?thesis by (auto simp: registry_require_Inr split: if_splits)
qed

lemma registry_ok_put:
  assumes "registry_ok L role S" and "registry_get S (rr_run_id r) \<noteq> None" and "record_ok L role r"
  shows "registry_ok L role (registry_put S r)"
  using assms unfolding registry_ok_def by auto

lemma registry_ok_release: "registry_ok L role S \<Longrightarrow> registry_ok L role (registry_release S run)"
  unfolding registry_ok_def by (auto split: if_splits)

lemma serve_registry_ok:
  assumes "serve L E svc S q = (a, S')" and ok: "registry_ok L (ag_role svc) S"
  shows "registry_ok L (ag_role svc) S'"
proof (cases q)
  case (Provision run req addr)
  obtain ans where p: "provision E svc S run req addr = (ans, S')"
    using assms(1) Provision by (auto split: prod.splits)
  show ?thesis
  proof (cases "S' = S")
    case False
    with provision_effect [OF p] obtain r where n: "registry_get S run = None" "\<not> is_released S run"
      and r: "provision_new E svc run req addr = Inr r" and S': "S' = S\<lparr>rg_runs := AList.update run r (rg_runs S)\<rparr>"
      by blast
    from provision_new_fresh [OF r] have "rr_run_id r = run" "record_ok L (ag_role svc) r"
      by (auto simp: record_ok_def)
    with ok n S' show ?thesis by (auto simp: registry_ok_def registry_get_def is_released_def)
  qed (use ok in simp)
next
  case (Approve run opened)
  obtain ans where p: "approve L svc S run opened = (ans, S')"
    using assms(1) Approve by (auto split: prod.splits)
  from approve_effect [OF p ok] show ?thesis
  proof (elim disjE exE conjE)
    fix r x
    assume r: "registry_get S run = Some r" "rr_approval r = None"
      "approve_session L (pv_expected (rr_provisioning r)) opened (ag_role svc) (rs_address (rr_signer r)) = Inr x"
      and S': "S' = registry_put S (r\<lparr>rr_approval := Some x, rr_opened := Some opened\<rparr>)"
    with ok have rec: "record_ok L (ag_role svc) r" "rr_run_id r = run" by (auto simp: registry_ok_def)
    with r have "record_ok L (ag_role svc) (r\<lparr>rr_approval := Some x, rr_opened := Some opened\<rparr>)"
      by (auto simp: record_ok_def answer_ok_def)
    with ok r rec S' show ?thesis by (auto intro: registry_ok_put)
  qed (use ok in simp)
next
  case (Turn run body W)
  obtain ans where p: "turn L E W svc S run body = (ans, S')"
    using assms(1) Turn by (auto split: prod.splits)
  from turn_effect [OF p] show ?thesis
  proof (elim disjE exE conjE)
    fix r r'
    assume r: "registry_get S run = Some r" and t: "turn_on L E W (ag_role svc) r body = (ans, r')"
      and S': "S' = (case te_released_at W of None \<Rightarrow> registry_put S r' | Some _ \<Rightarrow> registry_release S run)"
    from ok r have "record_ok L (ag_role svc) r" "rr_run_id r = run" by (auto simp: registry_ok_def)
    with turn_on_record_ok [OF t] have "record_ok L (ag_role svc) r'" "rr_run_id r' = run" by auto
    with ok r S' show ?thesis
      by (auto intro: registry_ok_put registry_ok_release split: option.splits)
  qed (use ok in simp)
qed (use assms in \<open>auto simp: release_def registry_ok_release\<close>)

subsection \<open>One answer per turn, and none after a release\<close>

lemma serve_released_stays: "serve L E svc S q = (a, S') \<Longrightarrow> is_released S run \<Longrightarrow> is_released S' run"
proof (cases q)
  case (Provision x req addr)
  assume "serve L E svc S q = (a, S')" "is_released S run"
  moreover from this Provision obtain ans where "provision E svc S x req addr = (ans, S')"
    by (auto split: prod.splits)
  ultimately show ?thesis by (auto dest!: provision_effect simp: is_released_def)
next
  case (Approve x opened)
  assume s: "serve L E svc S q = (a, S')" and r: "is_released S run"
  show ?thesis
  proof (cases "registry_require S x [PROVISIONED, APPROVED]")
    case (Inr rec)
    with s r Approve show ?thesis
      by (cases "rr_opened rec"; cases "rr_approval rec")
        (auto simp: approve_def split: sum.splits if_splits prod.splits)
  qed (use s r Approve in \<open>simp add: approve_def\<close>)
next
  case (Turn x body W)
  assume "serve L E svc S q = (a, S')" "is_released S run"
  moreover from this Turn obtain ans where "turn L E W svc S x body = (ans, S')"
    by (auto split: prod.splits)
  ultimately show ?thesis by (auto dest!: turn_effect split: option.splits)
qed (auto simp: release_def)

text \<open>A turn of a run has this answer, or the run is released.\<close>

definition holds_answer :: "'p registry \<Rightarrow> string \<Rightarrow> int \<Rightarrow> turn_outcome \<Rightarrow> bool" where
  "holds_answer S run t out \<longleftrightarrow> is_released S run \<or>
     (\<exists>r h. registry_get S run = Some r \<and> map_of (rr_turns r) t = Some h \<and> at_response h = out)"

lemma serve_turn_answer:
  assumes "serve L E svc S (Turn run body W) = (TurnAnswer out, S')" and ok: "registry_ok L (ag_role svc) S"
  shows "\<exists>t r. turn_number body = Some t \<and> registry_get S run = Some r \<and> answer_ok L (ag_role svc) r t out \<and>
    \<not> is_released S run \<and> holds_answer S' run t out \<and>
    (\<forall>old. holds_answer S run t old \<longrightarrow> old = out)"
proof -
  from assms(1) have p: "turn L E W svc S run body = (Inr out, S')"
    by (auto split: prod.splits sum.splits)
  from turn_effect [OF p] obtain r r' where r: "registry_get S run = Some r" "\<not> is_released S run"
    and t: "turn_on L E W (ag_role svc) r body = (Inr out, r')"
    and S': "S' = (case te_released_at W of None \<Rightarrow> registry_put S r' | Some _ \<Rightarrow> registry_release S run)"
    by auto
  from ok r have rec: "record_ok L (ag_role svc) r" "rr_run_id r = run" by (auto simp: registry_ok_def)
  from turn_on_record_ok [OF t rec(1)] rec have id: "rr_run_id r' = run" by simp
  from turn_on_answer_ok [OF t rec(1)] obtain n where n: "turn_number body = Some n"
    "answer_ok L (ag_role svc) r n out" "map_of (rr_turns r') n \<noteq> None"
    "\<forall>h. map_of (rr_turns r') n = Some h \<longrightarrow> at_response h = out"
    "\<forall>u h. map_of (rr_turns r) u = Some h \<longrightarrow> map_of (rr_turns r') u = Some h" by blast
  have "holds_answer S' run n out"
    using S' n(3,4) id r(1) by (auto simp: holds_answer_def split: option.splits)
  moreover have "old = out" if "holds_answer S run n old" for old
    using that r n(4,5) by (auto simp: holds_answer_def)
  ultimately show ?thesis using n(1,2) r by blast
qed

lemma serve_keeps_answer:
  assumes "serve L E svc S q = (a, S')" and ok: "registry_ok L (ag_role svc) S" and h: "holds_answer S run t out"
  shows "holds_answer S' run t out"
proof (cases "is_released S run")
  case True
  with serve_released_stays [OF assms(1)] show ?thesis by (simp add: holds_answer_def)
next
  case False
  with h obtain r x where r: "registry_get S run = Some r" "map_of (rr_turns r) t = Some x" "at_response x = out"
    by (auto simp: holds_answer_def)
  with ok have rec: "record_ok L (ag_role svc) r" "rr_run_id r = run" by (auto simp: registry_ok_def)
  show ?thesis
  proof (cases q)
    case (Provision z req addr)
    with assms(1) obtain ans where "provision E svc S z req addr = (ans, S')" by (auto split: prod.splits)
    from provision_effect [OF this] have "registry_get S' run = Some r"
      using r(1) by (auto simp: registry_get_def)
    with r show ?thesis by (auto simp: holds_answer_def)
  next
    case (Approve z opened)
    with assms(1) obtain ans where "approve L svc S z opened = (ans, S')" by (auto split: prod.splits)
    from approve_effect [OF this ok] have "\<exists>r'. registry_get S' run = Some r' \<and> rr_turns r' = rr_turns r"
    proof (elim disjE exE conjE)
      fix ra y
      assume ra: "registry_get S z = Some ra"
        and S': "S' = registry_put S (ra\<lparr>rr_approval := Some y, rr_opened := Some opened\<rparr>)"
      with ok have "rr_run_id ra = z" by (auto simp: registry_ok_def)
      with ra S' r(1) show ?thesis by (cases "z = run") auto
    qed (use r in simp)
    with r show ?thesis by (auto simp: holds_answer_def)
  next
    case (Turn z body W)
    with assms(1) obtain ans where p: "turn L E W svc S z body = (ans, S')" by (auto split: prod.splits)
    from turn_effect [OF p] show ?thesis
    proof (elim disjE exE conjE)
      fix s r'
      assume s: "registry_get S z = Some s" and t: "turn_on L E W (ag_role svc) s body = (ans, r')"
        and S': "S' = (case te_released_at W of None \<Rightarrow> registry_put S r' | Some _ \<Rightarrow> registry_release S z)"
      from s ok have so: "record_ok L (ag_role svc) s" "rr_run_id s = z" by (auto simp: registry_ok_def)
      from turn_on_record_ok [OF t so(1)] so have id: "rr_run_id r' = z" by simp
      have "map_of (rr_turns r') t = Some x" if "s = r"
        using t that r(2) by (cases rule: turn_on_cases) auto
      with S' r s id show ?thesis
        by (cases "z = run") (auto simp: holds_answer_def split: option.splits)
    qed (use h in simp)
  qed (use assms(1) r h in \<open>auto simp: release_def holds_answer_def\<close>)
qed

lemma trace_agrees:
  assumes "serve_all L E svc S qs = (tr, S')" and "registry_ok L (ag_role svc) S" and "holds_answer S run t out"
    and "(Turn run body W, TurnAnswer out') \<in> set tr" and "turn_number body = Some t"
  shows "out' = out"
  using assms
proof (induction qs arbitrary: S tr)
  case (Cons q qs)
  obtain a S1 where s: "serve L E svc S q = (a, S1)" by fastforce
  obtain rest where rest: "serve_all L E svc S1 qs = (rest, S')" and tr: "tr = (q, a) # rest"
    using Cons.prems(1) s by (auto split: prod.splits)
  show ?case
  proof (cases "(Turn run body W, TurnAnswer out') = (q, a)")
    case True
    with s have "serve L E svc S (Turn run body W) = (TurnAnswer out', S1)" by simp
    from serve_turn_answer [OF this Cons.prems(2)] Cons.prems(3,5) show ?thesis by auto
  next
    case False
    with Cons.prems(4) tr have "(Turn run body W, TurnAnswer out') \<in> set rest" by auto
    with Cons.IH [OF rest serve_registry_ok [OF s Cons.prems(2)] serve_keeps_answer [OF s Cons.prems(2,3)]]
      Cons.prems(5) show ?thesis by blast
  qed
qed simp

lemma trace_one_answer:
  assumes "serve_all L E svc S qs = (tr, S')" and "registry_ok L (ag_role svc) S"
    and "(Turn run body W, TurnAnswer out) \<in> set tr" and "(Turn run body' W', TurnAnswer out') \<in> set tr"
    and "turn_number body = turn_number body'"
  shows "out = out'"
  using assms
proof (induction qs arbitrary: S tr)
  case (Cons q qs)
  obtain a S1 where s: "serve L E svc S q = (a, S1)" by fastforce
  obtain rest where rest: "serve_all L E svc S1 qs = (rest, S')" and tr: "tr = (q, a) # rest"
    using Cons.prems(1) s by (auto split: prod.splits)
  note ok1 = serve_registry_ok [OF s Cons.prems(2)]
  have first: "o2 = o1" if h: "(q, a) = (Turn run b V, TurnAnswer o1)"
    and m: "(Turn run b' V', TurnAnswer o2) \<in> set rest" and n: "turn_number b = turn_number b'" for b V o1 b' V' o2
  proof -
    from h s have "serve L E svc S (Turn run b V) = (TurnAnswer o1, S1)" by simp
    from serve_turn_answer [OF this Cons.prems(2)] obtain t where "turn_number b = Some t" "holds_answer S1 run t o1"
      by blast
    with trace_agrees [OF rest ok1 _ m] n show ?thesis by simp
  qed
  show ?case
    using Cons.prems(3,4,5) Cons.IH [OF rest ok1] first tr by (auto dest!: sym [of "turn_number body"])
qed simp

end
