(* ===== verification/Agent_Samples.thy ===== *)
theory Agent_Samples
  imports Agent_Service Samples
begin

section \<open>A small session, for the witnesses about the agent\<close>

definition addr :: "char \<Rightarrow> string" where "addr c = ''0x'' @ replicate 40 c"
definition hash32 :: "8 word \<Rightarrow> string" where "hash32 b = ''0x'' @ to_hex (replicate 32 b)"

definition sample_expected :: expected_session where
  "sample_expected = \<lparr>es_chain_id = 31337, es_exchange_address = addr CHR ''e'',
     es_base_token = addr CHR ''3'', es_quote_token = addr CHR ''4'', es_base_amount = 5,
     es_max_offers = 4, es_session_duration_s = 3600, es_offer_lifetime_s = 600\<rparr>"

definition sample_config :: string where
  "sample_config = (case recompute_config_hash sample_lib sample_expected
     \<lparr>so_session_id = hash32 7, so_buyer = addr CHR ''1'', so_seller = addr CHR ''2'',
      so_base_token = addr CHR ''3'', so_quote_token = addr CHR ''4'', so_base_amount = 5,
      so_expires_at = 2000, so_max_offers = 4, so_config_hash = [], so_opened_at = 900\<rparr> of
     Inl _ \<Rightarrow> [] | Inr h \<Rightarrow> h)"

definition sample_opened :: session_opened where
  "sample_opened = \<lparr>so_session_id = hash32 7, so_buyer = addr CHR ''1'', so_seller = addr CHR ''2'',
     so_base_token = addr CHR ''3'', so_quote_token = addr CHR ''4'', so_base_amount = 5,
     so_expires_at = 2000, so_max_offers = 4, so_config_hash = sample_config, so_opened_at = 900\<rparr>"

definition sample_approval :: approved_session where
  "sample_approval = \<lparr>ap_chain_id = 31337, ap_exchange_address = addr CHR ''e'',
     ap_base_token = addr CHR ''3'', ap_quote_token = addr CHR ''4'', ap_session_id = hash32 7,
     ap_config_hash = sample_config, ap_buyer = addr CHR ''1'', ap_seller = addr CHR ''2'',
     ap_base_amount = 5, ap_expires_at = 2000, ap_max_offers = 4, ap_offer_lifetime_s = 600\<rparr>"

definition sample_run :: string where "sample_run = replicate 32 CHR ''5''"

definition sample_signer :: run_signer where
  "sample_signer = \<lparr>rs_address = addr CHR ''1'',
     rs_derivation = \<lparr>kd_chain_id = 31337, kd_role = Buyer, kd_run_id = sample_run\<rparr>,
     rs_sign_digest = (\<lambda>d. d), rs_sign_transaction = (\<lambda>t. ([], hash32 9))\<rparr>"

definition sample_mandate :: "(string \<times> json) list" where
  "sample_mandate = [(''reservation_price_minor'', JStr ''100''),
     (''min_remaining_inventory_minor'', JStr ''0''), (''instructions'', JStr ''buy'')]"

definition sample_body :: "(string \<times> json) list" where
  "sample_body = [(''turn'', JInt 1), (''deadline_at'', JStr ''2026-01-01T00:00:00Z''),
     (''run_id'', JStr sample_run), (''role'', JStr ''buyer''), (''my_address'', JStr (addr CHR ''1'')),
     (''session'', JObj [(''session_id'', JStr (hash32 7)), (''config_hash'', JStr sample_config),
        (''chain_id'', JInt 31337), (''exchange_address'', JStr (addr CHR ''e'')),
        (''base_token'', JStr (addr CHR ''3'')), (''quote_token'', JStr (addr CHR ''4'')),
        (''base_amount_minor'', JStr ''5''), (''expires_at'', JInt 2000), (''max_offers'', JInt 4),
        (''token_decimals'', JInt 6)]),
     (''chain_time'', JInt 1000), (''expected_sequence'', JInt 1), (''offers_remaining_for_me'', JInt 2),
     (''active_offer'', JNull), (''history'', JList []),
     (''my_balances'', JObj [(''base_minor'', JStr ''0''), (''quote_minor'', JStr ''1000'')])]"

definition sample_document :: json where
  "sample_document = JObj (drop 2 sample_body @ [(''mandate'', JObj sample_mandate)])"

definition make_ob :: "string \<Rightarrow> json \<Rightarrow> observation" where
  "make_ob config document = \<lparr>ob_run_id = sample_run, ob_role = Buyer, ob_my_address = addr CHR ''1'',
     ob_session = \<lparr>sv_session_id = hash32 7, sv_config_hash = config, sv_chain_id = 31337,
       sv_exchange_address = addr CHR ''e'', sv_base_token = addr CHR ''3'', sv_quote_token = addr CHR ''4'',
       sv_base_amount = 5, sv_expires_at = 2000, sv_max_offers = 4, sv_token_decimals = 6\<rparr>,
     ob_chain_time = 1000, ob_expected_sequence = 1, ob_offers_remaining_for_me = 2,
     ob_active_offer = None, ob_history = [], ob_my_balances = \<lparr>bal_base = 0, bal_quote = 1000\<rparr>,
     ob_mandate = \<lparr>reservation_price = 100, min_remaining_inventory = 0, instructions = ''buy''\<rparr>,
     ob_document = document\<rparr>"

definition sample_ob :: observation where
  "sample_ob = make_ob sample_config sample_document"

definition sample_provisioning :: provisioning where
  "sample_provisioning = \<lparr>pv_role = Buyer, pv_policy = ''deterministic'', pv_model_id = None, pv_effort = None,
     pv_repair_attempts = 1, pv_model_call_ceiling = 0, pv_model_spend_ceiling_usd = 0, pv_model_timeout_s = 30,
     pv_expected = sample_expected, pv_key_ref = ''env:ROOT'', pv_mandate_version_id = sample_run,
     pv_mandate_document = sample_mandate, pv_initial_base = 0, pv_initial_quote = 1000,
     pv_allowance = 1000, pv_fingerprint = ''f''\<rparr>"

definition sample_record :: "unit run_record" where
  "sample_record = \<lparr>rr_run_id = sample_run, rr_provisioning = sample_provisioning, rr_policy = DeterministicPolicy,
     rr_policy_state = (), rr_signer = sample_signer, rr_provisioned_response = JNull,
     rr_opened = Some sample_opened, rr_approval = Some sample_approval, rr_turns = []\<rparr>"

definition sample_registry :: "unit registry" where
  "sample_registry = \<lparr>rg_runs = [(sample_run, sample_record)], rg_released = []\<rparr>"

definition sample_service :: "unit agent_service" where
  "sample_service = \<lparr>ag_role = Buyer, ag_keys = None, ag_policies = [],
     ag_setup_bounds = \<lparr>sb_gas_limit_max = 0, sb_max_cost_wei = 0\<rparr>\<rparr>"

definition sample_env :: service_env where
  "sample_env = \<lparr>se_keys = \<lparr>kl_candidate = (\<lambda>r d n. 1), kl_address = (\<lambda>k. addr CHR ''1''),
       kl_sign_digest = (\<lambda>k d. d), kl_sign_transaction = (\<lambda>k t. ([], []))\<rparr>,
     se_sha256 = (\<lambda>b. replicate 32 0), se_schema_problems = (\<lambda>d. []), se_fromisoformat = (\<lambda>s. Some 100000000)\<rparr>"

definition sample_events :: turn_events where
  "sample_events = \<lparr>su_now = (\<lambda>i. 0), su_requested_at = (\<lambda>i. 0), su_elapsed_ms = (\<lambda>i. 5),
     su_still_open = (\<lambda>i. True), te_released_at = None\<rparr>"

lemma sample_addresses:
  "c \<in> {CHR ''1'', CHR ''2'', CHR ''3'', CHR ''4'', CHR ''e''} \<Longrightarrow> sample_checksum (addr c) = addr c"
  by (auto simp: addr_def) code_simp+

lemma sample_config_ok: "recompute_config_hash sample_lib sample_expected sample_opened = Inr sample_config"
  and sample_config_digest: "is_digest sample_config"
proof -
  have len: "length (digest_to_bytes (hash32 7)) = 32" by code_simp
  let ?s = "sample_opened\<lparr>so_config_hash := []\<rparr>"
  have eq: "recompute_config_hash sample_lib sample_expected sample_opened =
      recompute_config_hash sample_lib sample_expected ?s"
    by (simp add: recompute_config_hash_def)
  have "\<exists>h. recompute_config_hash sample_lib sample_expected ?s = Inr h"
    by (simp add: recompute_config_hash_def config_hash_def result_bind_Inr keccak_args_Inr config_args_def
        all_results_Inr list_all2_Cons1 arg_results sample_opened_def sample_expected_def len
        Digest_of_bytes_Inr sample_lib_def sample_keccak_def)
  then obtain h where h: "recompute_config_hash sample_lib sample_expected ?s = Inr h" by blast
  then have c: "sample_config = h" by (simp add: sample_config_def sample_opened_def)
  from h eq c show "recompute_config_hash sample_lib sample_expected sample_opened = Inr sample_config" by simp
  from h have "\<exists>b. Digest_of_bytes b = Inr h" by (auto simp: recompute_config_hash_def result_bind_Inr)
  with c show "is_digest sample_config" by (auto simp: Digest_of_bytes_Inr is_digest_def)
qed

lemma sample_approved:
  "approve_session sample_lib sample_expected sample_opened Buyer (addr CHR ''1'') = Inr sample_approval"
proof -
  have z: "ZERO_ADDRESS sample_lib = addr CHR ''0''"
    unfolding ZERO_ADDRESS_def addr_def by (simp only: sample_lib_def eth_utils.simps) code_simp
  have ne: "addr CHR ''2'' \<noteq> addr CHR ''1''" "addr CHR ''2'' \<noteq> addr CHR ''0''" by (simp_all add: addr_def)
  show ?thesis
    using sample_config_ok ne z
    by (simp add: approve_session_Inr provisioned_for_def sample_expected_def sample_opened_def
        sample_approval_def slot_def)
qed

lemma sample_registry_ok: "registry_ok sample_lib Buyer sample_registry"
  using sample_approved
  by (auto simp: registry_ok_def registry_get_def is_released_def sample_registry_def sample_record_def
      record_ok_def sample_provisioning_def sample_signer_def)

subsection \<open>Its first turn\<close>

lemma sample_Address: "c \<in> {CHR ''1'', CHR ''2'', CHR ''3'', CHR ''4'', CHR ''e''} \<Longrightarrow> Address sample_lib (JStr (addr c)) = Inr (addr c)"
proof -
  assume c: "c \<in> {CHR ''1'', CHR ''2'', CHR ''3'', CHR ''4'', CHR ''e''}"
  then have "list_all is_hex (replicate 40 c)" "str_upper (replicate 40 c) = replicate 40 c \<or> str_lower (replicate 40 c) = replicate 40 c"
    by auto code_simp+
  then have "hex_body 40 (addr c) = Some (replicate 40 c)"
    "\<not> (replicate 40 c \<noteq> str_lower (replicate 40 c) \<and> replicate 40 c \<noteq> str_upper (replicate 40 c))"
    by (auto simp: hex_body_Some addr_def)
  with sample_addresses [OF c] show ?thesis by (simp add: Address_def sample_lib_def)
qed

lemma sample_parts:
  "Digest (JStr (hash32 7)) = Inr (hash32 7)" "parse_amount (JStr ''5'') = Inr 5" "parse_amount (JStr ''0'') = Inr 0"
  "parse_amount (JStr ''100'') = Inr 100" "parse_amount (JStr ''1000'') = Inr 1000" "UUID (JStr sample_run) = Inr sample_run"
  "Sequence (JInt 1) = Inr 1"
  by code_simp+

lemma sample_typed: "observation_from_json sample_lib sample_document = Inr sample_ob"
  by (simp add: sample_document_def sample_body_def sample_mandate_def observation_from_json_def data_field_def
      session_view_from_json_def balances_from_json_def mandate_from_json_def as_view_def as_str_def as_int_def
      as_role_def optionally_def sample_parts sample_Address Digest_fixed [OF sample_config_digest]
      sample_ob_def make_ob_def)

lemma sample_turn_inputs:
  "\<exists>h. turn_inputs sample_env sample_mandate sample_body = Inr (1, 100000000, sample_document, h)"
proof -
  have "turn_envelope sample_env sample_body = Inr (1, 100000000)"
    by (simp add: turn_envelope_def turn_number_def iso_utc_read_def sample_body_def sample_env_def)
  moreover have "observation_document sample_env sample_body sample_mandate = Inr sample_document"
    by (simp add: observation_document_def has_key_def sample_body_def sample_document_def sample_env_def)
  moreover have "\<not> refuse_floats sample_document"
    by (simp add: sample_document_def sample_body_def sample_mandate_def)
  ultimately show ?thesis
    by (simp add: turn_inputs_def json_sha256_def canonical_json_def)
qed

lemma sample_observation_ok:
  "check_observation sample_lib Buyer sample_run (addr CHR ''1'') sample_approval sample_ob = None"
proof -
  have "coherent sample_lib sample_ob sample_approval"
    by (simp add: coherent_def sample_ob_def make_ob_def opportunities_def own_offers_recorded_def
        active_offer_problems_def standing_def)
  then have "contradictions sample_lib sample_ob sample_approval = Inr []" by (simp add: contradictions_Nil)
  moreover have "mismatches_with sample_approval (ob_session sample_ob) = []"
    by (simp add: mismatches_with_Nil sample_approval_def sample_ob_def make_ob_def)
  ultimately show ?thesis
    by (simp add: check_observation_def changed_def sample_ob_def make_ob_def sample_approval_def)
qed

lemma sample_decide: "decide (make_ob c d) = Inr (envelope (offer_response 80))"
  by code_simp

lemma sample_validate: "validate (envelope (offer_response 80)) (make_ob c d) = Inr (accepted (ValidOffer 80))"
  by code_simp

lemma sample_turn_observation:
  "turn_observation sample_lib Buyer sample_record sample_document = Inr (sample_approval, sample_ob)"
  using sample_typed sample_observation_ok
  by (simp add: turn_observation_Inr typed_def sample_record_def sample_signer_def)

lemma sample_signs: "\<exists>a. sign_decision sample_lib (ValidOffer 80) (Some sample_approval) 1 1000 sample_signer = Inr a"
proof (rule sign_decision_total [OF sample_lib_ok])
  have d: "is_digest (hash32 7)" by (auto simp: is_digest_def hash32_def intro!: exI [of _ "replicate 32 7"])
  then show "signable_values sample_approval 1 1000 (ValidOffer 80)"
    using sample_config_digest
    by (simp add: signable_values_def sample_approval_def is_sequence_def is_amount_def UINT64_MAX_def
        UINT256_MAX_def offer_valid_until_def)
  show "1000 < ap_expires_at sample_approval"
    "party sample_approval (kd_role (rs_derivation sample_signer)) = rs_address sample_signer"
    by (simp_all add: sample_approval_def sample_signer_def party_def)
qed

lemma sample_run_turn:
  "\<exists>out a. run_turn sample_lib validate (world sample_events)
     (turn_request_of 1 sample_ob h sample_record sample_approval 100000000) () = (Inr out, ()) \<and>
     to_signed_action out = Some a"
proof -
  obtain a where a: "sign_decision sample_lib (ValidOffer 80) (Some sample_approval) 1 1000 sample_signer = Inr a"
    using sample_signs by blast
  then show ?thesis
    using sample_decide [of sample_config sample_document] sample_validate [of sample_config sample_document]
    by (simp add: run_turn_def turn_request_of_def sample_record_def sample_provisioning_def numeral_2_eq_2
        Let_def time_left_def world_def sample_events_def released_by_def make_attempt_def DeterministicPolicy_def
        attempt_record_def computed_def RESPONSE_MARGIN_US_def sample_ob_def)
      (simp add: make_ob_def)
qed

lemma sample_turn:
  "\<exists>out a S'. serve sample_lib sample_env sample_service sample_registry (Turn sample_run sample_body sample_events)
     = (TurnAnswer out, S') \<and> to_signed_action out = Some a"
proof -
  obtain h where h: "turn_inputs sample_env sample_mandate sample_body = Inr (1, 100000000, sample_document, h)"
    using sample_turn_inputs by blast
  obtain out a where r: "run_turn sample_lib validate (world sample_events)
     (turn_request_of 1 sample_ob h sample_record sample_approval 100000000) () = (Inr out, ())"
    and a: "to_signed_action out = Some a" using sample_run_turn by blast
  have "\<exists>r'. turn_on sample_lib sample_env sample_events Buyer sample_record sample_body = (Inr out, r')"
    using h r sample_turn_observation
    by (simp add: turn_on_def) (simp add: sample_record_def sample_provisioning_def)
  moreover have "registry_require sample_registry sample_run [APPROVED] = Inr sample_record"
    by (simp add: registry_require_Inr registry_get_def sample_registry_def is_released_def
        run_record_state_def) (simp add: sample_record_def)
  ultimately show ?thesis using a
    by (auto simp: turn_def sample_service_def)
qed

end
