(* ===== verification/Agent_Properties.thy ===== *)
theory Agent_Properties
  imports Agent_Samples Outbound
begin

section \<open>Properties of the agent service\<close>



text \<open>
C9: One answer per turn. In any sequence of requests, all the answers the service ever gives for
one run and one turn number are the same answer: a repeated or conflicting turn request never
yields a second, different signature, whatever its body or timing.
\<close>

theorem one_answer_per_turn:
  assumes "serve_all L E svc S qs = (trace, S')" and "registry_ok L (ag_role svc) S"
    and "(Turn run body W, TurnAnswer out) \<in> set trace" and "(Turn run body' W', TurnAnswer out') \<in> set trace"
    and "turn_number body = turn_number body'"
  shows "out = out'"
  using assms by (rule trace_one_answer)

theorem one_answer_per_turn_witness:
  "\<exists>out a S' S''. serve_all sample_lib sample_env sample_service sample_registry
     [Turn sample_run sample_body sample_events, Turn sample_run sample_body sample_events] =
     ([(Turn sample_run sample_body sample_events, TurnAnswer out),
       (Turn sample_run sample_body sample_events, a)], S') \<and>
     (\<forall>out'. a = TurnAnswer out' \<longrightarrow> out' = out)"
proof -
  let ?q = "Turn sample_run sample_body sample_events"
  obtain out S1 where t: "serve sample_lib sample_env sample_service sample_registry ?q = (TurnAnswer out, S1)"
    using sample_turn by blast
  obtain a S' where t2: "serve sample_lib sample_env sample_service S1 ?q = (a, S')" by fastforce
  have tr: "serve_all sample_lib sample_env sample_service sample_registry [?q, ?q]
      = ([(?q, TurnAnswer out), (?q, a)], S')" by (simp only: serve_all.simps t t2 prod.case Let_def)
  have role: "ag_role sample_service = Buyer" by (simp add: sample_service_def)
  have "out' = out" if "a = TurnAnswer out'" for out'
    by (rule one_answer_per_turn [OF tr _ _ _ refl]) (use sample_registry_ok role that in auto)
  with tr show ?thesis by blast
qed

text \<open>
C27: A released run signs nothing ever again. Once a run is released, every later turn, session
approval, setup approval or provisioning of it is refused with \<open>invalid_state\<close> from
\<open>released\<close>, and it stays so whatever is requested in between.
\<close>

theorem released_runs_refused:
  assumes "serve_all L E svc S qs = (trace, S')" and "is_released S run" and "(q, ans) \<in> set trace"
    and "q = Turn run body W \<or> q = Approve run opened \<or> q = SetupApproval run terms \<or> q = Provision run req address"
  shows "\<exists>allowed. ans = Refused (InvalidState RELEASED allowed)"
  using assms
proof (induction qs arbitrary: S trace)
  case (Cons p qs)
  obtain x S1 where s: "serve L E svc S p = (x, S1)" by fastforce
  obtain rest where rest: "serve_all L E svc S1 qs = (rest, S')" and tr: "trace = (p, x) # rest"
    using Cons.prems(1) s by (auto split: prod.splits)
  show ?case
  proof (cases "(q, ans) = (p, x)")
    case True
    with s Cons.prems(2,4) show ?thesis
      by (auto simp: turn_def approve_def setup_approval_for_def provision_def plain_answer_def
          registry_require_released RELEASED_def [symmetric] simp flip: RELEASED_def)
  next
    case False
    with Cons.prems(3) tr have "(q, ans) \<in> set rest" by auto
    from Cons.IH [OF rest serve_released_stays [OF s Cons.prems(2)] this Cons.prems(4)] show ?thesis .
  qed
qed simp

theorem released_runs_refused_witness:
  "\<exists>allowed. fst (serve sample_lib sample_env sample_service (registry_release sample_registry sample_run)
     (Turn sample_run sample_body sample_events)) = Refused (InvalidState RELEASED allowed)"
proof -
  let ?q = "Turn sample_run sample_body sample_events"
  obtain a S' where t: "serve sample_lib sample_env sample_service (registry_release sample_registry sample_run) ?q = (a, S')"
    by fastforce
  have tr: "serve_all sample_lib sample_env sample_service (registry_release sample_registry sample_run) [?q]
      = ([(?q, a)], S')" by (simp only: serve_all.simps t prod.case Let_def)
  have "\<exists>allowed. a = Refused (InvalidState RELEASED allowed)"
    by (rule released_runs_refused [OF tr, of sample_run ?q a sample_body sample_events]) auto
  with t show ?thesis by simp
qed

text \<open>
C28: A turn's outcome is well formed whatever the policy and the validator do: it carries a
signed action exactly when its status is \<open>signed\<close> and a failure exactly when it is not, its
decision records are numbered 1, 2, 3, ... without gaps, there are at most as many as the attempts
the run was provisioned with, and it answers the turn that was asked.
\<close>

theorem turn_outcome_well_formed:
  assumes "run_turn L check W R p = (Inr out, p')"
  shows "(to_status out = Signed \<longleftrightarrow> to_signed_action out \<noteq> None) \<and>
    (to_failure out = None \<longleftrightarrow> to_status out = Signed) \<and>
    map dr_attempt (to_decisions out) = [1..<Suc (length (to_decisions out))] \<and>
    length (to_decisions out) \<le> tr_attempts R \<and> to_turn out = tr_turn R"
  using run_turn_shape [OF assms] by (simp add: well_formed_outcome_def numbered_records_def)

theorem turn_outcome_well_formed_witness:
  "\<exists>(out :: turn_outcome) a. to_signed_action out = Some a \<and> to_status out = Signed \<and> to_turn out = 1"
proof -
  obtain out a where r: "run_turn sample_lib validate (world sample_events)
     (turn_request_of 1 sample_ob [] sample_record sample_approval 100000000) () = (Inr out, ())"
    and a: "to_signed_action out = Some a" using sample_run_turn by blast
  from turn_outcome_well_formed [OF r] a have "to_status out = Signed" "to_turn out = 1" by simp_all
  with a show ?thesis by blast
qed




text \<open>
C26: The deterministic baseline is never refused: whatever it decides on any observation it can
read, the mandate validator accepts, so a baseline turn needs no repair.
\<close>

theorem baseline_never_refused:
  assumes "decide ob = Inr r"
  shows "\<exists>d. validate r ob = Inr (accepted d) \<and> legal_decision ob d"
  using decide_accepted [OF assms] validate_accepted by blast

theorem baseline_never_refused_witness:
  "\<exists>d. validate (envelope (offer_response 80)) (make_ob [] JNull) = Inr (accepted d) \<and>
     legal_decision (make_ob [] JNull) d"
  using baseline_never_refused [OF sample_decide] .

text \<open>
C34: The concession schedule. For a reservation price that is a possible offer and at least one
opportunity, every price is a possible offer within the reservation price, prices only ever move
towards it (up for the buyer, down for the seller), and the last opportunity offers exactly it.
\<close>

theorem concession_schedule:
  assumes "1 \<le> bound" and "bound \<le> UINT256_MAX" and "1 \<le> n" and "j \<le> k"
  shows "\<exists>p q. concession_price r bound j n = Inr p \<and> concession_price r bound k n = Inr q \<and>
    1 \<le> p \<and> p \<le> UINT256_MAX \<and>
    (case r of Buyer \<Rightarrow> p \<le> q \<and> q \<le> bound | Seller \<Rightarrow> q \<le> p \<and> bound \<le> q) \<and>
    concession_price r bound (n - 1) n = Inr bound"
proof -
  obtain p q where pq: "concession_price r bound j n = Inr p" "concession_price r bound k n = Inr q"
    using concession_price_total [OF assms(3)] by blast
  have b: "0 \<le> bound" using assms(1) by simp
  from concession_price_Inr [OF pq(1)] concession_monotone [OF b assms(4) pq]
    concession_within_bound [OF assms(1,2) pq(2)] concession_last [OF assms(1,2,3)] pq
  show ?thesis by (cases r) auto
qed

theorem concession_schedule_witness:
  "\<exists>p q. concession_price Buyer 100 0 3 = Inr p \<and> concession_price Buyer 100 1 3 = Inr q \<and> p \<le> q \<and> q \<le> 100"
  using concession_schedule [of 100 3 0 1 Buyer] by (auto simp: UINT256_MAX_def)




text \<open>
C22: What is signed is bound to the approved session, the observation's sequence and the run's
own address, and to nothing a policy could choose beyond its decision: the signature is over the
EIP-712 digest of a message with the session's id and configuration hash, the given sequence and
the run's address; an offer is valid until the earlier of its lifetime and the session deadline;
and nothing is signed at or after that deadline or for a run that is not a party in its role.
\<close>

theorem signature_binds_session:
  assumes "sign_decision L d approval seq t signer = Inr a"
  shows "\<exists>s msg dig. approval = Some s \<and> t < ap_expires_at s \<and>
    party s (kd_role (rs_derivation signer)) = rs_address signer \<and>
    digest L (approved_domain s) msg = Inr dig \<and> sg_digest a = ''0x'' @ to_hex dig \<and>
    sg_signature a = ''0x'' @ to_hex (rs_sign_digest signer dig) \<and>
    message_session msg = (digest_to_bytes (ap_session_id s), digest_to_bytes (ap_config_hash s), seq) \<and>
    message_actor msg = rs_address signer \<and>
    (\<forall>x. msg = MOffer x \<longrightarrow> of_valid_until x = min (t + ap_offer_lifetime_s s) (ap_expires_at s))"
proof -
  from assms obtain s kind msg typed dig where a: "approval = Some s" "t < ap_expires_at s"
    "party s (kd_role (rs_derivation signer)) = rs_address signer"
    and b: "build_message d s seq t signer = (kind, msg, typed)" and
    c: "digest L (approved_domain s) msg = Inr dig" "sg_digest a = ''0x'' @ to_hex dig"
      "sg_signature a = ''0x'' @ to_hex (rs_sign_digest signer dig)"
    by (auto simp: sign_decision_Inr)
  from b have "of_valid_until x = min (t + ap_offer_lifetime_s s) (ap_expires_at s)" if "msg = MOffer x" for x
    using that by (auto simp: build_message_def Let_def offer_valid_until_def split: valid_decision.splits)
  with a c build_message_bound [OF b] show ?thesis by blast
qed

theorem signature_binds_session_witness:
  "\<exists>a msg. sign_decision sample_lib (ValidOffer 80) (Some sample_approval) 1 1000 sample_signer = Inr a \<and>
     message_actor msg = addr CHR ''1''"
proof -
  obtain a where a: "sign_decision sample_lib (ValidOffer 80) (Some sample_approval) 1 1000 sample_signer = Inr a"
    using sample_signs by blast
  with signature_binds_session [OF a] show ?thesis by (auto simp: sample_signer_def)
qed

end
