(* ===== verification/Run_States.thy ===== *)
theory Run_States
  imports Main "HOL-Library.Transitive_Closure_Table"
begin

section \<open>The run's operational state machine\<close>

text \<open>
  services/api/src/api/controller/states.py over \<open>RunState\<close> of db/enums.py: the transitions as
  data. The order on states is that of the enum, which \<open>sources\<close> sorts by. Reachability is the
  reflexive transitive closure of \<open>allowed\<close>.
\<close>

datatype run_state = DRAFT | VALIDATED | PREPARING | RUNNING | PAUSED | RECOVERY_REQUIRED | TERMINAL | FAILED_SETUP

definition RunState :: "run_state list" where
  "RunState = [DRAFT, VALIDATED, PREPARING, RUNNING, PAUSED, RECOVERY_REQUIRED, TERMINAL, FAILED_SETUP]"

fun state_index :: "run_state \<Rightarrow> nat" where
  "state_index DRAFT = 0" | "state_index VALIDATED = 1" | "state_index PREPARING = 2"
| "state_index RUNNING = 3" | "state_index PAUSED = 4" | "state_index RECOVERY_REQUIRED = 5"
| "state_index TERMINAL = 6" | "state_index FAILED_SETUP = 7"

lemma state_index_inject: "state_index a = state_index b \<Longrightarrow> a = b"
  by (cases a; cases b) simp_all

instantiation run_state :: linorder
begin

definition less_eq_run_state :: "run_state \<Rightarrow> run_state \<Rightarrow> bool" where
  "less_eq_run_state a b \<longleftrightarrow> state_index a \<le> state_index b"

definition less_run_state :: "run_state \<Rightarrow> run_state \<Rightarrow> bool" where
  "less_run_state a b \<longleftrightarrow> state_index a < state_index b"

instance
  by standard (auto simp: less_eq_run_state_def less_run_state_def intro: state_index_inject)

end

definition TRANSITIONS :: "(run_state \<times> run_state) list" where
  "TRANSITIONS =
     [(DRAFT, VALIDATED),
      (VALIDATED, DRAFT),
      (VALIDATED, PREPARING),
      (PREPARING, RUNNING),
      (PREPARING, PAUSED),
      (PREPARING, FAILED_SETUP),
      (PREPARING, RECOVERY_REQUIRED),
      (RUNNING, PAUSED),
      (PAUSED, RUNNING),
      (PAUSED, PAUSED),
      (RUNNING, RECOVERY_REQUIRED),
      (PAUSED, RECOVERY_REQUIRED),
      (RECOVERY_REQUIRED, PAUSED),
      (RECOVERY_REQUIRED, PREPARING),
      (RUNNING, TERMINAL),
      (PAUSED, TERMINAL),
      (RECOVERY_REQUIRED, TERMINAL),
      (RECOVERY_REQUIRED, FAILED_SETUP)]"

definition ACTIVE :: "run_state set" where
  "ACTIVE = {PREPARING, RUNNING, PAUSED, RECOVERY_REQUIRED}"

definition FINISHED :: "run_state set" where
  "FINISHED = {TERMINAL, FAILED_SETUP}"

datatype transition_error = InvalidTransition run_state run_state

definition allowed :: "run_state \<Rightarrow> run_state \<Rightarrow> bool" where
  "allowed current target \<longleftrightarrow> (current, target) \<in> set TRANSITIONS"

definition require_transition :: "run_state \<Rightarrow> run_state \<Rightarrow> transition_error + unit" where
  "require_transition current target =
     (if \<not> allowed current target then Inl (InvalidTransition current target) else Inr ())"

definition sources :: "run_state \<Rightarrow> run_state list" where
  "sources target = sorted_list_of_set (set (map fst (filter (\<lambda>(c, t). t = target) TRANSITIONS)))"

subsection \<open>Where a run can get to\<close>

text \<open>
  A general transition system over a decidable step, and what its absorbing states mean; the
  run's states are one instance.
\<close>

locale transition_system =
  fixes step :: "'s \<Rightarrow> 's \<Rightarrow> bool"
    and final :: "'s set"
  assumes final_stuck: "s \<in> final \<Longrightarrow> \<not> step s t"
begin

lemma final_absorbing: "step\<^sup>*\<^sup>* s t \<Longrightarrow> s \<in> final \<Longrightarrow> t = s"
  by (induction rule: converse_rtranclp_induct) (auto simp: final_stuck)

lemma final_once: "\<lbrakk>step\<^sup>*\<^sup>* s t; step\<^sup>*\<^sup>* t u; t \<in> final\<rbrakk> \<Longrightarrow> u = t"
  using final_absorbing by blast

end

lemma allowed_simps:
  "allowed a b \<longleftrightarrow> (case a of
     DRAFT \<Rightarrow> b = VALIDATED
   | VALIDATED \<Rightarrow> b = DRAFT \<or> b = PREPARING
   | PREPARING \<Rightarrow> b = RUNNING \<or> b = PAUSED \<or> b = FAILED_SETUP \<or> b = RECOVERY_REQUIRED
   | RUNNING \<Rightarrow> b = PAUSED \<or> b = RECOVERY_REQUIRED \<or> b = TERMINAL
   | PAUSED \<Rightarrow> b = RUNNING \<or> b = PAUSED \<or> b = RECOVERY_REQUIRED \<or> b = TERMINAL
   | RECOVERY_REQUIRED \<Rightarrow> b = PAUSED \<or> b = PREPARING \<or> b = TERMINAL \<or> b = FAILED_SETUP
   | TERMINAL \<Rightarrow> False | FAILED_SETUP \<Rightarrow> False)"
  by (cases a; cases b) (simp_all add: allowed_def TRANSITIONS_def)

interpretation run_machine: transition_system allowed FINISHED
  by unfold_locales (auto simp: FINISHED_def allowed_simps)

lemma sources_iff: "s \<in> set (sources t) \<longleftrightarrow> allowed s t"
  by (force simp: sources_def allowed_def)

lemma sources_sorted: "sorted (sources t) \<and> distinct (sources t)"
  by (simp add: sources_def)

text \<open>Once a run is being driven it is driven or finished: it never falls back to a draft.\<close>

lemma active_stays: "allowed s t \<Longrightarrow> s \<in> ACTIVE \<Longrightarrow> t \<in> ACTIVE \<union> FINISHED"
  by (cases s) (auto simp: allowed_simps ACTIVE_def FINISHED_def)

lemma active_stays_reachable:
  "allowed\<^sup>*\<^sup>* s t \<Longrightarrow> s \<in> ACTIVE \<union> FINISHED \<Longrightarrow> t \<in> ACTIVE \<union> FINISHED"
  by (induction rule: converse_rtranclp_induct)
     (auto dest: active_stays simp: run_machine.final_stuck)

text \<open>And from every active state an end can still be reached.\<close>

lemma can_finish: "s \<in> ACTIVE \<Longrightarrow> \<exists>t \<in> FINISHED. allowed\<^sup>*\<^sup>* s t"
proof -
  assume "s \<in> ACTIVE"
  then have "allowed s TERMINAL \<or> allowed s FAILED_SETUP"
    by (auto simp: ACTIVE_def allowed_simps)
  then show ?thesis by (auto simp: FINISHED_def)
qed

end
