(* ===== verification/Backend_Enums.thy ===== *)
theory Backend_Enums
  imports Run_States
begin

section \<open>The backend's enumerations and refusals\<close>

text \<open>
  services/api/src/api/db/enums.py (\<open>RunState\<close> is in \<open>Run_States\<close>) and db/errors.py. Row ids are
  UUIDs the database draws; the model numbers them.
\<close>

type_synonym uuid = nat

datatype db_party = BUYER | SELLER
datatype party_or_operator = P_BUYER | P_SELLER | P_OPERATOR | P_ANYONE
datatype policy_kind = DETERMINISTIC_KIND | MODEL_KIND
datatype run_mode = LIVE | FIXTURE
datatype outcome_kind = O_PENDING | O_SETTLED | O_CLOSED | O_EXPIRED | O_ABORTED
datatype turn_state = OBSERVING | DECIDING | REPAIRING | SIGNING | BROADCASTING | CONFIRMING
  | CONFIRMED | MODEL_FAILED | EXECUTION_FAILED
datatype db_action_kind = AK_OFFER | AK_ACCEPT | AK_CLOSE
datatype action_status = AS_SIGNED | AS_SUBMITTED | AS_INCLUDED | AS_CONFIRMED | AS_FINALIZED
  | AS_REVERTED | AS_SUPERSEDED
datatype tx_kind = RECORD_OFFER | ACCEPT_AND_SETTLE | CLOSE_SESSION | EXPIRE_SESSION
  | ABORT_SESSION | CREATE_SESSION | MINT | APPROVE | FUND_ETH
datatype tx_status = TX_PENDING | TX_SUBMITTED | TX_INCLUDED | TX_CONFIRMED | TX_FINALIZED
  | TX_REVERTED | TX_REPLACED | TX_DROPPED

definition TX_STATUSES_NOT_LIVE :: "tx_status list" where
  "TX_STATUSES_NOT_LIVE = [TX_REPLACED, TX_DROPPED, TX_REVERTED]"

definition live_status :: "tx_status \<Rightarrow> bool" where
  "live_status s \<longleftrightarrow> s \<notin> set TX_STATUSES_NOT_LIVE"

text \<open>What the database refuses, by the class of its SQLSTATE and the constraint's name.\<close>

datatype persistence_error =
    DuplicateError string
  | CheckViolationError string
  | ForeignKeyViolationError string
  | ImmutableRowError string
  | NotFoundError
  | LeaseLostError

lemma live_status_simps [simp]:
  "live_status TX_PENDING" "live_status TX_SUBMITTED" "live_status TX_INCLUDED"
  "live_status TX_CONFIRMED" "live_status TX_FINALIZED"
  "\<not> live_status TX_REVERTED" "\<not> live_status TX_REPLACED" "\<not> live_status TX_DROPPED"
  by (simp_all add: live_status_def TX_STATUSES_NOT_LIVE_def)

end
