(* ===== verification/Outbox.thy ===== *)
theory Outbox
  imports Prelude Backend_Enums
begin

section \<open>The transaction outbox\<close>

text \<open>
  \<open>SqlOutboxRepository\<close> of services/api/src/api/db/repositories/chain.py over the \<open>tx_outbox\<close> table
  of db/models.py. The table is the list of its rows in the order they were created; a row's id is
  its position, so ids are fresh and never reused. \<open>constraint_violation\<close> is what PostgreSQL checks on every
  write, in the order of the indexes: the check constraints, the two unique constraints, and the
  partial unique index that allows one live transaction per signed action. A query that joins
  \<open>runs\<close> takes the run's deployment (\<open>dep\<close>) and state as functions of its id.
\<close>

type_synonym address = string
type_synonym digest_text = string

record outbox_row =
  ob_id :: uuid
  ob_run :: uuid
  ob_action :: "uuid option"
  ob_kind :: tx_kind
  ob_sender :: address
  ob_nonce :: int
  ob_raw_tx :: bytes
  ob_tx_hash :: digest_text
  ob_replaces :: "uuid option"
  ob_status :: tx_status
  ob_attempts :: int
  ob_last_error :: "string option"
  ob_block_number :: "int option"
  ob_block_hash :: "digest_text option"
  ob_gas_used :: "int option"
  ob_gas_price :: "int option"
  ob_submitted_at :: "int option"
  ob_included_at :: "int option"
  ob_submitted_block :: "int option"
  ob_sentence :: "string option"

record new_outbox_tx =
  no_run :: uuid
  no_kind :: tx_kind
  no_sender :: address
  no_nonce :: int
  no_raw_tx :: bytes
  no_tx_hash :: digest_text
  no_action :: "uuid option"
  no_replaces :: "uuid option"
  no_status :: tx_status

record inclusion =
  inc_block_number :: int
  inc_block_hash :: digest_text
  inc_gas_used :: int
  inc_gas_price :: int
  inc_at :: int

definition UNFINISHED_TX_STATUSES :: "tx_status list" where
  "UNFINISHED_TX_STATUSES = [TX_PENDING, TX_SUBMITTED, TX_INCLUDED]"

definition AWAITING_RECEIPT_STATUSES :: "tx_status list" where
  "AWAITING_RECEIPT_STATUSES = [TX_PENDING, TX_SUBMITTED, TX_REPLACED, TX_DROPPED]"

definition LIVE_PER_ACTION_INDEX :: string where
  "LIVE_PER_ACTION_INDEX = ''uq_tx_outbox_signed_action_id_live''"

subsection \<open>What the table refuses\<close>

definition live_for :: "uuid \<Rightarrow> outbox_row \<Rightarrow> bool" where
  "live_for a r \<longleftrightarrow> ob_action r = Some a \<and> live_status (ob_status r)"

definition clashes_live :: "outbox_row \<Rightarrow> outbox_row \<Rightarrow> bool" where
  "clashes_live r s \<longleftrightarrow> (case ob_action r of None \<Rightarrow> False | Some a \<Rightarrow> live_for a r \<and> live_for a s)"

definition non_negative :: "outbox_row \<Rightarrow> bool" where
  "non_negative r \<longleftrightarrow> 0 \<le> ob_nonce r \<and> 0 \<le> ob_attempts r \<and>
     (case ob_block_number r of None \<Rightarrow> True | Some b \<Rightarrow> 0 \<le> b) \<and>
     (case ob_submitted_block r of None \<Rightarrow> True | Some b \<Rightarrow> 0 \<le> b)"

definition constraint_violation :: "outbox_row list \<Rightarrow> outbox_row \<Rightarrow> persistence_error option" where
  "constraint_violation others r =
     (if \<not> non_negative r then Some (CheckViolationError ''non_negative'')
      else if list_ex (\<lambda>s. ob_sender s = ob_sender r \<and> ob_nonce s = ob_nonce r \<and> ob_tx_hash s = ob_tx_hash r) others
        then Some (DuplicateError ''uq_tx_outbox_sender_nonce_tx_hash'')
      else if list_ex (\<lambda>s. ob_tx_hash s = ob_tx_hash r) others
        then Some (DuplicateError ''uq_tx_outbox_tx_hash'')
      else if list_ex (clashes_live r) others then Some (DuplicateError LIVE_PER_ACTION_INDEX)
      else None)"

subsection \<open>Operations\<close>

definition new_row :: "uuid \<Rightarrow> new_outbox_tx \<Rightarrow> outbox_row" where
  "new_row i n =
     \<lparr>ob_id = i, ob_run = no_run n, ob_action = no_action n, ob_kind = no_kind n,
      ob_sender = no_sender n, ob_nonce = no_nonce n, ob_raw_tx = no_raw_tx n,
      ob_tx_hash = no_tx_hash n, ob_replaces = no_replaces n, ob_status = no_status n,
      ob_attempts = 0, ob_last_error = None, ob_block_number = None, ob_block_hash = None,
      ob_gas_used = None, ob_gas_price = None, ob_submitted_at = None, ob_included_at = None,
      ob_submitted_block = None, ob_sentence = None\<rparr>"

type_synonym 'a outbox_op = "outbox_row list \<Rightarrow> persistence_error + 'a \<times> outbox_row list"

definition outbox_add :: "new_outbox_tx \<Rightarrow> outbox_row outbox_op" where
  "outbox_add n rows =
     (let r = new_row (length rows) n
      in case constraint_violation rows r of Some e \<Rightarrow> Inl e | None \<Rightarrow> Inr (r, rows @ [r]))"

definition outbox_get :: "uuid \<Rightarrow> outbox_row list \<Rightarrow> outbox_row option" where
  "outbox_get i = find (\<lambda>r. ob_id r = i)"

definition outbox_get_by_hash :: "digest_text \<Rightarrow> outbox_row list \<Rightarrow> outbox_row option" where
  "outbox_get_by_hash h = find (\<lambda>r. ob_tx_hash r = h)"

definition outbox_list_for_run :: "uuid \<Rightarrow> outbox_row list \<Rightarrow> outbox_row list" where
  "outbox_list_for_run run = filter (\<lambda>r. ob_run r = run)"

definition by_sender_nonce :: "(address \<Rightarrow> nat) \<Rightarrow> outbox_row list \<Rightarrow> outbox_row list" where
  "by_sender_nonce rank rows = sort_key (\<lambda>r. rank (ob_sender r)) (sort_key ob_nonce rows)"

definition outbox_unfinished :: "(address \<Rightarrow> nat) \<Rightarrow> uuid \<Rightarrow> outbox_row list \<Rightarrow> outbox_row list" where
  "outbox_unfinished rank run rows =
     by_sender_nonce rank (filter (\<lambda>r. ob_run r = run \<and> ob_status r \<in> set UNFINISHED_TX_STATUSES) rows)"

definition live_for_signed_action :: "uuid \<Rightarrow> outbox_row list \<Rightarrow> outbox_row option" where
  "live_for_signed_action a = find (live_for a)"

definition for_signed_action :: "uuid \<Rightarrow> outbox_row list \<Rightarrow> outbox_row list" where
  "for_signed_action a = filter (\<lambda>r. ob_action r = Some a)"

definition nonce_group ::
  "(uuid \<Rightarrow> string) \<Rightarrow> address \<Rightarrow> int \<Rightarrow> string \<Rightarrow> outbox_row list \<Rightarrow> outbox_row list" where
  "nonce_group dep sender nonce d =
     filter (\<lambda>r. ob_sender r = sender \<and> ob_nonce r = nonce \<and> dep (ob_run r) = d)"

definition group_included :: "(uuid \<Rightarrow> string) \<Rightarrow> string \<Rightarrow> outbox_row list \<Rightarrow> outbox_row \<Rightarrow> bool" where
  "group_included dep d rows r \<longleftrightarrow>
     list_ex (\<lambda>s. ob_sender s = ob_sender r \<and> ob_nonce s = ob_nonce r \<and> ob_block_number s \<noteq> None \<and>
       dep (ob_run s) = d) rows"

definition awaiting_receipt ::
  "(address \<Rightarrow> nat) \<Rightarrow> (uuid \<Rightarrow> run_state) \<Rightarrow> (uuid \<Rightarrow> string) \<Rightarrow> string \<Rightarrow> outbox_row list \<Rightarrow> outbox_row list" where
  "awaiting_receipt rank state_of dep d rows =
     by_sender_nonce rank (filter (\<lambda>r. ob_status r \<in> set AWAITING_RECEIPT_STATUSES \<and> ob_block_number r = None \<and>
       state_of (ob_run r) \<noteq> TERMINAL \<and> dep (ob_run r) = d \<and> \<not> group_included dep d rows r) rows)"

definition with_block_from :: "(uuid \<Rightarrow> string) \<Rightarrow> int \<Rightarrow> string \<Rightarrow> outbox_row list \<Rightarrow> outbox_row list" where
  "with_block_from dep from_block d rows =
     sort_key (\<lambda>r. case ob_block_number r of None \<Rightarrow> 0 | Some b \<Rightarrow> b) (sort_key ob_nonce
       (filter (\<lambda>r. (case ob_block_number r of None \<Rightarrow> False | Some b \<Rightarrow> from_block \<le> b) \<and> dep (ob_run r) = d) rows))"

definition outbox_in_status ::
  "(address \<Rightarrow> nat) \<Rightarrow> tx_status list \<Rightarrow> (uuid \<Rightarrow> string) \<Rightarrow> string \<Rightarrow> outbox_row list \<Rightarrow> outbox_row list" where
  "outbox_in_status rank statuses dep d rows =
     by_sender_nonce rank (filter (\<lambda>r. ob_status r \<in> set statuses \<and> dep (ob_run r) = d) rows)"

definition max_nonce :: "(uuid \<Rightarrow> string) \<Rightarrow> address \<Rightarrow> string \<Rightarrow> outbox_row list \<Rightarrow> int option" where
  "max_nonce dep sender d rows =
     (case map ob_nonce (filter (\<lambda>r. ob_sender r = sender \<and> dep (ob_run r) = d) rows) of
        [] \<Rightarrow> None | n # ns \<Rightarrow> Some (fold max ns n))"

definition outbox_update :: "uuid \<Rightarrow> (outbox_row \<Rightarrow> outbox_row) \<Rightarrow> outbox_row outbox_op" where
  "outbox_update i f rows =
     (case outbox_get i rows of
        None \<Rightarrow> Inl NotFoundError
      | Some r \<Rightarrow>
          (case constraint_violation (filter (\<lambda>s. ob_id s \<noteq> i) rows) (f r) of
             Some e \<Rightarrow> Inl e
           | None \<Rightarrow> Inr (f r, map (\<lambda>s. if ob_id s = i then f s else s) rows)))"

definition mark_submitted :: "uuid \<Rightarrow> int \<Rightarrow> int option \<Rightarrow> outbox_row outbox_op" where
  "mark_submitted i at submitted_block =
     outbox_update i (\<lambda>r. r\<lparr>ob_status := TX_SUBMITTED,
       ob_submitted_at := or_else (ob_submitted_at r) (Some at),
       ob_submitted_block := or_else (ob_submitted_block r) submitted_block,
       ob_attempts := ob_attempts r + 1, ob_last_error := None\<rparr>)"

definition mark_reverted :: "uuid \<Rightarrow> string \<Rightarrow> string \<Rightarrow> outbox_row outbox_op" where
  "mark_reverted i err sentence =
     outbox_update i (\<lambda>r. r\<lparr>ob_status := TX_REVERTED, ob_last_error := Some err, ob_sentence := Some sentence\<rparr>)"

definition mark_included :: "uuid \<Rightarrow> inclusion \<Rightarrow> outbox_row outbox_op" where
  "mark_included i inc =
     outbox_update i (\<lambda>r. r\<lparr>ob_status := TX_INCLUDED, ob_block_number := Some (inc_block_number inc),
       ob_block_hash := Some (inc_block_hash inc), ob_gas_used := Some (inc_gas_used inc),
       ob_gas_price := Some (inc_gas_price inc), ob_included_at := Some (inc_at inc)\<rparr>)"

definition update_status :: "uuid \<Rightarrow> tx_status \<Rightarrow> string option \<Rightarrow> outbox_row outbox_op" where
  "update_status i status last_error =
     outbox_update i (\<lambda>r. case last_error of
       None \<Rightarrow> r\<lparr>ob_status := status\<rparr>
     | Some e \<Rightarrow> r\<lparr>ob_status := status, ob_last_error := Some e\<rparr>)"

definition clear_inclusion :: "uuid \<Rightarrow> outbox_row outbox_op" where
  "clear_inclusion i =
     outbox_update i (\<lambda>r. r\<lparr>ob_status := TX_SUBMITTED, ob_block_number := None, ob_block_hash := None,
       ob_gas_used := None, ob_gas_price := None, ob_included_at := None, ob_last_error := None,
       ob_sentence := None\<rparr>)"

definition record_attempt :: "uuid \<Rightarrow> string option \<Rightarrow> outbox_row outbox_op" where
  "record_attempt i err = outbox_update i (\<lambda>r. r\<lparr>ob_attempts := ob_attempts r + 1, ob_last_error := err\<rparr>)"

subsection \<open>What stays true of the table\<close>

definition outbox_ok :: "outbox_row list \<Rightarrow> bool" where
  "outbox_ok rows \<longleftrightarrow> map ob_id rows = [0..<length rows] \<and>
     list_all non_negative rows \<and>
     list_all (\<lambda>r. list_all (\<lambda>s. ob_id r \<noteq> ob_id s \<longrightarrow> ob_tx_hash r \<noteq> ob_tx_hash s \<and> \<not> clashes_live r s) rows) rows"

definition identity :: "outbox_row \<Rightarrow> uuid \<times> uuid \<times> uuid option \<times> tx_kind \<times> address \<times> int \<times> bytes \<times> digest_text \<times> uuid option" where
  "identity r = (ob_id r, ob_run r, ob_action r, ob_kind r, ob_sender r, ob_nonce r, ob_raw_tx r, ob_tx_hash r, ob_replaces r)"

lemma identityD:
  "identity r = identity s \<Longrightarrow> ob_id r = ob_id s \<and> ob_run r = ob_run s \<and> ob_action r = ob_action s \<and>
     ob_kind r = ob_kind s \<and> ob_sender r = ob_sender s \<and> ob_nonce r = ob_nonce s \<and>
     ob_raw_tx r = ob_raw_tx s \<and> ob_tx_hash r = ob_tx_hash s \<and> ob_replaces r = ob_replaces s"
  by (simp add: identity_def)

lemma clashes_live_sym: "clashes_live r s \<longleftrightarrow> clashes_live s r"
  by (auto simp: clashes_live_def live_for_def split: option.splits)

lemma violation_None:
  "constraint_violation others r = None \<longleftrightarrow> non_negative r \<and>
     (\<forall>s \<in> set others. ob_tx_hash s \<noteq> ob_tx_hash r \<and> \<not> clashes_live r s)"
  by (auto simp: constraint_violation_def list_ex_iff)

lemma ids_less: "outbox_ok rows \<Longrightarrow> r \<in> set rows \<Longrightarrow> ob_id r < length rows"
proof -
  assume "outbox_ok rows" "r \<in> set rows"
  then have "ob_id r \<in> set [0..<length rows]" unfolding outbox_ok_def by (metis imageI list.set_map)
  then show ?thesis by simp
qed

lemma id_inject: "\<lbrakk>outbox_ok rows; r \<in> set rows; s \<in> set rows; ob_id r = ob_id s\<rbrakk> \<Longrightarrow> r = s"
proof -
  assume a: "outbox_ok rows" "r \<in> set rows" "s \<in> set rows" "ob_id r = ob_id s"
  then have "distinct (map ob_id rows)" by (simp add: outbox_ok_def)
  with a(2-4) show ?thesis by (metis (mono_tags) distinct_map inj_onD)
qed

lemma outbox_get_Some: "outbox_get i rows = Some r \<Longrightarrow> r \<in> set rows \<and> ob_id r = i"
  by (auto simp: outbox_get_def find_Some_iff)

lemma outbox_get_member: "\<lbrakk>outbox_ok rows; r \<in> set rows\<rbrakk> \<Longrightarrow> outbox_get (ob_id r) rows = Some r"
proof -
  assume a: "outbox_ok rows" "r \<in> set rows"
  then have "outbox_get (ob_id r) rows \<noteq> None" by (auto simp: outbox_get_def find_None_iff)
  then obtain s where "outbox_get (ob_id r) rows = Some s" by auto
  with outbox_get_Some [OF this] id_inject [OF a(1) a(2)] show ?thesis by metis
qed

lemma outbox_add_Inr:
  "outbox_add n rows = Inr (r, rows') \<longleftrightarrow>
     r = new_row (length rows) n \<and> rows' = rows @ [r] \<and> constraint_violation rows r = None"
  by (auto simp: outbox_add_def Let_def split: option.splits)

lemma outbox_add_ok: "outbox_ok rows \<Longrightarrow> outbox_add n rows = Inr (r, rows') \<Longrightarrow> outbox_ok rows'"
  by (auto simp: outbox_add_Inr outbox_ok_def violation_None list_all_iff new_row_def clashes_live_sym)

lemma outbox_update_Inr:
  "outbox_update i f rows = Inr (r, rows') \<longleftrightarrow>
     (\<exists>s. outbox_get i rows = Some s \<and> r = f s \<and> constraint_violation (filter (\<lambda>s. ob_id s \<noteq> i) rows) r = None \<and>
       rows' = map (\<lambda>s. if ob_id s = i then f s else s) rows)"
  by (auto simp: outbox_update_def split: option.splits)

lemma outbox_update_ok:
  assumes ok: "outbox_ok rows" and u: "outbox_update i f rows = Inr (r, rows')"
    and keep: "\<And>s. identity (f s) = identity s"
  shows "outbox_ok rows'"
proof -
  from u obtain s where s: "outbox_get i rows = Some s" "r = f s"
    and v: "constraint_violation (filter (\<lambda>s. ob_id s \<noteq> i) rows) r = None"
    and rows': "rows' = map (\<lambda>s. if ob_id s = i then f s else s) rows"
    by (auto simp: outbox_update_Inr)
  have id: "ob_id (f x) = ob_id x" for x using identityD [OF keep [of x]] by simp
  have one: "x = s" if "x \<in> set rows" "ob_id x = i" for x
    using id_inject [OF ok] outbox_get_Some [OF s(1)] that by metis
  have "map ob_id rows' = [0..<length rows']"
    using ok by (simp add: rows' outbox_ok_def comp_def id if_distrib [of ob_id] cong: map_cong if_cong)
  moreover have "list_all non_negative rows'"
    using ok v s one by (auto simp: rows' outbox_ok_def list_all_iff violation_None)
  moreover have "ob_tx_hash x' \<noteq> ob_tx_hash y' \<and> \<not> clashes_live x' y'"
    if x: "x' \<in> set rows'" and y: "y' \<in> set rows'" and ne: "ob_id x' \<noteq> ob_id y'" for x' y'
  proof -
    from x y obtain a b where a: "a \<in> set rows" "x' = (if ob_id a = i then f a else a)"
      and b: "b \<in> set rows" "y' = (if ob_id b = i then f b else b)"
      by (auto simp: rows')
    from ne a b have ab: "ob_id a \<noteq> ob_id b" by (auto simp: id split: if_splits)
    with v s one a b ok show ?thesis
      by (cases "ob_id a = i"; cases "ob_id b = i")
         (auto simp: violation_None outbox_ok_def list_all_iff clashes_live_sym)
  qed
  ultimately show ?thesis by (auto simp: outbox_ok_def list_all_iff)
qed

lemma live_unique:
  "\<lbrakk>outbox_ok rows; r \<in> set rows; s \<in> set rows; live_for a r; live_for a s\<rbrakk> \<Longrightarrow> r = s"
proof -
  assume a: "outbox_ok rows" "r \<in> set rows" "s \<in> set rows" "live_for a r" "live_for a s"
  then have "clashes_live r s" by (simp add: clashes_live_def live_for_def)
  with a have "ob_id r = ob_id s" by (auto simp: outbox_ok_def list_all_iff)
  with a show ?thesis by (blast dest: id_inject)
qed

subsection \<open>The contract the relay relies on\<close>

text \<open>
  A transaction store promises its clients three things whatever sequence of writes it takes: its
  invariant, one live transaction per signed action, and that what identifies a stored transaction
  (its bytes, hash, sender, nonce and action) never changes and never goes away.
\<close>

locale transaction_store =
  fixes inv :: "'t \<Rightarrow> bool"
    and live :: "uuid \<Rightarrow> 't \<Rightarrow> uuid set"
    and stored :: "'t \<Rightarrow> 'c set"
    and "write" :: "'t \<Rightarrow> 't \<Rightarrow> bool"
  assumes write_inv: "inv t \<Longrightarrow> write t u \<Longrightarrow> inv u"
    and one_live: "inv t \<Longrightarrow> i \<in> live a t \<Longrightarrow> j \<in> live a t \<Longrightarrow> i = j"
    and write_keeps: "inv t \<Longrightarrow> write t u \<Longrightarrow> stored t \<subseteq> stored u"
begin

lemma writes_inv: "write\<^sup>*\<^sup>* t u \<Longrightarrow> inv t \<Longrightarrow> inv u"
  by (induction rule: rtranclp_induct) (auto intro: write_inv)

lemma writes_one_live: "\<lbrakk>write\<^sup>*\<^sup>* t u; inv t; i \<in> live a u; j \<in> live a u\<rbrakk> \<Longrightarrow> i = j"
  using writes_inv one_live by blast

lemma writes_keep: "write\<^sup>*\<^sup>* t u \<Longrightarrow> inv t \<Longrightarrow> stored t \<subseteq> stored u"
  by (induction rule: rtranclp_induct) (auto dest: writes_inv write_keeps)

end

inductive outbox_write :: "outbox_row list \<Rightarrow> outbox_row list \<Rightarrow> bool" where
  added: "outbox_add n rows = Inr (r, rows') \<Longrightarrow> outbox_write rows rows'"
| updated: "\<lbrakk>\<And>s. identity (f s) = identity s; outbox_update i f rows = Inr (r, rows')\<rbrakk>
    \<Longrightarrow> outbox_write rows rows'"

inductive_cases outbox_writeE: "outbox_write rows rows'"

definition live_ids :: "uuid \<Rightarrow> outbox_row list \<Rightarrow> uuid set" where
  "live_ids a rows = ob_id ` set (filter (live_for a) rows)"

lemma outbox_update_identities:
  assumes "\<And>s. identity (f s) = identity s" and "outbox_update i f rows = Inr (r, rows')"
  shows "map identity rows' = map identity rows"
proof -
  from assms(2) have "rows' = map (\<lambda>s. if ob_id s = i then f s else s) rows"
    by (auto simp: outbox_update_Inr)
  then show ?thesis by (simp add: assms(1) comp_def if_distrib [of identity] cong: if_cong)
qed

lemma outbox_write_identities:
  "outbox_write rows rows' \<Longrightarrow> identity ` set rows \<subseteq> identity ` set rows'"
proof (erule outbox_writeE)
  fix f i r
  assume f: "\<And>s. identity (f s) = identity s" and u: "outbox_update i f rows = Inr (r, rows')"
  then have "map identity rows' = map identity rows" by (rule outbox_update_identities)
  then have "identity ` set rows' = identity ` set rows" by (metis list.set_map)
  then show ?thesis by simp
qed (auto simp: outbox_add_Inr)

interpretation outbox: transaction_store outbox_ok live_ids "\<lambda>rows. identity ` set rows" outbox_write
proof
  show "outbox_ok u" if "outbox_ok t" "outbox_write t u" for t u
    using that(2) by (rule outbox_writeE) (auto intro: outbox_add_ok [OF that(1)] outbox_update_ok [OF that(1)])
  show "i = j" if "outbox_ok t" "i \<in> live_ids a t" "j \<in> live_ids a t" for t i j a
    using that by (auto simp: live_ids_def dest: live_unique)
qed (rule outbox_write_identities)

text \<open>Every operation of the repository is one such write.\<close>

lemma keeps_identity [simp]:
  "identity (r\<lparr>ob_status := s\<rparr>) = identity r"
  "identity (r\<lparr>ob_last_error := e\<rparr>) = identity r"
  "identity (r\<lparr>ob_attempts := n\<rparr>) = identity r"
  "identity (r\<lparr>ob_submitted_at := m\<rparr>) = identity r"
  "identity (r\<lparr>ob_submitted_block := m\<rparr>) = identity r"
  "identity (r\<lparr>ob_block_number := m\<rparr>) = identity r"
  "identity (r\<lparr>ob_block_hash := h\<rparr>) = identity r"
  "identity (r\<lparr>ob_gas_used := m\<rparr>) = identity r"
  "identity (r\<lparr>ob_gas_price := m\<rparr>) = identity r"
  "identity (r\<lparr>ob_included_at := m\<rparr>) = identity r"
  "identity (r\<lparr>ob_sentence := e\<rparr>) = identity r"
  by (simp_all add: identity_def)

lemma outbox_writes:
  "outbox_add n rows = Inr (r, rows') \<Longrightarrow> outbox_write rows rows'"
  "mark_submitted i at b rows = Inr (r, rows') \<Longrightarrow> outbox_write rows rows'"
  "mark_reverted i e st rows = Inr (r, rows') \<Longrightarrow> outbox_write rows rows'"
  "mark_included i inc rows = Inr (r, rows') \<Longrightarrow> outbox_write rows rows'"
  "update_status i s err rows = Inr (r, rows') \<Longrightarrow> outbox_write rows rows'"
  "clear_inclusion i rows = Inr (r, rows') \<Longrightarrow> outbox_write rows rows'"
  "record_attempt i err rows = Inr (r, rows') \<Longrightarrow> outbox_write rows rows'"
  unfolding mark_submitted_def mark_reverted_def mark_included_def update_status_def
    clear_inclusion_def record_attempt_def
  by (erule outbox_write.added | erule outbox_write.updated [rotated], simp split: option.split)+

lemma outbox_ok_Nil: "outbox_ok []"
  by (simp add: outbox_ok_def)

end
