(* ===== verification/Leases.thy ===== *)
theory Leases
  imports Prelude Backend_Enums
begin

section \<open>The active run and its lease\<close>

text \<open>
  \<open>SqlLeaseRepository\<close> of services/api/src/api/db/repositories/runs.py: the single-row table that
  names the active run, and the leases, one per run, that name the process driving it and carry the
  relay key's next nonce. Each operation is one SQL statement, hence atomic; a sequence of
  \<open>lease_op\<close>s is any interleaving of them by any number of processes.
\<close>

record lease =
  le_holder :: string
  le_expires_at :: int
  le_nonce_next :: int

record lease_db =
  ld_active :: "uuid option"
  ld_leases :: "(uuid \<times> lease) list"

definition active_run_id :: "lease_db \<Rightarrow> uuid option" where
  "active_run_id db = ld_active db"

definition claim_active_run :: "uuid \<Rightarrow> lease_db \<Rightarrow> bool \<times> lease_db" where
  "claim_active_run run db = (case ld_active db of
     None \<Rightarrow> (True, db\<lparr>ld_active := Some run\<rparr>)
   | Some _ \<Rightarrow> (active_run_id db = Some run, db))"

definition release_active_run :: "uuid \<Rightarrow> lease_db \<Rightarrow> lease_db" where
  "release_active_run run db = (if ld_active db = Some run then db\<lparr>ld_active := None\<rparr> else db)"

definition acquire ::
  "uuid \<Rightarrow> string \<Rightarrow> int \<Rightarrow> int \<Rightarrow> int \<Rightarrow> lease_db \<Rightarrow> persistence_error + lease option \<times> lease_db" where
  "acquire run holder ttl now relay_nonce_floor db =
     (let expires_at = now + ttl
      in if relay_nonce_floor < 0 then Inl (CheckViolationError ''relay_nonce_next'')
         else case map_of (ld_leases db) run of
           None \<Rightarrow>
             (let l = \<lparr>le_holder = holder, le_expires_at = expires_at, le_nonce_next = relay_nonce_floor\<rparr>
              in Inr (Some l, db\<lparr>ld_leases := AList.update run l (ld_leases db)\<rparr>))
         | Some l \<Rightarrow>
             if le_holder l = holder \<or> le_expires_at l \<le> now
             then (let l' = l\<lparr>le_holder := holder, le_expires_at := expires_at\<rparr>
                   in Inr (Some l', db\<lparr>ld_leases := AList.update run l' (ld_leases db)\<rparr>))
             else Inr (None, db))"

definition lease_release :: "uuid \<Rightarrow> string \<Rightarrow> lease_db \<Rightarrow> lease_db" where
  "lease_release run holder db = (case map_of (ld_leases db) run of
     None \<Rightarrow> db
   | Some l \<Rightarrow> if le_holder l = holder then db\<lparr>ld_leases := AList.delete run (ld_leases db)\<rparr> else db)"

definition expired :: "int \<Rightarrow> lease_db \<Rightarrow> (uuid \<times> lease) list" where
  "expired now db = sort_key (\<lambda>(_, l). le_expires_at l) (filter (\<lambda>(_, l). le_expires_at l \<le> now) (ld_leases db))"

definition take_relay_nonce ::
  "uuid \<Rightarrow> string \<Rightarrow> int \<Rightarrow> lease_db \<Rightarrow> persistence_error + int \<times> lease_db" where
  "take_relay_nonce run holder chain_nonce db = (case map_of (ld_leases db) run of
     None \<Rightarrow> Inl LeaseLostError
   | Some l \<Rightarrow>
       if le_holder l = holder
       then (let taken = max (le_nonce_next l) chain_nonce;
                 l' = l\<lparr>le_nonce_next := taken + 1\<rparr>
             in Inr (le_nonce_next l' - 1, db\<lparr>ld_leases := AList.update run l' (ld_leases db)\<rparr>))
       else Inl LeaseLostError)"

subsection \<open>Interleavings\<close>

datatype lease_op =
    Acquire uuid string int int int
  | Release uuid string
  | Take uuid string int
  | Claim uuid
  | Unclaim uuid

text \<open>One operation: the nonce it handed out, with the run it was for, and the tables after it.\<close>

fun lease_step :: "lease_op \<Rightarrow> lease_db \<Rightarrow> (uuid \<times> int) option \<times> lease_db" where
  "lease_step (Acquire run holder ttl now nonce_floor) db = (case acquire run holder ttl now nonce_floor db of
     Inl _ \<Rightarrow> (None, db) | Inr (_, db') \<Rightarrow> (None, db'))"
| "lease_step (Release run holder) db = (None, lease_release run holder db)"
| "lease_step (Take run holder chain_nonce) db = (case take_relay_nonce run holder chain_nonce db of
     Inl _ \<Rightarrow> (None, db) | Inr (n, db') \<Rightarrow> (Some (run, n), db'))"
| "lease_step (Claim run) db = (None, snd (claim_active_run run db))"
| "lease_step (Unclaim run) db = (None, release_active_run run db)"

fun lease_steps :: "lease_op list \<Rightarrow> lease_db \<Rightarrow> (uuid \<times> int) list" where
  "lease_steps [] db = []"
| "lease_steps (x # xs) db = (case lease_step x db of
     (None, db') \<Rightarrow> lease_steps xs db'
   | (Some n, db') \<Rightarrow> n # lease_steps xs db')"

definition taken_for :: "uuid \<Rightarrow> (uuid \<times> int) list \<Rightarrow> int list" where
  "taken_for run ns = map snd (filter (\<lambda>n. fst n = run) ns)"

text \<open>The least nonce the lease would still hand out for a run.\<close>

definition nonce_floor :: "uuid \<Rightarrow> lease_db \<Rightarrow> int option" where
  "nonce_floor run db = map_option le_nonce_next (map_of (ld_leases db) run)"

lemma lease_step_floor:
  assumes "lease_step x db = (t, db')" and "nonce_floor run db = Some k" and "\<forall>h. x \<noteq> Release run h"
  shows "case t of
      Some (r, n) \<Rightarrow> (if r = run then k \<le> n \<and> nonce_floor run db' = Some (n + 1) else nonce_floor run db' = Some k)
    | None \<Rightarrow> nonce_floor run db' = Some k"
proof (cases x)
  case (Acquire r h ttl now fl)
  with assms show ?thesis
    by (auto simp: acquire_def Let_def nonce_floor_def split: option.splits if_splits)
next
  case (Release r h)
  with assms show ?thesis by (auto simp: lease_release_def nonce_floor_def split: option.splits if_splits)
next
  case (Take r h c)
  with assms show ?thesis
    by (auto simp: take_relay_nonce_def Let_def nonce_floor_def split: option.splits if_splits)
next
  case (Claim r)
  with assms show ?thesis by (auto simp: claim_active_run_def nonce_floor_def split: option.splits)
next
  case (Unclaim r)
  with assms show ?thesis by (auto simp: release_active_run_def nonce_floor_def split: if_splits)
qed

lemma lease_steps_floor:
  "\<lbrakk>nonce_floor run db = Some k; \<forall>h. Release run h \<notin> set xs\<rbrakk>
    \<Longrightarrow> sorted_wrt (<) (taken_for run (lease_steps xs db)) \<and> (\<forall>n \<in> set (taken_for run (lease_steps xs db)). k \<le> n)"
proof (induction xs arbitrary: db k)
  case Nil
  then show ?case by (simp add: taken_for_def)
next
  case (Cons x xs)
  obtain t db' where s: "lease_step x db = (t, db')" by force
  from Cons.prems have "\<forall>h. x \<noteq> Release run h" by auto
  note f = lease_step_floor [OF s Cons.prems(1) this]
  show ?case
  proof (cases t)
    case None
    with f Cons s show ?thesis by simp
  next
    case (Some rn)
    obtain r n where rn: "rn = (r, n)" by force
    show ?thesis
    proof (cases "r = run")
      case True
      with f Some rn have "k \<le> n" "nonce_floor run db' = Some (n + 1)" by auto
      with Cons.IH [of db' "n + 1"] Cons.prems s Some rn True show ?thesis
        by (force simp: taken_for_def)
    next
      case False
      with f Some rn Cons s show ?thesis by (auto simp: taken_for_def)
    qed
  qed
qed

text \<open>Only the holder takes a nonce, and a live lease is not taken over.\<close>

lemma take_needs_lease:
  "take_relay_nonce run holder c db = Inr (n, db') \<Longrightarrow>
     \<exists>l. map_of (ld_leases db) run = Some l \<and> le_holder l = holder"
  by (auto simp: take_relay_nonce_def split: option.splits if_splits)

lemma acquire_live_refused:
  "\<lbrakk>map_of (ld_leases db) run = Some l; le_holder l \<noteq> holder; now < le_expires_at l; 0 \<le> k\<rbrakk>
    \<Longrightarrow> acquire run holder ttl now k db = Inr (None, db)"
  by (simp add: acquire_def Let_def)

lemma acquire_Some:
  "acquire run holder ttl now k db = Inr (Some l, db') \<Longrightarrow>
     le_holder l = holder \<and> le_expires_at l = now + ttl \<and> map_of (ld_leases db') run = Some l \<and>
     (\<forall>l0. map_of (ld_leases db) run = Some l0 \<longrightarrow> (le_holder l0 = holder \<or> le_expires_at l0 \<le> now) \<and> le_nonce_next l = le_nonce_next l0)"
  by (auto simp: acquire_def Let_def split: option.splits if_splits)

lemma claim_exclusive: "claim_active_run r db = (True, db') \<Longrightarrow> r' \<noteq> r \<Longrightarrow> fst (claim_active_run r' db') = False"
  by (auto simp: claim_active_run_def active_run_id_def split: option.splits)

end
