(* ===== verification/Fees.thy ===== *)
theory Fees
  imports Main
begin

section \<open>Fees and gas\<close>

text \<open>
  services/api/src/api/relay/fees.py with \<open>RelayPolicy\<close> of api/config/settings.py. Python's
  \<open>//\<close> on integers is HOL's \<open>div\<close>, so the negated ceiling division is written as it is.
\<close>

definition FEE_BUMP_NUMERATOR :: int where "FEE_BUMP_NUMERATOR = 9"
definition FEE_BUMP_DENOMINATOR :: int where "FEE_BUMP_DENOMINATOR = 8"
definition NODE_MINIMUM_BUMP_NUMERATOR :: int where "NODE_MINIMUM_BUMP_NUMERATOR = 11"
definition NODE_MINIMUM_BUMP_DENOMINATOR :: int where "NODE_MINIMUM_BUMP_DENOMINATOR = 10"

record relay_policy =
  rp_replace_after_blocks :: int
  rp_max_fee_per_gas_wei :: int
  rp_fallback_gas_limit :: int
  rp_gas_margin_quarters :: int

record fee_quote =
  fq_base_fee_per_gas :: int
  fq_max_priority_fee_per_gas :: int

record fees =
  max_fee_per_gas :: int
  max_priority_fee_per_gas :: int

definition ceil_ratio :: "int \<Rightarrow> int \<Rightarrow> int \<Rightarrow> int" where
  "ceil_ratio v numerator denominator = - ((- v * numerator) div denominator)"

definition initial_fees :: "fee_quote \<Rightarrow> relay_policy \<Rightarrow> fees" where
  "initial_fees q p =
     (let ceiling = rp_max_fee_per_gas_wei p;
          priority = min (fq_max_priority_fee_per_gas q) ceiling;
          max_fee = min (2 * fq_base_fee_per_gas q + priority) ceiling
      in \<lparr>max_fee_per_gas = max_fee, max_priority_fee_per_gas = min priority max_fee\<rparr>)"

definition bumped_fees :: "fees \<Rightarrow> relay_policy \<Rightarrow> fees option" where
  "bumped_fees current p =
     (let ceiling = rp_max_fee_per_gas_wei p;
          max_fee = min (ceil_ratio (max_fee_per_gas current) FEE_BUMP_NUMERATOR FEE_BUMP_DENOMINATOR) ceiling;
          minimum = ceil_ratio (max_fee_per_gas current) NODE_MINIMUM_BUMP_NUMERATOR NODE_MINIMUM_BUMP_DENOMINATOR
      in if max_fee < minimum then None
         else let priority = ceil_ratio (max_priority_fee_per_gas current) FEE_BUMP_NUMERATOR FEE_BUMP_DENOMINATOR
           in Some \<lparr>max_fee_per_gas = max_fee, max_priority_fee_per_gas = min priority max_fee\<rparr>)"

definition gas_limit :: "int option \<Rightarrow> relay_policy \<Rightarrow> int" where
  "gas_limit estimate p = (case estimate of
     None \<Rightarrow> rp_fallback_gas_limit p
   | Some e \<Rightarrow> ceil_ratio e (rp_gas_margin_quarters p) 4)"

subsection \<open>Bounds\<close>

text \<open>The ceiling division is the least integer at or above the ratio.\<close>

lemma ceil_ratio_bounds:
  assumes "0 < d"
  shows "v * n \<le> d * ceil_ratio v n d \<and> d * ceil_ratio v n d < v * n + d"
proof -
  let ?q = "(- v * n) div d" and ?m = "(- v * n) mod d"
  have e: "d * ?q + ?m = - v * n" by (rule mult_div_mod_eq)
  have m: "0 \<le> ?m" "?m < d" using assms by simp_all
  have c: "d * ceil_ratio v n d = - (d * ?q)" unfolding ceil_ratio_def by (rule mult_minus_right)
  have vn: "- v * n = - (v * n)" by (rule mult_minus_left)
  show ?thesis unfolding c using e m unfolding vn by linarith
qed

lemma ceil_ratio_iff: "0 < d \<Longrightarrow> ceil_ratio v n d \<le> k \<longleftrightarrow> v * n \<le> d * k"
proof -
  assume d: "0 < d"
  note b = ceil_ratio_bounds [OF d, of v n]
  show ?thesis
  proof
    assume "ceil_ratio v n d \<le> k"
    then have "d * ceil_ratio v n d \<le> d * k" using d by simp
    with b show "v * n \<le> d * k" by linarith
  next
    assume "v * n \<le> d * k"
    with b have "d * ceil_ratio v n d < d * (k + 1)" by (simp add: algebra_simps)
    then have "ceil_ratio v n d < k + 1" using d by (simp add: mult_less_cancel_left_pos)
    then show "ceil_ratio v n d \<le> k" by simp
  qed
qed

definition sound_fees :: "relay_policy \<Rightarrow> fees \<Rightarrow> bool" where
  "sound_fees p f \<longleftrightarrow> 0 \<le> max_priority_fee_per_gas f \<and> max_priority_fee_per_gas f \<le> max_fee_per_gas f \<and>
     max_fee_per_gas f \<le> rp_max_fee_per_gas_wei p"

lemma ceil_ratio_nonneg: "0 \<le> v \<Longrightarrow> 0 \<le> n \<Longrightarrow> 0 < d \<Longrightarrow> 0 \<le> ceil_ratio v n d"
proof -
  assume a: "0 \<le> v" "0 \<le> n" "0 < d"
  then have "0 \<le> v * n" by simp
  then have "d * (- 1) < d * ceil_ratio v n d" using ceil_ratio_bounds [OF a(3), of v n] a(3) by linarith
  then have "- 1 < ceil_ratio v n d" using a(3) mult_less_cancel_left_pos by blast
  then show ?thesis by simp
qed

lemma initial_fees_sound:
  assumes "0 \<le> rp_max_fee_per_gas_wei p" "0 \<le> fq_base_fee_per_gas q" "0 \<le> fq_max_priority_fee_per_gas q"
  shows "sound_fees p (initial_fees q p)"
  using assms by (auto simp: sound_fees_def initial_fees_def Let_def)

lemma bumped_fees_sound:
  assumes "sound_fees p f" and "bumped_fees f p = Some g"
  shows "sound_fees p g \<and> 11 * max_fee_per_gas f \<le> 10 * max_fee_per_gas g \<and>
    8 * max_fee_per_gas g < 9 * max_fee_per_gas f + 8"
proof -
  note defs = FEE_BUMP_NUMERATOR_def FEE_BUMP_DENOMINATOR_def NODE_MINIMUM_BUMP_NUMERATOR_def
    NODE_MINIMUM_BUMP_DENOMINATOR_def
  from assms(2) have g: "max_fee_per_gas g = min (ceil_ratio (max_fee_per_gas f) 9 8) (rp_max_fee_per_gas_wei p)"
    "max_priority_fee_per_gas g = min (ceil_ratio (max_priority_fee_per_gas f) 9 8) (max_fee_per_gas g)"
    and m: "ceil_ratio (max_fee_per_gas f) 11 10 \<le> max_fee_per_gas g"
    by (auto simp: bumped_fees_def Let_def defs split: if_splits)
  from m have "11 * max_fee_per_gas f \<le> 10 * max_fee_per_gas g"
    by (simp add: ceil_ratio_iff)
  moreover have "8 * max_fee_per_gas g < 9 * max_fee_per_gas f + 8"
    using g(1) ceil_ratio_bounds [of 8 "max_fee_per_gas f" 9] by linarith
  moreover have "0 \<le> max_priority_fee_per_gas g"
    using g assms(1) m ceil_ratio_nonneg [of "max_priority_fee_per_gas f" 9 8]
      ceil_ratio_nonneg [of "max_fee_per_gas f" 11 10] by (auto simp: sound_fees_def)
  ultimately show ?thesis using g by (auto simp: sound_fees_def)
qed

lemma bumped_fees_cap:
  assumes "bumped_fees f p = Some g"
  shows "11 * max_fee_per_gas f \<le> 10 * max_fee_per_gas g" "8 * max_fee_per_gas g < 9 * max_fee_per_gas f + 8"
    and "max_fee_per_gas g \<le> rp_max_fee_per_gas_wei p" "max_priority_fee_per_gas g \<le> max_fee_per_gas g"
proof -
  from assms have g: "max_fee_per_gas g = min (ceil_ratio (max_fee_per_gas f) 9 8) (rp_max_fee_per_gas_wei p)"
    and m: "ceil_ratio (max_fee_per_gas f) 11 10 \<le> max_fee_per_gas g"
    and "max_priority_fee_per_gas g \<le> max_fee_per_gas g"
    by (auto simp: bumped_fees_def Let_def FEE_BUMP_NUMERATOR_def FEE_BUMP_DENOMINATOR_def
        NODE_MINIMUM_BUMP_NUMERATOR_def NODE_MINIMUM_BUMP_DENOMINATOR_def split: if_splits)
  with ceil_ratio_bounds [of 8 "max_fee_per_gas f" 9] show
    "11 * max_fee_per_gas f \<le> 10 * max_fee_per_gas g" "8 * max_fee_per_gas g < 9 * max_fee_per_gas f + 8"
    "max_fee_per_gas g \<le> rp_max_fee_per_gas_wei p" "max_priority_fee_per_gas g \<le> max_fee_per_gas g"
    by (auto simp: ceil_ratio_iff)
qed

text \<open>Replacement stops exactly when the ceiling is within a tenth of the current cap.\<close>

lemma bumped_fees_None:
  assumes "0 \<le> max_fee_per_gas f"
  shows "bumped_fees f p = None \<longleftrightarrow>
    10 * rp_max_fee_per_gas_wei p < 11 * max_fee_per_gas f"
proof -
  have le: "ceil_ratio (max_fee_per_gas f) 11 10 \<le> ceil_ratio (max_fee_per_gas f) 9 8"
    using ceil_ratio_bounds [of 8 "max_fee_per_gas f" 9] assms
    by (simp add: ceil_ratio_iff)
  show ?thesis
    using le ceil_ratio_iff [of 10 "max_fee_per_gas f" 11 "rp_max_fee_per_gas_wei p"]
    by (auto simp: bumped_fees_def Let_def FEE_BUMP_NUMERATOR_def FEE_BUMP_DENOMINATOR_def
        NODE_MINIMUM_BUMP_NUMERATOR_def NODE_MINIMUM_BUMP_DENOMINATOR_def)
qed

lemma gas_limit_margin:
  "gas_limit (Some e) p = ceil_ratio e (rp_gas_margin_quarters p) 4 \<and>
   (4 \<le> rp_gas_margin_quarters p \<and> 0 \<le> e \<longrightarrow> e \<le> gas_limit (Some e) p)"
proof -
  have "e * 4 \<le> e * rp_gas_margin_quarters p" if "4 \<le> rp_gas_margin_quarters p" "0 \<le> e"
    using that by (intro mult_left_mono) auto
  with ceil_ratio_bounds [of 4 e "rp_gas_margin_quarters p"] show ?thesis
    by (auto simp: gas_limit_def)
qed

end
