(* ===== verification/Relay.thy ===== *)
theory Relay
  imports Outbox Leases Fees
begin

section \<open>The relay: sign, persist, and only then broadcast\<close>

text \<open>
  services/api/src/api/relay/relay.py with chain/errors.py. The world an operation changes is the
  database (signed actions, outbox, leases) and the list of raw transactions handed to the node. A
  unit of work is all or nothing (\<open>uow\<close>); between two of them other processes may act, which
  \<open>submit_action\<close> takes as an argument (\<open>meanwhile\<close>). The node is the record of what it answers
  during one operation (\<open>node\<close>): reads fail only as an unavailable RPC, an estimate may also
  revert and a send may also be refused (chain/adapter.py). Signing, RLP parsing, key recovery,
  keccak and the ABI encoding of calldata are arguments (\<open>signer\<close>, \<open>relay_env\<close>).
\<close>

datatype chain_error =
    RpcUnavailableError string
  | TransactionRejectedError string
  | ExecutionRevertedError bytes

definition text_in :: "string \<Rightarrow> string \<Rightarrow> bool" where
  "text_in needle hay \<longleftrightarrow> list_ex (prefix needle) (suffixes hay)"

definition nonce_too_low :: "string \<Rightarrow> bool" where
  "nonce_too_low reason \<longleftrightarrow> text_in ''nonce too low'' (str_lower reason)"

definition already_known :: "string \<Rightarrow> bool" where
  "already_known reason \<longleftrightarrow>
     (let r = str_lower reason in text_in ''already known'' r \<or> text_in ''already imported'' r)"

record tx_fields =
  tf_chain_id :: int
  tf_nonce :: int
  tf_to :: "address option"
  tf_value :: int
  tf_data :: bytes
  tf_gas :: int
  tf_max_fee :: int
  tf_max_priority_fee :: int
  tf_access_list :: "(address \<times> bytes list) list"

record signed_transaction =
  st_raw :: bytes
  st_hash :: digest_text

record signer =
  sg_address :: address
  sg_sign :: "tx_fields \<Rightarrow> signed_transaction"

record action_row =
  sa_run :: uuid
  sa_kind :: db_action_kind
  sa_message :: json
  sa_signature :: string
  sa_status :: action_status

record call_request =
  cr_sender :: address
  cr_to :: address
  cr_data :: bytes
  cr_value :: int

record node =
  nd_fee_quote :: "string + fee_quote"
  nd_estimate_gas :: "call_request \<Rightarrow> chain_error + int"
  nd_pending_nonce :: "address \<Rightarrow> string + int"
  nd_mined_nonce :: "address \<Rightarrow> string + int"
  nd_head :: "string + int"
  nd_send_raw :: "bytes \<Rightarrow> chain_error + unit"
  nd_receipt :: "digest_text \<Rightarrow> string + bool"
  nd_receipt_after_send :: "digest_text \<Rightarrow> string + bool"
  nd_transaction :: "digest_text \<Rightarrow> string + bool"

record relay_env =
  re_chain_id :: int
  re_deployment :: string
  re_relay :: signer
  re_operator :: "signer option"
  re_holder :: string
  re_policy :: relay_policy
  re_clock :: int
  re_exchange :: address
  re_encode :: "db_action_kind \<Rightarrow> json \<Rightarrow> string \<Rightarrow> string + bytes"
  re_deployment_of :: "uuid \<Rightarrow> string"
  re_collation :: "address \<Rightarrow> nat"
  re_from_bytes :: "bytes \<Rightarrow> tx_fields option"
  re_recover :: "bytes \<Rightarrow> address"
  re_keccak :: "bytes \<Rightarrow> digest_text"

record relay_world =
  w_actions :: "(uuid \<times> action_row) list"
  w_outbox :: "outbox_row list"
  w_leases :: lease_db
  w_sent :: "bytes list"

datatype relay_error =
    RelayError
  | Persistence persistence_error
  | ChainFailure chain_error
  | Codec string

datatype reconciliation = MINED | IN_POOL | REBROADCAST | SUPERSEDED | NONCE_CONFLICT | UNREACHABLE | REFUSED

record reconcile_result =
  rr_outbox_id :: uuid
  rr_tx_hash :: digest_text
  rr_outcome :: reconciliation
  rr_detail :: "string option"

datatype sent = ACCEPTED | SENT_UNREACHABLE | SENT_REFUSED

type_synonym 'a relay = "relay_world \<Rightarrow> (relay_error + 'a) \<times> relay_world"

definition uow :: "(relay_world \<Rightarrow> persistence_error + 'a \<times> relay_world) \<Rightarrow> 'a relay" where
  "uow f w = (case f w of Inl e \<Rightarrow> (Inl (Persistence e), w) | Inr (a, w') \<Rightarrow> (Inr a, w'))"

definition relay_bind :: "'a relay \<Rightarrow> ('a \<Rightarrow> 'b relay) \<Rightarrow> 'b relay" where
  "relay_bind m f w = (case m w of (Inl e, w') \<Rightarrow> (Inl e, w') | (Inr a, w') \<Rightarrow> f a w')"

definition on_outbox :: "'a outbox_op \<Rightarrow> relay_world \<Rightarrow> persistence_error + 'a \<times> relay_world" where
  "on_outbox f w = result_bind (f (w_outbox w)) (\<lambda>(a, rows). Inr (a, w\<lparr>w_outbox := rows\<rparr>))"

definition TX_KIND_FOR_ACTION :: "db_action_kind \<Rightarrow> tx_kind" where
  "TX_KIND_FOR_ACTION k = (case k of AK_OFFER \<Rightarrow> RECORD_OFFER | AK_ACCEPT \<Rightarrow> ACCEPT_AND_SETTLE | AK_CLOSE \<Rightarrow> CLOSE_SESSION)"

definition decode_raw_transaction :: "relay_env \<Rightarrow> bytes \<Rightarrow> tx_fields option" where
  "decode_raw_transaction env raw =
     (case raw of [] \<Rightarrow> None | b # _ \<Rightarrow> if b \<noteq> 2 then None else re_from_bytes env raw)"

subsection \<open>Broadcast\<close>

definition raw_record_attempt :: "outbox_row \<Rightarrow> string \<Rightarrow> outbox_row relay" where
  "raw_record_attempt row reason = uow (on_outbox (record_attempt (ob_id row) (Some reason)))"

definition submit_signed :: "uuid option \<Rightarrow> relay_world \<Rightarrow> relay_world" where
  "submit_signed action w = (case action of
     None \<Rightarrow> w
   | Some a \<Rightarrow> (case map_of (w_actions w) a of
       None \<Rightarrow> w
     | Some sa \<Rightarrow>
         if sa_status sa = AS_SIGNED
         then w\<lparr>w_actions := AList.update a (sa\<lparr>sa_status := AS_SUBMITTED\<rparr>) (w_actions w)\<rparr>
         else w))"

definition record_broadcast :: "relay_env \<Rightarrow> outbox_row \<Rightarrow> int \<Rightarrow> outbox_row relay" where
  "record_broadcast env row head_block = uow (\<lambda>w.
     result_bind (on_outbox (mark_submitted (ob_id row) (re_clock env) (Some head_block)) w)
       (\<lambda>(updated, w'). Inr (updated, submit_signed (ob_action row) w')))"

definition already_sent :: "node \<Rightarrow> outbox_row \<Rightarrow> string \<Rightarrow> string + bool" where
  "already_sent nd row reason =
     (if already_known reason then Inr True
      else if nonce_too_low reason then nd_receipt_after_send nd (ob_tx_hash row)
      else Inr False)"

definition hand_over :: "bytes \<Rightarrow> unit relay" where
  "hand_over raw w = (Inr (), w\<lparr>w_sent := w_sent w @ [raw]\<rparr>)"

definition ended :: "sent \<Rightarrow> string option \<Rightarrow> outbox_row \<Rightarrow> (outbox_row \<times> sent \<times> string option) relay" where
  "ended s reason row w = (Inr (row, s, reason), w)"

definition send :: "relay_env \<Rightarrow> node \<Rightarrow> outbox_row \<Rightarrow> (outbox_row \<times> sent \<times> string option) relay" where
  "send env nd row = (case nd_head nd of
     Inl m \<Rightarrow> relay_bind (raw_record_attempt row m) (ended SENT_UNREACHABLE None)
   | Inr head \<Rightarrow> relay_bind (hand_over (ob_raw_tx row)) (\<lambda>_.
       case nd_send_raw nd (ob_raw_tx row) of
         Inl (TransactionRejectedError reason) \<Rightarrow>
           (case already_sent nd row reason of
              Inl m \<Rightarrow> relay_bind (raw_record_attempt row m) (ended SENT_UNREACHABLE None)
            | Inr True \<Rightarrow> relay_bind (record_broadcast env row head) (ended ACCEPTED None)
            | Inr False \<Rightarrow> relay_bind (raw_record_attempt row reason) (ended SENT_REFUSED (Some reason)))
       | Inl (RpcUnavailableError m) \<Rightarrow> relay_bind (raw_record_attempt row m) (ended SENT_UNREACHABLE None)
       | Inl (ExecutionRevertedError d) \<Rightarrow> (\<lambda>w. (Inl (ChainFailure (ExecutionRevertedError d)), w))
       | Inr _ \<Rightarrow> relay_bind (record_broadcast env row head) (ended ACCEPTED None)))"

definition broadcast :: "relay_env \<Rightarrow> node \<Rightarrow> outbox_row \<Rightarrow> outbox_row relay" where
  "broadcast env nd row = relay_bind (send env nd row) (\<lambda>(updated, _, _) w. (Inr updated, w))"

definition resume :: "relay_env \<Rightarrow> node \<Rightarrow> outbox_row \<Rightarrow> outbox_row relay" where
  "resume env nd row = (if ob_status row = TX_PENDING then broadcast env nd row else (\<lambda>w. (Inr row, w)))"

subsection \<open>Submission\<close>

definition rpc_answer :: "string + 'a \<Rightarrow> 'a relay" where
  "rpc_answer r w = (case r of Inl m \<Rightarrow> (Inl (ChainFailure (RpcUnavailableError m)), w) | Inr a \<Rightarrow> (Inr a, w))"

definition estimated :: "node \<Rightarrow> call_request \<Rightarrow> int option relay" where
  "estimated nd request w = (case nd_estimate_gas nd request of
     Inr e \<Rightarrow> (Inr (Some e), w)
   | Inl (ExecutionRevertedError _) \<Rightarrow> (Inr None, w)
   | Inl e \<Rightarrow> (Inl (ChainFailure e), w))"

definition take_nonce :: "relay_env \<Rightarrow> uuid \<Rightarrow> signer \<Rightarrow> int \<Rightarrow> relay_world \<Rightarrow> persistence_error + int \<times> relay_world" where
  "take_nonce env run sg chain_nonce w =
     (if sg_address sg = sg_address (re_relay env)
      then result_bind (take_relay_nonce run (re_holder env) chain_nonce (w_leases w))
             (\<lambda>(n, ls). Inr (n, w\<lparr>w_leases := ls\<rparr>))
      else (case max_nonce (re_deployment_of env) (sg_address sg) (re_deployment env) (w_outbox w) of
              None \<Rightarrow> Inr (chain_nonce, w)
            | Some recorded \<Rightarrow> Inr (max chain_nonce (recorded + 1), w)))"

definition fresh_fields ::
  "relay_env \<Rightarrow> int \<Rightarrow> address \<Rightarrow> int \<Rightarrow> bytes \<Rightarrow> int option \<Rightarrow> fees \<Rightarrow> tx_fields" where
  "fresh_fields env nonce to val data estimate f =
     \<lparr>tf_chain_id = re_chain_id env, tf_nonce = nonce, tf_to = Some to, tf_value = val, tf_data = data,
      tf_gas = gas_limit estimate (re_policy env), tf_max_fee = max_fee_per_gas f,
      tf_max_priority_fee = max_priority_fee_per_gas f, tf_access_list = []\<rparr>"

definition persist ::
  "relay_env \<Rightarrow> node \<Rightarrow> uuid \<Rightarrow> tx_kind \<Rightarrow> signer \<Rightarrow> address \<Rightarrow> bytes \<Rightarrow> uuid option \<Rightarrow> int \<Rightarrow> outbox_row relay" where
  "persist env nd run kind sg to data action val =
     relay_bind (rpc_answer (nd_fee_quote nd)) (\<lambda>quote.
     relay_bind (estimated nd \<lparr>cr_sender = sg_address sg, cr_to = to, cr_data = data, cr_value = val\<rparr>) (\<lambda>estimate.
     relay_bind (rpc_answer (nd_pending_nonce nd (sg_address sg))) (\<lambda>chain_nonce.
     uow (\<lambda>w. result_bind (take_nonce env run sg chain_nonce w) (\<lambda>(nonce, w').
       let stx = sg_sign sg (fresh_fields env nonce to val data estimate (initial_fees quote (re_policy env)))
       in on_outbox (outbox_add
            \<lparr>no_run = run, no_kind = kind, no_sender = sg_address sg, no_nonce = nonce,
             no_raw_tx = st_raw stx, no_tx_hash = st_hash stx, no_action = action,
             no_replaces = None, no_status = TX_PENDING\<rparr>) w')))))"

definition resume_live :: "relay_env \<Rightarrow> node \<Rightarrow> uuid \<Rightarrow> relay_error \<Rightarrow> outbox_row relay" where
  "resume_live env nd action e w = (case live_for_signed_action action (w_outbox w) of
     None \<Rightarrow> (Inl e, w)
   | Some live \<Rightarrow> resume env nd live w)"

definition persist_action ::
  "relay_env \<Rightarrow> node \<Rightarrow> uuid \<Rightarrow> uuid \<Rightarrow> action_row \<Rightarrow> bytes \<Rightarrow> outbox_row relay" where
  "persist_action env nd run action sa data w =
     (case persist env nd run (TX_KIND_FOR_ACTION (sa_kind sa)) (re_relay env) (re_exchange env) data (Some action) 0 w of
        (Inr row, w') \<Rightarrow> broadcast env nd row w'
      | (Inl e, w') \<Rightarrow>
          if e = Persistence (DuplicateError LIVE_PER_ACTION_INDEX) then resume_live env nd action e w'
          else (Inl e, w'))"

definition submit_action ::
  "relay_env \<Rightarrow> node \<Rightarrow> (relay_world \<Rightarrow> relay_world) \<Rightarrow> uuid \<Rightarrow> uuid \<Rightarrow> outbox_row relay" where
  "submit_action env nd meanwhile run action w =
     (case map_of (w_actions w) action of
        None \<Rightarrow> (Inl RelayError, w)
      | Some sa \<Rightarrow>
          if sa_run sa \<noteq> run then (Inl RelayError, w)
          else let history = for_signed_action action (w_outbox w) in
            if history \<noteq> [] then resume env nd (last history) w
            else (case re_encode env (sa_kind sa) (sa_message sa) (sa_signature sa) of
                    Inl m \<Rightarrow> (Inl (Codec m), w)
                  | Inr data \<Rightarrow> persist_action env nd run action sa data (meanwhile w)))"

definition submit_call ::
  "relay_env \<Rightarrow> node \<Rightarrow> uuid \<Rightarrow> tx_kind \<Rightarrow> address \<Rightarrow> bytes \<Rightarrow> bool \<Rightarrow> int \<Rightarrow> outbox_row relay" where
  "submit_call env nd run kind to data as_operator val w =
     (case (if as_operator then re_operator env else Some (re_relay env)) of
        None \<Rightarrow> (Inl RelayError, w)
      | Some sg \<Rightarrow>
          if val < 0 then (Inl RelayError, w)
          else relay_bind (persist env nd run kind sg to data None val) (broadcast env nd) w)"

definition submit_presigned :: "relay_env \<Rightarrow> node \<Rightarrow> uuid \<Rightarrow> tx_kind \<Rightarrow> bytes \<Rightarrow> outbox_row relay" where
  "submit_presigned env nd run kind raw w =
     (case decode_raw_transaction env raw of
        None \<Rightarrow> (Inl RelayError, w)
      | Some tx \<Rightarrow>
          if tf_chain_id tx \<noteq> re_chain_id env then (Inl RelayError, w)
          else relay_bind (uow (\<lambda>w. case outbox_get_by_hash (re_keccak env raw) (w_outbox w) of
              Some existing \<Rightarrow> Inr (existing, w)
            | None \<Rightarrow> on_outbox (outbox_add
                \<lparr>no_run = run, no_kind = kind, no_sender = re_recover env raw, no_nonce = tf_nonce tx,
                 no_raw_tx = raw, no_tx_hash = re_keccak env raw, no_action = None, no_replaces = None,
                 no_status = TX_PENDING\<rparr>) w)) (resume env nd) w)"

subsection \<open>Recovery\<close>

fun first_mined :: "node \<Rightarrow> outbox_row list \<Rightarrow> string + bool" where
  "first_mined nd [] = Inr False"
| "first_mined nd (s # siblings) = result_bind (nd_receipt nd (ob_tx_hash s))
     (\<lambda>mined. if mined then Inr True else first_mined nd siblings)"

definition nonce_consumed :: "relay_env \<Rightarrow> node \<Rightarrow> outbox_row \<Rightarrow> reconciliation relay" where
  "nonce_consumed env nd row w =
     (let siblings = nonce_group (re_deployment_of env) (ob_sender row) (ob_nonce row) (re_deployment env) (w_outbox w)
      in case first_mined nd (filter (\<lambda>s. ob_id s \<noteq> ob_id row) siblings) of
           Inl m \<Rightarrow> (Inr UNREACHABLE, w)
         | Inr True \<Rightarrow> relay_bind (uow (on_outbox (update_status (ob_id row) TX_DROPPED None)))
             (\<lambda>_ w. (Inr SUPERSEDED, w)) w
         | Inr False \<Rightarrow> (Inr NONCE_CONFLICT, w))"

definition outcome_of :: "sent \<Rightarrow> string option \<Rightarrow> reconciliation \<times> string option" where
  "outcome_of s reason = (case s of
     SENT_UNREACHABLE \<Rightarrow> (UNREACHABLE, None)
   | SENT_REFUSED \<Rightarrow> (REFUSED, reason)
   | ACCEPTED \<Rightarrow> (REBROADCAST, None))"

definition pooled :: "relay_env \<Rightarrow> node \<Rightarrow> outbox_row \<Rightarrow> (reconciliation \<times> string option) relay" where
  "pooled env nd row w =
     (if ob_status row = TX_PENDING
      then (case nd_head nd of
              Inl m \<Rightarrow> (Inr (UNREACHABLE, None), w)
            | Inr head \<Rightarrow> relay_bind (record_broadcast env row head) (\<lambda>_ w. (Inr (IN_POOL, None), w)) w)
      else (Inr (IN_POOL, None), w))"

definition resent :: "relay_env \<Rightarrow> node \<Rightarrow> outbox_row \<Rightarrow> (reconciliation \<times> string option) relay" where
  "resent env nd row = relay_bind (send env nd row) (\<lambda>(_, s, reason) w. (Inr (outcome_of s reason), w))"

definition reconcile_one :: "relay_env \<Rightarrow> node \<Rightarrow> outbox_row \<Rightarrow> (reconciliation \<times> string option) relay" where
  "reconcile_one env nd row w =
     (case nd_receipt nd (ob_tx_hash row) of
        Inl m \<Rightarrow> (Inr (UNREACHABLE, None), w)
      | Inr True \<Rightarrow> (Inr (MINED, None), w)
      | Inr False \<Rightarrow>
          (case nd_transaction nd (ob_tx_hash row) of
             Inl m \<Rightarrow> (Inr (UNREACHABLE, None), w)
           | Inr True \<Rightarrow> pooled env nd row w
           | Inr False \<Rightarrow>
               (case nd_mined_nonce nd (ob_sender row) of
                  Inl m \<Rightarrow> (Inr (UNREACHABLE, None), w)
                | Inr n \<Rightarrow>
                    if ob_nonce row < n
                    then relay_bind (nonce_consumed env nd row) (\<lambda>r w. (Inr (r, None), w)) w
                    else resent env nd row w)))"

text \<open>The rows are read once; the node may answer differently while each is handled.\<close>

fun reconcile_rows :: "relay_env \<Rightarrow> (uuid \<Rightarrow> node) \<Rightarrow> outbox_row list \<Rightarrow> reconcile_result list relay" where
  "reconcile_rows env nodes [] w = (Inr [], w)"
| "reconcile_rows env nodes (row # rows) w =
     relay_bind (reconcile_one env (nodes (ob_id row)) row) (\<lambda>(out, detail).
     relay_bind (reconcile_rows env nodes rows) (\<lambda>rest w.
       (Inr (\<lparr>rr_outbox_id = ob_id row, rr_tx_hash = ob_tx_hash row, rr_outcome = out, rr_detail = detail\<rparr> # rest), w))) w"

definition reconcile :: "relay_env \<Rightarrow> (uuid \<Rightarrow> node) \<Rightarrow> uuid \<Rightarrow> reconcile_result list relay" where
  "reconcile env nodes run w =
     reconcile_rows env nodes
       (filter (\<lambda>r. ob_status r = TX_PENDING \<or> ob_status r = TX_SUBMITTED)
         (outbox_unfinished (re_collation env) run (w_outbox w))) w"

subsection \<open>Gas replacement\<close>

definition relay_signer_for :: "relay_env \<Rightarrow> address \<Rightarrow> signer option" where
  "relay_signer_for env sender =
     (if sg_address (re_relay env) = sender then Some (re_relay env)
      else case re_operator env of
        None \<Rightarrow> None
      | Some sg \<Rightarrow> if sg_address sg = sender then Some sg else None)"

definition successor_of :: "outbox_row \<Rightarrow> signed_transaction \<Rightarrow> new_outbox_tx" where
  "successor_of row stx =
     \<lparr>no_run = ob_run row, no_kind = ob_kind row, no_sender = ob_sender row, no_nonce = ob_nonce row,
      no_raw_tx = st_raw stx, no_tx_hash = st_hash stx, no_action = ob_action row,
      no_replaces = Some (ob_id row), no_status = TX_PENDING\<rparr>"

definition persist_successor :: "outbox_row \<Rightarrow> signed_transaction \<Rightarrow> outbox_row relay" where
  "persist_successor row stx = uow (\<lambda>w.
     result_bind (on_outbox (update_status (ob_id row) TX_REPLACED None) w)
       (\<lambda>(_, w'). on_outbox (outbox_add (successor_of row stx)) w'))"

definition replacement_fields :: "relay_env \<Rightarrow> tx_fields \<Rightarrow> tx_fields option" where
  "replacement_fields env tx =
     map_option (\<lambda>f. tx\<lparr>tf_max_fee := max_fee_per_gas f, tf_max_priority_fee := max_priority_fee_per_gas f\<rparr>)
       (bumped_fees \<lparr>max_fee_per_gas = tf_max_fee tx, max_priority_fee_per_gas = tf_max_priority_fee tx\<rparr> (re_policy env))"

definition replace :: "relay_env \<Rightarrow> node \<Rightarrow> outbox_row \<Rightarrow> outbox_row option relay" where
  "replace env nd row w =
     (case relay_signer_for env (ob_sender row) of
        None \<Rightarrow> (Inr None, w)
      | Some sg \<Rightarrow> relay_bind (rpc_answer (nd_receipt nd (ob_tx_hash row))) (\<lambda>mined w.
          if mined then (Inr None, w)
          else (case decode_raw_transaction env (ob_raw_tx row) of
              None \<Rightarrow> (Inl RelayError, w)
            | Some tx \<Rightarrow>
                (case replacement_fields env tx of
                   None \<Rightarrow> (Inr None, w)
                 | Some raised \<Rightarrow>
                     relay_bind (persist_successor row (sg_sign sg raised)) (\<lambda>successor.
                     relay_bind (broadcast env nd successor) (\<lambda>r w. (Inr (Some r), w))) w))) w)"

fun replace_all :: "relay_env \<Rightarrow> (uuid \<Rightarrow> node) \<Rightarrow> outbox_row list \<Rightarrow> outbox_row list relay" where
  "replace_all env nodes [] w = (Inr [], w)"
| "replace_all env nodes (row # rows) w =
     relay_bind (replace env (nodes (ob_id row)) row) (\<lambda>s.
     relay_bind (replace_all env nodes rows) (\<lambda>rest w.
       (Inr (case s of None \<Rightarrow> rest | Some r \<Rightarrow> r # rest), w))) w"

definition is_stuck :: "relay_env \<Rightarrow> int \<Rightarrow> outbox_row \<Rightarrow> bool" where
  "is_stuck env head r \<longleftrightarrow> ob_status r = TX_SUBMITTED \<and> ob_block_number r = None \<and>
     (case ob_submitted_block r of None \<Rightarrow> False | Some b \<Rightarrow> rp_replace_after_blocks (re_policy env) \<le> head - b)"

definition replace_stuck :: "relay_env \<Rightarrow> node \<Rightarrow> (uuid \<Rightarrow> node) \<Rightarrow> uuid \<Rightarrow> outbox_row list relay" where
  "replace_stuck env nd nodes run =
     relay_bind (rpc_answer (nd_head nd)) (\<lambda>head w.
       replace_all env nodes
         (filter (is_stuck env head) (outbox_unfinished (re_collation env) run (w_outbox w))) w)"

end
