(* ===== verification/Relay_Facts.thy ===== *)
theory Relay_Facts
  imports Relay
begin

section \<open>What the relay keeps\<close>

text \<open>
  \<open>grows w w'\<close>: the outbox went through writes of its repository only, and every raw transaction
  handed to the node on the way is one the outbox holds. \<open>keeps P m Q\<close> is the triple the relay's
  operations are composed by. \<open>relay_op\<close> is everything that writes the outbox, the indexer's
  updates included; a submission carries what other processes do between its two units of work.
\<close>

definition grows :: "relay_world \<Rightarrow> relay_world \<Rightarrow> bool" where
  "grows w w' \<longleftrightarrow> outbox_write\<^sup>*\<^sup>* (w_outbox w) (w_outbox w') \<and>
     (\<exists>xs. w_sent w' = w_sent w @ xs \<and> set xs \<subseteq> ob_raw_tx ` set (w_outbox w'))"

definition held :: "outbox_row \<Rightarrow> relay_world \<Rightarrow> bool" where
  "held row w \<longleftrightarrow> identity row \<in> identity ` set (w_outbox w)"

definition keeps :: "(relay_world \<Rightarrow> bool) \<Rightarrow> 'a relay \<Rightarrow> ('a \<Rightarrow> relay_world \<Rightarrow> bool) \<Rightarrow> bool" where
  "keeps P m Q \<longleftrightarrow> (\<forall>w. outbox_ok (w_outbox w) \<and> P w \<longrightarrow>
     grows w (snd (m w)) \<and> (\<forall>a. fst (m w) = Inr a \<longrightarrow> Q a (snd (m w))))"

lemma identity_raw_tx: "identity r = identity s \<Longrightarrow> ob_raw_tx r = ob_raw_tx s"
  by (simp add: identity_def)

lemma identity_raw: "identity ` A \<subseteq> identity ` B \<Longrightarrow> ob_raw_tx ` A \<subseteq> ob_raw_tx ` B"
proof
  fix x assume sub: "identity ` A \<subseteq> identity ` B" and "x \<in> ob_raw_tx ` A"
  then obtain r where r: "r \<in> A" "x = ob_raw_tx r" by blast
  with sub have "identity r \<in> identity ` B" by blast
  then obtain s where s: "s \<in> B" "identity r = identity s" by blast
  show "x \<in> ob_raw_tx ` B"
    unfolding r(2) identity_raw_tx [OF s(2)] using s(1) by (rule imageI)
qed

lemma grows_refl [simp]: "grows w w"
  by (simp add: grows_def)

lemma grows_ok: "grows w w' \<Longrightarrow> outbox_ok (w_outbox w) \<Longrightarrow> outbox_ok (w_outbox w')"
  unfolding grows_def using outbox.writes_inv by blast

lemma grows_trans:
  assumes "outbox_ok (w_outbox u)" "grows u v" "grows v w"
  shows "grows u w"
proof -
  from assms(2) obtain xs where s1: "w_sent v = w_sent u @ xs" and xs: "set xs \<subseteq> ob_raw_tx ` set (w_outbox v)"
    unfolding grows_def by blast
  from assms(3) obtain ys where s2: "w_sent w = w_sent v @ ys" and ys: "set ys \<subseteq> ob_raw_tx ` set (w_outbox w)"
    unfolding grows_def by blast
  have uv: "outbox_write\<^sup>*\<^sup>* (w_outbox u) (w_outbox v)" and vw: "outbox_write\<^sup>*\<^sup>* (w_outbox v) (w_outbox w)"
    using assms(2,3) by (simp_all add: grows_def)
  have "outbox_ok (w_outbox v)" using assms(2,1) by (rule grows_ok)
  note identity_raw [OF outbox.writes_keep [OF vw this]]
  with xs ys have "set (xs @ ys) \<subseteq> ob_raw_tx ` set (w_outbox w)" by simp
  moreover have "w_sent w = w_sent u @ (xs @ ys)" by (simp add: s1 s2)
  ultimately have "\<exists>zs. w_sent w = w_sent u @ zs \<and> set zs \<subseteq> ob_raw_tx ` set (w_outbox w)" by blast
  then show ?thesis unfolding grows_def using rtranclp_trans [OF uv vw] by blast
qed

lemma grows_held: "\<lbrakk>outbox_ok (w_outbox w); grows w w'; held row w\<rbrakk> \<Longrightarrow> held row w'"
proof -
  assume "outbox_ok (w_outbox w)" "grows w w'" "held row w"
  then have "identity ` set (w_outbox w) \<subseteq> identity ` set (w_outbox w')"
    using outbox.writes_keep unfolding grows_def by blast
  with \<open>held row w\<close> show ?thesis unfolding held_def by blast
qed

lemma held_raw: "held row w \<Longrightarrow> ob_raw_tx row \<in> ob_raw_tx ` set (w_outbox w)"
  unfolding held_def by (auto dest: identity_raw_tx)

subsection \<open>The triple\<close>

lemma keepsD: "\<lbrakk>keeps P m Q; outbox_ok (w_outbox w); P w\<rbrakk> \<Longrightarrow> grows w (snd (m w))"
  by (auto simp: keeps_def)

lemma keepsQ: "\<lbrakk>keeps P m Q; outbox_ok (w_outbox w); P w; m w = (Inr a, w')\<rbrakk> \<Longrightarrow> Q a w'"
  by (fastforce simp: keeps_def)

lemma keeps_bind:
  assumes m: "keeps P m Q" and f: "\<And>a. keeps (Q a) (f a) R"
  shows "keeps P (relay_bind m f) R"
  unfolding keeps_def
proof (intro allI impI)
  fix w assume w: "outbox_ok (w_outbox w) \<and> P w"
  obtain r w1 where mw: "m w = (r, w1)" by force
  have g: "grows w w1" using keepsD [OF m] w mw by (metis snd_conv)
  show "grows w (snd (relay_bind m f w)) \<and>
    (\<forall>b. fst (relay_bind m f w) = Inr b \<longrightarrow> R b (snd (relay_bind m f w)))"
  proof (cases r)
    case (Inl e)
    with mw g show ?thesis by (simp add: relay_bind_def)
  next
    case (Inr a)
    from keepsQ [OF m] w mw Inr have q: "Q a w1" by blast
    have ok: "outbox_ok (w_outbox w1)" using g w grows_ok by blast
    from f [of a] ok q have "grows w1 (snd (f a w1)) \<and> (\<forall>b. fst (f a w1) = Inr b \<longrightarrow> R b (snd (f a w1)))"
      unfolding keeps_def by blast
    with g w mw Inr show ?thesis by (auto simp: relay_bind_def intro: grows_trans)
  qed
qed

lemma keeps_unchanged: "(\<And>w. snd (m w) = w) \<Longrightarrow> (\<And>w a. P w \<Longrightarrow> fst (m w) = Inr a \<Longrightarrow> Q a w) \<Longrightarrow> keeps P m Q"
  by (auto simp: keeps_def)

lemma keeps_weaken: "keeps P m Q \<Longrightarrow> (\<And>w. P' w \<Longrightarrow> P w) \<Longrightarrow> (\<And>a w. Q a w \<Longrightarrow> Q' a w) \<Longrightarrow> keeps P' m Q'"
  unfolding keeps_def by blast

lemma keeps_error [simp]: "keeps P (\<lambda>w. (Inl e, w)) Q"
  by (simp add: keeps_def)

text \<open>A unit of work whose outbox change is one or more writes.\<close>

lemma keeps_uow:
  assumes "\<And>w a w'. \<lbrakk>outbox_ok (w_outbox w); P w; f w = Inr (a, w')\<rbrakk>
      \<Longrightarrow> outbox_write\<^sup>*\<^sup>* (w_outbox w) (w_outbox w') \<and> w_sent w' = w_sent w \<and> Q a w'"
  shows "keeps P (uow f) Q"
  unfolding keeps_def
proof (intro allI impI)
  fix w assume w: "outbox_ok (w_outbox w) \<and> P w"
  show "grows w (snd (uow f w)) \<and> (\<forall>a. fst (uow f w) = Inr a \<longrightarrow> Q a (snd (uow f w)))"
  proof (cases "f w")
    case (Inl e)
    then show ?thesis by (simp add: uow_def)
  next
    case (Inr p)
    obtain a w' where "p = (a, w')" by force
    with assms [of w a w'] Inr w show ?thesis by (auto simp: uow_def grows_def)
  qed
qed

lemma on_outbox_Inr:
  "on_outbox f w = Inr (a, w') \<longleftrightarrow> (\<exists>rows. f (w_outbox w) = Inr (a, rows) \<and> w' = w\<lparr>w_outbox := rows\<rparr>)"
  by (auto simp: on_outbox_def result_simps)

subsection \<open>The operations\<close>

lemma held_added: "outbox_add n rows = Inr (r, rows') \<Longrightarrow> held r (w\<lparr>w_outbox := rows'\<rparr>)"
  by (simp add: outbox_add_Inr held_def)

lemma keeps_record_attempt: "keeps P (raw_record_attempt row m) (\<lambda>_ _. True)"
  unfolding raw_record_attempt_def
  by (rule keeps_uow) (auto simp: on_outbox_Inr dest: outbox_writes)

lemma submit_signed_outbox [simp]:
  "w_outbox (submit_signed a w) = w_outbox w" "w_sent (submit_signed a w) = w_sent w"
  "w_leases (submit_signed a w) = w_leases w"
  by (simp_all add: submit_signed_def split: option.split)

lemma keeps_record_broadcast: "keeps P (record_broadcast env row h) (\<lambda>_ _. True)"
  unfolding record_broadcast_def
  by (rule keeps_uow) (auto simp: on_outbox_Inr result_bind_pair dest: outbox_writes)

lemma keeps_hand_over: "keeps (held row) (hand_over (ob_raw_tx row)) (\<lambda>_. held row)"
  by (auto simp: keeps_def hand_over_def grows_def held_raw) (simp add: held_def)

lemma keeps_ended: "keeps P (ended s m row) (\<lambda>_ _. True)"
  by (rule keeps_unchanged) (simp_all add: ended_def)

lemmas keeps_step = keeps_bind [OF keeps_record_attempt keeps_ended]
  keeps_bind [OF keeps_record_broadcast keeps_ended]

lemma keeps_send: "keeps (held row) (send env nd row) (\<lambda>_ _. True)"
  unfolding send_def
  by (auto intro!: keeps_step keeps_bind [OF keeps_hand_over] split: sum.split chain_error.split bool.split)

lemma keeps_broadcast: "keeps (held row) (broadcast env nd row) (\<lambda>_ _. True)"
  unfolding broadcast_def by (rule keeps_bind [OF keeps_send]) (auto intro: keeps_unchanged)

lemma keeps_resume: "keeps (held row) (resume env nd row) (\<lambda>_ _. True)"
  unfolding resume_def by (auto intro: keeps_broadcast keeps_unchanged)

lemma keeps_answer: "keeps P (rpc_answer r) (\<lambda>_. P)"
  by (rule keeps_unchanged) (simp_all add: rpc_answer_def split: sum.split)

lemma keeps_estimated: "keeps P (estimated nd c) (\<lambda>_. P)"
  by (rule keeps_unchanged) (simp_all add: estimated_def split: sum.split chain_error.split)

lemma take_nonce_outbox:
  "take_nonce env run sg c w = Inr (n, w') \<Longrightarrow> w_outbox w' = w_outbox w \<and> w_sent w' = w_sent w \<and> w_actions w' = w_actions w"
  by (auto simp: take_nonce_def result_bind_pair split: if_splits option.splits)

lemma keeps_persist: "keeps P (persist env nd run kind sg to data action val) held"
  unfolding persist_def
proof (intro keeps_bind [OF keeps_answer] keeps_bind [OF keeps_estimated], rule keeps_uow)
  fix quote estimate c w row w'
  assume "result_bind (take_nonce env run sg c w) (\<lambda>(nonce, w'). let stx = sg_sign sg (fresh_fields env nonce to val data estimate (initial_fees quote (re_policy env)))
       in on_outbox (outbox_add \<lparr>no_run = run, no_kind = kind, no_sender = sg_address sg, no_nonce = nonce,
             no_raw_tx = st_raw stx, no_tx_hash = st_hash stx, no_action = action,
             no_replaces = None, no_status = TX_PENDING\<rparr>) w') = Inr (row, w')"
  then obtain nonce w1 n rows where t: "take_nonce env run sg c w = Inr (nonce, w1)"
    and a: "outbox_add n (w_outbox w1) = Inr (row, rows)" and w': "w' = w1\<lparr>w_outbox := rows\<rparr>"
    by (auto simp: result_bind_pair Let_def on_outbox_Inr)
  from take_nonce_outbox [OF t] a w' show
    "outbox_write\<^sup>*\<^sup>* (w_outbox w) (w_outbox w') \<and> w_sent w' = w_sent w \<and> held row w'"
    by (auto intro: outbox_writes(1) held_added)
qed

lemma held_member: "row \<in> set (w_outbox w) \<Longrightarrow> held row w"
  by (simp add: held_def)

lemma keepsI:
  assumes "\<And>w. outbox_ok (w_outbox w) \<Longrightarrow> P w \<Longrightarrow> grows w (snd (m w))"
  shows "keeps P m (\<lambda>_ _. True)"
  using assms by (auto simp: keeps_def)

lemma grows_resume: "\<lbrakk>outbox_ok (w_outbox w); row \<in> set (w_outbox w)\<rbrakk> \<Longrightarrow> grows w (snd (resume env nd row w))"
  using keepsD [OF keeps_resume] held_member by blast

lemma keepsT: "keeps (\<lambda>_. True) m Q \<Longrightarrow> outbox_ok (w_outbox w) \<Longrightarrow> grows w (snd (m w))"
  by (simp add: keeps_def)

lemma grows_broadcast_after:
  assumes m: "keeps (\<lambda>_. True) m held" and w: "outbox_ok (w_outbox w)" and r: "m w = (Inr row, w')"
  shows "grows w (snd (broadcast env nd row w'))"
  using keepsT [OF keeps_bind [OF m keeps_broadcast] w] r by (simp add: relay_bind_def)

lemma keeps_persist_action: "keeps (\<lambda>_. True) (persist_action env nd run action sa data) (\<lambda>_ _. True)"
proof (rule keepsI)
  fix w :: relay_world assume w: "outbox_ok (w_outbox w)"
  let ?m = "persist env nd run (TX_KIND_FOR_ACTION (sa_kind sa)) (re_relay env) (re_exchange env) data (Some action) 0"
  obtain r w' where m: "?m w = (r, w')" by force
  show "grows w (snd (persist_action env nd run action sa data w))"
  proof (cases r)
    case (Inr row)
    with m grows_broadcast_after [OF keeps_persist w] show ?thesis by (simp add: persist_action_def)
  next
    case (Inl e)
    have g: "grows w w'" using keepsT [OF keeps_persist w] m by (metis snd_conv)
    have "grows w' (snd (resume_live env nd action e w'))"
      using grows_resume [OF grows_ok [OF g w]]
      by (auto simp: resume_live_def live_for_signed_action_def find_Some_iff split: option.split)
    with g w m Inl show ?thesis by (auto simp: persist_action_def intro: grows_trans)
  qed
qed

lemma grows_submit_action:
  assumes w: "outbox_ok (w_outbox w)" and others: "grows w (meanwhile w)"
  shows "grows w (snd (submit_action env nd meanwhile run action w))"
proof -
  have h: "grows w (snd (resume env nd (last (for_signed_action action (w_outbox w))) w))"
    if "for_signed_action action (w_outbox w) \<noteq> []"
    using grows_resume [OF w] last_in_set [OF that] by (auto simp: for_signed_action_def)
  have p: "grows w (snd (persist_action env nd run action sa data (meanwhile w)))" for sa data
    using keepsT [OF keeps_persist_action grows_ok [OF others w]] others w
    by (blast intro: grows_trans)
  show ?thesis
    using h p by (simp add: submit_action_def Let_def split: option.split sum.split)
qed

lemma keeps_submit_call: "keeps (\<lambda>_. True) (submit_call env nd run kind to data oper val) (\<lambda>_ _. True)"
proof (rule keepsI)
  fix w :: relay_world assume w: "outbox_ok (w_outbox w)"
  have "grows w (snd (relay_bind (persist env nd run kind sg to data None val) (broadcast env nd) w))" for sg
    by (rule keepsT [OF keeps_bind [OF keeps_persist keeps_broadcast] w])
  then show "grows w (snd (submit_call env nd run kind to data oper val w))"
    by (simp add: submit_call_def split: option.split)
qed

lemma keeps_submit_presigned: "keeps (\<lambda>_. True) (submit_presigned env nd run kind raw) (\<lambda>_ _. True)"
proof (rule keepsI)
  fix w :: relay_world assume w: "outbox_ok (w_outbox w)"
  let ?find = "\<lambda>tx w. case outbox_get_by_hash (re_keccak env raw) (w_outbox w) of
              Some existing \<Rightarrow> Inr (existing, w)
            | None \<Rightarrow> on_outbox (outbox_add
                \<lparr>no_run = run, no_kind = kind, no_sender = re_recover env raw, no_nonce = tf_nonce tx,
                 no_raw_tx = raw, no_tx_hash = re_keccak env raw, no_action = None, no_replaces = None,
                 no_status = TX_PENDING\<rparr>) w"
  have "keeps (\<lambda>_. True) (uow (?find tx)) held" for tx
    by (rule keeps_uow)
       (auto simp: on_outbox_Inr outbox_get_by_hash_def find_Some_iff held_added held_member
         dest: outbox_writes(1) split: option.splits)
  then have "grows w (snd (relay_bind (uow (?find tx)) (resume env nd) w))" for tx
    by (rule keepsT [OF keeps_bind [OF _ keeps_resume] w])
  then show "grows w (snd (submit_presigned env nd run kind raw w))"
    by (auto simp: submit_presigned_def split: option.split)
qed

lemma keeps_nonce_consumed: "keeps P (nonce_consumed env nd row) (\<lambda>_ _. True)"
proof (rule keepsI)
  fix w :: relay_world assume w: "outbox_ok (w_outbox w)"
  have "keeps (\<lambda>_. True) (relay_bind (uow (on_outbox (update_status (ob_id row) TX_DROPPED None)))
      (\<lambda>_ w. (Inr SUPERSEDED, w))) (\<lambda>_ _. True)"
    by (intro keeps_bind [where Q = "\<lambda>_ _. True"] keeps_uow keeps_unchanged)
       (auto simp: on_outbox_Inr dest: outbox_writes)
  note g = keepsT [OF this w]
  then show "grows w (snd (nonce_consumed env nd row w))"
    by (simp add: nonce_consumed_def Let_def split: sum.split bool.split)
qed

lemma keeps_pooled: "keeps P (pooled env nd row) (\<lambda>_ _. True)"
proof (rule keepsI)
  fix w :: relay_world assume w: "outbox_ok (w_outbox w)"
  have "keeps (\<lambda>_. True) (relay_bind (record_broadcast env row h) (\<lambda>_ w. (Inr (IN_POOL, None), w))) (\<lambda>_ _. True)" for h
    by (intro keeps_bind [OF keeps_record_broadcast] keeps_unchanged) simp_all
  note g = keepsT [OF this w]
  then show "grows w (snd (pooled env nd row w))"
    by (auto simp: pooled_def split: sum.split)
qed

lemma keeps_resent: "keeps (held row) (resent env nd row) (\<lambda>_ _. True)"
  unfolding resent_def by (intro keeps_bind [OF keeps_send]) (auto intro: keeps_unchanged)

lemma keeps_reconcile_one: "keeps (held row) (reconcile_one env nd row) (\<lambda>_ _. True)"
proof (rule keepsI)
  fix w :: relay_world assume w: "outbox_ok (w_outbox w)" "held row w"
  have "grows w (snd (relay_bind (nonce_consumed env nd row) (\<lambda>r w. (Inr (r, None), w)) w))"
    by (rule keepsT [OF keeps_bind [OF keeps_nonce_consumed, where R = "\<lambda>_ _. True"] w(1)]) (simp add: keeps_unchanged)
  then show "grows w (snd (reconcile_one env nd row w))"
    using keepsT [OF keeps_pooled w(1)] keepsD [OF keeps_resent w]
    by (auto simp: reconcile_one_def split: sum.split bool.split)
qed

lemma keeps_frame:
  assumes "keeps P m Q" and "\<And>w. R w \<Longrightarrow> P w"
    and "\<And>w w'. outbox_ok (w_outbox w) \<Longrightarrow> grows w w' \<Longrightarrow> R w \<Longrightarrow> R w'"
  shows "keeps R m (\<lambda>_. R)"
  using assms unfolding keeps_def by blast

definition all_held :: "outbox_row list \<Rightarrow> relay_world \<Rightarrow> bool" where
  "all_held rows w \<longleftrightarrow> (\<forall>r \<in> set rows. held r w)"

lemma all_held_grows: "\<lbrakk>outbox_ok (w_outbox w); grows w w'; all_held rows w\<rbrakk> \<Longrightarrow> all_held rows w'"
  unfolding all_held_def using grows_held by blast

lemma keeps_reconcile_rows: "keeps (all_held rows) (reconcile_rows env nodes rows) (\<lambda>_ _. True)"
proof (induction rows)
  case Nil
  then show ?case by (simp add: keeps_unchanged)
next
  case (Cons row rows)
  have "keeps (all_held (row # rows)) (reconcile_one env (nodes (ob_id row)) row) (\<lambda>_. all_held (row # rows))"
    by (rule keeps_frame [OF keeps_reconcile_one]) (auto simp: all_held_def intro: all_held_grows grows_held)
  moreover have "keeps (all_held (row # rows)) (reconcile_rows env nodes rows) (\<lambda>_ _. True)"
    by (rule keeps_weaken [OF Cons.IH]) (auto simp: all_held_def)
  then have "keeps (all_held (row # rows)) (\<lambda>w. relay_bind (reconcile_rows env nodes rows) (\<lambda>rest w. (Inr (x # rest), w)) w) (\<lambda>_ _. True)" for x :: reconcile_result
    by (rule keeps_bind) (simp add: keeps_unchanged)
  ultimately have "keeps (all_held (row # rows)) (relay_bind (reconcile_one env (nodes (ob_id row)) row) (\<lambda>a.
     relay_bind (reconcile_rows env nodes rows) (\<lambda>rest w.
       (Inr (\<lparr>rr_outbox_id = ob_id row, rr_tx_hash = ob_tx_hash row, rr_outcome = fst a, rr_detail = snd a\<rparr> # rest), w)))) (\<lambda>_ _. True)"
    by (rule keeps_bind)
  then show ?case by (simp add: keeps_def split_def)
qed

lemma unfinished_held: "set rows \<subseteq> set (outbox_unfinished rank run (w_outbox w)) \<Longrightarrow> all_held rows w"
  by (auto simp: all_held_def outbox_unfinished_def by_sender_nonce_def intro!: held_member)

lemma grows_reconcile: "outbox_ok (w_outbox w) \<Longrightarrow> grows w (snd (reconcile env nodes run w))"
  unfolding reconcile_def by (rule keepsD [OF keeps_reconcile_rows]) (auto intro!: unfinished_held)

lemma persist_successor_writes:
  assumes "persist_successor row stx w = (r, w')"
  shows "outbox_write\<^sup>*\<^sup>* (w_outbox w) (w_outbox w') \<and> w_sent w' = w_sent w \<and> (\<forall>s. r = Inr s \<longrightarrow> held s w')"
proof (cases r)
  case (Inl e)
  with assms show ?thesis by (auto simp: persist_successor_def uow_def split: sum.splits)
next
  case (Inr s)
  with assms obtain u rows rows' where u: "update_status (ob_id row) TX_REPLACED None (w_outbox w) = Inr (u, rows)"
    and a: "outbox_add (successor_of row stx) rows = Inr (s, rows')" and w': "w' = w\<lparr>w_outbox := rows'\<rparr>"
    by (auto simp: persist_successor_def uow_def on_outbox_Inr result_bind_pair split: sum.splits)
  have "outbox_write\<^sup>*\<^sup>* (w_outbox w) rows'"
    using outbox_writes(5) [OF u] outbox_writes(1) [OF a] by (simp add: rtranclp.rtrancl_into_rtrancl)
  with Inr held_added [OF a] w' show ?thesis by simp
qed

lemma keeps_replace: "keeps (held row) (replace env nd row) (\<lambda>_ _. True)"
proof -
  have s: "keeps P (persist_successor row stx) held" for P stx
    using persist_successor_writes unfolding keeps_def grows_def
    by (metis append_Nil2 empty_subsetI list.set(1) prod.collapse)
  have b: "keeps P (relay_bind (persist_successor row stx) (\<lambda>successor.
      relay_bind (broadcast env nd successor) (\<lambda>r w. (Inr (Some r), w)))) (\<lambda>_ _. True)" for P stx
    by (intro keeps_bind [OF s] keeps_bind [OF keeps_broadcast] keeps_unchanged) simp_all
  show ?thesis
  proof (rule keepsI)
    fix w :: relay_world assume w: "outbox_ok (w_outbox w)"
    show "grows w (snd (replace env nd row w))"
      using keepsT [OF b w]
      by (simp add: replace_def relay_bind_def [where m = "rpc_answer _"] rpc_answer_def
          split: option.split sum.split)
  qed
qed

lemma keeps_replace_all: "keeps (all_held rows) (replace_all env nodes rows) (\<lambda>_ _. True)"
proof (induction rows)
  case Nil
  then show ?case by (simp add: keeps_unchanged)
next
  case (Cons row rows)
  have "keeps (all_held (row # rows)) (replace env (nodes (ob_id row)) row) (\<lambda>_. all_held (row # rows))"
    by (rule keeps_frame [OF keeps_replace]) (auto simp: all_held_def intro: all_held_grows grows_held)
  moreover have "keeps (all_held (row # rows)) (replace_all env nodes rows) (\<lambda>_ _. True)"
    by (rule keeps_weaken [OF Cons.IH]) (auto simp: all_held_def)
  then have "keeps (all_held (row # rows)) (relay_bind (replace_all env nodes rows) (\<lambda>rest w.
       (Inr (case s of None \<Rightarrow> rest | Some r \<Rightarrow> r # rest), w))) (\<lambda>_ _. True)" for s
    by (rule keeps_bind) (simp add: keeps_unchanged)
  ultimately have "keeps (all_held (row # rows)) (relay_bind (replace env (nodes (ob_id row)) row) (\<lambda>s.
     relay_bind (replace_all env nodes rows) (\<lambda>rest w.
       (Inr (case s of None \<Rightarrow> rest | Some r \<Rightarrow> r # rest), w)))) (\<lambda>_ _. True)"
    by (rule keeps_bind)
  then show ?case by (simp add: keeps_def)
qed

lemma grows_replace_stuck: "outbox_ok (w_outbox w) \<Longrightarrow> grows w (snd (replace_stuck env nd nodes run w))"
  unfolding replace_stuck_def relay_bind_def rpc_answer_def
  by (auto intro!: keepsD [OF keeps_replace_all] unfinished_held split: sum.split)

subsection \<open>Any sequence of operations\<close>

datatype relay_op =
    SubmitAction node uuid uuid "relay_op list"
  | SubmitCall node uuid tx_kind address bytes bool int
  | SubmitPresigned node uuid tx_kind bytes
  | Reconcile "uuid \<Rightarrow> node" uuid
  | ReplaceStuck node "uuid \<Rightarrow> node" uuid
  | IndexIncluded uuid inclusion
  | IndexReverted uuid string string
  | IndexStatus uuid tx_status
  | IndexCleared uuid
  | LeaseChange lease_op

definition index_write :: "outbox_row outbox_op \<Rightarrow> relay_world \<Rightarrow> relay_world" where
  "index_write f w = snd (uow (on_outbox f) w)"

fun perform :: "relay_env \<Rightarrow> relay_op \<Rightarrow> relay_world \<Rightarrow> relay_world"
  and perform_all :: "relay_env \<Rightarrow> relay_op list \<Rightarrow> relay_world \<Rightarrow> relay_world" where
  "perform env (SubmitAction nd run action others) w =
     snd (submit_action env nd (\<lambda>u. perform_all env others u) run action w)"
| "perform env (SubmitCall nd run kind to data as_operator val) w =
     snd (submit_call env nd run kind to data as_operator val w)"
| "perform env (SubmitPresigned nd run kind raw) w = snd (submit_presigned env nd run kind raw w)"
| "perform env (Reconcile nodes run) w = snd (reconcile env nodes run w)"
| "perform env (ReplaceStuck nd nodes run) w = snd (replace_stuck env nd nodes run w)"
| "perform env (IndexIncluded i inc) w = index_write (mark_included i inc) w"
| "perform env (IndexReverted i e s) w = index_write (mark_reverted i e s) w"
| "perform env (IndexStatus i s) w = index_write (update_status i s None) w"
| "perform env (IndexCleared i) w = index_write (clear_inclusion i) w"
| "perform env (LeaseChange x) w = w\<lparr>w_leases := snd (lease_step x (w_leases w))\<rparr>"
| "perform_all env [] w = w"
| "perform_all env (x # xs) w = perform_all env xs (perform env x w)"

lemma grows_index_write:
  assumes "\<And>r rows'. f (w_outbox w) = Inr (r, rows') \<Longrightarrow> outbox_write (w_outbox w) rows'"
  shows "grows w (index_write f w)"
  using assms by (auto simp: index_write_def uow_def on_outbox_def result_bind_def grows_def split: sum.split)

lemma perform_grows:
  "outbox_ok (w_outbox w) \<Longrightarrow> grows w (perform env x w)"
  "outbox_ok (w_outbox w) \<Longrightarrow> grows w (perform_all env xs w)"
proof (induction env x w and env xs w rule: perform_perform_all.induct)
  case (1 env nd run action others w)
  then show ?case by (simp add: grows_submit_action)
next
  case (12 env x xs w)
  then have "grows w (perform env x w)" by simp
  with 12 grows_ok show ?case by (auto intro: grows_trans)
qed (auto intro: keepsT [OF keeps_submit_call] keepsT [OF keeps_submit_presigned] grows_reconcile
      grows_replace_stuck grows_index_write outbox_writes simp: grows_def [where w' = "w\<lparr>w_leases := x\<rparr>" for w x])

end
