(* ===== verification/Relay_Properties.thy ===== *)
theory Relay_Properties
  imports Relay_Facts
begin

section \<open>The relay's and the outbox's guarantees\<close>

text \<open>
  One live transaction per signed action, persist before broadcast, a resubmission that never signs
  again, what each verdict of recovery rests on, what a gas replacement may change, nonces under a
  lease, and that a submission goes through when the node answers. The sample backend the
  witnesses run on stands at the end of the helper lemmas.
\<close>

subsection \<open>Effects\<close>

text \<open>\<open>quiet w w'\<close>: no transaction was added or re-signed and no nonce taken.\<close>

definition quiet :: "relay_world \<Rightarrow> relay_world \<Rightarrow> bool" where
  "quiet w w' \<longleftrightarrow> map identity (w_outbox w') = map identity (w_outbox w) \<and> w_leases w' = w_leases w"

definition sends_at_most :: "bytes \<Rightarrow> relay_world \<Rightarrow> relay_world \<Rightarrow> bool" where
  "sends_at_most raw w w' \<longleftrightarrow> w_sent w' = w_sent w \<or> w_sent w' = w_sent w @ [raw]"

lemma quiet_refl [simp]: "quiet w w" "sends_at_most raw w w"
  by (simp_all add: quiet_def sends_at_most_def)

lemma record_attempt_identities:
  "record_attempt i e rows = Inr (r, rows') \<Longrightarrow> map identity rows' = map identity rows"
  unfolding record_attempt_def by (erule outbox_update_identities [rotated]) simp

lemma quiet_record_attempt:
  "raw_record_attempt row m w = (r, w') \<Longrightarrow> quiet w w' \<and> w_sent w' = w_sent w"
proof (cases r)
  case (Inr a)
  assume "raw_record_attempt row m w = (r, w')"
  with Inr obtain rows where "record_attempt (ob_id row) (Some m) (w_outbox w) = Inr (a, rows)" "w' = w\<lparr>w_outbox := rows\<rparr>"
    by (auto simp: raw_record_attempt_def uow_def on_outbox_Inr split: sum.splits)
  with record_attempt_identities [OF this(1)] show ?thesis by (simp add: quiet_def)
qed (auto simp: raw_record_attempt_def uow_def split: sum.splits)

lemma quiet_record_broadcast:
  "record_broadcast env row h w = (r, w') \<Longrightarrow> quiet w w' \<and> w_sent w' = w_sent w"
  by (auto simp: record_broadcast_def mark_submitted_def uow_def on_outbox_Inr result_bind_pair quiet_def
      split: sum.splits dest: outbox_update_identities [rotated])

lemma relay_bind_case:
  "relay_bind m f w = (r, w') \<longleftrightarrow>
     (\<exists>e. m w = (Inl e, w') \<and> r = Inl e) \<or> (\<exists>a w1. m w = (Inr a, w1) \<and> f a w1 = (r, w'))"
  by (auto simp: relay_bind_def split: prod.splits sum.splits)

lemma ended_eq: "ended s m row w = (r, w') \<longleftrightarrow> r = Inr (row, s, m) \<and> w' = w"
  by (auto simp: ended_def)

lemma record_attempt_ended:
  "relay_bind (raw_record_attempt row m) (ended s d) w = (r, w') \<Longrightarrow> quiet w w' \<and> w_sent w' = w_sent w"
  by (auto simp: relay_bind_case ended_eq dest: quiet_record_attempt)

lemma record_broadcast_ended:
  "relay_bind (record_broadcast env row h) (ended s d) w = (r, w') \<Longrightarrow> quiet w w' \<and> w_sent w' = w_sent w"
  by (auto simp: relay_bind_case ended_eq dest: quiet_record_broadcast)

lemma send_quiet:
  assumes "send env nd row w = (r, w')"
  shows "quiet w w' \<and> sends_at_most (ob_raw_tx row) w w'"
proof (cases "nd_head nd")
  case (Inl m)
  with assms record_attempt_ended show ?thesis by (auto simp: send_def sends_at_most_def)
next
  case (Inr head)
  let ?w1 = "w\<lparr>w_sent := w_sent w @ [ob_raw_tx row]\<rparr>"
  have q: "quiet w u \<and> sends_at_most (ob_raw_tx row) w u" if "quiet ?w1 u \<and> w_sent u = w_sent ?w1" for u
    using that by (simp add: quiet_def sends_at_most_def)
  from assms Inr have "quiet ?w1 w' \<and> w_sent w' = w_sent ?w1"
    by (auto simp: send_def relay_bind_case [where m = "hand_over _"] hand_over_def
        dest: record_attempt_ended record_broadcast_ended
        split: sum.splits chain_error.splits bool.splits)
  then show ?thesis by (rule q)
qed

lemma resume_quiet:
  "resume env nd row w = (r, w') \<Longrightarrow> quiet w w' \<and> sends_at_most (ob_raw_tx row) w w'"
  by (auto simp: resume_def broadcast_def relay_bind_case split: if_splits dest: send_quiet)

subsection \<open>Recovery's verdicts\<close>















subsection \<open>Replacement\<close>

lemma persist_successor_Inr:
  assumes "persist_successor row stx w = (Inr s, w')"
  shows "ob_nonce s = ob_nonce row \<and> ob_sender s = ob_sender row \<and> ob_action s = ob_action row \<and>
     ob_kind s = ob_kind row \<and> ob_run s = ob_run row \<and> ob_raw_tx s = st_raw stx \<and> ob_tx_hash s = st_hash stx \<and>
     ob_replaces s = Some (ob_id row) \<and> ob_status s = TX_PENDING \<and> s \<in> set (w_outbox w') \<and>
     (\<forall>r \<in> set (w_outbox w'). ob_id r = ob_id row \<and> r \<noteq> s \<longrightarrow> ob_status r = TX_REPLACED) \<and> w_sent w' = w_sent w"
proof -
  from assms obtain u rows rows' where u: "update_status (ob_id row) TX_REPLACED None (w_outbox w) = Inr (u, rows)"
    and a: "outbox_add (successor_of row stx) rows = Inr (s, rows')" and w': "w' = w\<lparr>w_outbox := rows'\<rparr>"
    by (auto simp: persist_successor_def uow_def on_outbox_Inr result_bind_pair split: sum.splits)
  have r: "\<forall>r \<in> set rows. ob_id r = ob_id row \<longrightarrow> ob_status r = TX_REPLACED"
    using u by (auto simp: update_status_def outbox_update_Inr split: if_splits)
  from a have "s = new_row (length rows) (successor_of row stx)" "rows' = rows @ [s]"
    by (simp_all add: outbox_add_Inr)
  with r w' show ?thesis by (auto simp: new_row_def successor_of_def)
qed

lemma replace_Some:
  assumes "replace env nd row w = (Inr (Some r), w')"
  obtains sg tx f s w1 where "relay_signer_for env (ob_sender row) = Some sg"
    "nd_receipt nd (ob_tx_hash row) = Inr False" "decode_raw_transaction env (ob_raw_tx row) = Some tx"
    "bumped_fees \<lparr>max_fee_per_gas = tf_max_fee tx, max_priority_fee_per_gas = tf_max_priority_fee tx\<rparr> (re_policy env) = Some f"
    "persist_successor row (sg_sign sg (tx\<lparr>tf_max_fee := max_fee_per_gas f, tf_max_priority_fee := max_priority_fee_per_gas f\<rparr>)) w = (Inr s, w1)"
    "broadcast env nd s w1 = (Inr r, w')"
proof -
  from assms obtain sg where sg: "relay_signer_for env (ob_sender row) = Some sg"
    by (cases "relay_signer_for env (ob_sender row)") (auto simp: replace_def)
  with assms have c: "nd_receipt nd (ob_tx_hash row) = Inr False"
    by (cases "nd_receipt nd (ob_tx_hash row)") (auto simp: replace_def relay_bind_def rpc_answer_def split: if_splits)
  with sg assms obtain tx where tx: "decode_raw_transaction env (ob_raw_tx row) = Some tx"
    by (cases "decode_raw_transaction env (ob_raw_tx row)") (auto simp: replace_def relay_bind_def rpc_answer_def)
  with sg c assms obtain f where f: "bumped_fees \<lparr>max_fee_per_gas = tf_max_fee tx, max_priority_fee_per_gas = tf_max_priority_fee tx\<rparr> (re_policy env) = Some f"
    by (cases "bumped_fees \<lparr>max_fee_per_gas = tf_max_fee tx, max_priority_fee_per_gas = tf_max_priority_fee tx\<rparr> (re_policy env)")
       (auto simp: replace_def relay_bind_def rpc_answer_def replacement_fields_def)
  let ?raised = "tx\<lparr>tf_max_fee := max_fee_per_gas f, tf_max_priority_fee := max_priority_fee_per_gas f\<rparr>"
  from sg c tx f assms have "relay_bind (persist_successor row (sg_sign sg ?raised)) (\<lambda>successor.
      relay_bind (broadcast env nd successor) (\<lambda>r w. (Inr (Some r), w))) w = (Inr (Some r), w')"
    by (simp add: replace_def relay_bind_def [of "rpc_answer _"] rpc_answer_def replacement_fields_def)
  then obtain s w1 where "persist_successor row (sg_sign sg ?raised) w = (Inr s, w1)" "broadcast env nd s w1 = (Inr r, w')"
    by (auto simp: relay_bind_case)
  with that sg c tx f show ?thesis by blast
qed

subsection \<open>Going through\<close>




subsection \<open>A sample backend\<close>

definition sample_sign :: "tx_fields \<Rightarrow> signed_transaction" where
  "sample_sign tx = \<lparr>st_raw = [2, word_of_int (tf_nonce tx), word_of_int (tf_max_fee tx)],
     st_hash = int_str (tf_nonce tx) @ ''/'' @ int_str (tf_max_fee tx)\<rparr>"

definition sample_relay_signer :: signer where
  "sample_relay_signer = \<lparr>sg_address = ''relay'', sg_sign = sample_sign\<rparr>"

definition sample_policy :: relay_policy where
  "sample_policy = \<lparr>rp_replace_after_blocks = 3, rp_max_fee_per_gas_wei = 100, rp_fallback_gas_limit = 500000,
     rp_gas_margin_quarters = 5\<rparr>"

definition sample_tx :: tx_fields where
  "sample_tx = \<lparr>tf_chain_id = 31337, tf_nonce = 7, tf_to = Some ''exchange'', tf_value = 0, tf_data = [1], tf_gas = 100,
     tf_max_fee = 24, tf_max_priority_fee = 4, tf_access_list = []\<rparr>"

definition backend_env :: relay_env where
  "backend_env = \<lparr>re_chain_id = 31337, re_deployment = ''local'', re_relay = sample_relay_signer, re_operator = None,
     re_holder = ''api-1'', re_policy = sample_policy, re_clock = 1000, re_exchange = ''exchange'',
     re_encode = (\<lambda>_ _ _. Inr [1]), re_deployment_of = (\<lambda>_. ''local''), re_collation = (\<lambda>_. 0),
     re_from_bytes = (\<lambda>raw. Some sample_tx), re_recover = (\<lambda>_. ''agent''), re_keccak = (\<lambda>_. ''presigned'')\<rparr>"

definition sample_node :: node where
  "sample_node = \<lparr>nd_fee_quote = Inr \<lparr>fq_base_fee_per_gas = 10, fq_max_priority_fee_per_gas = 4\<rparr>,
     nd_estimate_gas = (\<lambda>_. Inr 80), nd_pending_nonce = (\<lambda>_. Inr 7), nd_mined_nonce = (\<lambda>_. Inr 7),
     nd_head = Inr 50, nd_send_raw = (\<lambda>_. Inr ()), nd_receipt = (\<lambda>_. Inr False),
     nd_receipt_after_send = (\<lambda>_. Inr False), nd_transaction = (\<lambda>_. Inr False)\<rparr>"

definition sample_world :: relay_world where
  "sample_world = \<lparr>w_actions = [(5, \<lparr>sa_run = 1, sa_kind = AK_OFFER, sa_message = JNull, sa_signature = [], sa_status = AS_SIGNED\<rparr>)],
     w_outbox = [], w_leases = \<lparr>ld_active = Some 1, ld_leases = [(1, \<lparr>le_holder = ''api-1'', le_expires_at = 2000, le_nonce_next = 3\<rparr>)]\<rparr>,
     w_sent = []\<rparr>"


definition sample_after :: relay_world where
  "sample_after = perform_all backend_env [SubmitAction sample_node 1 5 []] sample_world"

definition sample_row :: outbox_row where
  "sample_row = \<lparr>ob_id = 0, ob_run = 1, ob_action = Some 5, ob_kind = RECORD_OFFER, ob_sender = ''relay'', ob_nonce = 7,
     ob_raw_tx = [2, 7, 24], ob_tx_hash = ''7/24'', ob_replaces = None, ob_status = TX_SUBMITTED, ob_attempts = 1,
     ob_last_error = None, ob_block_number = None, ob_block_hash = None, ob_gas_used = None, ob_gas_price = None,
     ob_submitted_at = Some 1000, ob_included_at = None, ob_submitted_block = Some 50, ob_sentence = None\<rparr>"

lemma sample_after_outbox: "w_outbox sample_after = [sample_row]"
  by code_simp

lemma sample_world_ok: "outbox_ok (w_outbox sample_world)"
  by (simp add: sample_world_def outbox_ok_Nil)

lemma sample_after_ok: "outbox_ok (w_outbox sample_after)"
  using perform_grows(2) [OF sample_world_ok] grows_ok sample_world_ok unfolding sample_after_def by blast

subsection \<open>Properties\<close>

text \<open>
C3: Whatever sequence of submissions, calls, presigned transactions, recoveries, replacements and
indexer updates the backend performs, with other processes acting between the two units of work of a
submission, at most one transaction of a signed action is live in the outbox.
\<close>

theorem one_live_transaction:
  assumes "outbox_ok (w_outbox w)"
    and "r \<in> set (w_outbox (perform_all env ops w))" "s \<in> set (w_outbox (perform_all env ops w))"
    and "live_for a r" "live_for a s"
  shows "r = s"
  using live_unique [OF _ assms(2-)] perform_grows(2) [OF assms(1)] grows_ok [OF _ assms(1)] by blast

definition racing_ops :: "relay_op list" where
  "racing_ops = [SubmitAction sample_node 1 5 [SubmitAction sample_node 1 5 []], SubmitAction sample_node 1 5 []]"

lemma racing_outcome: "w_outbox (perform_all backend_env racing_ops sample_world) = [sample_row]"
  by code_simp

theorem one_live_transaction_witness:
  "\<exists>r. r \<in> set (w_outbox (perform_all backend_env racing_ops sample_world)) \<and> live_for 5 r \<and>
     (\<forall>s \<in> set (w_outbox (perform_all backend_env racing_ops sample_world)). live_for 5 s \<longrightarrow> r = s)"
proof (intro exI conjI ballI impI)
  show m: "sample_row \<in> set (w_outbox (perform_all backend_env racing_ops sample_world))"
    by (simp add: racing_outcome)
  show l: "live_for 5 sample_row" by (simp add: sample_row_def live_for_def)
  show "sample_row = s" if "s \<in> set (w_outbox (perform_all backend_env racing_ops sample_world))" "live_for 5 s" for s
    by (rule one_live_transaction [OF sample_world_ok m that(1) l that(2)])
qed

text \<open>
C5: Nothing reaches the node that the outbox does not hold: after any sequence of operations every raw
transaction handed to the node is the stored bytes of an outbox row, and no stored row loses or
changes its bytes, hash, sender, nonce or action.
\<close>

theorem persisted_before_broadcast:
  assumes "outbox_ok (w_outbox w)" and "set (w_sent w) \<subseteq> ob_raw_tx ` set (w_outbox w)"
  shows "set (w_sent (perform_all env ops w)) \<subseteq> ob_raw_tx ` set (w_outbox (perform_all env ops w)) \<and>
    identity ` set (w_outbox w) \<subseteq> identity ` set (w_outbox (perform_all env ops w))"
proof -
  have g: "grows w (perform_all env ops w)" by (rule perform_grows(2) [OF assms(1)])
  then have i: "identity ` set (w_outbox w) \<subseteq> identity ` set (w_outbox (perform_all env ops w))"
    using outbox.writes_keep assms(1) unfolding grows_def by blast
  from g obtain xs where "w_sent (perform_all env ops w) = w_sent w @ xs"
    "set xs \<subseteq> ob_raw_tx ` set (w_outbox (perform_all env ops w))"
    unfolding grows_def by blast
  with i identity_raw [OF i] assms(2) show ?thesis by auto
qed

theorem persisted_before_broadcast_witness:
  "set (w_sent (perform_all backend_env racing_ops sample_world)) \<subseteq> ob_raw_tx ` {sample_row}"
proof -
  have "set (w_sent sample_world) \<subseteq> ob_raw_tx ` set (w_outbox sample_world)" by (simp add: sample_world_def)
  from persisted_before_broadcast [OF sample_world_ok this, of backend_env racing_ops]
  show ?thesis by (simp add: racing_outcome)
qed

text \<open>
C17: Submitting an action that already has a transaction never signs again and takes no nonce: the rows
of the outbox and the leases are as before, and the only bytes that may be sent are the stored bytes
of the action's newest transaction.
\<close>

theorem resubmission_never_signs:
  assumes "for_signed_action action (w_outbox w) \<noteq> []"
    and "submit_action env nd meanwhile run action w = (r, w')"
  shows "map identity (w_outbox w') = map identity (w_outbox w) \<and> w_leases w' = w_leases w \<and>
    w_sent w' \<in> {w_sent w, w_sent w @ [ob_raw_tx (last (for_signed_action action (w_outbox w)))]}"
proof -
  from assms have "w' = w \<or> resume env nd (last (for_signed_action action (w_outbox w))) w = (r, w')"
    by (auto simp: submit_action_def Let_def split: option.splits if_splits)
  then show ?thesis using resume_quiet [of env nd] by (auto simp: quiet_def sends_at_most_def)
qed

theorem resubmission_never_signs_witness:
  "w_outbox (perform backend_env (SubmitAction sample_node 1 5 []) sample_after) \<noteq> [] \<and>
   map identity (w_outbox (perform backend_env (SubmitAction sample_node 1 5 []) sample_after)) = [identity sample_row]"
proof -
  have "for_signed_action 5 (w_outbox sample_after) \<noteq> []"
    by (simp add: sample_after_outbox for_signed_action_def sample_row_def)
  from resubmission_never_signs [OF this prod.collapse [symmetric]]
  have "map identity (w_outbox (perform backend_env (SubmitAction sample_node 1 5 []) sample_after)) = [identity sample_row]"
    by (simp add: sample_after_outbox)
  then show ?thesis by auto
qed



text \<open>
C20: A gas replacement changes nothing but the fee: it is signed by the key that signed the original, for
the same run, action, sender and nonce, over the original's fields with only the two fee caps
changed; the new cap is at least a tenth above the old one and never above the ceiling; and when the
successor is stored the original is already marked replaced.
\<close>

theorem replacement_same_slot:
  assumes "replace env nd row w = (Inr (Some r), w')"
  shows "\<exists>sg tx (f :: fees) s w1. relay_signer_for env (ob_sender row) = Some sg \<and>
    decode_raw_transaction env (ob_raw_tx row) = Some tx \<and>
    persist_successor row (sg_sign sg (tx\<lparr>tf_max_fee := max_fee_per_gas f, tf_max_priority_fee := max_priority_fee_per_gas f\<rparr>)) w = (Inr s, w1) \<and>
    broadcast env nd s w1 = (Inr r, w') \<and>
    ob_run s = ob_run row \<and> ob_action s = ob_action row \<and> ob_sender s = ob_sender row \<and> ob_nonce s = ob_nonce row \<and>
    ob_replaces s = Some (ob_id row) \<and>
    (\<forall>x \<in> set (w_outbox w1). ob_id x = ob_id row \<and> x \<noteq> s \<longrightarrow> ob_status x = TX_REPLACED) \<and>
    11 * tf_max_fee tx \<le> 10 * max_fee_per_gas f \<and> max_fee_per_gas f \<le> rp_max_fee_per_gas_wei (re_policy env)"
proof -
  from replace_Some [OF assms] obtain sg tx f s w1 where r: "relay_signer_for env (ob_sender row) = Some sg"
    "decode_raw_transaction env (ob_raw_tx row) = Some tx"
    and f: "bumped_fees \<lparr>max_fee_per_gas = tf_max_fee tx, max_priority_fee_per_gas = tf_max_priority_fee tx\<rparr> (re_policy env) = Some f"
    and p: "persist_successor row (sg_sign sg (tx\<lparr>tf_max_fee := max_fee_per_gas f, tf_max_priority_fee := max_priority_fee_per_gas f\<rparr>)) w = (Inr s, w1)"
    and b: "broadcast env nd s w1 = (Inr r, w')"
    by metis
  from r p b persist_successor_Inr [OF p] bumped_fees_cap [OF f] show ?thesis
    by (intro exI [where x = sg] exI [where x = tx] exI [where x = f] exI [where x = s] exI [where x = w1]) simp
qed

theorem replacement_same_slot_witness:
  "\<exists>r w' (s :: outbox_row). replace backend_env sample_node sample_row sample_after = (Inr (Some r), w') \<and> ob_nonce s = 7 \<and> ob_replaces s = Some 0"
proof -
  obtain r w' where r: "replace backend_env sample_node sample_row sample_after = (Inr (Some r), w')"
  proof -
    have "(case fst (replace backend_env sample_node sample_row sample_after) of Inr (Some r) \<Rightarrow> True | _ \<Rightarrow> False)"
      by code_simp
    then show thesis using that
      by (cases "replace backend_env sample_node sample_row sample_after") (auto split: sum.splits option.splits)
  qed
  from replacement_same_slot [OF r] have "\<exists>s :: outbox_row. ob_nonce s = ob_nonce sample_row \<and> ob_replaces s = Some (ob_id sample_row)"
    by blast
  with r show ?thesis by (auto simp: sample_row_def)
qed

text \<open>
C18: As long as the run's lease is not released, the relay nonces handed out for the run strictly increase,
whatever interleaving of acquisitions, takeovers by other processes after expiry, renewals and takes
happens and whatever the chain reports as its pending count.
\<close>

theorem nonces_strictly_increase:
  assumes "map_of (ld_leases db) run = Some l" and "\<forall>h. Release run h \<notin> set ops"
  shows "sorted_wrt (<) (taken_for run (lease_steps ops db)) \<and>
    (\<forall>n \<in> set (taken_for run (lease_steps ops db)). le_nonce_next l \<le> n)"
  using lease_steps_floor [of run db "le_nonce_next l" ops] assms by (simp add: nonce_floor_def)

definition takeover_ops :: "lease_op list" where
  "takeover_ops = [Take 1 ''api-1'' 2, Acquire 1 ''api-2'' 60 1000 0, Take 1 ''api-2'' 0, Acquire 1 ''api-2'' 60 2000 0,
     Take 1 ''api-2'' 9, Take 1 ''api-1'' 0]"

theorem nonces_strictly_increase_witness:
  "taken_for 1 (lease_steps takeover_ops (w_leases sample_world)) = [3, 9] \<and>
   sorted_wrt (<) (taken_for 1 (lease_steps takeover_ops (w_leases sample_world)))"
proof -
  have "map_of (ld_leases (w_leases sample_world)) 1 = Some \<lparr>le_holder = ''api-1'', le_expires_at = 2000, le_nonce_next = 3\<rparr>"
    by (simp add: sample_world_def)
  moreover have "\<forall>h. Release 1 h \<notin> set takeover_ops" by (simp add: takeover_ops_def)
  moreover have "taken_for 1 (lease_steps takeover_ops (w_leases sample_world)) = [3, 9]" by code_simp
  ultimately show ?thesis using nonces_strictly_increase by blast
qed



end
