(* ===== verification/Chain_Rows.thy ===== *)
theory Chain_Rows
  imports Outbox "HOL-Library.Product_Lexorder"
begin

section \<open>Chain events and balance snapshots\<close>

text \<open>
  \<open>SqlChainEventRepository\<close> and \<open>SqlBalanceSnapshotRepository\<close> of
  services/api/src/api/db/repositories/chain.py over the tables of db/models.py. A table is the list
  of its rows in the order they were created. A row is never deleted: a reorg marks it
  non-canonical, and the same log seen again in the same block makes the same row canonical again.
  Every query but the export's filters on \<open>canonical\<close>.
\<close>

datatype snapshot_stage = PRE_SETUP | POST_SETUP | PRE_SETTLEMENT | POST_SETTLEMENT | TERMINAL_STAGE
datatype token_role = BASE | QUOTE | ETH

fun stage_order :: "snapshot_stage \<Rightarrow> nat" where
  "stage_order PRE_SETUP = 0" | "stage_order POST_SETUP = 1" | "stage_order PRE_SETTLEMENT = 2"
| "stage_order POST_SETTLEMENT = 3" | "stage_order TERMINAL_STAGE = 4"

fun party_order :: "db_party \<Rightarrow> nat" where
  "party_order BUYER = 0" | "party_order SELLER = 1"

record chain_event =
  ce_id :: uuid
  ce_run :: "uuid option"
  ce_chain_id :: int
  ce_contract :: address
  ce_session :: "string option"
  ce_block_number :: int
  ce_block_hash :: digest_text
  ce_tx_hash :: digest_text
  ce_log_index :: int
  ce_name :: string
  ce_decoded :: "(string \<times> json) list"
  ce_calldata :: "json option"
  ce_canonical :: bool
  ce_invalidated_at :: "int option"
  ce_confirmations :: "int option"
  ce_sentence :: "string option"
  ce_created_at :: int

text \<open>The key of a log: the block it is in, its transaction and its position.\<close>

definition log_key :: "chain_event \<Rightarrow> digest_text \<times> digest_text \<times> int" where
  "log_key e = (ce_block_hash e, ce_tx_hash e, ce_log_index e)"

definition chain_order :: "chain_event \<Rightarrow> int \<times> int" where
  "chain_order e = (ce_block_number e, ce_log_index e)"

text \<open>\<open>new\<close> carries the values to insert; its id is the next position in the table.\<close>

definition chain_event_add ::
  "chain_event \<Rightarrow> chain_event list \<Rightarrow> persistence_error + chain_event option \<times> chain_event list" where
  "chain_event_add new rows =
     (if ce_block_number new < 0 \<or> ce_log_index new < 0 \<or>
         (case ce_confirmations new of None \<Rightarrow> False | Some n \<Rightarrow> n < 0)
      then Inl (CheckViolationError ''non_negative'')
      else case find (\<lambda>e. log_key e = log_key new) rows of
        None \<Rightarrow> (let e = new\<lparr>ce_id := length rows, ce_canonical := True, ce_invalidated_at := None\<rparr>
                 in Inr (Some e, rows @ [e]))
      | Some old \<Rightarrow>
          if ce_canonical old then Inr (None, rows)
          else (let e = old\<lparr>ce_canonical := True, ce_invalidated_at := None, ce_confirmations := ce_confirmations new\<rparr>
                in Inr (Some e, map (\<lambda>x. if log_key x = log_key new then e else x) rows)))"

definition canonical_for_run :: "uuid \<Rightarrow> chain_event list \<Rightarrow> chain_event list" where
  "canonical_for_run run rows = sort_key chain_order (filter (\<lambda>e. ce_canonical e \<and> ce_run e = Some run) rows)"

definition canonical_for_session :: "string \<Rightarrow> chain_event list \<Rightarrow> chain_event list" where
  "canonical_for_session session rows =
     sort_key chain_order (filter (\<lambda>e. ce_canonical e \<and> ce_session e = Some session) rows)"

definition on_contract :: "int \<Rightarrow> address \<Rightarrow> chain_event \<Rightarrow> bool" where
  "on_contract chain_id contract e \<longleftrightarrow> ce_canonical e \<and> ce_chain_id e = chain_id \<and> ce_contract e = contract"

definition canonical_from_block :: "int \<Rightarrow> address \<Rightarrow> int \<Rightarrow> chain_event list \<Rightarrow> chain_event list" where
  "canonical_from_block chain_id contract from_block rows =
     sort_key chain_order (filter (\<lambda>e. on_contract chain_id contract e \<and> from_block \<le> ce_block_number e) rows)"

definition set_confirmations ::
  "uuid \<Rightarrow> int \<Rightarrow> chain_event list \<Rightarrow> persistence_error + unit \<times> chain_event list" where
  "set_confirmations i n rows =
     (if \<not> list_ex (\<lambda>e. ce_id e = i) rows then Inl NotFoundError
      else if n < 0 then Inl (CheckViolationError ''non_negative'')
      else Inr ((), map (\<lambda>e. if ce_id e = i then e\<lparr>ce_confirmations := Some n\<rparr> else e) rows))"

definition invalidated :: "int \<Rightarrow> chain_event \<Rightarrow> chain_event" where
  "invalidated at e = e\<lparr>ce_canonical := False, ce_invalidated_at := Some at\<rparr>"

definition invalidate_where ::
  "(chain_event \<Rightarrow> bool) \<Rightarrow> int \<Rightarrow> chain_event list \<Rightarrow> chain_event list \<times> chain_event list" where
  "invalidate_where p at rows =
     (sort_key chain_order (map (invalidated at) (filter p rows)),
      map (\<lambda>e. if p e then invalidated at e else e) rows)"

definition invalidate_from_block ::
  "int \<Rightarrow> address \<Rightarrow> int \<Rightarrow> int \<Rightarrow> chain_event list \<Rightarrow> chain_event list \<times> chain_event list" where
  "invalidate_from_block chain_id contract from_block at =
     invalidate_where (\<lambda>e. on_contract chain_id contract e \<and> from_block \<le> ce_block_number e) at"

definition invalidate_blocks ::
  "int \<Rightarrow> address \<Rightarrow> digest_text list \<Rightarrow> int \<Rightarrow> chain_event list \<Rightarrow> chain_event list \<times> chain_event list" where
  "invalidate_blocks chain_id contract hashes at rows =
     (if hashes = [] then ([], rows)
      else invalidate_where (\<lambda>e. on_contract chain_id contract e \<and> ce_block_hash e \<in> set hashes) at rows)"

definition history_for_export :: "uuid \<Rightarrow> chain_event list \<Rightarrow> chain_event list" where
  "history_for_export run rows =
     sort_key (\<lambda>e. (chain_order e, ce_created_at e)) (filter (\<lambda>e. ce_run e = Some run) rows)"

subsection \<open>Balance snapshots\<close>

record balance_snapshot =
  bs_id :: uuid
  bs_run :: uuid
  bs_stage :: snapshot_stage
  bs_party :: db_party
  bs_token :: token_role
  bs_amount :: int
  bs_block_number :: int
  bs_block_hash :: digest_text
  bs_canonical :: bool

definition snapshot_key :: "balance_snapshot \<Rightarrow> uuid \<times> snapshot_stage \<times> db_party \<times> token_role \<times> digest_text" where
  "snapshot_key s = (bs_run s, bs_stage s, bs_party s, bs_token s, bs_block_hash s)"

definition snapshot_add ::
  "balance_snapshot \<Rightarrow> balance_snapshot list \<Rightarrow> persistence_error + balance_snapshot option \<times> balance_snapshot list" where
  "snapshot_add new rows =
     (if bs_amount new < 0 \<or> bs_block_number new < 0 then Inl (CheckViolationError ''non_negative'')
      else case find (\<lambda>s. snapshot_key s = snapshot_key new) rows of
        None \<Rightarrow> (let s = new\<lparr>bs_id := length rows, bs_canonical := True\<rparr> in Inr (Some s, rows @ [s]))
      | Some old \<Rightarrow>
          if bs_canonical old then Inr (None, rows)
          else (let s = old\<lparr>bs_canonical := True\<rparr>
                in Inr (Some s, map (\<lambda>x. if snapshot_key x = snapshot_key new then s else x) rows)))"

definition snapshots_for_run :: "uuid \<Rightarrow> balance_snapshot list \<Rightarrow> balance_snapshot list" where
  "snapshots_for_run run rows =
     sort_key (\<lambda>s. (bs_block_number s, stage_order (bs_stage s), party_order (bs_party s)))
       (filter (\<lambda>s. bs_run s = run \<and> bs_canonical s) rows)"

definition snapshot_invalidate_where ::
  "(balance_snapshot \<Rightarrow> bool) \<Rightarrow> balance_snapshot list \<Rightarrow> balance_snapshot list \<times> balance_snapshot list" where
  "snapshot_invalidate_where p rows =
     (map (\<lambda>s. s\<lparr>bs_canonical := False\<rparr>) (filter p rows),
      map (\<lambda>s. if p s then s\<lparr>bs_canonical := False\<rparr> else s) rows)"

definition snapshot_invalidate_from_block ::
  "uuid \<Rightarrow> int \<Rightarrow> balance_snapshot list \<Rightarrow> balance_snapshot list \<times> balance_snapshot list" where
  "snapshot_invalidate_from_block run from_block =
     snapshot_invalidate_where (\<lambda>s. bs_run s = run \<and> bs_canonical s \<and> from_block \<le> bs_block_number s)"

definition snapshot_invalidate_blocks ::
  "uuid \<Rightarrow> digest_text list \<Rightarrow> balance_snapshot list \<Rightarrow> balance_snapshot list \<times> balance_snapshot list" where
  "snapshot_invalidate_blocks run hashes rows =
     (if hashes = [] then ([], rows)
      else snapshot_invalidate_where (\<lambda>s. bs_run s = run \<and> bs_canonical s \<and> bs_block_hash s \<in> set hashes) rows)"

definition snapshot_history_for_export :: "uuid \<Rightarrow> balance_snapshot list \<Rightarrow> balance_snapshot list" where
  "snapshot_history_for_export run rows =
     sort_key (\<lambda>s. (bs_block_number s, stage_order (bs_stage s), party_order (bs_party s)))
       (filter (\<lambda>s. bs_run s = run) rows)"

end
