(* ===== verification/Views.thy ===== *)
theory Views
  imports Chain_Rows Reasons
begin

section \<open>Views: session, timeline, balances and outcome\<close>

text \<open>
  services/api/src/api/projection/views.py: pure functions of canonical rows. The decoded arguments
  of an event are the association list the codec produced. A \<open>KeyError\<close>, a \<open>ValueError\<close> and the
  \<open>StopIteration\<close> of a \<open>next\<close> without default are the constructors of \<open>row_fault\<close>. \<open>int\<close> of text
  is read on base-10 digits, the only text the codec writes. Times are integers and their ISO text
  an argument (\<open>iso_text\<close>).
\<close>

datatype row_fault = ValueFault | KeyFault string | StopFault

type_synonym args = "(string \<times> json) list"

definition arg_of :: "args \<Rightarrow> string \<Rightarrow> row_fault + json" where
  "arg_of args k = (case map_of args k of None \<Rightarrow> Inl (KeyFault k) | Some v \<Rightarrow> Inr v)"

fun str_of :: "json \<Rightarrow> string" where
  "str_of (JStr s) = s"
| "str_of (JInt i) = int_str i"
| "str_of JNull = ''None''"
| "str_of (JBool b) = (if b then ''True'' else ''False'')"
| "str_of (JFloat s) = s"
| "str_of _ = []"

fun int_of_arg :: "json \<Rightarrow> row_fault + int" where
  "int_of_arg (JInt i) = Inr i"
| "int_of_arg (JStr s) = (if s \<noteq> [] \<and> list_all is_digit s then Inr (int (undec s)) else Inl ValueFault)"
| "int_of_arg (JBool b) = Inr (if b then 1 else 0)"
| "int_of_arg _ = Inl ValueFault"

definition text_arg :: "args \<Rightarrow> string \<Rightarrow> row_fault + string" where
  "text_arg args k = result_bind (arg_of args k) (\<lambda>v. Inr (str_of v))"

definition int_arg :: "args \<Rightarrow> string \<Rightarrow> row_fault + int" where
  "int_arg args k = result_bind (arg_of args k) int_of_arg"

definition TERMINAL_EVENTS :: "(string \<times> outcome_kind) list" where
  "TERMINAL_EVENTS =
     [(''SettlementCompleted'', O_SETTLED), (''SessionClosed'', O_CLOSED),
      (''SessionExpired'', O_EXPIRED), (''SessionAborted'', O_ABORTED)]"

definition STATUS_AFTER :: "(string \<times> string) list" where
  "STATUS_AFTER =
     [(''SessionOpened'', ''open''), (''SettlementCompleted'', ''settled''), (''SessionClosed'', ''closed''),
      (''SessionExpired'', ''expired''), (''SessionAborted'', ''aborted'')]"

definition TIMELINE_KIND :: "(string \<times> string) list" where
  "TIMELINE_KIND =
     [(''OfferRecorded'', ''offer''), (''AcceptanceRecorded'', ''accept''), (''SettlementCompleted'', ''settle''),
      (''SessionClosed'', ''close''), (''SessionExpired'', ''expire''), (''SessionAborted'', ''abort'')]"

definition LIFECYCLE_ACTOR :: "tx_kind \<Rightarrow> string option" where
  "LIFECYCLE_ACTOR k = (case k of
     EXPIRE_SESSION \<Rightarrow> Some ''anyone'' | ABORT_SESSION \<Rightarrow> Some ''operator'' | CREATE_SESSION \<Rightarrow> Some ''operator''
   | MINT \<Rightarrow> Some ''operator'' | FUND_ETH \<Rightarrow> Some ''operator'' | _ \<Rightarrow> None)"

fun party_value :: "db_party \<Rightarrow> string" where
  "party_value BUYER = ''buyer''" | "party_value SELLER = ''seller''"

fun tx_status_value :: "tx_status \<Rightarrow> string" where
  "tx_status_value TX_PENDING = ''pending''" | "tx_status_value TX_SUBMITTED = ''submitted''"
| "tx_status_value TX_INCLUDED = ''included''" | "tx_status_value TX_CONFIRMED = ''confirmed''"
| "tx_status_value TX_FINALIZED = ''finalized''" | "tx_status_value TX_REVERTED = ''reverted''"
| "tx_status_value TX_REPLACED = ''replaced''" | "tx_status_value TX_DROPPED = ''dropped''"

record parties =
  pt_buyer :: string
  pt_seller :: string

definition Parties :: "chain_event \<Rightarrow> row_fault + parties" where
  "Parties opened = result_bind (text_arg (ce_decoded opened) ''buyer'') (\<lambda>b.
     result_bind (text_arg (ce_decoded opened) ''seller'') (\<lambda>s. Inr \<lparr>pt_buyer = b, pt_seller = s\<rparr>))"

definition party_role :: "parties \<Rightarrow> json \<Rightarrow> row_fault + db_party" where
  "party_role p a =
     (if a = JStr (pt_buyer p) then Inr BUYER
      else if a = JStr (pt_seller p) then Inr SELLER
      else Inl ValueFault)"

definition role_arg :: "parties \<Rightarrow> args \<Rightarrow> string \<Rightarrow> row_fault + db_party" where
  "role_arg p args k = result_bind (arg_of args k) (party_role p)"

definition opened_event :: "chain_event list \<Rightarrow> chain_event option" where
  "opened_event events = find (\<lambda>e. ce_name e = ''SessionOpened'') events"

subsection \<open>The session view\<close>

record offer_view =
  ov_offer_hash :: string
  ov_proposer :: db_party
  ov_quote_amount :: string
  ov_valid_until :: int
  ov_sequence :: int

record session_state =
  ss_status :: string
  ss_sequence :: int
  ss_offer_count :: int
  ss_active :: "offer_view option"

record session_doc = session_state +
  sd_session_id :: string
  sd_config_hash :: string
  sd_buyer :: string
  sd_seller :: string
  sd_base_amount :: string
  sd_expires_at :: int
  sd_max_offers :: int
  sd_opened_tx :: digest_text

definition offer_view_of :: "parties \<Rightarrow> args \<Rightarrow> row_fault + offer_view" where
  "offer_view_of p args =
     result_bind (text_arg args ''offerHash'') (\<lambda>h.
     result_bind (role_arg p args ''proposer'') (\<lambda>r.
     result_bind (text_arg args ''quoteAmount'') (\<lambda>q.
     result_bind (int_arg args ''validUntil'') (\<lambda>v.
     result_bind (int_arg args ''sequence'') (\<lambda>n.
       Inr \<lparr>ov_offer_hash = h, ov_proposer = r, ov_quote_amount = q, ov_valid_until = v, ov_sequence = n\<rparr>)))))"

definition session_step :: "parties \<Rightarrow> chain_event \<Rightarrow> session_state \<Rightarrow> row_fault + session_state" where
  "session_step p e s =
     (let args = ce_decoded e;
          status = (case map_of STATUS_AFTER (ce_name e) of None \<Rightarrow> ss_status s | Some t \<Rightarrow> t)
      in result_bind
           (if has_key args ''sequence'' \<and> ce_name e \<noteq> ''SessionOpened''
            then result_bind (int_arg args ''sequence'') (\<lambda>n. Inr (max (ss_sequence s) n))
            else Inr (ss_sequence s))
           (\<lambda>sequence.
              if ce_name e = ''OfferRecorded''
              then result_bind (offer_view_of p args) (\<lambda>v.
                     Inr \<lparr>ss_status = status, ss_sequence = sequence, ss_offer_count = ss_offer_count s + 1,
                          ss_active = Some v\<rparr>)
              else Inr \<lparr>ss_status = status, ss_sequence = sequence, ss_offer_count = ss_offer_count s,
                        ss_active = (if ce_name e = ''SettlementCompleted'' then None else ss_active s)\<rparr>))"

fun session_steps :: "parties \<Rightarrow> chain_event list \<Rightarrow> session_state \<Rightarrow> row_fault + session_state" where
  "session_steps p [] s = Inr s"
| "session_steps p (e # es) s = result_bind (session_step p e s) (session_steps p es)"

definition opening_state :: session_state where
  "opening_state = \<lparr>ss_status = ''open'', ss_sequence = 0, ss_offer_count = 0, ss_active = None\<rparr>"

definition session_view_of :: "chain_event list \<Rightarrow> row_fault + session_doc option" where
  "session_view_of events = (case opened_event events of
     None \<Rightarrow> Inr None
   | Some opened \<Rightarrow>
       (let config = ce_decoded opened in
        result_bind (Parties opened) (\<lambda>p.
        result_bind (session_steps p events opening_state) (\<lambda>s.
        result_bind (text_arg config ''sessionId'') (\<lambda>sid.
        result_bind (text_arg config ''configHash'') (\<lambda>ch.
        result_bind (text_arg config ''baseAmount'') (\<lambda>ba.
        result_bind (int_arg config ''expiresAt'') (\<lambda>ex.
        result_bind (int_arg config ''maxOffers'') (\<lambda>mo.
          Inr (Some \<lparr>ss_status = ss_status s, ss_sequence = ss_sequence s, ss_offer_count = ss_offer_count s,
            ss_active = ss_active s, sd_session_id = sid, sd_config_hash = ch, sd_buyer = pt_buyer p,
            sd_seller = pt_seller p, sd_base_amount = ba, sd_expires_at = ex, sd_max_offers = mo,
            sd_opened_tx = ce_tx_hash opened\<rparr>))))))))))"

subsection \<open>The timeline\<close>

record timeline_context =
  tc_threshold :: int
  tc_explorer :: "string option"

record entry_tx =
  et_tx_hash :: string
  et_status :: string
  et_block_number :: "int option"
  et_block_hash :: "string option"
  et_confirmations :: int
  et_explorer_url :: "string option"

record timeline_entry =
  tl_sequence :: int
  tl_kind :: string
  tl_actor :: "string option"
  tl_quote_amount :: "string option"
  tl_valid_until :: "int option"
  tl_offer_hash :: "string option"
  tl_references :: "string option"
  tl_reason_code :: "int option"
  tl_reason :: "string option"

record full_entry = timeline_entry +
  tl_tx :: entry_tx
  tl_sentence :: "string option"
  tl_recorded_at :: string

text \<open>What the entries carry forward: the last sequence, the offers seen and who accepted.\<close>

record timeline_state =
  ts_sequence :: int
  ts_offers :: "(string \<times> string) list"
  ts_acceptor :: "string option"

definition rstrip_slashes :: "string \<Rightarrow> string" where
  "rstrip_slashes s = rev (dropWhile (\<lambda>c. c = CHR ''/'') (rev s))"

definition explorer_url :: "string option \<Rightarrow> string \<Rightarrow> string option" where
  "explorer_url base tx_hash = (case base of
     None \<Rightarrow> None
   | Some b \<Rightarrow> if b = [] then None else Some (rstrip_slashes b @ ''/tx/'' @ tx_hash))"

text \<open>\<open>by_hash\<close> keeps the last row of a hash, as the code's dictionary does.\<close>

definition outbox_by_hash :: "outbox_row list \<Rightarrow> string \<Rightarrow> outbox_row option" where
  "outbox_by_hash rows h = find (\<lambda>r. ob_tx_hash r = h) (rev rows)"

definition event_tx :: "chain_event \<Rightarrow> outbox_row list \<Rightarrow> timeline_context \<Rightarrow> entry_tx" where
  "event_tx e rows c =
     (let confirmations = (case ce_confirmations e of None \<Rightarrow> 0 | Some n \<Rightarrow> n)
      in \<lparr>et_tx_hash = ce_tx_hash e,
          et_status = (case outbox_by_hash rows (ce_tx_hash e) of
            Some row \<Rightarrow> tx_status_value (ob_status row)
          | None \<Rightarrow> if tc_threshold c \<le> confirmations then ''confirmed'' else ''included''),
          et_block_number = Some (ce_block_number e), et_block_hash = Some (ce_block_hash e),
          et_confirmations = confirmations, et_explorer_url = explorer_url (tc_explorer c) (ce_tx_hash e)\<rparr>)"

definition reason_text :: "reason_error + string \<Rightarrow> row_fault + string" where
  "reason_text r = (case r of Inl _ \<Rightarrow> Inl ValueFault | Inr n \<Rightarrow> Inr n)"

definition entry_fields ::
  "chain_event \<Rightarrow> parties \<Rightarrow> timeline_state \<Rightarrow> row_fault + timeline_entry \<times> timeline_state" where
  "entry_fields e p st =
     (let args = ce_decoded e; name = ce_name e in
      result_bind (if has_key args ''sequence'' then int_arg args ''sequence'' else Inr (ts_sequence st)) (\<lambda>sequence.
      case map_of TIMELINE_KIND name of None \<Rightarrow> Inl (KeyFault name) | Some kind \<Rightarrow>
        (let base = \<lparr>tl_sequence = sequence, tl_kind = kind, tl_actor = None, tl_quote_amount = None,
               tl_valid_until = None, tl_offer_hash = None, tl_references = None, tl_reason_code = None,
               tl_reason = None\<rparr>;
             onward = (\<lambda>entry st. Inr (entry, st\<lparr>ts_sequence := tl_sequence entry\<rparr>))
         in if name = ''OfferRecorded'' then
              result_bind (text_arg args ''offerHash'') (\<lambda>h.
              result_bind (text_arg args ''quoteAmount'') (\<lambda>q.
              result_bind (role_arg p args ''proposer'') (\<lambda>r.
              result_bind (int_arg args ''validUntil'') (\<lambda>v.
                onward (base\<lparr>tl_actor := Some (party_value r), tl_quote_amount := Some q,
                         tl_valid_until := Some v, tl_offer_hash := Some h\<rparr>)
                  (st\<lparr>ts_offers := (h, q) # ts_offers st\<rparr>)))))
            else if name = ''AcceptanceRecorded'' then
              result_bind (role_arg p args ''actor'') (\<lambda>r.
              result_bind (text_arg args ''offerHash'') (\<lambda>h.
                onward (base\<lparr>tl_actor := Some (party_value r), tl_quote_amount := map_of (ts_offers st) h,
                         tl_references := Some h\<rparr>)
                  (st\<lparr>ts_acceptor := Some (party_value r)\<rparr>)))
            else if name = ''SettlementCompleted'' then
              result_bind (text_arg args ''quoteAmount'') (\<lambda>q.
              result_bind (text_arg args ''offerHash'') (\<lambda>h.
                onward (base\<lparr>tl_sequence := ts_sequence st, tl_actor := ts_acceptor st,
                         tl_quote_amount := Some q, tl_references := Some h\<rparr>) st))
            else if name = ''SessionClosed'' then
              result_bind (int_arg args ''reason'') (\<lambda>c.
              result_bind (role_arg p args ''actor'') (\<lambda>r.
              result_bind (reason_text (close_reason_name c)) (\<lambda>n.
                onward (base\<lparr>tl_actor := Some (party_value r), tl_reason_code := Some c, tl_reason := Some n\<rparr>) st)))
            else if name = ''SessionExpired'' then onward (base\<lparr>tl_actor := Some ''anyone''\<rparr>) st
            else
              result_bind (int_arg args ''reason'') (\<lambda>c.
              result_bind (reason_text (abort_reason_name c)) (\<lambda>n.
                onward (base\<lparr>tl_actor := Some ''operator'', tl_reason_code := Some c, tl_reason := Some n\<rparr>) st)))))"

text \<open>Of a signed action an entry needs who signed it and its sequence.\<close>

type_synonym action_brief = "uuid \<times> address \<times> int"

definition failure_actor :: "outbox_row \<Rightarrow> (address \<times> int) option \<Rightarrow> parties \<Rightarrow> row_fault + string" where
  "failure_actor row action p = (case action of
     Some (signer, _) \<Rightarrow> result_bind (party_role p (JStr signer)) (\<lambda>r. Inr (party_value r))
   | None \<Rightarrow>
       if ob_sender row = pt_buyer p \<or> ob_sender row = pt_seller p
       then result_bind (party_role p (JStr (ob_sender row))) (\<lambda>r. Inr (party_value r))
       else Inr (case LIFECYCLE_ACTOR (ob_kind row) of None \<Rightarrow> ''operator'' | Some a \<Rightarrow> a))"

definition failure_entry ::
  "(int \<Rightarrow> string) \<Rightarrow> outbox_row \<Rightarrow> (address \<times> int) option \<Rightarrow> parties \<Rightarrow> int \<Rightarrow> timeline_context
    \<Rightarrow> row_fault + full_entry" where
  "failure_entry iso_text row action p sequence c = (case or_else (ob_included_at row) (ob_submitted_at row) of
     None \<Rightarrow> Inl ValueFault
   | Some recorded_at \<Rightarrow> result_bind (failure_actor row action p) (\<lambda>actor.
       Inr \<lparr>tl_sequence = (case action of Some (_, n) \<Rightarrow> n | None \<Rightarrow> sequence), tl_kind = ''execution_failure'',
            tl_actor = Some actor, tl_quote_amount = None, tl_valid_until = None, tl_offer_hash = None,
            tl_references = None, tl_reason_code = None, tl_reason = ob_last_error row,
            tl_tx = \<lparr>et_tx_hash = ob_tx_hash row, et_status = tx_status_value (ob_status row),
              et_block_number = ob_block_number row, et_block_hash = ob_block_hash row, et_confirmations = 0,
              et_explorer_url = explorer_url (tc_explorer c) (ob_tx_hash row)\<rparr>,
            tl_sentence = ob_sentence row, tl_recorded_at = iso_text recorded_at\<rparr>))"

datatype timeline_item = EventItem chain_event | FailureItem outbox_row

definition timeline_items :: "chain_event list \<Rightarrow> outbox_row list \<Rightarrow> ((int \<times> int) \<times> timeline_item) list" where
  "timeline_items events rows =
     map (\<lambda>e. (chain_order e, EventItem e)) (filter (\<lambda>e. ce_name e \<noteq> ''SessionOpened'') events) @
     concat (map (\<lambda>r. case ob_block_number r of
         Some b \<Rightarrow> if ob_status r = TX_REVERTED \<and> ob_sentence r \<noteq> None \<and> ob_sentence r \<noteq> Some []
                    then [((b, 2 ^ 31), FailureItem r)] else []
       | None \<Rightarrow> []) rows)"

fun timeline_entries ::
  "(int \<Rightarrow> string) \<Rightarrow> action_brief list \<Rightarrow> outbox_row list \<Rightarrow> parties \<Rightarrow> timeline_context \<Rightarrow> timeline_item list
    \<Rightarrow> timeline_state \<Rightarrow> row_fault + full_entry list" where
  "timeline_entries iso_text actions rows p c [] st = Inr []"
| "timeline_entries iso_text actions rows p c (FailureItem r # items) st =
     result_bind (failure_entry iso_text r
         (case ob_action r of None \<Rightarrow> None | Some a \<Rightarrow> map_of (rev actions) a) p (ts_sequence st) c) (\<lambda>entry.
     result_bind (timeline_entries iso_text actions rows p c items st) (\<lambda>rest. Inr (entry # rest)))"
| "timeline_entries iso_text actions rows p c (EventItem e # items) st =
     result_bind (entry_fields e p st) (\<lambda>(entry, st').
     result_bind (timeline_entries iso_text actions rows p c items st') (\<lambda>rest.
       Inr (timeline_entry.extend entry
              (full_entry.fields (event_tx e rows c) (ce_sentence e) (iso_text (ce_created_at e))) # rest)))"

definition build_timeline ::
  "(int \<Rightarrow> string) \<Rightarrow> chain_event list \<Rightarrow> outbox_row list \<Rightarrow> action_brief list \<Rightarrow> timeline_context
    \<Rightarrow> row_fault + full_entry list" where
  "build_timeline iso_text events rows actions c = (case opened_event events of
     None \<Rightarrow> Inr []
   | Some opened \<Rightarrow> result_bind (Parties opened) (\<lambda>p.
       timeline_entries iso_text actions rows p c (map snd (sort_key fst (timeline_items events rows)))
         \<lparr>ts_sequence = 0, ts_offers = [], ts_acceptor = None\<rparr>))"

subsection \<open>Balances and outcome\<close>

fun latest_from ::
  "balance_snapshot list \<Rightarrow> ((db_party \<times> token_role) \<times> balance_snapshot) list
    \<Rightarrow> ((db_party \<times> token_role) \<times> balance_snapshot) list" where
  "latest_from [] latest = latest"
| "latest_from (s # ss) latest =
     (let key = (bs_party s, bs_token s)
      in latest_from ss
           (if (case map_of latest key of None \<Rightarrow> True | Some l \<Rightarrow> bs_block_number l \<le> bs_block_number s)
            then AList.update key s latest else latest))"

definition latest_balances :: "balance_snapshot list \<Rightarrow> ((db_party \<times> token_role) \<times> int) list" where
  "latest_balances snapshots =
     map (\<lambda>(k, s). (k, bs_amount s)) (filter (\<lambda>(k, s). snd k \<in> {BASE, QUOTE}) (latest_from snapshots []))"

record outcome =
  oc_kind :: outcome_kind
  oc_actor :: party_or_operator
  oc_tx_hash :: string
  oc_reason_code :: "int option"

fun as_actor :: "db_party \<Rightarrow> party_or_operator" where
  "as_actor BUYER = P_BUYER" | "as_actor SELLER = P_SELLER"

definition terminal_event :: "chain_event list \<Rightarrow> chain_event option" where
  "terminal_event events = find (\<lambda>e. ce_name e \<in> fst ` set TERMINAL_EVENTS) events"

definition outcome_from :: "chain_event list \<Rightarrow> parties \<Rightarrow> chain_event \<Rightarrow> row_fault + outcome" where
  "outcome_from events p terminal =
     (let args = ce_decoded terminal; tx = ce_tx_hash terminal in
      case map_of TERMINAL_EVENTS (ce_name terminal) of
        Some O_SETTLED \<Rightarrow>
          (case find (\<lambda>e. ce_name e = ''AcceptanceRecorded'' \<and> ce_tx_hash e = tx) events of
             None \<Rightarrow> Inl StopFault
           | Some a \<Rightarrow> result_bind (role_arg p (ce_decoded a) ''actor'') (\<lambda>r.
               Inr \<lparr>oc_kind = O_SETTLED, oc_actor = as_actor r, oc_tx_hash = tx, oc_reason_code = None\<rparr>))
      | Some O_CLOSED \<Rightarrow>
          result_bind (role_arg p args ''actor'') (\<lambda>r. result_bind (int_arg args ''reason'') (\<lambda>c.
            Inr \<lparr>oc_kind = O_CLOSED, oc_actor = as_actor r, oc_tx_hash = tx, oc_reason_code = Some c\<rparr>))
      | Some O_EXPIRED \<Rightarrow>
          Inr \<lparr>oc_kind = O_EXPIRED, oc_actor = P_ANYONE, oc_tx_hash = tx, oc_reason_code = None\<rparr>
      | Some k \<Rightarrow> result_bind (int_arg args ''reason'') (\<lambda>c.
            Inr \<lparr>oc_kind = k, oc_actor = P_OPERATOR, oc_tx_hash = tx, oc_reason_code = Some c\<rparr>)
      | None \<Rightarrow> Inl (KeyFault (ce_name terminal)))"

definition derive_outcome :: "chain_event list \<Rightarrow> int \<Rightarrow> row_fault + outcome option" where
  "derive_outcome events threshold = (case (opened_event events, terminal_event events) of
     (Some opened, Some terminal) \<Rightarrow>
       if (case ce_confirmations terminal of None \<Rightarrow> 0 | Some n \<Rightarrow> n) < threshold then Inr None
       else result_bind (Parties opened) (\<lambda>p.
            result_bind (outcome_from events p terminal) (\<lambda>o'. Inr (Some o')))
   | _ \<Rightarrow> Inr None)"

end
