(* ===== verification/Backend_Db.thy ===== *)
theory Backend_Db
  imports Leases Views
begin

section \<open>Runs, turns, decisions, signed actions and run events\<close>

text \<open>
  The repositories of services/api/src/api/db/repositories/ that the turn executor and the driver
  write through: runs.py, turns.py and the run-event log of operational.py, with the constraints of
  db/models.py. A table is the list of its rows in the order they were created, and a new row's id
  is its position; a write PostgreSQL refuses returns its refusal and no state. A run event's cursor
  is per run and gapless. Columns nothing reads back (batches, software versions, usage, costs, hashes of
  mandates, key derivations, creation times) are left out. \<open>escape_nul\<close> and \<open>has_nul\<close> are over JSON values.
\<close>

subsection \<open>Rows\<close>

record new_run =
  rn_name :: string
  rn_deployment :: string
  rn_public_config :: args
  rn_limits :: args
  rn_buyer_policy :: policy_kind
  rn_seller_policy :: policy_kind
  rn_mode :: run_mode
  rn_scenario :: "string option"
  rn_parent :: "uuid option"
  rn_buyer_model :: "string option"
  rn_seller_model :: "string option"
  rn_buyer_effort :: "string option"
  rn_seller_effort :: "string option"

record run_row = new_run +
  rn_id :: uuid
  rn_policy_versions :: "(string \<times> string) list"
  rn_prompt_versions :: "(string \<times> string option) list"
  rn_state :: run_state
  rn_cause :: "string option"
  rn_outcome_kind :: outcome_kind
  rn_outcome_reason :: "int option"
  rn_outcome_actor :: "party_or_operator option"
  rn_outcome_tx :: "string option"
  rn_session :: "string option"
  rn_config_hash :: "string option"
  rn_expires_at :: "int option"
  rn_started_at :: "int option"
  rn_terminal_at :: "int option"
  rn_termination_cause :: "string option"
  rn_termination_code :: "int option"

record turn_row =
  tn_id :: uuid
  tn_run :: uuid
  tn_turn :: int
  tn_party :: db_party
  tn_expected_sequence :: int
  tn_state :: turn_state
  tn_observation :: json
  tn_observation_hash :: string
  tn_finished_at :: "int option"
  tn_failure_code :: "string option"
  tn_failure_detail :: "string option"

record decision_row =
  dn_id :: uuid
  dn_turn :: uuid
  dn_run :: uuid
  dn_party :: db_party
  dn_attempt :: int
  dn_raw_response :: json
  dn_stop_reason :: "string option"
  dn_validation_ok :: bool
  dn_validation_code :: "string option"
  dn_validation_feedback :: "string option"
  dn_authorized :: bool
  dn_escaped :: bool

record action_record =
  ar_id :: uuid
  ar_run :: uuid
  ar_turn :: uuid
  ar_decision :: uuid
  ar_sequence :: int
  ar_kind :: db_action_kind
  ar_message :: json
  ar_digest :: string
  ar_signer :: string
  ar_signature :: string
  ar_status :: action_status
  ar_revert_error :: "string option"

record run_event =
  ev_run :: uuid
  ev_cursor :: int
  ev_type :: string
  ev_data :: json

record mandate_row =
  mv_id :: uuid
  mv_run :: uuid
  mv_party :: db_party
  mv_version :: int
  mv_reservation :: int
  mv_min_inventory :: int
  mv_instructions :: string

record wallet_row =
  wl_run :: uuid
  wl_party :: db_party
  wl_address :: address
  wl_key_ref :: string
  wl_initial_base :: int
  wl_initial_quote :: int
  wl_allowance :: int
  wl_setup_nonce_next :: int
  wl_funded :: "(string \<times> digest_text) list"

text \<open>The database, and the transactions handed to the node.\<close>

record backend =
  bk_scenarios :: "string list"
  bk_runs :: "run_row list"
  bk_mandates :: "mandate_row list"
  bk_wallets :: "wallet_row list"
  bk_turns :: "turn_row list"
  bk_decisions :: "decision_row list"
  bk_actions :: "action_record list"
  bk_events :: "run_event list"
  bk_leases :: lease_db
  bk_outbox :: "outbox_row list"
  bk_chain :: "chain_event list"
  bk_snapshots :: "balance_snapshot list"
  bk_sent :: "bytes list"

type_synonym 'a db_op = "backend \<Rightarrow> persistence_error + 'a \<times> backend"

subsection \<open>Runs\<close>

definition OUTCOME_OK :: "run_row \<Rightarrow> bool" where
  "OUTCOME_OK r \<longleftrightarrow>
     (rn_outcome_kind r = O_PENDING \<or> (rn_state r \<in> {TERMINAL, FAILED_SETUP} \<and> rn_outcome_tx r \<noteq> None)) \<and>
     (case rn_outcome_kind r of
        O_CLOSED \<Rightarrow> (case rn_outcome_reason r of None \<Rightarrow> False | Some c \<Rightarrow> 1 \<le> c \<and> c \<le> 3)
      | O_ABORTED \<Rightarrow> (case rn_outcome_reason r of None \<Rightarrow> False | Some c \<Rightarrow> 1 \<le> c \<and> c \<le> 4)
      | _ \<Rightarrow> rn_outcome_reason r = None) \<and>
     (case rn_outcome_kind r of
        O_PENDING \<Rightarrow> rn_outcome_actor r = None
      | O_SETTLED \<Rightarrow> rn_outcome_actor r \<in> {Some P_BUYER, Some P_SELLER}
      | O_CLOSED \<Rightarrow> rn_outcome_actor r \<in> {Some P_BUYER, Some P_SELLER}
      | O_EXPIRED \<Rightarrow> rn_outcome_actor r = Some P_ANYONE
      | O_ABORTED \<Rightarrow> rn_outcome_actor r = Some P_OPERATOR)"

definition TERMINATION_OK :: "run_row \<Rightarrow> bool" where
  "TERMINATION_OK r \<longleftrightarrow> (case rn_termination_code r of
     None \<Rightarrow> True | Some c \<Rightarrow> rn_termination_cause r \<noteq> None \<and> 1 \<le> c \<and> c \<le> 4)"

definition run_get :: "uuid \<Rightarrow> backend \<Rightarrow> run_row option" where
  "run_get i db = find (\<lambda>r. rn_id r = i) (bk_runs db)"

definition run_refusal :: "run_row list \<Rightarrow> run_row \<Rightarrow> persistence_error option" where
  "run_refusal others r =
     (if \<not> OUTCOME_OK r then Some (CheckViolationError ''outcome'')
      else if \<not> TERMINATION_OK r then Some (CheckViolationError ''termination_code_valid'')
      else if (case rn_expires_at r of None \<Rightarrow> False | Some t \<Rightarrow> t < 0) then Some (CheckViolationError ''non_negative'')
      else if rn_session r \<noteq> None \<and> list_ex (\<lambda>s. rn_session s = rn_session r) others
        then Some (DuplicateError ''uq_runs_session_id'')
      else None)"

definition run_update :: "uuid \<Rightarrow> (run_row \<Rightarrow> run_row) \<Rightarrow> run_row db_op" where
  "run_update i f db = (case run_get i db of
     None \<Rightarrow> Inl NotFoundError
   | Some r \<Rightarrow> (case run_refusal (filter (\<lambda>s. rn_id s \<noteq> i) (bk_runs db)) (f r) of
       Some e \<Rightarrow> Inl e
     | None \<Rightarrow> Inr (f r, db\<lparr>bk_runs := map (\<lambda>s. if rn_id s = i then f s else s) (bk_runs db)\<rparr>)))"

definition run_add :: "new_run \<Rightarrow> run_row db_op" where
  "run_add n db =
     (let r = \<lparr>rn_name = rn_name n, rn_deployment = rn_deployment n, rn_public_config = rn_public_config n,
            rn_limits = rn_limits n, rn_buyer_policy = rn_buyer_policy n, rn_seller_policy = rn_seller_policy n,
            rn_mode = rn_mode n, rn_scenario = rn_scenario n, rn_parent = rn_parent n,
            rn_buyer_model = rn_buyer_model n, rn_seller_model = rn_seller_model n,
            rn_buyer_effort = rn_buyer_effort n, rn_seller_effort = rn_seller_effort n,
            rn_id = length (bk_runs db), rn_policy_versions = [], rn_prompt_versions = [], rn_state = DRAFT, rn_cause = None, rn_outcome_kind = O_PENDING,
            rn_outcome_reason = None, rn_outcome_actor = None, rn_outcome_tx = None, rn_session = None,
            rn_config_hash = None, rn_expires_at = None, rn_started_at = None, rn_terminal_at = None,
            rn_termination_cause = None, rn_termination_code = None\<rparr>
      in Inr (r, db\<lparr>bk_runs := bk_runs db @ [r]\<rparr>))"

definition with_open_sessions :: "string \<Rightarrow> backend \<Rightarrow> run_row list" where
  "with_open_sessions deployment db =
     filter (\<lambda>r. rn_session r \<noteq> None \<and> rn_state r \<notin> {TERMINAL, FAILED_SETUP} \<and> rn_deployment r = deployment) (bk_runs db)"

definition get_by_session :: "string \<Rightarrow> backend \<Rightarrow> run_row option" where
  "get_by_session session db = find (\<lambda>r. rn_session r = Some session) (bk_runs db)"

definition set_mode :: "uuid \<Rightarrow> run_mode \<Rightarrow> run_row db_op" where
  "set_mode i mode = run_update i (\<lambda>r. r\<lparr>rn_mode := mode\<rparr>)"

definition update_state :: "uuid \<Rightarrow> run_state \<Rightarrow> string option \<Rightarrow> run_row db_op" where
  "update_state i state cause = run_update i (\<lambda>r. r\<lparr>rn_state := state, rn_cause := cause\<rparr>)"

definition set_session :: "uuid \<Rightarrow> string \<Rightarrow> string \<Rightarrow> int \<Rightarrow> int \<Rightarrow> run_row db_op" where
  "set_session i session config expires_at started_at =
     run_update i (\<lambda>r. r\<lparr>rn_session := Some session, rn_config_hash := Some config,
       rn_expires_at := Some expires_at, rn_started_at := Some started_at\<rparr>)"

definition record_outcome :: "uuid \<Rightarrow> outcome \<Rightarrow> int \<Rightarrow> run_state \<Rightarrow> string option \<Rightarrow> run_row db_op" where
  "record_outcome i out terminal_at state cause =
     run_update i (\<lambda>r. r\<lparr>rn_outcome_kind := oc_kind out, rn_outcome_reason := oc_reason_code out,
       rn_outcome_actor := Some (oc_actor out), rn_outcome_tx := Some (oc_tx_hash out),
       rn_terminal_at := Some terminal_at, rn_state := state, rn_cause := cause\<rparr>)"

definition request_termination :: "uuid \<Rightarrow> string \<Rightarrow> int option \<Rightarrow> run_row db_op" where
  "request_termination i cause abort_code db = (case run_get i db of
     None \<Rightarrow> Inl NotFoundError
   | Some r \<Rightarrow>
       if rn_termination_cause r = None
       then run_update i (\<lambda>r. r\<lparr>rn_termination_cause := Some cause, rn_termination_code := abort_code\<rparr>) db
       else Inr (r, db))"

subsection \<open>Run events\<close>

definition events_of :: "uuid \<Rightarrow> backend \<Rightarrow> run_event list" where
  "events_of run db = filter (\<lambda>e. ev_run e = run) (bk_events db)"

definition last_cursor :: "uuid \<Rightarrow> backend \<Rightarrow> int" where
  "last_cursor run db = fold max (map ev_cursor (events_of run db)) 0"

definition append_event :: "uuid \<Rightarrow> string \<Rightarrow> json \<Rightarrow> run_event db_op" where
  "append_event run event_type data db = (case run_get run db of
     None \<Rightarrow> Inl NotFoundError
   | Some _ \<Rightarrow>
       (let e = \<lparr>ev_run = run, ev_cursor = last_cursor run db + 1, ev_type = event_type, ev_data = data\<rparr>
        in Inr (e, db\<lparr>bk_events := bk_events db @ [e]\<rparr>)))"

definition events_after :: "uuid \<Rightarrow> int \<Rightarrow> nat \<Rightarrow> backend \<Rightarrow> run_event list" where
  "events_after run cursor limit db =
     take limit (sort_key ev_cursor (filter (\<lambda>e. cursor < ev_cursor e) (events_of run db)))"

definition latest_event :: "uuid \<Rightarrow> string \<Rightarrow> backend \<Rightarrow> run_event option" where
  "latest_event run event_type db =
     (case rev (sort_key ev_cursor (filter (\<lambda>e. ev_type e = event_type) (events_of run db))) of
        [] \<Rightarrow> None | e # _ \<Rightarrow> Some e)"

subsection \<open>Storing what JSONB refuses\<close>

fun has_nul :: "json \<Rightarrow> bool" where
  "has_nul (JStr s) = (CHR 0x00 \<in> set s)"
| "has_nul (JObj kvs) = list_ex (\<lambda>(k, v). CHR 0x00 \<in> set k \<or> has_nul v) kvs"
| "has_nul (JList vs) = list_ex has_nul vs"
| "has_nul _ = False"

definition escape_text :: "string \<Rightarrow> string" where
  "escape_text s = concat (map (\<lambda>c.
     if c = CHR 0x5C then [CHR 0x5C, CHR 0x5C]
     else if c = CHR 0x00 then CHR 0x5C # ''u0000''
     else [c]) s)"

fun escape_nul :: "json \<Rightarrow> json" where
  "escape_nul (JStr s) = JStr (escape_text s)"
| "escape_nul (JObj kvs) = JObj (map (\<lambda>(k, v). (escape_text k, escape_nul v)) kvs)"
| "escape_nul (JList vs) = JList (map escape_nul vs)"
| "escape_nul v = v"

definition optional_text :: "string option \<Rightarrow> json" where
  "optional_text t = (case t of None \<Rightarrow> JNull | Some s \<Rightarrow> JStr s)"

definition stored_text :: "string option \<Rightarrow> string option" where
  "stored_text t = (if has_nul (optional_text t) then map_option escape_text t else t)"

subsection \<open>Turns, decisions and signed actions\<close>

definition turn_get :: "uuid \<Rightarrow> backend \<Rightarrow> turn_row option" where
  "turn_get i db = find (\<lambda>t. tn_id t = i) (bk_turns db)"

definition turns_for_run :: "uuid \<Rightarrow> backend \<Rightarrow> turn_row list" where
  "turns_for_run run db = sort_key tn_turn (filter (\<lambda>t. tn_run t = run) (bk_turns db))"

definition turn_add :: "uuid \<Rightarrow> int \<Rightarrow> db_party \<Rightarrow> int \<Rightarrow> json \<Rightarrow> string \<Rightarrow> turn_row db_op" where
  "turn_add run turn party expected_sequence observation observation_hash db =
     (if turn < 1 then Inl (CheckViolationError ''turn_positive'')
      else if expected_sequence < 1 then Inl (CheckViolationError ''expected_sequence_positive'')
      else if list_ex (\<lambda>t. tn_run t = run \<and> tn_turn t = turn) (bk_turns db)
        then Inl (DuplicateError ''uq_turns_run_id_turn'')
      else let t = \<lparr>tn_id = length (bk_turns db), tn_run = run, tn_turn = turn, tn_party = party,
             tn_expected_sequence = expected_sequence, tn_state = OBSERVING, tn_observation = observation,
             tn_observation_hash = observation_hash, tn_finished_at = None, tn_failure_code = None,
             tn_failure_detail = None\<rparr>
        in Inr (t, db\<lparr>bk_turns := bk_turns db @ [t]\<rparr>))"

definition turn_update_state ::
  "uuid \<Rightarrow> turn_state \<Rightarrow> int option \<Rightarrow> string option \<Rightarrow> string option \<Rightarrow> turn_row db_op" where
  "turn_update_state i state finished_at failure_code failure_detail db = (case turn_get i db of
     None \<Rightarrow> Inl NotFoundError
   | Some t \<Rightarrow>
       (let f = (\<lambda>t. t\<lparr>tn_state := state,
              tn_finished_at := or_else finished_at (tn_finished_at t),
              tn_failure_code := (if failure_code = None then tn_failure_code t else stored_text failure_code),
              tn_failure_detail := (if failure_code = None then tn_failure_detail t else stored_text failure_detail)\<rparr>)
        in Inr (f t, db\<lparr>bk_turns := map (\<lambda>s. if tn_id s = i then f s else s) (bk_turns db)\<rparr>)))"

definition decision_add ::
  "uuid \<Rightarrow> uuid \<Rightarrow> db_party \<Rightarrow> int \<Rightarrow> json \<Rightarrow> string option \<Rightarrow> bool \<Rightarrow> string option \<Rightarrow> string option \<Rightarrow> bool
    \<Rightarrow> decision_row db_op" where
  "decision_add turn run party attempt raw_response stop_reason validation_ok refusal feedback authorized db =
     (let escaped = has_nul raw_response \<or> has_nul (optional_text stop_reason) \<or> has_nul (optional_text feedback);
          text = (\<lambda>t. if escaped then map_option escape_text t else t);
          d = \<lparr>dn_id = length (bk_decisions db), dn_turn = turn, dn_run = run, dn_party = party,
               dn_attempt = attempt, dn_raw_response = (if escaped then escape_nul raw_response else raw_response),
               dn_stop_reason = text stop_reason, dn_validation_ok = validation_ok, dn_validation_code = refusal,
               dn_validation_feedback = text feedback, dn_authorized = authorized, dn_escaped = escaped\<rparr>
      in if attempt < 1 then Inl (CheckViolationError ''attempt_positive'')
         else if authorized \<and> \<not> validation_ok then Inl (CheckViolationError ''authorized_implies_valid'')
         else if list_ex (\<lambda>d. dn_turn d = turn \<and> dn_attempt d = attempt) (bk_decisions db)
           then Inl (DuplicateError ''uq_decisions_turn_id_attempt'')
         else Inr (d, db\<lparr>bk_decisions := bk_decisions db @ [d]\<rparr>))"

definition actions_for_run :: "uuid \<Rightarrow> backend \<Rightarrow> action_record list" where
  "actions_for_run run db = sort_key ar_sequence (filter (\<lambda>a. ar_run a = run) (bk_actions db))"

definition action_clash :: "action_record \<Rightarrow> action_record \<Rightarrow> bool" where
  "action_clash a b \<longleftrightarrow> (ar_run a = ar_run b \<and> ar_sequence a = ar_sequence b) \<or> ar_digest a = ar_digest b \<or>
     ar_decision a = ar_decision b \<or> ar_turn a = ar_turn b"

definition action_add ::
  "uuid \<Rightarrow> uuid \<Rightarrow> uuid \<Rightarrow> int \<Rightarrow> db_action_kind \<Rightarrow> json \<Rightarrow> string \<Rightarrow> string \<Rightarrow> string \<Rightarrow> action_record db_op" where
  "action_add run turn decision sequence kind message digest signer signature db =
     (let a = \<lparr>ar_id = length (bk_actions db), ar_run = run, ar_turn = turn, ar_decision = decision,
             ar_sequence = sequence, ar_kind = kind, ar_message = message, ar_digest = digest,
             ar_signer = signer, ar_signature = signature, ar_status = AS_SIGNED, ar_revert_error = None\<rparr>
      in if sequence < 1 then Inl (CheckViolationError ''sequence_positive'')
         else if list_ex (action_clash a) (bk_actions db) then Inl (DuplicateError ''signed_actions'')
         else Inr (a, db\<lparr>bk_actions := bk_actions db @ [a]\<rparr>))"

definition action_update :: "uuid \<Rightarrow> (action_record \<Rightarrow> action_record) \<Rightarrow> action_record db_op" where
  "action_update i f db = (case find (\<lambda>a. ar_id a = i) (bk_actions db) of
     None \<Rightarrow> Inl NotFoundError
   | Some a \<Rightarrow> Inr (f a, db\<lparr>bk_actions := map (\<lambda>s. if ar_id s = i then f s else s) (bk_actions db)\<rparr>))"

definition action_update_status :: "uuid \<Rightarrow> action_status \<Rightarrow> string option \<Rightarrow> action_record db_op" where
  "action_update_status i status revert_error = action_update i (\<lambda>a.
     a\<lparr>ar_status := status, ar_revert_error := or_else revert_error (ar_revert_error a)\<rparr>)"

definition reset_to_submitted :: "uuid \<Rightarrow> action_record db_op" where
  "reset_to_submitted i = action_update i (\<lambda>a. a\<lparr>ar_status := AS_SUBMITTED, ar_revert_error := None\<rparr>)"

subsection \<open>Wallets\<close>

definition wallet_get :: "uuid \<Rightarrow> db_party \<Rightarrow> backend \<Rightarrow> wallet_row option" where
  "wallet_get run party db = find (\<lambda>w. wl_run w = run \<and> wl_party w = party) (bk_wallets db)"

definition wallets_for_run :: "uuid \<Rightarrow> backend \<Rightarrow> wallet_row list" where
  "wallets_for_run run db =
     sort_key (\<lambda>w. party_order (wl_party w)) (filter (\<lambda>w. wl_run w = run) (bk_wallets db))"

definition set_versions :: "uuid \<Rightarrow> (string \<times> string) list \<Rightarrow> (string \<times> string option) list \<Rightarrow> run_row db_op" where
  "set_versions i policies prompts =
     run_update i (\<lambda>r. r\<lparr>rn_policy_versions := policies, rn_prompt_versions := prompts\<rparr>)"

definition mandate_for :: "uuid \<Rightarrow> db_party \<Rightarrow> backend \<Rightarrow> mandate_row option" where
  "mandate_for run party db = find (\<lambda>m. mv_run m = run \<and> mv_party m = party) (bk_mandates db)"

definition mandate_add :: "mandate_row \<Rightarrow> mandate_row db_op" where
  "mandate_add m db =
     (if mv_version m < 1 then Inl (CheckViolationError ''version_positive'')
      else if mv_reservation m < 0 \<or> mv_min_inventory m < 0 then Inl (CheckViolationError ''non_negative'')
      else if mandate_for (mv_run m) (mv_party m) db \<noteq> None then Inl (DuplicateError ''mandate_versions'')
      else (let m = m\<lparr>mv_id := length (bk_mandates db)\<rparr>
            in Inr (m, db\<lparr>bk_mandates := bk_mandates db @ [m]\<rparr>)))"

text \<open>The column's own pattern \<open>^(env|keystore):.+\<close>, not anchored at its end.\<close>

definition key_ref_shape :: "string \<Rightarrow> bool" where
  "key_ref_shape s \<longleftrightarrow> take 4 s = ''env:'' \<and> length s > 4 \<or> take 9 s = ''keystore:'' \<and> length s > 9"

definition wallet_add :: "wallet_row \<Rightarrow> wallet_row db_op" where
  "wallet_add w db =
     (if \<not> key_ref_shape (wl_key_ref w) then Inl (CheckViolationError ''key_ref_is_a_reference'')
      else if wl_initial_base w < 0 \<or> wl_initial_quote w < 0 \<or> wl_allowance w < 0
      then Inl (CheckViolationError ''non_negative'')
      else if wallet_get (wl_run w) (wl_party w) db \<noteq> None \<or> list_ex (\<lambda>x. wl_address x = wl_address w) (bk_wallets db) then Inl (DuplicateError ''wallets'')
      else (let w = w\<lparr>wl_setup_nonce_next := 0, wl_funded := []\<rparr>
            in Inr (w, db\<lparr>bk_wallets := bk_wallets db @ [w]\<rparr>)))"

definition wallet_update :: "uuid \<Rightarrow> db_party \<Rightarrow> (wallet_row \<Rightarrow> wallet_row) \<Rightarrow> wallet_row db_op" where
  "wallet_update run party f db = (case wallet_get run party db of
     None \<Rightarrow> Inl NotFoundError
   | Some w \<Rightarrow>
       if wl_setup_nonce_next (f w) < 0 then Inl (CheckViolationError ''non_negative'')
       else Inr (f w, db\<lparr>bk_wallets :=
         map (\<lambda>x. if wl_run x = run \<and> wl_party x = party then f x else x) (bk_wallets db)\<rparr>))"

definition set_setup_nonce :: "uuid \<Rightarrow> db_party \<Rightarrow> int \<Rightarrow> wallet_row db_op" where
  "set_setup_nonce run party next_nonce = wallet_update run party (\<lambda>w. w\<lparr>wl_setup_nonce_next := next_nonce\<rparr>)"

definition record_funding_tx :: "uuid \<Rightarrow> db_party \<Rightarrow> string \<Rightarrow> digest_text \<Rightarrow> wallet_row db_op" where
  "record_funding_tx run party label tx_hash =
     wallet_update run party (\<lambda>w. w\<lparr>wl_funded := AList.update label tx_hash (wl_funded w)\<rparr>)"

subsection \<open>The escape is reversible and leaves no NUL\<close>

lemma escape_text_Nil [simp]: "escape_text [] = []"
  by (simp add: escape_text_def)

lemma escape_text_Cons:
  "escape_text (c # s) =
     (if c = CHR 0x5C then CHR 0x5C # CHR 0x5C # escape_text s
      else if c = CHR 0x00 then CHR 0x5C # ''u0000'' @ escape_text s
      else c # escape_text s)"
  by (simp add: escape_text_def)

lemma escape_text_inject: "escape_text s = escape_text t \<longleftrightarrow> s = t"
proof
  show "escape_text s = escape_text t \<Longrightarrow> s = t"
  proof (induction s arbitrary: t)
    case Nil
    then show ?case by (cases t) (auto simp: escape_text_Cons split: if_splits)
  next
    case (Cons c s)
    show ?case
    proof (cases t)
      case Nil
      with Cons.prems show ?thesis by (auto simp: escape_text_Cons split: if_splits)
    next
      case (Cons d u)
      with Cons.prems Cons.IH [of u] show ?thesis by (auto simp: escape_text_Cons split: if_splits)
    qed
  qed
qed simp

lemma escape_text_no_nul: "CHR 0x00 \<notin> set (escape_text s)"
  by (induction s) (auto simp: escape_text_Cons)

lemma escape_nul_no_nul: "\<not> has_nul (escape_nul v)"
  by (induction v rule: escape_nul.induct)
     (auto simp: escape_text_no_nul list_ex_iff)

lemma escape_nul_inject: "escape_nul v = escape_nul w \<Longrightarrow> v = w"
proof (induction v arbitrary: w rule: escape_nul.induct)
  case (1 s)
  then show ?case by (cases w) (auto simp: escape_text_inject)
next
  case (2 kvs)
  from 2(2) obtain kws where w: "w = JObj kws" by (cases w) auto
  with 2(2) have m: "map (\<lambda>(k, v). (escape_text k, escape_nul v)) kvs = map (\<lambda>(k, v). (escape_text k, escape_nul v)) kws"
    by simp
  have "kvs = kws"
    using m 2(1)
  proof (induction kvs arbitrary: kws)
    case Nil
    then show ?case by simp
  next
    case (Cons kv kvs)
    obtain k v where kv: "kv = (k, v)" by (cases kv)
    from Cons.prems(1) obtain k' v' rest where kws: "kws = (k', v') # rest" by (cases kws) auto
    from Cons.prems(1) have "escape_text k = escape_text k'" "escape_nul v = escape_nul v'"
      and r: "map (\<lambda>(k, v). (escape_text k, escape_nul v)) kvs = map (\<lambda>(k, v). (escape_text k, escape_nul v)) rest"
      by (simp_all add: kv kws)
    moreover have "v = v'" using Cons.prems(2) [of "(k, v)" k v] calculation(2) by (simp add: kv)
    moreover have "kvs = rest" using r by (rule Cons.IH) (rule Cons.prems(2), auto)
    ultimately show ?case by (simp add: kv kws escape_text_inject)
  qed
  with w show ?case by simp
next
  case (3 vs)
  from 3(2) obtain ws where w: "w = JList ws" by (cases w) auto
  with 3(2) have "map escape_nul vs = map escape_nul ws" by simp
  then have "vs = ws" using 3(1)
  proof (induction vs arbitrary: ws)
    case (Cons v vs)
    then show ?case by (cases ws) auto
  qed simp
  with w show ?case by simp
next
  case "4_1"
  then show ?case by (cases w) simp_all
next
  case "4_2"
  then show ?case by (cases w) simp_all
next
  case "4_3"
  then show ?case by (cases w) simp_all
next
  case "4_4"
  then show ?case by (cases w) simp_all
qed

subsection \<open>What every write keeps\<close>

text \<open>
  The event log of a run is numbered 1, 2, 3, ... (\<open>cursors_ok\<close>); signed actions have distinct ids
  and no two share their turn, decision, digest or sequence (\<open>actions_ok\<close>).
\<close>

definition cursors_ok :: "run_event list \<Rightarrow> bool" where
  "cursors_ok es \<longleftrightarrow> map ev_cursor es = map int [1..<length es + 1]"

definition actions_ok :: "action_record list \<Rightarrow> bool" where
  "actions_ok as \<longleftrightarrow> map ar_id as = [0..<length as] \<and>
     list_all (\<lambda>a. list_all (\<lambda>b. ar_id a \<noteq> ar_id b \<longrightarrow> \<not> action_clash a b) as) as"

lemma run_get_Some: "run_get i db = Some r \<Longrightarrow> r \<in> set (bk_runs db) \<and> rn_id r = i"
  by (auto simp: run_get_def find_Some_iff)

lemma find_map_same:
  "(\<And>s. key (f s) = key s) \<Longrightarrow> find (\<lambda>s. key s = j) (map (\<lambda>s. if key s = i then f s else s) xs) =
     (if j = i then map_option f (find (\<lambda>s. key s = i) xs) else find (\<lambda>s. key s = j) xs)"
  by (induction xs) auto

lemma run_get_update:
  assumes "\<And>s. rn_id (f s) = rn_id s" and "run_update i f db = Inr (r, db')"
  shows "run_get j db' = (if j = i then Some r else run_get j db)"
    and "\<exists>s. run_get i db = Some s \<and> r = f s" and "OUTCOME_OK r" and "TERMINATION_OK r"
  using assms(2) find_map_same [of rn_id f j i "bk_runs db"] assms(1)
  by (auto simp: run_update_def run_refusal_def run_get_def split: option.splits if_splits)

lemma run_update_frame:
  "run_update i f db = Inr (r, db') \<Longrightarrow> bk_events db' = bk_events db \<and> bk_turns db' = bk_turns db \<and>
     bk_actions db' = bk_actions db \<and> bk_decisions db' = bk_decisions db \<and> bk_leases db' = bk_leases db"
  by (auto simp: run_update_def split: option.splits if_splits)

lemma append_event_Inr:
  "append_event run ty d db = Inr (e, db') \<longleftrightarrow> run_get run db \<noteq> None \<and>
     e = \<lparr>ev_run = run, ev_cursor = last_cursor run db + 1, ev_type = ty, ev_data = d\<rparr> \<and>
     db' = db\<lparr>bk_events := bk_events db @ [e]\<rparr>"
  by (auto simp: append_event_def Let_def split: option.splits)

lemma run_get_cong: "bk_runs db' = bk_runs db \<Longrightarrow> run_get i db' = run_get i db"
  by (simp add: run_get_def)

lemma fold_max_upt: "fold max (map int [1..<Suc n]) 0 = int n"
  by (induction n) (auto simp: max_def)

lemma last_cursor_ok: "cursors_ok (events_of run db) \<Longrightarrow> last_cursor run db = int (length (events_of run db))"
  using fold_max_upt by (simp add: last_cursor_def cursors_ok_def)

lemma append_event_cursors:
  assumes "\<forall>r. cursors_ok (events_of r db)" and "append_event run ty d db = Inr (e, db')"
  shows "\<forall>r. cursors_ok (events_of r db')"
proof
  fix r
  show "cursors_ok (events_of r db')"
    using assms last_cursor_ok [of run db]
    by (auto simp: append_event_Inr events_of_def cursors_ok_def)
qed

end
