(* ===== verification/Run_Units.thy ===== *)
theory Run_Units
  imports Backend_Db Relay
begin

section \<open>Units of work on a run\<close>

text \<open>
  services/api/src/api/controller/errors.py, events.py and the \<open>RunStates\<close> of driver.py. An
  operation maps the backend to a result and the backend it leaves: what was committed before an
  exception stays. One unit of work is one transaction under the run's row lock, so it is atomic
  (\<open>unit_of_work\<close>): it commits with a result or leaves nothing. \<open>run_relay\<close> runs an operation of
  the relay on the same database.
\<close>

datatype controller_error =
    LookupFault
  | InvalidStateError string run_state "run_state list"
  | TurnInProgressError
  | AnotherRunActiveError
  | RunNotFoundError
  | RunRequestError string
  | InvalidTransitionError run_state run_state
  | PersistenceFault persistence_error
  | RelayFault relay_error
  | RpcFault string
  | RowFault row_fault
  | ReasonFault
  | SessionNotOpenedError
  | InvalidRunConfigError
  | CodecFault string

type_synonym 'a ctl = "backend \<Rightarrow> (controller_error + 'a) \<times> backend"

definition ctl_return :: "'a \<Rightarrow> 'a ctl" where "ctl_return a db = (Inr a, db)"
definition ctl_raise :: "controller_error \<Rightarrow> 'a ctl" where "ctl_raise e db = (Inl e, db)"

definition ctl_bind :: "'a ctl \<Rightarrow> ('a \<Rightarrow> 'b ctl) \<Rightarrow> 'b ctl" where
  "ctl_bind m f db = (case m db of (Inl e, db') \<Rightarrow> (Inl e, db') | (Inr a, db') \<Rightarrow> f a db')"

definition ctl_read :: "(backend \<Rightarrow> 'a) \<Rightarrow> ('a \<Rightarrow> 'b ctl) \<Rightarrow> 'b ctl" where
  "ctl_read g f db = f (g db) db"

definition ctl_result :: "controller_error + 'a \<Rightarrow> 'a ctl" where "ctl_result r db = (r, db)"

definition ctl_catch :: "'a ctl \<Rightarrow> (controller_error \<Rightarrow> 'a ctl) \<Rightarrow> 'a ctl" where
  "ctl_catch m h db = (case m db of (Inl e, db') \<Rightarrow> h e db' | (Inr a, db') \<Rightarrow> (Inr a, db'))"

fun is_invalid_state :: "controller_error \<Rightarrow> bool" where
  "is_invalid_state (InvalidStateError _ _ _) = True"
| "is_invalid_state _ = False"

text \<open>\<open>contextlib.suppress(InvalidStateError)\<close>\<close>

definition suppress_invalid :: "unit ctl \<Rightarrow> unit ctl" where
  "suppress_invalid m = ctl_catch m (\<lambda>e. if is_invalid_state e then ctl_return () else ctl_raise e)"

type_synonym 'a unit_op = "backend \<Rightarrow> controller_error + 'a \<times> backend"

definition unit_of_work :: "'a unit_op \<Rightarrow> 'a ctl" where
  "unit_of_work f db = (case f db of Inl e \<Rightarrow> (Inl e, db) | Inr (a, db') \<Rightarrow> (Inr a, db'))"

definition in_unit :: "'a db_op \<Rightarrow> 'a unit_op" where
  "in_unit f db = (case f db of Inl e \<Rightarrow> Inl (PersistenceFault e) | Inr x \<Rightarrow> Inr x)"

definition op_bind :: "'a unit_op \<Rightarrow> ('a \<Rightarrow> 'b unit_op) \<Rightarrow> 'b unit_op" where
  "op_bind f g db = result_bind (f db) (\<lambda>(a, db'). g a db')"

definition op_return :: "'a \<Rightarrow> 'a unit_op" where "op_return a db = Inr (a, db)"

subsection \<open>The events the controller appends\<close>

fun run_state_value :: "run_state \<Rightarrow> string" where
  "run_state_value DRAFT = ''draft''" | "run_state_value VALIDATED = ''validated''"
| "run_state_value PREPARING = ''preparing''" | "run_state_value RUNNING = ''running''"
| "run_state_value PAUSED = ''paused''" | "run_state_value RECOVERY_REQUIRED = ''recovery_required''"
| "run_state_value TERMINAL = ''terminal''" | "run_state_value FAILED_SETUP = ''failed_setup''"

fun outcome_kind_value :: "outcome_kind \<Rightarrow> string" where
  "outcome_kind_value O_PENDING = ''pending''" | "outcome_kind_value O_SETTLED = ''settled''"
| "outcome_kind_value O_CLOSED = ''closed''" | "outcome_kind_value O_EXPIRED = ''expired''"
| "outcome_kind_value O_ABORTED = ''aborted''"

fun actor_value :: "party_or_operator \<Rightarrow> string" where
  "actor_value P_BUYER = ''buyer''" | "actor_value P_SELLER = ''seller''"
| "actor_value P_OPERATOR = ''operator''" | "actor_value P_ANYONE = ''anyone''"

fun stage_value :: "snapshot_stage \<Rightarrow> string" where
  "stage_value PRE_SETUP = ''pre_setup''" | "stage_value POST_SETUP = ''post_setup''"
| "stage_value PRE_SETTLEMENT = ''pre_settlement''" | "stage_value POST_SETTLEMENT = ''post_settlement''"
| "stage_value TERMINAL_STAGE = ''terminal''"

definition PAUSE_NOTICE :: string where "PAUSE_NOTICE = ''Paused; offer and session expiry continue.''"

definition json_opt :: "('a \<Rightarrow> json) \<Rightarrow> 'a option \<Rightarrow> json" where
  "json_opt f v = (case v of None \<Rightarrow> JNull | Some x \<Rightarrow> f x)"

definition outcome_reason_name :: "run_row \<Rightarrow> reason_error + string option" where
  "outcome_reason_name r = (case (rn_outcome_kind r, rn_outcome_reason r) of
     (O_CLOSED, Some c) \<Rightarrow> result_bind (close_reason_name c) (\<lambda>n. Inr (Some n))
   | (O_ABORTED, Some c) \<Rightarrow> result_bind (abort_reason_name c) (\<lambda>n. Inr (Some n))
   | _ \<Rightarrow> Inr None)"

definition outcome_doc :: "run_row \<Rightarrow> reason_error + json" where
  "outcome_doc r = result_bind (outcome_reason_name r) (\<lambda>reason.
     Inr (JObj [(''kind'', JStr (outcome_kind_value (rn_outcome_kind r))),
                (''reason_code'', json_opt JInt (rn_outcome_reason r)),
                (''reason'', json_opt JStr reason),
                (''actor'', json_opt (JStr \<circ> actor_value) (rn_outcome_actor r))]))"

definition run_state_doc :: "run_row \<Rightarrow> reason_error + json" where
  "run_state_doc r = result_bind (outcome_doc r) (\<lambda>d.
     Inr (JObj [(''state'', JStr (run_state_value (rn_state r))),
                (''state_cause'', json_opt JStr (rn_cause r)), (''outcome'', d)]))"

definition notice_doc :: "string \<Rightarrow> string \<Rightarrow> json" where
  "notice_doc level message = JObj [(''level'', JStr level), (''message'', JStr message)]"

fun token_key :: "token_role \<Rightarrow> string" where
  "token_key BASE = ''base_minor''" | "token_key QUOTE = ''quote_minor''" | "token_key ETH = ''eth_wei''"

definition stage_holdings :: "balance_snapshot list \<Rightarrow> snapshot_stage \<times> int \<Rightarrow> db_party \<Rightarrow> (string \<times> json) list" where
  "stage_holdings snapshots sb p =
     foldl (\<lambda>m s. AList.update (token_key (bs_token s)) (JStr (int_str (bs_amount s))) m) []
       (filter (\<lambda>s. (bs_stage s, bs_block_number s) = sb \<and> bs_party s = p) snapshots)"

definition balances_docs :: "balance_snapshot list \<Rightarrow> json list" where
  "balances_docs snapshots =
     map (\<lambda>sb. JObj [(''stage'', JStr (stage_value (fst sb))),
                     (''buyer'', JObj (stage_holdings snapshots sb BUYER)),
                     (''seller'', JObj (stage_holdings snapshots sb SELLER)),
                     (''block_number'', JInt (snd sb))])
       (sort_key (\<lambda>(stage, block). (stage_order stage, block))
         (remdups (map (\<lambda>s. (bs_stage s, bs_block_number s)) snapshots)))"

definition append_docs :: "uuid \<Rightarrow> string \<Rightarrow> json list \<Rightarrow> unit unit_op" where
  "append_docs run ty docs =
     foldr (\<lambda>d k. op_bind (in_unit (append_event run ty d)) (\<lambda>_. k)) docs (op_return ())"

definition append_run_state :: "run_row \<Rightarrow> run_row unit_op" where
  "append_run_state updated db = (case run_state_doc updated of
     Inl _ \<Rightarrow> Inl ReasonFault
   | Inr d \<Rightarrow> op_bind (in_unit (append_event (rn_id updated) ''run.state'' d)) (\<lambda>_. op_return updated) db)"

subsection \<open>\<open>RunStates\<close>\<close>

definition move_unit ::
  "uuid \<Rightarrow> run_state \<Rightarrow> string option \<Rightarrow> run_state list option \<Rightarrow> string \<Rightarrow> bool \<Rightarrow> run_row unit_op" where
  "move_unit run target cause expect operation forced db = (case run_get run db of
     None \<Rightarrow> Inl LookupFault
   | Some r \<Rightarrow>
       if (case expect of None \<Rightarrow> False | Some ss \<Rightarrow> rn_state r \<notin> set ss)
       then Inl (InvalidStateError operation (rn_state r) (case expect of None \<Rightarrow> [] | Some ss \<Rightarrow> ss))
       else if rn_state r \<noteq> target \<and> \<not> allowed (rn_state r) target
       then Inl (InvalidTransitionError (rn_state r) target)
       else if rn_state r = target \<and> rn_cause r = cause \<and> \<not> forced then Inr (r, db)
       else op_bind (in_unit (update_state run target cause)) append_run_state db)"

definition move ::
  "uuid \<Rightarrow> run_state \<Rightarrow> string option \<Rightarrow> run_state list option \<Rightarrow> string \<Rightarrow> bool \<Rightarrow> run_row ctl" where
  "move run target cause expect operation forced =
     unit_of_work (move_unit run target cause expect operation forced)"

definition begin_step_unit :: "uuid \<Rightarrow> run_row unit_op" where
  "begin_step_unit run db = (case run_get run db of
     None \<Rightarrow> Inl LookupFault
   | Some r \<Rightarrow>
       if rn_state r \<noteq> PAUSED then Inl (InvalidStateError ''step'' (rn_state r) [PAUSED])
       else if rn_cause r = Some ''step'' then Inl TurnInProgressError
       else op_bind (in_unit (update_state run PAUSED (Some ''step''))) append_run_state db)"

definition begin_step :: "uuid \<Rightarrow> run_row ctl" where
  "begin_step run = unit_of_work (begin_step_unit run)"

definition set_cause :: "uuid \<Rightarrow> string \<Rightarrow> run_row ctl" where
  "set_cause run cause = ctl_read (run_get run) (\<lambda>r. case r of
     None \<Rightarrow> ctl_raise LookupFault
   | Some r \<Rightarrow> move run (rn_state r) (Some cause) (Some [rn_state r]) ''transition'' False)"

definition ACTIVE_list :: "run_state list" where
  "ACTIVE_list = [PREPARING, RUNNING, PAUSED, RECOVERY_REQUIRED]"

definition recovery :: "uuid \<Rightarrow> string \<Rightarrow> unit ctl" where
  "recovery run cause = ctl_read (run_get run) (\<lambda>r. case r of
     None \<Rightarrow> ctl_return ()
   | Some r \<Rightarrow>
       if rn_state r \<notin> ACTIVE then ctl_return ()
       else suppress_invalid (ctl_bind (move run RECOVERY_REQUIRED (Some cause) (Some ACTIVE_list) ''transition'' False)
              (\<lambda>_. ctl_return ())))"

text \<open>
  The unit that records an outcome, in \<open>RunDriver._record_terminal\<close>: decided again under the row lock,
  with the state the run ends in, its \<open>run.state\<close> event and the terminal balances.
\<close>

definition TERMINAL_STAGES :: "snapshot_stage set" where
  "TERMINAL_STAGES = {PRE_SETTLEMENT, POST_SETTLEMENT, TERMINAL_STAGE}"

definition record_terminal_unit :: "uuid \<Rightarrow> outcome \<Rightarrow> int \<Rightarrow> run_state \<Rightarrow> run_row option unit_op" where
  "record_terminal_unit run out terminal_at target db = (case run_get run db of
     None \<Rightarrow> Inr (None, db)
   | Some current \<Rightarrow>
       if rn_outcome_kind current \<noteq> O_PENDING then Inr (None, db)
       else if \<not> allowed (rn_state current) target then Inl (InvalidTransitionError (rn_state current) target)
       else op_bind (in_unit (record_outcome run out terminal_at target
                       (or_else (rn_termination_cause current) (rn_cause current)))) (\<lambda>updated.
            op_bind (append_run_state updated) (\<lambda>updated db.
            op_bind (append_docs run ''balances'' (balances_docs (filter (\<lambda>s. bs_stage s \<in> TERMINAL_STAGES)
                       (snapshots_for_run run (bk_snapshots db))))) (\<lambda>_. op_return (Some updated)) db)) db)"

text \<open>
  A run is created, provisioned (its mandates, its wallets and what the agents answered) and its
  first \<open>run.state\<close> event appended, all in the same unit.
\<close>

type_synonym versions = "(string \<times> string) list \<times> (string \<times> string option) list"

definition create_unit :: "new_run \<Rightarrow> (run_row \<Rightarrow> versions unit_op) \<Rightarrow> run_row unit_op" where
  "create_unit n provision =
     op_bind (in_unit (run_add n)) (\<lambda>run.
     op_bind (provision run) (\<lambda>(policies, prompts).
     op_bind (in_unit (set_versions (rn_id run) policies prompts)) append_run_state))"

subsection \<open>The relay on the backend's database\<close>

definition relay_view :: "backend \<Rightarrow> relay_world" where
  "relay_view db =
     \<lparr>w_actions = map (\<lambda>a. (ar_id a, \<lparr>sa_run = ar_run a, sa_kind = ar_kind a, sa_message = ar_message a,
        sa_signature = ar_signature a, sa_status = ar_status a\<rparr>)) (bk_actions db),
      w_outbox = bk_outbox db, w_leases = bk_leases db, w_sent = bk_sent db\<rparr>"

definition relay_store :: "relay_world \<Rightarrow> backend \<Rightarrow> backend" where
  "relay_store w db = db\<lparr>
     bk_actions := map (\<lambda>a. case map_of (w_actions w) (ar_id a) of
       None \<Rightarrow> a | Some s \<Rightarrow> a\<lparr>ar_status := sa_status s\<rparr>) (bk_actions db),
     bk_outbox := w_outbox w, bk_leases := w_leases w, bk_sent := w_sent w\<rparr>"

fun relay_fault :: "relay_error \<Rightarrow> controller_error" where
  "relay_fault (ChainFailure (RpcUnavailableError m)) = RpcFault m"
| "relay_fault (Persistence e) = PersistenceFault e"
| "relay_fault e = RelayFault e"

definition run_relay :: "'a relay \<Rightarrow> 'a ctl" where
  "run_relay m db = (case m (relay_view db) of
     (Inl e, w) \<Rightarrow> (Inl (relay_fault e), relay_store w db)
   | (Inr a, w) \<Rightarrow> (Inr a, relay_store w db))"

end
