(* ===== verification/Run_Steps.thy ===== *)
theory Run_Steps
  imports Run_Units
begin

section \<open>What any interleaving of units of work keeps\<close>

text \<open>
  \<open>unit_step\<close> is one committed unit of work of any process: one that changes a run's row, appends an
  event of another kind, or touches other tables only. A whole operation of the driver, the
  controller or the turn executor is a sequence of them (\<open>performs\<close>), and so is any interleaving of
  such operations, so what every unit keeps holds of all of them.
\<close>

definition other_tables :: "(run_row \<Rightarrow> 'a unit_op) \<Rightarrow> bool" where
  "other_tables f \<longleftrightarrow> (\<forall>run db a db'. f run db = Inr (a, db') \<longrightarrow>
     bk_runs db' = bk_runs db \<and> bk_events db' = bk_events db)"

inductive unit_step :: "backend \<Rightarrow> backend \<Rightarrow> bool" where
  moved: "move_unit run target cause expect operation forced db = Inr (r, db') \<Longrightarrow> unit_step db db'"
| stepped: "begin_step_unit run db = Inr (r, db') \<Longrightarrow> unit_step db db'"
| ended: "record_terminal_unit run out at target db = Inr (x, db') \<Longrightarrow> unit_step db db'"
| terminated: "request_termination run cause abort_code db = Inr (r, db') \<Longrightarrow> unit_step db db'"
| opened: "set_session run session config expires started db = Inr (r, db') \<Longrightarrow> unit_step db db'"
| relabelled: "set_mode run mode db = Inr (r, db') \<Longrightarrow> unit_step db db'"
| created: "create_unit n provision db = Inr (r, db') \<Longrightarrow> other_tables provision \<Longrightarrow> unit_step db db'"
| logged: "append_event run ty d db = Inr (e, db') \<Longrightarrow> ty \<noteq> ''run.state'' \<Longrightarrow> unit_step db db'"
| elsewhere: "bk_runs db' = bk_runs db \<Longrightarrow> bk_events db' = bk_events db \<Longrightarrow> unit_step db db'"

named_theorems performs_rules \<open>an operation performs units of work\<close>
named_theorems op_rules \<open>a unit performs unit steps\<close>

text \<open>
  For any notion of step: an operation, or the inside of a unit of work, performs a sequence of them.
\<close>

locale unit_system =
  fixes unit :: "backend \<Rightarrow> backend \<Rightarrow> bool"
begin

definition performs :: "'a ctl \<Rightarrow> bool" where
  "performs m \<longleftrightarrow> (\<forall>s. unit\<^sup>*\<^sup>* s (snd (m s)))"

definition op_performs :: "'a unit_op \<Rightarrow> bool" where
  "op_performs f \<longleftrightarrow> (\<forall>db a db'. f db = Inr (a, db') \<longrightarrow> unit\<^sup>*\<^sup>* db db')"

lemma performsI: "(\<And>s r s'. m s = (r, s') \<Longrightarrow> unit\<^sup>*\<^sup>* s s') \<Longrightarrow> performs m"
  by (simp add: performs_def) (metis prod.collapse)

lemma performsD: "performs m \<Longrightarrow> m s = (r, s') \<Longrightarrow> unit\<^sup>*\<^sup>* s s'"
  by (metis performs_def snd_conv)

lemma performs_invariant:
  assumes "performs m" "\<And>s s'. unit s s' \<Longrightarrow> I s \<Longrightarrow> I s'" "I s"
  shows "I (snd (m s))"
proof -
  have "unit\<^sup>*\<^sup>* s t \<Longrightarrow> I t" for t
    by (induction rule: rtranclp_induct) (use assms in auto)
  with assms(1) show ?thesis by (simp add: performs_def)
qed

lemma performs_return [performs_rules]: "performs (ctl_return a)"
  by (simp add: performs_def ctl_return_def)

lemma performs_raise [performs_rules]: "performs (ctl_raise e)"
  by (simp add: performs_def ctl_raise_def)

lemma performs_result [performs_rules]: "performs (ctl_result r)"
  by (simp add: performs_def ctl_result_def)

lemma performs_bind [performs_rules]:
  assumes "performs m" "\<And>a. performs (f a)"
  shows "performs (ctl_bind m f)"
proof (rule performsI)
  fix s r s'
  assume r: "ctl_bind m f s = (r, s')"
  obtain x t where m: "m s = (x, t)" by force
  have st: "unit\<^sup>*\<^sup>* s t" using assms(1) m by (rule performsD)
  show "unit\<^sup>*\<^sup>* s s'"
  proof (cases x)
    case (Inl e)
    with r m st show ?thesis by (simp add: ctl_bind_def)
  next
    case (Inr a)
    with r m have "f a t = (r, s')" by (simp add: ctl_bind_def)
    with st performsD [OF assms(2)] show ?thesis by (meson rtranclp_trans)
  qed
qed

lemma performs_read [performs_rules]: "(\<And>a. performs (f a)) \<Longrightarrow> performs (ctl_read g f)"
  by (simp add: performs_def ctl_read_def)

lemma performs_catch [performs_rules]:
  assumes "performs m" "\<And>e. performs (h e)"
  shows "performs (ctl_catch m h)"
proof (rule performsI)
  fix s r s'
  assume r: "ctl_catch m h s = (r, s')"
  obtain x t where m: "m s = (x, t)" by force
  have st: "unit\<^sup>*\<^sup>* s t" using assms(1) m by (rule performsD)
  show "unit\<^sup>*\<^sup>* s s'"
  proof (cases x)
    case (Inl e)
    with r m have "h e t = (r, s')" by (simp add: ctl_catch_def)
    with st performsD [OF assms(2)] show ?thesis by (meson rtranclp_trans)
  next
    case (Inr a)
    with r m st show ?thesis by (simp add: ctl_catch_def)
  qed
qed

lemma performs_suppress [performs_rules]: "performs m \<Longrightarrow> performs (suppress_invalid m)"
  unfolding suppress_invalid_def by (rule performs_catch) (simp_all add: performs_return performs_raise)

lemma performs_if [performs_rules]: "performs m \<Longrightarrow> performs n \<Longrightarrow> performs (if b then m else n)"
  by simp

lemma op_performsI: "(\<And>db a db'. f db = Inr (a, db') \<Longrightarrow> unit\<^sup>*\<^sup>* db db') \<Longrightarrow> op_performs f"
  by (simp add: op_performs_def)

lemma op_performs_return [op_rules]: "op_performs (op_return a)"
  by (simp add: op_performs_def op_return_def)

lemma op_performs_raise [op_rules]: "op_performs (\<lambda>_. Inl e)"
  by (simp add: op_performs_def)

lemma op_performs_bind [op_rules]: "op_performs f \<Longrightarrow> (\<And>a. op_performs (g a)) \<Longrightarrow> op_performs (op_bind f g)"
  unfolding op_performs_def op_bind_def result_bind_Inr by (fastforce intro: rtranclp_trans)

text \<open>A unit of work is performed when whatever it commits is a step, or several in a row.\<close>

lemma performs_op [performs_rules]: "op_performs f \<Longrightarrow> performs (unit_of_work f)"
  by (auto simp: performs_def op_performs_def unit_of_work_def split: sum.splits)

end

interpretation run_units: unit_system unit_step .

abbreviation performs :: "'a ctl \<Rightarrow> bool" where "performs \<equiv> run_units.performs"
abbreviation op_performs :: "'a unit_op \<Rightarrow> bool" where "op_performs \<equiv> run_units.op_performs"

lemmas performs_unit = run_units.performs_op [OF run_units.op_performsI]

lemma performs_move [performs_rules]: "performs (move run target cause expect operation forced)"
  unfolding move_def by (rule performs_unit) (auto intro: unit_step.moved)

lemma performs_begin_step [performs_rules]: "performs (begin_step run)"
  unfolding begin_step_def by (rule performs_unit) (auto intro: unit_step.stepped)

lemma performs_set_cause [performs_rules]: "performs (set_cause run cause)"
  unfolding set_cause_def by (intro performs_rules) (simp split: option.split, intro conjI allI impI performs_rules)

lemma performs_recovery [performs_rules]: "performs (recovery run cause)"
  unfolding recovery_def
  by (intro performs_rules) (simp split: option.split, intro conjI allI impI performs_rules)

lemma performs_relay [performs_rules]: "performs (run_relay m)"
proof (rule run_units.performsI)
  fix s r s'
  assume "run_relay m s = (r, s')"
  then have "bk_runs s' = bk_runs s \<and> bk_events s' = bk_events s"
    by (auto simp: run_relay_def relay_store_def split: prod.splits sum.splits)
  then show "unit_step\<^sup>*\<^sup>* s s'" by (intro r_into_rtranclp unit_step.elsewhere) auto
qed

subsection \<open>The run's row and its event stream\<close>

definition state_events :: "uuid \<Rightarrow> backend \<Rightarrow> run_event list" where
  "state_events i db = filter (\<lambda>e. ev_type e = ''run.state'') (events_of i db)"

text \<open>The state a \<open>run.state\<close> document shows.\<close>

definition doc_state :: "json \<Rightarrow> run_state option" where
  "doc_state d = (case d of
     JObj ((k, JStr s) # _) \<Rightarrow> if k = ''state'' then find (\<lambda>st. run_state_value st = s) RunState else None
   | _ \<Rightarrow> None)"

definition shown_states :: "uuid \<Rightarrow> backend \<Rightarrow> run_state option list" where
  "shown_states i db = map (doc_state \<circ> ev_data) (state_events i db)"

definition may_follow :: "run_state option \<Rightarrow> run_state option \<Rightarrow> bool" where
  "may_follow a b \<longleftrightarrow> (case (a, b) of (Some s, Some t) \<Rightarrow> s = t \<or> allowed s t | _ \<Rightarrow> False)"

definition stream_ok :: "backend \<Rightarrow> run_row \<Rightarrow> bool" where
  "stream_ok db r \<longleftrightarrow> state_events (rn_id r) db \<noteq> [] \<and>
     run_state_doc r = Inr (ev_data (last (state_events (rn_id r) db))) \<and>
     successively may_follow (shown_states (rn_id r) db)"

definition run_ok :: "backend \<Rightarrow> bool" where
  "run_ok db \<longleftrightarrow> map rn_id (bk_runs db) = [0..<length (bk_runs db)] \<and>
     list_all (\<lambda>r. OUTCOME_OK r \<and> TERMINATION_OK r \<and> stream_ok db r) (bk_runs db) \<and>
     (\<forall>i. cursors_ok (events_of i db)) \<and> list_all (\<lambda>e. ev_run e < length (bk_runs db)) (bk_events db)"

lemma find_state_value: "find (\<lambda>st. run_state_value st = run_state_value s) RunState = Some s"
  by (cases s) (simp_all add: RunState_def)

lemma doc_state_run_state_doc: "run_state_doc r = Inr d \<Longrightarrow> doc_state d = Some (rn_state r)"
  by (auto simp: run_state_doc_def result_bind_Inr doc_state_def find_state_value)

lemma outcome_doc_total:
  assumes "OUTCOME_OK r"
  shows "\<exists>d. run_state_doc r = Inr d"
proof -
  have "\<exists>n. outcome_reason_name r = Inr n"
  proof (cases "rn_outcome_reason r")
    case None
    then show ?thesis by (cases "rn_outcome_kind r") (simp_all add: outcome_reason_name_def)
  next
    case (Some c)
    show ?thesis
    proof (cases "rn_outcome_kind r")
      case O_CLOSED
      with assms Some have "1 \<le> c \<and> c \<le> 3" by (simp add: OUTCOME_OK_def)
      then obtain n where "close_reason_name c = Inr n" using close_name_range by blast
      then show ?thesis by (simp add: outcome_reason_name_def O_CLOSED Some)
    next
      case O_ABORTED
      with assms Some have "1 \<le> c \<and> c \<le> 4" by (simp add: OUTCOME_OK_def)
      then obtain n where "abort_reason_name c = Inr n" using abort_name_range by blast
      then show ?thesis by (simp add: outcome_reason_name_def O_ABORTED Some)
    qed (simp_all add: outcome_reason_name_def Some)
  qed
  then show ?thesis by (auto simp: run_state_doc_def outcome_doc_def)
qed

lemma run_get_iff:
  assumes "run_ok db"
  shows "run_get i db = Some r \<longleftrightarrow> r \<in> set (bk_runs db) \<and> rn_id r = i"
proof -
  have d: "distinct (map rn_id (bk_runs db))" using assms by (simp add: run_ok_def)
  have "find (\<lambda>r. rn_id r = i) xs = Some r" if "distinct (map rn_id xs)" "r \<in> set xs" "rn_id r = i" for xs
    using that by (induction xs) auto
  with d have "r \<in> set (bk_runs db) \<Longrightarrow> rn_id r = i \<Longrightarrow> run_get i db = Some r"
    by (simp only: run_get_def)
  then show ?thesis using run_get_Some by blast
qed

lemma run_get_less:
  assumes "run_ok db" "run_get i db = Some r"
  shows "i < length (bk_runs db)"
proof -
  have "i \<in> set (map rn_id (bk_runs db))" using run_get_Some [OF assms(2)] by auto
  with assms(1) show ?thesis by (simp add: run_ok_def)
qed

lemma state_events_append:
  "bk_events db' = bk_events db @ [e] \<Longrightarrow> state_events i db' = state_events i db @
     (if ev_run e = i \<and> ev_type e = ''run.state'' then [e] else [])"
  by (simp add: state_events_def events_of_def)

lemma stream_ok_cong:
  "\<lbrakk>state_events (rn_id r) db' = state_events (rn_id r) db; stream_ok db r\<rbrakk> \<Longrightarrow> stream_ok db' r"
  by (simp add: stream_ok_def shown_states_def)

text \<open>The three ways a unit changes what is shown of a run.\<close>

lemma run_ok_logged:
  assumes ok: "run_ok db" and a: "append_event run ty d db = Inr (e, db')" and ty: "ty \<noteq> ''run.state''"
  shows "run_ok db'"
proof -
  have r: "bk_runs db' = bk_runs db" "bk_events db' = bk_events db @ [e]" "ev_type e = ty" "ev_run e = run"
    and g: "run_get run db \<noteq> None"
    using a by (auto simp: append_event_Inr)
  have "stream_ok db' x" if "stream_ok db x" for x
    using that by (rule stream_ok_cong [rotated]) (use r ty in \<open>simp add: state_events_append\<close>)
  moreover have "run < length (bk_runs db)"
    using g run_get_less [OF ok] by blast
  ultimately show ?thesis
    using ok append_event_cursors [OF _ a] r by (auto simp: run_ok_def list_all_iff)
qed

lemma run_update_rows:
  assumes "run_update i f db = Inr (r, db1)" "\<And>s. rn_id (f s) = rn_id s" "run_ok db"
  obtains s where "run_get i db = Some s" "r = f s" "rn_id r = i"
    "bk_runs db1 = map (\<lambda>x. if rn_id x = i then f x else x) (bk_runs db)"
    "bk_events db1 = bk_events db" "OUTCOME_OK r" "TERMINATION_OK r"
    "\<And>x. x \<in> set (bk_runs db1) \<Longrightarrow> x = r \<or> (x \<in> set (bk_runs db) \<and> rn_id x \<noteq> i)"
proof -
  obtain s where s: "run_get i db = Some s" and ref: "run_refusal (filter (\<lambda>s. rn_id s \<noteq> i) (bk_runs db)) (f s) = None"
    and r: "r = f s" and db1: "db1 = db\<lparr>bk_runs := map (\<lambda>s. if rn_id s = i then f s else s) (bk_runs db)\<rparr>"
    using assms(1) by (auto simp: run_update_def split: option.splits)
  have i: "rn_id s = i" using run_get_Some [OF s] by simp
  have "x = r \<or> (x \<in> set (bk_runs db) \<and> rn_id x \<noteq> i)" if "x \<in> set (bk_runs db1)" for x
  proof -
    from that obtain y where y: "y \<in> set (bk_runs db)" "x = (if rn_id y = i then f y else y)"
      by (auto simp: db1)
    show ?thesis
    proof (cases "rn_id y = i")
      case True
      with y run_get_iff [OF assms(3), of i y] s have "y = s" by simp
      with y True r show ?thesis by simp
    next
      case False
      with y show ?thesis by simp
    qed
  qed
  moreover have "OUTCOME_OK r" "TERMINATION_OK r" using ref r by (auto simp: run_refusal_def split: if_splits)
  ultimately show ?thesis using s r i assms(2) db1 by (intro that [of s]) simp_all
qed

lemma run_ids_update:
  "(\<And>s. rn_id (f s) = rn_id s) \<Longrightarrow> map rn_id (map (\<lambda>x. if rn_id x = i then f x else x) xs) = map rn_id xs"
  by (induction xs) simp_all

lemma run_ok_quiet:
  assumes ok: "run_ok db" and u: "run_update i f db = Inr (r, db1)" and f: "\<And>s. rn_id (f s) = rn_id s"
    and d: "\<And>s. run_state_doc (f s) = run_state_doc s"
  shows "run_ok db1"
proof -
  from u f ok obtain s where s: "run_get i db = Some s" "r = f s" "rn_id r = i"
    and rows: "bk_runs db1 = map (\<lambda>x. if rn_id x = i then f x else x) (bk_runs db)"
    and ev: "bk_events db1 = bk_events db" and c: "OUTCOME_OK r" "TERMINATION_OK r"
    and set: "\<And>x. x \<in> set (bk_runs db1) \<Longrightarrow> x = r \<or> (x \<in> set (bk_runs db) \<and> rn_id x \<noteq> i)"
    by (rule run_update_rows) blast
  have se: "state_events j db1 = state_events j db" "events_of j db1 = events_of j db" for j
    using ev by (simp_all add: state_events_def events_of_def)
  have "stream_ok db s" using ok run_get_Some [OF s(1)] by (simp add: run_ok_def list_all_iff)
  then have "stream_ok db1 r" using s d f run_get_Some [OF s(1)] by (simp add: stream_ok_def shown_states_def se)
  moreover have "stream_ok db1 x" if "x \<in> set (bk_runs db)" for x
    using ok that se by (auto intro: stream_ok_cong simp: run_ok_def list_all_iff)
  ultimately have "list_all (\<lambda>r. OUTCOME_OK r \<and> TERMINATION_OK r \<and> stream_ok db1 r) (bk_runs db1)"
    using set ok c by (auto simp: list_all_iff run_ok_def)
  moreover have "map rn_id (bk_runs db1) = [0..<length (bk_runs db1)]"
    using ok rows run_ids_update [of f i "bk_runs db"] f by (simp add: run_ok_def)
  moreover have "list_all (\<lambda>e. ev_run e < length (bk_runs db1)) (bk_events db1)"
    using ok ev rows by (simp add: run_ok_def)
  ultimately show ?thesis using ok se by (simp add: run_ok_def)
qed

lemma run_ok_changed:
  assumes ok: "run_ok db" and u: "run_update i f db = Inr (r, db1)" and f: "\<And>s. rn_id (f s) = rn_id s"
    and a: "append_run_state r db1 = Inr (x, db2)"
    and step: "\<And>s. run_get i db = Some s \<Longrightarrow> rn_state s = rn_state r \<or> allowed (rn_state s) (rn_state r)"
  shows "run_ok db2"
proof -
  from u f ok obtain s where s: "run_get i db = Some s" "r = f s" "rn_id r = i"
    and rows: "bk_runs db1 = map (\<lambda>x. if rn_id x = i then f x else x) (bk_runs db)"
    and ev: "bk_events db1 = bk_events db" and c: "OUTCOME_OK r" "TERMINATION_OK r"
    and set: "\<And>x. x \<in> set (bk_runs db1) \<Longrightarrow> x = r \<or> (x \<in> set (bk_runs db) \<and> rn_id x \<noteq> i)"
    by (rule run_update_rows) blast
  obtain d e where d: "run_state_doc r = Inr d" and e: "append_event i ''run.state'' d db1 = Inr (e, db2)"
    using a s(3) by (auto simp: append_run_state_def op_bind_def in_unit_def op_return_def result_simps split: sum.splits)
  have db2: "bk_runs db2 = bk_runs db1" "bk_events db2 = bk_events db @ [e]" "ev_run e = i" "ev_type e = ''run.state''" "ev_data e = d"
    using e ev by (auto simp: append_event_Inr)
  have se: "state_events j db2 = state_events j db @ (if j = i then [e] else [])" for j
    using db2 by (auto simp: state_events_append [OF db2(2)])
  have old: "stream_ok db s" using ok run_get_Some [OF s(1)] by (simp add: run_ok_def list_all_iff)
  have sid: "rn_id s = i" using run_get_Some [OF s(1)] by simp
  have "doc_state (ev_data (last (state_events i db))) = Some (rn_state s)"
    using old sid doc_state_run_state_doc by (simp add: stream_ok_def)
  then have link: "may_follow (last (shown_states i db)) (doc_state d)"
    using old sid step [OF s(1)] doc_state_run_state_doc [OF d]
    by (simp add: stream_ok_def shown_states_def last_map may_follow_def)
  have "stream_ok db2 r"
    using old sid s(3) d db2 link
    by (simp add: stream_ok_def shown_states_def se successively_append_iff)
  moreover have "stream_ok db2 y" if "y \<in> set (bk_runs db)" "rn_id y \<noteq> i" for y
    using ok that se by (auto intro: stream_ok_cong simp: run_ok_def list_all_iff)
  ultimately have "list_all (\<lambda>r. OUTCOME_OK r \<and> TERMINATION_OK r \<and> stream_ok db2 r) (bk_runs db2)"
    using set ok c db2 by (auto simp: list_all_iff run_ok_def)
  moreover have "map rn_id (bk_runs db2) = [0..<length (bk_runs db2)]"
    using ok rows run_ids_update [of f i "bk_runs db"] f db2 by (simp add: run_ok_def)
  moreover have "list_all (\<lambda>e. ev_run e < length (bk_runs db2)) (bk_events db2)"
    using ok rows db2 run_get_less [OF ok s(1)] by (simp add: run_ok_def)
  moreover have "\<forall>j. cursors_ok (events_of j db2)"
  proof (rule append_event_cursors [OF _ e])
    show "\<forall>r. cursors_ok (events_of r db1)" using ok ev by (simp add: run_ok_def events_of_def)
  qed
  ultimately show ?thesis by (simp add: run_ok_def)
qed

lemma op_bind_Inr: "op_bind f g db = Inr (b, db') \<longleftrightarrow> (\<exists>a db1. f db = Inr (a, db1) \<and> g a db1 = Inr (b, db'))"
  by (auto simp: op_bind_def result_simps)

lemma in_unit_Inr: "in_unit f db = Inr x \<longleftrightarrow> f db = Inr x"
  by (simp add: in_unit_def split: sum.split)

lemma op_return_Inr: "op_return a db = Inr (b, db') \<longleftrightarrow> a = b \<and> db = db'"
  by (auto simp: op_return_def)

lemmas op_simps = op_bind_Inr in_unit_Inr op_return_Inr

lemma append_docs_Nil: "append_docs run ty [] db = Inr (x, db') \<longleftrightarrow> db' = db"
  by (auto simp: append_docs_def op_simps)

lemma append_docs_Cons:
  "append_docs run ty (d # ds) db = Inr (x, db') \<longleftrightarrow>
     (\<exists>e db1. append_event run ty d db = Inr (e, db1) \<and> append_docs run ty ds db1 = Inr (x, db'))"
  by (auto simp: append_docs_def op_simps)

lemma append_docs_ok:
  "\<lbrakk>append_docs run ty ds db = Inr (x, db'); ty \<noteq> ''run.state''; run_ok db\<rbrakk> \<Longrightarrow> run_ok db'"
proof (induction ds arbitrary: db)
  case Nil
  then show ?case by (simp add: append_docs_Nil)
next
  case (Cons d ds)
  from Cons.prems(1) obtain e db1 where "append_event run ty d db = Inr (e, db1)"
    and "append_docs run ty ds db1 = Inr (x, db')"
    by (auto simp: append_docs_Cons)
  with Cons run_ok_logged show ?case by blast
qed

lemma append_run_state_same: "append_run_state r db = Inr (x, db') \<Longrightarrow> x = r"
  by (auto simp: append_run_state_def op_simps split: sum.splits)

lemma move_unit_cases:
  assumes "move_unit run target cause expect operation forced db = Inr (r, db')"
  obtains "db' = db" "run_get run db = Some r" "\<not> forced"
    | s db1 where "run_get run db = Some s" "rn_state s = target \<or> allowed (rn_state s) target"
        "run_update run (\<lambda>r. r\<lparr>rn_state := target, rn_cause := cause\<rparr>) db = Inr (r, db1)"
        "append_run_state r db1 = Inr (r, db')"
  using assms append_run_state_same
  by (fastforce simp: move_unit_def update_state_def op_simps split: option.splits if_splits)

lemma begin_step_unit_cases:
  assumes "begin_step_unit run db = Inr (r, db')"
  obtains s db1 where "run_get run db = Some s" "rn_state s = PAUSED" "rn_cause s \<noteq> Some ''step''"
    "run_update run (\<lambda>r. r\<lparr>rn_state := PAUSED, rn_cause := Some ''step''\<rparr>) db = Inr (r, db1)"
    "append_run_state r db1 = Inr (r, db')"
  using assms append_run_state_same
  by (fastforce simp: begin_step_unit_def update_state_def op_simps split: option.splits if_splits)

lemma record_terminal_unit_cases:
  assumes "record_terminal_unit run out at target db = Inr (x, db')"
  obtains "x = None" "db' = db"
    | s r db1 db2 where "x = Some r" "run_get run db = Some s" "rn_outcome_kind s = O_PENDING" "allowed (rn_state s) target"
        "record_outcome run out at target (or_else (rn_termination_cause s) (rn_cause s)) db = Inr (r, db1)"
        "append_run_state r db1 = Inr (r, db2)"
        "append_docs run ''balances'' (balances_docs (filter (\<lambda>s. bs_stage s \<in> TERMINAL_STAGES)
            (snapshots_for_run run (bk_snapshots db2)))) db2 = Inr ((), db')"
proof (cases "run_get run db")
  case None
  with assms that(1) show ?thesis by (simp add: record_terminal_unit_def)
next
  case (Some s)
  show ?thesis
  proof (cases "rn_outcome_kind s = O_PENDING")
    case False
    with assms Some that(1) show ?thesis by (simp add: record_terminal_unit_def)
  next
    case True
    have al: "allowed (rn_state s) target"
      using assms Some True by (simp add: record_terminal_unit_def split: if_splits)
    with assms Some True obtain r db1 q db2 where
      "record_outcome run out at target (or_else (rn_termination_cause s) (rn_cause s)) db = Inr (r, db1)"
      "append_run_state r db1 = Inr (q, db2)" "x = Some q"
      "append_docs run ''balances'' (balances_docs (filter (\<lambda>s. bs_stage s \<in> TERMINAL_STAGES)
            (snapshots_for_run run (bk_snapshots db2)))) db2 = Inr ((), db')"
      by (auto simp: record_terminal_unit_def op_simps)
    with that(2) Some True al append_run_state_same show ?thesis by metis
  qed
qed

lemma request_termination_cases:
  assumes "request_termination run cause abort_code db = Inr (r, db')"
  obtains s where "run_get run db = Some s" "db' = db" "r = s" "rn_termination_cause s \<noteq> None"
    | s where "run_get run db = Some s" "rn_termination_cause s = None"
       "run_update run (\<lambda>r. r\<lparr>rn_termination_cause := Some cause, rn_termination_code := abort_code\<rparr>) db = Inr (r, db')"
  using assms by (auto simp: request_termination_def split: option.splits if_splits)

definition with_versions :: "versions \<Rightarrow> run_row \<Rightarrow> run_row" where
  "with_versions v r = r\<lparr>rn_policy_versions := fst v, rn_prompt_versions := snd v\<rparr>"

lemma with_versions_simps [simp]:
  "rn_id (with_versions v r) = rn_id r" "rn_outcome_kind (with_versions v r) = rn_outcome_kind r"
  "rn_outcome_reason (with_versions v r) = rn_outcome_reason r" "rn_outcome_actor (with_versions v r) = rn_outcome_actor r"
  "rn_termination_code (with_versions v r) = rn_termination_code r"
  by (simp_all add: with_versions_def)

lemma create_unit_cases:
  assumes "create_unit n provision db = Inr (r, db')"
  obtains s db1 v db2 db3 where "run_add n db = Inr (s, db1)" "provision s db1 = Inr (v, db2)"
    "run_update (rn_id s) (with_versions v) db2 = Inr (r, db3)" "append_run_state r db3 = Inr (r, db')"
proof -
  obtain s db1 v db2 q db3 where "run_add n db = Inr (s, db1)" "provision s db1 = Inr (v, db2)"
    "set_versions (rn_id s) (fst v) (snd v) db2 = Inr (q, db3)" "append_run_state q db3 = Inr (r, db')"
    using assms by (force simp: create_unit_def op_simps split: prod.splits)
  moreover have "set_versions (rn_id s) (fst v) (snd v) = run_update (rn_id s) (with_versions v)" for s v
    by (simp add: set_versions_def with_versions_def [abs_def])
  ultimately show ?thesis using append_run_state_same that by metis
qed

lemma created_rows:
  assumes "create_unit n provision db = Inr (r, db')" "other_tables provision"
    and ids: "length (bk_runs db) \<notin> rn_id ` set (bk_runs db)"
  obtains db3 where "rn_id r = length (bk_runs db)" "bk_runs db3 = bk_runs db @ [r]" "bk_events db3 = bk_events db"
    "rn_outcome_kind r = O_PENDING" "rn_outcome_reason r = None" "rn_outcome_actor r = None"
    "rn_termination_code r = None" "append_run_state r db3 = Inr (r, db')"
  using assms(1)
proof (cases rule: create_unit_cases)
  case (1 s db1 v db2 db3)
  have s: "rn_id s = length (bk_runs db)" "bk_runs db1 = bk_runs db @ [s]" "bk_events db1 = bk_events db"
    "rn_outcome_kind s = O_PENDING" "rn_outcome_reason s = None" "rn_outcome_actor s = None" "rn_termination_code s = None"
    using 1(1) by (auto simp: run_add_def Let_def)
  have db2: "bk_runs db2 = bk_runs db1" "bk_events db2 = bk_events db1"
    using assms(2) 1(2) unfolding other_tables_def by blast+
  have keep: "map (\<lambda>x. if rn_id x = rn_id s then with_versions v x else x) (bk_runs db) = bk_runs db"
    using ids s(1) by (intro map_idI) (force simp: image_iff)
  have g: "run_get (rn_id s) db2 = Some s"
  proof -
    have "find (\<lambda>r. rn_id r = rn_id s) (xs @ [s]) = Some s" if "rn_id s \<notin> rn_id ` set xs" for xs
      using that by (induction xs) auto
    with ids s(1,2) db2(1) show ?thesis by (simp add: run_get_def)
  qed
  have db3: "r = with_versions v s" "bk_runs db3 = bk_runs db @ [r]" "bk_events db3 = bk_events db"
    using 1(3) g keep db2 s(2,3) by (auto simp: run_update_def split: option.splits)
  show ?thesis by (rule that [of db3]) (use s db3 1(4) in simp_all)
qed

lemma create_unit_ok:
  assumes ok: "run_ok db" and c: "create_unit n provision db = Inr (r, db')" "other_tables provision"
  shows "run_ok db'"
proof -
  let ?n = "length (bk_runs db)"
  have "rn_id ` set (bk_runs db) = set (map rn_id (bk_runs db))" by simp
  also have "\<dots> = {0..<?n}" using ok by (simp only: run_ok_def set_upt) 
  finally have "?n \<notin> rn_id ` set (bk_runs db)" by simp
  with c obtain db1 where r: "rn_id r = ?n" "bk_runs db1 = bk_runs db @ [r]" "bk_events db1 = bk_events db"
    "rn_outcome_kind r = O_PENDING" "rn_outcome_reason r = None" "rn_outcome_actor r = None" "rn_termination_code r = None"
    and a: "append_run_state r db1 = Inr (r, db')"
    by (rule created_rows)
  obtain d e where d: "run_state_doc r = Inr d" and e: "append_event ?n ''run.state'' d db1 = Inr (e, db')"
    using a r(1) by (auto simp: append_run_state_def op_simps split: sum.splits)
  have db': "bk_runs db' = bk_runs db @ [r]" "bk_events db' = bk_events db @ [e]" "ev_run e = ?n"
    "ev_type e = ''run.state''" "ev_data e = d"
    using e r by (auto simp: append_event_Inr)
  have none: "events_of ?n db = []"
    using ok by (fastforce simp: run_ok_def events_of_def filter_empty_conv list_all_iff)
  have se: "state_events j db' = state_events j db @ (if j = ?n then [e] else [])" for j
    using db' by (auto simp: state_events_append [OF db'(2)])
  have "state_events ?n db = []" using none by (simp add: state_events_def)
  then have "stream_ok db' r" using d db' r by (simp add: stream_ok_def shown_states_def se)
  moreover have "stream_ok db' y" if "y \<in> set (bk_runs db)" for y
  proof -
    have "rn_id y \<in> set (map rn_id (bk_runs db))" using that by simp
    moreover have "map rn_id (bk_runs db) = [0..<?n]" using ok by (simp add: run_ok_def)
    ultimately have "rn_id y \<noteq> ?n" by (metis atLeastLessThan_iff less_irrefl set_upt)
    with ok that se show ?thesis by (auto intro: stream_ok_cong simp: run_ok_def list_all_iff)
  qed
  moreover have "OUTCOME_OK r" "TERMINATION_OK r" using r by (simp_all add: OUTCOME_OK_def TERMINATION_OK_def)
  moreover have "\<forall>j. cursors_ok (events_of j db')"
  proof (rule append_event_cursors [OF _ e])
    show "\<forall>r. cursors_ok (events_of r db1)" using ok r by (simp add: run_ok_def events_of_def)
  qed
  ultimately show ?thesis
    using ok db' r by (auto simp: run_ok_def list_all_iff less_Suc_eq)
qed

text \<open>Every unit keeps the rows, their events and the two in step.\<close>

lemma unit_step_ok:
  assumes "unit_step db db'" "run_ok db"
  shows "run_ok db'"
  using assms(1)
proof cases
  case (moved run target cause expect operation forced r)
  then show ?thesis
  proof (cases rule: move_unit_cases)
    case 2
    then show ?thesis by (intro run_ok_changed [OF assms(2) 2(3) _ 2(4)]) (auto simp: run_update_def split: option.splits)
  qed (use assms in simp)
next
  case (stepped run r)
  then show ?thesis
  proof (cases rule: begin_step_unit_cases)
    case 1
    then show ?thesis by (intro run_ok_changed [OF assms(2) 1(4) _ 1(5)]) (auto simp: run_update_def split: option.splits)
  qed
next
  case (ended run out at target x)
  then show ?thesis
  proof (cases rule: record_terminal_unit_cases)
    case (2 s r db1 db2)
    have "run_ok db2"
      by (rule run_ok_changed [OF assms(2) 2(5) [unfolded record_outcome_def] _ 2(6)])
         (use 2 in \<open>auto simp: record_outcome_def run_update_def split: option.splits\<close>)
    then show ?thesis by (intro append_docs_ok [OF 2(7)]) simp_all
  qed (use assms in simp)
next
  case (terminated run cause abort_code r)
  then show ?thesis
  proof (cases rule: request_termination_cases)
    case 2
    then show ?thesis
      by (intro run_ok_quiet [OF assms(2) 2(3)]) (simp_all add: run_state_doc_def outcome_doc_def outcome_reason_name_def)
  qed (use assms in simp)
next
  case (opened run session config expires started r)
  then show ?thesis
    by (intro run_ok_quiet [OF assms(2) opened [unfolded set_session_def]])
       (simp_all add: run_state_doc_def outcome_doc_def outcome_reason_name_def)
next
  case (relabelled run mode r)
  then show ?thesis
    by (intro run_ok_quiet [OF assms(2) relabelled [unfolded set_mode_def]])
       (simp_all add: run_state_doc_def outcome_doc_def outcome_reason_name_def)
next
  case (created n provision r)
  then show ?thesis by (rule create_unit_ok [OF assms(2)])
next
  case logged
  then show ?thesis by (rule run_ok_logged [OF assms(2)])
next
  case elsewhere
  then show ?thesis
    using assms(2) by (simp add: run_ok_def stream_ok_def shown_states_def state_events_def events_of_def cong: list.pred_cong)
qed

lemma unit_steps_ok: "unit_step\<^sup>*\<^sup>* db db' \<Longrightarrow> run_ok db \<Longrightarrow> run_ok db'"
  by (induction rule: rtranclp_induct) (auto intro: unit_step_ok)

subsection \<open>Where a row can go\<close>

definition outcome_of_row :: "run_row \<Rightarrow> outcome_kind \<times> int option \<times> party_or_operator option \<times> string option" where
  "outcome_of_row r = (rn_outcome_kind r, rn_outcome_reason r, rn_outcome_actor r, rn_outcome_tx r)"

definition run_advance :: "run_row \<Rightarrow> run_row \<Rightarrow> bool" where
  "run_advance r r' \<longleftrightarrow> rn_deployment r' = rn_deployment r \<and> allowed\<^sup>*\<^sup>* (rn_state r) (rn_state r') \<and>
     (rn_outcome_kind r \<noteq> O_PENDING \<longrightarrow> outcome_of_row r' = outcome_of_row r) \<and>
     (rn_termination_cause r \<noteq> None \<longrightarrow>
        rn_termination_cause r' = rn_termination_cause r \<and> rn_termination_code r' = rn_termination_code r)"

lemma run_advance_refl [simp]: "run_advance r r"
  by (simp add: run_advance_def)

lemma run_advance_trans: "run_advance r s \<Longrightarrow> run_advance s t \<Longrightarrow> run_advance r t"
proof -
  assume a: "run_advance r s" and b: "run_advance s t"
  have "allowed\<^sup>*\<^sup>* (rn_state r) (rn_state t)"
    using a b unfolding run_advance_def by (blast intro: rtranclp_trans)
  with a b show ?thesis by (simp add: run_advance_def outcome_of_row_def)
qed

lemma append_run_state_runs: "append_run_state r db = Inr (x, db') \<Longrightarrow> bk_runs db' = bk_runs db"
  by (auto simp: append_run_state_def op_simps append_event_Inr split: sum.splits)

lemma append_docs_runs: "append_docs run ty ds db = Inr (x, db') \<Longrightarrow> bk_runs db' = bk_runs db"
  by (induction ds arbitrary: db) (auto simp: append_docs_Nil append_docs_Cons append_event_Inr)

lemma update_advance:
  assumes u: "run_update i f db = Inr (r, db1)" and f: "\<And>s. rn_id (f s) = rn_id s" and g: "run_get j db = Some q"
    and rows: "bk_runs db' = bk_runs db1" and adv: "\<And>s. run_get i db = Some s \<Longrightarrow> run_advance s (f s)"
  shows "\<exists>q'. run_get j db' = Some q' \<and> run_advance q q'"
proof -
  have g1: "run_get j db' = (if j = i then Some r else run_get j db)"
    using run_get_cong [OF rows] run_get_update(1) [OF f u] by simp
  obtain s where "run_get i db = Some s" "r = f s" using run_get_update(2) [OF f u] by blast
  with adv g g1 show ?thesis by auto
qed

lemma unit_step_advance:
  assumes st: "unit_step db db'" and g: "run_get j db = Some q"
  shows "\<exists>q'. run_get j db' = Some q' \<and> run_advance q q'"
  using st
proof cases
  case (moved run target cause expect operation forced r)
  then show ?thesis
  proof (cases rule: move_unit_cases)
    case 1
    with g show ?thesis by simp
  next
    case (2 s db1)
    show ?thesis
      by (rule update_advance [OF 2(3) _ g append_run_state_runs [OF 2(4)]])
         (use 2 in \<open>auto simp: run_advance_def outcome_of_row_def\<close>)
  qed
next
  case (stepped run r)
  then show ?thesis
  proof (cases rule: begin_step_unit_cases)
    case (1 s db1)
    show ?thesis
      by (rule update_advance [OF 1(4) _ g append_run_state_runs [OF 1(5)]])
         (use 1 in \<open>auto simp: run_advance_def outcome_of_row_def\<close>)
  qed
next
  case (ended run out at target x)
  then show ?thesis
  proof (cases rule: record_terminal_unit_cases)
    case 1
    with g show ?thesis by simp
  next
    case (2 s r db1 db2)
    have rows: "bk_runs db' = bk_runs db1"
      using append_run_state_runs [OF 2(6)] append_docs_runs [OF 2(7)] by simp
    show ?thesis
      by (rule update_advance [OF 2(5) [unfolded record_outcome_def] _ g rows])
         (use 2 in \<open>auto simp: run_advance_def outcome_of_row_def\<close>)
  qed
next
  case (terminated run cause abort_code r)
  then show ?thesis
  proof (cases rule: request_termination_cases)
    case 1
    with g show ?thesis by simp
  next
    case (2 s)
    show ?thesis
      by (rule update_advance [OF 2(3) _ g refl]) (use 2 in \<open>auto simp: run_advance_def outcome_of_row_def\<close>)
  qed
next
  case (opened run session config expires started r)
  show ?thesis
    by (rule update_advance [OF opened [unfolded set_session_def] _ g refl]) (auto simp: run_advance_def outcome_of_row_def)
next
  case (relabelled run mode r)
  show ?thesis
    by (rule update_advance [OF relabelled [unfolded set_mode_def] _ g refl]) (auto simp: run_advance_def outcome_of_row_def)
next
  case (created n provision r)
  then show ?thesis
  proof (cases rule: create_unit_cases)
    case (1 s db1 v db2 db3)
    have "find P xs = Some q \<Longrightarrow> find P (xs @ [s]) = Some q" for P :: "run_row \<Rightarrow> bool" and xs
      by (induction xs) auto
    then have g1: "run_get j db1 = Some q" using g 1(1) by (auto simp: run_get_def run_add_def Let_def)
    have "bk_runs db2 = bk_runs db1" using created(2) 1(2) unfolding other_tables_def by blast
    with g1 have g2: "run_get j db2 = Some q" using run_get_cong by metis
    show ?thesis
      by (rule update_advance [OF 1(3) _ g2 append_run_state_runs [OF 1(4)]])
         (simp_all add: run_advance_def outcome_of_row_def with_versions_def)
  qed
next
  case (logged run ty d e)
  then have "bk_runs db' = bk_runs db" by (auto simp: append_event_Inr)
  from run_get_cong [OF this, of j] g show ?thesis by simp
next
  case elsewhere
  from run_get_cong [OF elsewhere(1), of j] g show ?thesis by simp
qed

lemma unit_steps_advance:
  assumes "unit_step\<^sup>*\<^sup>* db db'" and "run_get j db = Some q"
  shows "\<exists>q'. run_get j db' = Some q' \<and> run_advance q q'"
  using assms
proof (induction rule: rtranclp_induct)
  case base
  then show ?case by auto
next
  case (step y z)
  then obtain q' where q': "run_get j y = Some q'" "run_advance q q'" by blast
  with unit_step_advance [OF step(2)] show ?case by (blast intro: run_advance_trans)
qed

text \<open>Events are only ever appended.\<close>

lemma unit_step_events:
  assumes "unit_step db db'"
  shows "\<exists>es. bk_events db' = bk_events db @ es"
proof -
  have docs: "append_docs run ty ds s = Inr (x, t) \<Longrightarrow> \<exists>es. bk_events t = bk_events s @ es" for run ty ds s x t
    by (induction ds arbitrary: s) (fastforce simp: append_docs_Nil append_docs_Cons append_event_Inr)+
  have st: "append_run_state r s = Inr (x, t) \<Longrightarrow> \<exists>es. bk_events t = bk_events s @ es" for r s x t
    by (auto simp: append_run_state_def op_simps append_event_Inr split: sum.splits)
  have up: "run_update i f s = Inr (r, t) \<Longrightarrow> bk_events t = bk_events s" for i f s r t
    using run_update_frame by blast
  from assms show ?thesis
  proof cases
    case (moved run target cause expect operation forced r)
    then show ?thesis
    proof (cases rule: move_unit_cases)
      case (2 s db1)
      show ?thesis using up [OF 2(3)] st [OF 2(4)] by simp
    qed simp
  next
    case (stepped run r)
    then show ?thesis
    proof (cases rule: begin_step_unit_cases)
      case (1 s db1)
      show ?thesis using up [OF 1(4)] st [OF 1(5)] by simp
    qed
  next
    case (ended run out at target x)
    then show ?thesis
    proof (cases rule: record_terminal_unit_cases)
      case (2 s r db1 db2)
      then obtain es fs where "bk_events db2 = bk_events db1 @ es" "bk_events db' = bk_events db2 @ fs"
        using st docs by blast
      with up [OF 2(5) [unfolded record_outcome_def]] show ?thesis by simp
    qed simp
  next
    case (terminated run cause abort_code r)
    then show ?thesis by (cases rule: request_termination_cases) (use up in auto)
  next
    case (opened run session config expires started r)
    with up show ?thesis by (auto simp: set_session_def)
  next
    case (relabelled run mode r)
    with up show ?thesis by (auto simp: set_mode_def)
  next
    case (created n provision r)
    then show ?thesis
    proof (cases rule: create_unit_cases)
      case (1 s db1 v db2 db3)
      have "bk_events db2 = bk_events db1" using created(2) 1(2) unfolding other_tables_def by blast
      with up [OF 1(3)] st [OF 1(4)] 1(1) show ?thesis by (auto simp: run_add_def Let_def)
    qed
  next
    case logged
    then show ?thesis by (auto simp: append_event_Inr)
  qed simp
qed

end
