(* ===== verification/Turn_Check.thy ===== *)
theory Turn_Check
  imports Backend_Db Eip712 "HOL-Library.List_Lexorder" "HOL-Library.Char_ord"
begin

section \<open>Is this the action the turn asked for?\<close>

text \<open>
  \<open>TurnExecutor._check\<close> of services/api/src/api/turns/executor.py with \<open>_digest\<close> and
  \<open>_terms_hold\<close>: everything the contract would check of a signed action that the backend can check
  first. Any exception the code catches is \<open>Unreadable\<close> (its class is only logged). A JSON float is
  equal to no integer and reads as none.
\<close>

record signed_payload =
  sp_kind :: db_action_kind
  sp_message :: args
  sp_digest :: string
  sp_signature :: string
  sp_signer :: string

definition as_row :: "protocol_error + 'a \<Rightarrow> row_fault + 'a" where
  "as_row r = (case r of Inl _ \<Rightarrow> Inl ValueFault | Inr a \<Rightarrow> Inr a)"

definition jfield :: "json \<Rightarrow> string \<Rightarrow> row_fault + json" where
  "jfield d k = (case d of JObj kvs \<Rightarrow> arg_of kvs k | _ \<Rightarrow> Inl ValueFault)"

definition jget :: "json \<Rightarrow> string \<Rightarrow> row_fault + json" where
  "jget d k = (case d of
     JObj kvs \<Rightarrow> Inr (case map_of kvs k of None \<Rightarrow> JNull | Some v \<Rightarrow> v) | _ \<Rightarrow> Inl ValueFault)"

fun equals_int :: "json \<Rightarrow> int \<Rightarrow> bool" where
  "equals_int (JInt i) n = (i = n)"
| "equals_int (JBool b) n = ((if b then 1 else 0) = n)"
| "equals_int _ n = False"

definition removeprefix_0x :: "string \<Rightarrow> string" where
  "removeprefix_0x s = (if take 2 s = ''0x'' then drop 2 s else s)"

definition hex_bytes :: "string \<Rightarrow> row_fault + bytes" where
  "hex_bytes s = (case fromhex s of None \<Rightarrow> Inl ValueFault | Some b \<Rightarrow> Inr b)"

fun MESSAGE_FIELDS :: "db_action_kind \<Rightarrow> string list" where
  "MESSAGE_FIELDS AK_OFFER =
     [''sessionId'', ''configHash'', ''sequence'', ''proposer'', ''quoteAmount'', ''validUntil'']"
| "MESSAGE_FIELDS AK_ACCEPT = [''sessionId'', ''configHash'', ''sequence'', ''actor'', ''offerHash'']"
| "MESSAGE_FIELDS AK_CLOSE = [''sessionId'', ''configHash'', ''sequence'', ''actor'', ''reason'']"

fun SIGNER_FIELD :: "db_action_kind \<Rightarrow> string" where
  "SIGNER_FIELD AK_OFFER = ''proposer''" | "SIGNER_FIELD AK_ACCEPT = ''actor''"
| "SIGNER_FIELD AK_CLOSE = ''actor''"

definition observed_times :: "json \<Rightarrow> row_fault + int \<times> int" where
  "observed_times observation =
     result_bind (result_bind (jfield observation ''chain_time'') int_of_arg) (\<lambda>chain_time.
     result_bind (jfield observation ''session'') (\<lambda>session.
     result_bind (result_bind (jfield session ''expires_at'') int_of_arg) (\<lambda>expires_at.
       Inr (chain_time, expires_at))))"

definition terms_hold :: "db_action_kind \<Rightarrow> args \<Rightarrow> json \<Rightarrow> row_fault + bool" where
  "terms_hold kind m observation =
     result_bind (observed_times observation) (\<lambda>(chain_time, expires_at).
       case kind of
         AK_OFFER \<Rightarrow> result_bind (int_arg m ''validUntil'') (\<lambda>valid_until.
           if chain_time < valid_until \<and> valid_until \<le> expires_at
           then result_bind (int_arg m ''quoteAmount'') (\<lambda>q. Inr (q > 0)) else Inr False)
       | AK_ACCEPT \<Rightarrow> result_bind (jget observation ''active_offer'') (\<lambda>active.
           if active = JNull then Inr False
           else result_bind (text_arg m ''offerHash'') (\<lambda>h.
                result_bind (jfield active ''offer_hash'') (\<lambda>a. Inr (h = str_of a))))
       | AK_CLOSE \<Rightarrow> result_bind (int_arg m ''reason'') (\<lambda>c. Inr (c \<in> {1, 2, 3})))"

definition hex_arg :: "args \<Rightarrow> string \<Rightarrow> row_fault + bytes" where
  "hex_arg m k = result_bind (text_arg m k) (\<lambda>s. hex_bytes (drop 2 s))"

definition message_of :: "db_action_kind \<Rightarrow> args \<Rightarrow> row_fault + message" where
  "message_of kind m =
     result_bind (hex_arg m ''sessionId'') (\<lambda>sid.
     result_bind (hex_arg m ''configHash'') (\<lambda>ch.
     result_bind (int_arg m ''sequence'') (\<lambda>n.
       case kind of
         AK_OFFER \<Rightarrow>
           result_bind (text_arg m ''proposer'') (\<lambda>p.
           result_bind (int_arg m ''quoteAmount'') (\<lambda>q.
           result_bind (int_arg m ''validUntil'') (\<lambda>v.
             Inr (MOffer \<lparr>of_session_id = sid, of_config_hash = ch, of_sequence = n, of_proposer = p,
               of_quote_amount = q, of_valid_until = v\<rparr>))))
       | AK_ACCEPT \<Rightarrow>
           result_bind (hex_arg m ''offerHash'') (\<lambda>h.
           result_bind (text_arg m ''actor'') (\<lambda>p.
             Inr (MAccept \<lparr>ac_session_id = sid, ac_config_hash = ch, ac_sequence = n, ac_actor = p,
               ac_offer_hash = h\<rparr>)))
       | AK_CLOSE \<Rightarrow>
           result_bind (text_arg m ''actor'') (\<lambda>p.
           result_bind (int_arg m ''reason'') (\<lambda>c.
             Inr (MClose \<lparr>cl_session_id = sid, cl_config_hash = ch, cl_sequence = n, cl_actor = p,
               cl_reason = c\<rparr>))))))"

definition message_digest :: "('a) eth_lib_scheme \<Rightarrow> domain \<Rightarrow> db_action_kind \<Rightarrow> args \<Rightarrow> row_fault + bytes" where
  "message_digest L d kind m = result_bind (message_of kind m) (\<lambda>msg. as_row (digest L d msg))"

definition signature_holds ::
  "('a) eth_lib_scheme \<Rightarrow> bytes \<Rightarrow> string \<Rightarrow> address \<Rightarrow> row_fault + bool" where
  "signature_holds L dig signature a =
     result_bind (hex_bytes (removeprefix_0x signature)) (\<lambda>raw.
       if \<not> signature_is_canonical raw then Inr False
       else result_bind (as_row (recover_signer L dig raw)) (\<lambda>s.
            result_bind (as_row (Address L (JStr s))) (\<lambda>s. Inr (s = a))))"

datatype check_problem = NoWalletOrSession | Unreadable | Mismatched "string list"

definition same_session :: "args \<Rightarrow> args \<Rightarrow> row_fault + bool" where
  "same_session m opened =
     result_bind (arg_of m ''sessionId'') (\<lambda>a.
     result_bind (arg_of opened ''sessionId'') (\<lambda>b.
       if a \<noteq> b then Inr False
       else result_bind (arg_of m ''configHash'') (\<lambda>c.
            result_bind (arg_of opened ''configHash'') (\<lambda>d. Inr (c = d)))))"

definition action_checks ::
  "('a) eth_lib_scheme \<Rightarrow> domain \<Rightarrow> signed_payload \<Rightarrow> int \<Rightarrow> json \<Rightarrow> address \<Rightarrow> args
    \<Rightarrow> row_fault + (string \<times> bool) list" where
  "action_checks L d p expected_sequence observation a opened =
     (let m = sp_message p; kind = sp_kind p in
      result_bind (as_row (Address L (JStr (sp_signer p)))) (\<lambda>signer.
      result_bind (result_bind (text_arg m (SIGNER_FIELD kind)) (\<lambda>s. as_row (Address L (JStr s)))) (\<lambda>message_signer.
      result_bind (arg_of m ''sequence'') (\<lambda>sequence.
      result_bind (same_session m opened) (\<lambda>session.
      result_bind (terms_hold kind m observation) (\<lambda>terms.
      result_bind (message_digest L d kind m) (\<lambda>dig.
      result_bind (as_row (Digest_of_bytes dig)) (\<lambda>computed.
      result_bind (as_row (Digest (JStr (sp_digest p)))) (\<lambda>claimed.
      result_bind (signature_holds L dig (sp_signature p) a) (\<lambda>signature.
        Inr [(''fields'', set (map fst m) = set (MESSAGE_FIELDS kind)),
             (''signer'', signer = a),
             (''message signer'', message_signer = a),
             (''sequence'', equals_int sequence expected_sequence),
             (''session'', session),
             (''terms'', terms),
             (''digest'', computed = claimed),
             (''signature'', signature)]))))))))))"

definition check_action ::
  "('a) eth_lib_scheme \<Rightarrow> domain \<Rightarrow> signed_payload \<Rightarrow> int \<Rightarrow> json \<Rightarrow> address option \<Rightarrow> args option
    \<Rightarrow> check_problem option" where
  "check_action L d p expected_sequence observation a opened = (case (a, opened) of
     (Some a, Some opened) \<Rightarrow>
       (case action_checks L d p expected_sequence observation a opened of
          Inl _ \<Rightarrow> Some Unreadable
        | Inr checks \<Rightarrow>
            (let failed = map fst (filter (\<lambda>(_, ok). \<not> ok) checks)
             in if failed = [] then None else Some (Mismatched (sort failed))))
   | _ \<Rightarrow> Some NoWalletOrSession)"

end
