(* ===== verification/Backend_Turn.thy ===== *)
theory Backend_Turn
  imports Run_Steps Turn_Check
begin

section \<open>The turn executor\<close>

text \<open>
  services/api/src/api/turns/executor.py, with the refusals of agent_client/client.py: one turn as
  small steps the controller advances. What the outside answers while one step runs is the record
  \<open>turn_in\<close>: chain time, the observation builder, the agent (asked, restored and asked again), the
  node, the clock, and what other processes commit while the agent decides, while its action is
  checked and while the relay works. The timeline renderer and the ISO text of a deadline are arguments (\<open>turn_env\<close>).
\<close>

subsection \<open>The agent's answers\<close>

record agent_refusal =
  ag_code :: string
  ag_details :: args

definition ag_state :: "agent_refusal \<Rightarrow> string option" where
  "ag_state r = (if ag_code r \<noteq> ''invalid_state'' then None
     else case map_of (ag_details r) ''state'' of Some (JStr s) \<Rightarrow> Some s | _ \<Rightarrow> None)"

definition ag_unprovisioned :: "agent_refusal \<Rightarrow> bool" where
  "ag_unprovisioned r \<longleftrightarrow> ag_state r = Some ''unprovisioned''"

definition ag_deadline_passed :: "agent_refusal \<Rightarrow> bool" where
  "ag_deadline_passed r \<longleftrightarrow> ag_state r = Some ''session_deadline_passed''"

definition ag_inconsistent :: "agent_refusal \<Rightarrow> bool" where
  "ag_inconsistent r \<longleftrightarrow> ag_code r = ''observation_inconsistent''"

record decision_payload =
  dp_attempt :: int
  dp_raw_response :: json
  dp_ok :: bool
  dp_code :: "string option"
  dp_feedback :: "string option"
  dp_stop_reason :: "string option"
  dp_observation_hash :: string

datatype response_status = SIGNED | RESPONSE_MODEL_FAILED | RESPONSE_BUDGET_EXHAUSTED

record turn_response =
  tr_turn :: int
  tr_status :: response_status
  tr_signed_action :: "signed_payload option"
  tr_decisions :: "decision_payload list"
  tr_failure :: "(string \<times> string) option"

datatype 'a agent_reply = Unavailable | Refused agent_refusal | Replied 'a

subsection \<open>Inputs and results\<close>

record built_observation =
  bo_party :: db_party
  bo_expected_sequence :: int
  bo_document :: args
  bo_hash :: string

record 'l turn_env =
  te_lib :: "'l eth_lib_scheme"
  te_domain :: domain
  te_relay :: relay_env
  te_explorer :: "string option"
  te_retries :: int
  te_sentence :: "string \<Rightarrow> args \<Rightarrow> (string \<times> args) list \<Rightarrow> row_fault + string option"
  te_isoformat :: "int \<Rightarrow> string"

record turn_in =
  ti_chain_time :: "string + int"
  ti_build :: "uuid \<Rightarrow> int \<Rightarrow> backend \<Rightarrow> string + built_observation"
  ti_ask :: "json \<Rightarrow> turn_response agent_reply"
  ti_restore :: "unit agent_reply"
  ti_ask_again :: "json \<Rightarrow> turn_response agent_reply"
  ti_while_deciding :: "backend \<Rightarrow> backend"
  ti_while_checking :: "backend \<Rightarrow> backend"
  ti_node :: node
  ti_while_relaying :: "relay_world \<Rightarrow> relay_world"
  ti_now :: int

datatype step_status = IN_FLIGHT | TS_CONFIRMED | NOT_READY | RETRY | AGENT_UNAVAILABLE | DEADLINE_PASSED
  | TS_MODEL_FAILED | TS_BUDGET_EXHAUSTED | TS_EXECUTION_FAILED | ABANDONED | TS_RECOVERY_REQUIRED

record turn_step =
  st_status :: step_status
  st_cause :: "string option"
  st_turn :: "int option"

definition TurnStep :: "step_status \<Rightarrow> string option \<Rightarrow> int option \<Rightarrow> turn_step" where
  "TurnStep s c t = \<lparr>st_status = s, st_cause = c, st_turn = t\<rparr>"

definition INCONSISTENT :: string where "INCONSISTENT = ''observation_inconsistent''"
definition TURN_SLACK_S :: int where "TURN_SLACK_S = 15"
definition MODEL_FAILURE :: int where "MODEL_FAILURE = 2"
definition BUDGET_EXHAUSTED_CODE :: int where "BUDGET_EXHAUSTED_CODE = 3"
definition EXECUTION_FAILURE :: int where "EXECUTION_FAILURE = 4"

definition FORGOTTEN :: "string list" where "FORGOTTEN = [''unprovisioned'', ''provisioned'']"

subsection \<open>Helpers\<close>

definition turn_finished :: "turn_row \<Rightarrow> bool" where
  "turn_finished t \<longleftrightarrow> tn_state t \<in> {CONFIRMED, MODEL_FAILED, EXECUTION_FAILED} \<or> tn_finished_at t \<noteq> None"

definition open_turn :: "uuid \<Rightarrow> backend \<Rightarrow> turn_row option" where
  "open_turn run db = (case rev (turns_for_run run db) of
     [] \<Rightarrow> None | latest # _ \<Rightarrow> if turn_finished latest then None else Some latest)"

definition action_for :: "action_record list \<Rightarrow> turn_row \<Rightarrow> action_record option" where
  "action_for as t = find (\<lambda>a. ar_turn a = tn_id t) as"

definition limit_of :: "run_row \<Rightarrow> string \<Rightarrow> int \<Rightarrow> int" where
  "limit_of run k fallback = (case map_of (rn_limits run) k of
     None \<Rightarrow> fallback | Some v \<Rightarrow> (case int_of_arg v of Inl _ \<Rightarrow> fallback | Inr n \<Rightarrow> n))"

definition turn_timeout :: "run_row \<Rightarrow> int" where
  "turn_timeout run = limit_of run ''model_timeout_s'' 45 * (1 + limit_of run ''repair_attempts'' 1) + TURN_SLACK_S"

definition authorised_attempt :: "decision_payload list \<Rightarrow> decision_payload option" where
  "authorised_attempt ds = (case rev (filter dp_ok ds) of [] \<Rightarrow> None | d # _ \<Rightarrow> Some d)"

definition refusal_fields :: "agent_refusal \<Rightarrow> string option" where
  "refusal_fields r = (case map_of (ag_details r) ''fields'' of
     Some (JObj kvs) \<Rightarrow> Some (join '', '' (sort (map fst kvs))) | _ \<Rightarrow> None)"

fun action_kind_value :: "db_action_kind \<Rightarrow> string" where
  "action_kind_value AK_OFFER = ''offer''" | "action_kind_value AK_ACCEPT = ''accept''"
| "action_kind_value AK_CLOSE = ''close''"

definition as_event :: "signed_payload \<Rightarrow> row_fault + string \<times> args" where
  "as_event p = (let m = sp_message p; pick = (\<lambda>k f. result_bind (arg_of m k) f) in
     case sp_kind p of
       AK_OFFER \<Rightarrow> pick ''sequence'' (\<lambda>s. pick ''proposer'' (\<lambda>a. pick ''quoteAmount'' (\<lambda>q.
         Inr (''OfferRecorded'', [(''sequence'', s), (''proposer'', a), (''quoteAmount'', q)]))))
     | AK_ACCEPT \<Rightarrow> pick ''actor'' (\<lambda>a. pick ''offerHash'' (\<lambda>h.
         Inr (''AcceptanceRecorded'', [(''actor'', a), (''offerHash'', h)])))
     | AK_CLOSE \<Rightarrow> pick ''actor'' (\<lambda>a. pick ''reason'' (\<lambda>c.
         Inr (''SessionClosed'', [(''actor'', a), (''reason'', c)]))))"

definition public_action :: "signed_payload \<Rightarrow> row_fault + json" where
  "public_action p = (let m = sp_message p in case sp_kind p of
     AK_OFFER \<Rightarrow> result_bind (text_arg m ''quoteAmount'') (\<lambda>q.
       Inr (JObj [(''action'', JStr ''offer''), (''quote_amount_minor'', JStr q)]))
   | AK_ACCEPT \<Rightarrow> result_bind (text_arg m ''offerHash'') (\<lambda>h.
       Inr (JObj [(''action'', JStr ''accept''), (''offer_hash'', JStr h)]))
   | AK_CLOSE \<Rightarrow> result_bind (int_arg m ''reason'') (\<lambda>c. result_bind (reason_text (close_reason_name c)) (\<lambda>n.
       Inr (JObj [(''action'', JStr ''walk_away''), (''reason'', JStr n)]))))"

definition tx_status_event :: "outbox_row \<Rightarrow> string option \<Rightarrow> int option \<Rightarrow> string option \<Rightarrow> json" where
  "tx_status_event row dig head_block explorer =
     (let confirmations = (case (head_block, ob_block_number row) of
            (Some h, Some b) \<Rightarrow> max (h - b + 1) 0 | _ \<Rightarrow> 0)
      in JObj [(''digest'', json_opt JStr dig), (''tx_hash'', JStr (ob_tx_hash row)),
               (''status'', JStr (tx_status_value (ob_status row))),
               (''block_number'', json_opt JInt (ob_block_number row)),
               (''confirmations'', JInt confirmations),
               (''explorer_url'', json_opt JStr (explorer_url explorer (ob_tx_hash row)))])"

definition finish_turn ::
  "int \<Rightarrow> turn_row \<Rightarrow> turn_state \<Rightarrow> string option \<Rightarrow> string option \<Rightarrow> (string \<times> int) option \<Rightarrow> unit ctl" where
  "finish_turn now t state failure detail termination =
     unit_of_work (op_bind (in_unit (turn_update_state (tn_id t) state (Some now) failure detail)) (\<lambda>_.
       case termination of
         None \<Rightarrow> op_return ()
       | Some (cause, abort_code) \<Rightarrow>
           op_bind (in_unit (request_termination (tn_run t) cause (Some abort_code))) (\<lambda>_. op_return ())))"

subsection \<open>Broadcast and confirm\<close>

definition submit_turn :: "'l turn_env \<Rightarrow> turn_in \<Rightarrow> run_row \<Rightarrow> turn_row \<Rightarrow> action_record \<Rightarrow> turn_step ctl" where
  "submit_turn E i run t a =
     ctl_bind (run_relay (submit_action (te_relay E) (ti_node i) (ti_while_relaying i) (rn_id run) (ar_id a))) (\<lambda>row.
     ctl_bind (unit_of_work
       (op_bind (in_unit (turn_update_state (tn_id t) CONFIRMING None None None)) (\<lambda>_.
          in_unit (append_event (rn_id run) ''tx.status''
            (tx_status_event row (Some (ar_digest a)) None (te_explorer E)))))) (\<lambda>_.
     ctl_return (TurnStep IN_FLIGHT None (Some (tn_turn t)))))"

definition follow_turn :: "'l turn_env \<Rightarrow> turn_in \<Rightarrow> run_row \<Rightarrow> turn_row \<Rightarrow> action_record \<Rightarrow> turn_step ctl" where
  "follow_turn E i run t a =
     (if ar_status a = AS_SIGNED then submit_turn E i run t a
      else if ar_status a \<in> {AS_CONFIRMED, AS_FINALIZED}
      then ctl_bind (finish_turn (ti_now i) t CONFIRMED None None None)
             (\<lambda>_. ctl_return (TurnStep TS_CONFIRMED None (Some (tn_turn t))))
      else if ar_status a = AS_REVERTED
      then ctl_bind (finish_turn (ti_now i) t EXECUTION_FAILED (Some ''reverted'') (ar_revert_error a)
                       (Some (''execution_failure'', EXECUTION_FAILURE)))
             (\<lambda>_. ctl_return (TurnStep TS_EXECUTION_FAILED (ar_revert_error a) (Some (tn_turn t))))
      else ctl_bind
             (if tn_state t \<noteq> CONFIRMING
              then ctl_bind (unit_of_work (in_unit (turn_update_state (tn_id t) CONFIRMING None None None)))
                     (\<lambda>_. ctl_return ())
              else ctl_return ())
             (\<lambda>_. ctl_return (TurnStep IN_FLIGHT None (Some (tn_turn t)))))"

subsection \<open>Persist before broadcast\<close>

text \<open>The decision rows of one answer; the result pairs each attempt with its row.\<close>

fun add_decisions ::
  "run_row \<Rightarrow> turn_row \<Rightarrow> int option \<Rightarrow> decision_payload list \<Rightarrow> (int \<times> uuid) list unit_op" where
  "add_decisions run t authorized [] = op_return []"
| "add_decisions run t authorized (d # ds) =
     op_bind (in_unit (decision_add (tn_id t) (rn_id run) (tn_party t) (dp_attempt d) (dp_raw_response d)
       (dp_stop_reason d) (dp_ok d) (dp_code d) (dp_feedback d) (authorized = Some (dp_attempt d)))) (\<lambda>row.
     op_bind (add_decisions run t authorized ds) (\<lambda>ids. op_return ((dp_attempt d, dn_id row) # ids)))"

definition decision_sentence ::
  "'l turn_env \<Rightarrow> run_row \<Rightarrow> signed_payload option \<Rightarrow> backend \<Rightarrow> controller_error + string option" where
  "decision_sentence E run payload db = (case payload of
     None \<Rightarrow> Inr None
   | Some p \<Rightarrow> (case as_event p of
       Inl f \<Rightarrow> Inl (RowFault f)
     | Inr (name, as) \<Rightarrow>
         (case te_sentence E name as
                 (map (\<lambda>e. (ce_name e, ce_decoded e)) (canonical_for_run (rn_id run) (bk_chain db))) of
            Inl ValueFault \<Rightarrow> Inr None
          | Inl f \<Rightarrow> Inl (RowFault f)
          | Inr s \<Rightarrow> Inr s)))"

definition decision_status :: "turn_response \<Rightarrow> decision_payload \<Rightarrow> string" where
  "decision_status r d =
     (if tr_status r \<noteq> SIGNED \<and> tr_decisions r \<noteq> [] \<and> dp_attempt d = dp_attempt (last (tr_decisions r))
      then ''model_failed'' else if dp_ok d then ''valid'' else ''invalid'')"

definition decision_doc ::
  "turn_row \<Rightarrow> turn_response \<Rightarrow> signed_payload option \<Rightarrow> int option \<Rightarrow> string option \<Rightarrow> decision_payload
    \<Rightarrow> controller_error + json" where
  "decision_doc t r payload authorised sentence d =
     (let signed = (payload \<noteq> None \<and> authorised = Some (dp_attempt d));
          doc = (\<lambda>action. Inr (JObj [(''turn'', JInt (tn_turn t)), (''party'', JStr (party_value (tn_party t))),
            (''attempt'', JInt (dp_attempt d)), (''status'', JStr (decision_status r d)), (''action'', action),
            (''sentence'', if signed then json_opt JStr sentence else JNull)]))
      in case payload of
           Some p \<Rightarrow> if signed then (case public_action p of Inl f \<Rightarrow> Inl (RowFault f) | Inr a \<Rightarrow> doc a) else doc JNull
         | None \<Rightarrow> doc JNull)"

fun decision_docs ::
  "turn_row \<Rightarrow> turn_response \<Rightarrow> signed_payload option \<Rightarrow> int option \<Rightarrow> string option \<Rightarrow> decision_payload list
    \<Rightarrow> controller_error + json list" where
  "decision_docs t r payload authorised sentence [] = Inr []"
| "decision_docs t r payload authorised sentence (d # ds) =
     result_bind (decision_doc t r payload authorised sentence d) (\<lambda>x.
     result_bind (decision_docs t r payload authorised sentence ds) (\<lambda>xs. Inr (x # xs)))"

definition decision_events ::
  "'l turn_env \<Rightarrow> run_row \<Rightarrow> turn_row \<Rightarrow> turn_response \<Rightarrow> signed_payload option \<Rightarrow> int option \<Rightarrow> unit unit_op" where
  "decision_events E run t r payload authorised db =
     result_bind (decision_sentence E run payload db) (\<lambda>sentence.
     result_bind (decision_docs t r payload authorised sentence (tr_decisions r)) (\<lambda>docs.
       append_docs (rn_id run) ''turn.decision'' docs db))"

definition finish_refused :: "turn_in \<Rightarrow> turn_row \<Rightarrow> string \<Rightarrow> turn_step ctl" where
  "finish_refused i t cause =
     ctl_bind (finish_turn (ti_now i) t (tn_state t) (Some cause) None None) (\<lambda>_.
       ctl_return (TurnStep TS_RECOVERY_REQUIRED (Some (''agent_'' @ cause)) (Some (tn_turn t))))"

text \<open>What a signed answer commits: nothing of it when a termination was recorded first.\<close>

definition signed_event :: "turn_row \<Rightarrow> signed_payload \<Rightarrow> action_record \<Rightarrow> json" where
  "signed_event t p a = JObj [(''turn'', JInt (tn_turn t)), (''party'', JStr (party_value (tn_party t))),
     (''kind'', JStr (action_kind_value (sp_kind p))), (''digest'', JStr (ar_digest a))]"

definition record_signed_unit ::
  "'l turn_env \<Rightarrow> turn_in \<Rightarrow> run_row \<Rightarrow> turn_row \<Rightarrow> turn_response \<Rightarrow> signed_payload \<Rightarrow> decision_payload
    \<Rightarrow> action_record option unit_op" where
  "record_signed_unit E i run t r p authorised db =
     (if (case run_get (rn_id run) db of None \<Rightarrow> False | Some current \<Rightarrow> rn_termination_cause current \<noteq> None)
      then op_bind (add_decisions run t None (tr_decisions r)) (\<lambda>_.
           op_bind (in_unit (turn_update_state (tn_id t) (tn_state t) (Some (ti_now i)) (Some ''termination_requested'') None))
             (\<lambda>_. op_return None)) db
      else op_bind (add_decisions run t (Some (dp_attempt authorised)) (tr_decisions r)) (\<lambda>ids.
           case map_of (rev ids) (dp_attempt authorised) of None \<Rightarrow> (\<lambda>_. Inl LookupFault) | Some decision \<Rightarrow>
           op_bind (in_unit (action_add (rn_id run) (tn_id t) decision (tn_expected_sequence t) (sp_kind p)
             (JObj (sp_message p)) (str_lower (sp_digest p)) (to_checksum_address (te_lib E) (sp_signer p)) (sp_signature p))) (\<lambda>a.
           op_bind (in_unit (turn_update_state (tn_id t) BROADCASTING None None None)) (\<lambda>_.
           op_bind (decision_events E run t r (Some p) (Some (dp_attempt authorised))) (\<lambda>_.
           op_bind (in_unit (append_event (rn_id run) ''turn.signed'' (signed_event t p a))) (\<lambda>_.
             op_return (Some a)))))) db)"

definition opened_args :: "uuid \<Rightarrow> backend \<Rightarrow> args option" where
  "opened_args run db = map_option ce_decoded (opened_event (canonical_for_run run (bk_chain db)))"

definition action_problem ::
  "'l turn_env \<Rightarrow> run_row \<Rightarrow> turn_row \<Rightarrow> signed_payload \<Rightarrow> backend \<Rightarrow> check_problem option" where
  "action_problem E run t p db =
     check_action (te_lib E) (te_domain E) p (tn_expected_sequence t) (tn_observation t)
       (map_option wl_address (wallet_get (rn_id run) (tn_party t) db)) (opened_args (rn_id run) db)"

text \<open>Other processes commit between two units of work of this one.\<close>

definition while_away :: "(backend \<Rightarrow> backend) \<Rightarrow> unit ctl" where
  "while_away f db = (Inr (), f db)"

definition record_signed ::
  "'l turn_env \<Rightarrow> turn_in \<Rightarrow> run_row \<Rightarrow> turn_row \<Rightarrow> turn_response \<Rightarrow> turn_step ctl" where
  "record_signed E i run t r = ctl_read id (\<lambda>db.
     case (tr_signed_action r, authorised_attempt (tr_decisions r)) of
       (Some p, Some authorised) \<Rightarrow>
         if action_problem E run t p db \<noteq> None then finish_refused i t ''signed_action_mismatch''
         else ctl_bind (while_away (ti_while_checking i)) (\<lambda>_.
              ctl_bind (unit_of_work (record_signed_unit E i run t r p authorised)) (\<lambda>a. case a of
                None \<Rightarrow> ctl_return (TurnStep ABANDONED (Some ''termination_requested'') (Some (tn_turn t)))
              | Some a \<Rightarrow> submit_turn E i run t a))
     | _ \<Rightarrow> finish_refused i t ''signed_action_mismatch'')"

definition record_failure_unit ::
  "'l turn_env \<Rightarrow> turn_in \<Rightarrow> run_row \<Rightarrow> turn_row \<Rightarrow> turn_response \<Rightarrow> string \<Rightarrow> int \<Rightarrow> unit unit_op" where
  "record_failure_unit E i run t r cause abort_code =
     op_bind (add_decisions run t None (tr_decisions r)) (\<lambda>_.
     op_bind (in_unit (turn_update_state (tn_id t) MODEL_FAILED (Some (ti_now i))
       (map_option fst (tr_failure r)) (map_option snd (tr_failure r)))) (\<lambda>_.
     op_bind (decision_events E run t r None None) (\<lambda>_.
     op_bind (in_unit (request_termination (rn_id run) cause (Some abort_code))) (\<lambda>_. op_return ()))))"

definition record_response ::
  "'l turn_env \<Rightarrow> turn_in \<Rightarrow> run_row \<Rightarrow> turn_row \<Rightarrow> turn_response \<Rightarrow> turn_step ctl" where
  "record_response E i run t r =
     (if tr_turn r \<noteq> tn_turn t then finish_refused i t ''wrong_turn''
      else if list_ex (\<lambda>d. dp_observation_hash d \<noteq> tn_observation_hash t) (tr_decisions r)
        then finish_refused i t ''observation_hash_mismatch''
      else if tr_status r = SIGNED then record_signed E i run t r
      else let budget = (tr_status r = RESPONSE_BUDGET_EXHAUSTED);
               cause = (if budget then ''budget_exhausted'' else ''model_failure'');
               abort_code = (if budget then BUDGET_EXHAUSTED_CODE else MODEL_FAILURE)
           in ctl_bind (unit_of_work (record_failure_unit E i run t r cause abort_code)) (\<lambda>_.
                ctl_return (TurnStep (if budget then TS_BUDGET_EXHAUSTED else TS_MODEL_FAILED)
                  (Some cause) (Some (tn_turn t)))))"

subsection \<open>Decide\<close>

definition request_body :: "'l turn_env \<Rightarrow> turn_in \<Rightarrow> run_row \<Rightarrow> turn_row \<Rightarrow> json" where
  "request_body E i run t =
     JObj (filter (\<lambda>(k, _). k \<noteq> ''mandate'' \<and> k \<noteq> ''turn'' \<and> k \<noteq> ''deadline_at'')
             (case tn_observation t of JObj kvs \<Rightarrow> kvs | _ \<Rightarrow> []) @
           [(''turn'', JInt (tn_turn t)), (''deadline_at'', JStr (te_isoformat E (ti_now i + turn_timeout run)))])"

fun count_while :: "('a \<Rightarrow> bool) \<Rightarrow> 'a list \<Rightarrow> nat" where
  "count_while p [] = 0"
| "count_while p (x # xs) = (if p x then Suc (count_while p xs) else 0)"

definition inconsistent_in_a_row :: "uuid \<Rightarrow> backend \<Rightarrow> int" where
  "inconsistent_in_a_row run db =
     int (count_while (\<lambda>t. tn_failure_code t = Some INCONSISTENT) (rev (turns_for_run run db)))"

definition turn_refused :: "'l turn_env \<Rightarrow> turn_in \<Rightarrow> run_row \<Rightarrow> turn_row \<Rightarrow> agent_refusal \<Rightarrow> turn_step ctl" where
  "turn_refused E i run t f =
     (if ag_inconsistent f
      then ctl_bind (finish_turn (ti_now i) t (tn_state t) (Some INCONSISTENT) (refusal_fields f) None) (\<lambda>_.
           ctl_read (inconsistent_in_a_row (rn_id run)) (\<lambda>n.
             ctl_return (TurnStep (if te_retries E \<le> n then TS_RECOVERY_REQUIRED else RETRY)
               (Some INCONSISTENT) (Some (tn_turn t)))))
      else if ag_deadline_passed f
      then ctl_bind (finish_turn (ti_now i) t (tn_state t) (Some ''session_deadline_passed'') None None) (\<lambda>_.
             ctl_return (TurnStep DEADLINE_PASSED None (Some (tn_turn t))))
      else finish_refused i t (case ag_state f of Some s \<Rightarrow> if s = [] then ag_code f else s | None \<Rightarrow> ag_code f))"


definition asked ::
  "'l turn_env \<Rightarrow> turn_in \<Rightarrow> run_row \<Rightarrow> turn_row \<Rightarrow> turn_response agent_reply
    \<Rightarrow> (agent_refusal \<Rightarrow> turn_step ctl) \<Rightarrow> turn_step ctl" where
  "asked E i run t reply refused = ctl_bind (while_away (ti_while_deciding i)) (\<lambda>_.
     case reply of
       Unavailable \<Rightarrow> ctl_return (TurnStep AGENT_UNAVAILABLE (Some ''agent_unavailable'') (Some (tn_turn t)))
     | Refused f \<Rightarrow> refused f
     | Replied r \<Rightarrow> record_response E i run t r)"

definition restore_and_ask :: "'l turn_env \<Rightarrow> turn_in \<Rightarrow> run_row \<Rightarrow> turn_row \<Rightarrow> turn_step ctl" where
  "restore_and_ask E i run t = (case ti_restore i of
     Unavailable \<Rightarrow> ctl_return (TurnStep AGENT_UNAVAILABLE (Some ''agent_unavailable'') (Some (tn_turn t)))
   | Refused f \<Rightarrow> finish_refused i t (''restore_'' @ ag_code f)
   | Replied _ \<Rightarrow> asked E i run t (ti_ask_again i (request_body E i run t)) (turn_refused E i run t))"

definition ask_turn :: "'l turn_env \<Rightarrow> turn_in \<Rightarrow> run_row \<Rightarrow> turn_row \<Rightarrow> turn_step ctl" where
  "ask_turn E i run t =
     ctl_bind (if tn_state t = OBSERVING
               then unit_of_work (in_unit (turn_update_state (tn_id t) DECIDING None None None))
               else ctl_return t) (\<lambda>t.
       asked E i run t (ti_ask i (request_body E i run t)) (\<lambda>f.
         if (case ag_state f of None \<Rightarrow> False | Some s \<Rightarrow> s \<in> set FORGOTTEN) then restore_and_ask E i run t
         else turn_refused E i run t f))"

subsection \<open>Observe, and the whole step\<close>

definition rpc_value :: "string + 'a \<Rightarrow> 'a ctl" where
  "rpc_value r = (case r of Inl m \<Rightarrow> ctl_raise (RpcFault m) | Inr a \<Rightarrow> ctl_return a)"

definition next_turn_number :: "uuid \<Rightarrow> backend \<Rightarrow> int" where
  "next_turn_number run db = 1 + fold max (map tn_turn (turns_for_run run db)) 0"

definition begin_unit :: "run_row \<Rightarrow> built_observation \<Rightarrow> turn_row unit_op" where
  "begin_unit run built db = (let number = next_turn_number (rn_id run) db in
     op_bind (in_unit (turn_add (rn_id run) number (bo_party built) (bo_expected_sequence built)
       (JObj (bo_document built)) (bo_hash built))) (\<lambda>t.
     op_bind (in_unit (append_event (rn_id run) ''turn.started''
       (JObj [(''turn'', JInt number), (''party'', JStr (party_value (bo_party built))),
              (''expected_sequence'', JInt (bo_expected_sequence built))]))) (\<lambda>_. op_return t)) db)"

definition begin_turn :: "'l turn_env \<Rightarrow> turn_in \<Rightarrow> run_row \<Rightarrow> turn_step ctl" where
  "begin_turn E i run = ctl_bind (rpc_value (ti_chain_time i)) (\<lambda>now.
     if (case rn_expires_at run of None \<Rightarrow> False | Some e \<Rightarrow> e \<le> now)
     then ctl_return (TurnStep DEADLINE_PASSED None None)
     else ctl_read (ti_build i (rn_id run) now) (\<lambda>b. case b of
       Inl problem \<Rightarrow>
         if problem \<in> {''not_confirmed'', ''session_ended''} then ctl_return (TurnStep NOT_READY (Some problem) None)
         else ctl_return (TurnStep TS_RECOVERY_REQUIRED (Some (''observation_'' @ problem)) None)
     | Inr built \<Rightarrow> ctl_bind (unit_of_work (begin_unit run built)) (ask_turn E i run)))"

definition stale_observation :: "json \<Rightarrow> int \<Rightarrow> row_fault + bool" where
  "stale_observation observation now =
     result_bind (jget observation ''active_offer'') (\<lambda>offer.
     result_bind (if offer = JNull then Inr False
                  else result_bind (result_bind (jfield offer ''valid_until'') int_of_arg) (\<lambda>v. Inr (v \<le> now))) (\<lambda>gone.
       if gone then Inr True
       else result_bind (jfield observation ''session'') (\<lambda>s.
            result_bind (result_bind (jfield s ''expires_at'') int_of_arg) (\<lambda>e. Inr (e \<le> now)))))"

definition stale_turn :: "turn_in \<Rightarrow> turn_row \<Rightarrow> bool ctl" where
  "stale_turn i t = ctl_bind (rpc_value (ti_chain_time i)) (\<lambda>now.
     case stale_observation (tn_observation t) now of Inl f \<Rightarrow> ctl_raise (RowFault f) | Inr b \<Rightarrow> ctl_return b)"

definition advance :: "'l turn_env \<Rightarrow> turn_in \<Rightarrow> run_row \<Rightarrow> turn_step ctl" where
  "advance E i run = ctl_read id (\<lambda>db. case open_turn (rn_id run) db of
     None \<Rightarrow> begin_turn E i run
   | Some t \<Rightarrow> (case action_for (actions_for_run (rn_id run) db) t of
       Some a \<Rightarrow> follow_turn E i run t a
     | None \<Rightarrow> ctl_bind (stale_turn i t) (\<lambda>stale.
         if stale
         then ctl_bind (finish_turn (ti_now i) t (tn_state t) (Some ''observation_stale'') None None) (\<lambda>_.
                ctl_return (TurnStep RETRY (Some ''observation_stale'') (Some (tn_turn t))))
         else ask_turn E i run t)))"

definition close_turn :: "int \<Rightarrow> run_row \<Rightarrow> unit ctl" where
  "close_turn now run = ctl_read id (\<lambda>db. case open_turn (rn_id run) db of
     None \<Rightarrow> ctl_return ()
   | Some t \<Rightarrow> (case action_for (actions_for_run (rn_id run) db) t of
       Some a \<Rightarrow>
         if ar_status a \<in> {AS_CONFIRMED, AS_FINALIZED} then finish_turn now t CONFIRMED None None None
         else if ar_status a = AS_REVERTED
         then finish_turn now t EXECUTION_FAILED (Some ''reverted'') (ar_revert_error a) None
         else finish_turn now t (tn_state t) (Some ''session_ended'') None None
     | None \<Rightarrow> finish_turn now t (tn_state t) (Some ''session_ended'') None None))"

end
