(* ===== verification/Turn_Facts.thy ===== *)
theory Turn_Facts
  imports Backend_Turn
begin

section \<open>What a turn step does to the run\<close>

text \<open>
  Every step of the executor is a sequence of units of work (\<open>performs_advance\<close>); the signed actions
  it adds passed the check and were committed while no termination was recorded.
\<close>

subsection \<open>Units\<close>

lemma op_performs_elsewhere:
  "(\<And>db a db'. f db = Inr (a, db') \<Longrightarrow> bk_runs db' = bk_runs db \<and> bk_events db' = bk_events db) \<Longrightarrow>
   op_performs (in_unit f)"
  by (rule run_units.op_performsI) (auto simp: in_unit_Inr intro!: r_into_rtranclp unit_step.elsewhere)

lemma op_performs_turn_update [op_rules]: "op_performs (in_unit (turn_update_state t st f c d))"
  by (rule op_performs_elsewhere) (auto simp: turn_update_state_def Let_def split: option.splits)

lemma op_performs_decision_add [op_rules]: "op_performs (in_unit (decision_add t run p a raw s ok c f au))"
  by (rule op_performs_elsewhere) (auto simp: decision_add_def Let_def split: if_splits)

lemma op_performs_action_add [op_rules]: "op_performs (in_unit (action_add run t d n k m dig s sig))"
  by (rule op_performs_elsewhere) (auto simp: action_add_def Let_def split: if_splits)

lemma op_performs_turn_add [op_rules]: "op_performs (in_unit (turn_add run t p n ob h))"
  by (rule op_performs_elsewhere) (auto simp: turn_add_def Let_def split: if_splits)

lemma op_performs_termination [op_rules]: "op_performs (in_unit (request_termination run cause c))"
  by (rule run_units.op_performsI) (auto simp: in_unit_Inr intro!: r_into_rtranclp unit_step.terminated)

lemma op_performs_event [op_rules]: "ty \<noteq> ''run.state'' \<Longrightarrow> op_performs (in_unit (append_event run ty d))"
  by (rule run_units.op_performsI) (auto simp: in_unit_Inr intro!: r_into_rtranclp unit_step.logged)

lemma op_performs_docs [op_rules]: "ty \<noteq> ''run.state'' \<Longrightarrow> op_performs (append_docs run ty ds)"
proof (induction ds)
  case Nil
  then show ?case by (simp add: append_docs_def run_units.op_performs_return)
next
  case (Cons d ds)
  have "op_performs (op_bind (in_unit (append_event run ty d)) (\<lambda>_. append_docs run ty ds))"
    by (intro op_rules Cons)
  then show ?case by (simp add: append_docs_def)
qed


lemma op_performs_decisions [op_rules]: "op_performs (add_decisions run t au ds)"
  by (induction ds) (auto intro!: op_rules)

lemma op_performs_decision_events [op_rules]: "op_performs (decision_events E run t r p au)"
proof (rule run_units.op_performsI)
  fix db a db'
  assume "decision_events E run t r p au db = Inr (a, db')"
  then obtain docs where "append_docs (rn_id run) ''turn.decision'' docs db = Inr (a, db')"
    by (auto simp: decision_events_def result_simps)
  with op_performs_docs [of "''turn.decision''"] show "unit_step\<^sup>*\<^sup>* db db'" by (auto simp: run_units.op_performs_def)
qed

lemma performs_finish_turn [performs_rules]: "performs (finish_turn now t st c d term)"
  unfolding finish_turn_def by (cases "term") (auto intro!: performs_rules op_rules)

lemma performs_submit_turn [performs_rules]: "performs (submit_turn E i run t a)"
  unfolding submit_turn_def by (intro performs_rules op_rules) simp

lemma performs_follow_turn [performs_rules]: "performs (follow_turn E i run t a)"
  unfolding follow_turn_def by (intro performs_rules op_rules)

lemma performs_finish_refused [performs_rules]: "performs (finish_refused i t cause)"
  unfolding finish_refused_def by (intro performs_rules)

definition quiet_others :: "turn_in \<Rightarrow> bool" where
  "quiet_others i \<longleftrightarrow> (\<forall>db. unit_step\<^sup>*\<^sup>* db (ti_while_deciding i db)) \<and> (\<forall>db. unit_step\<^sup>*\<^sup>* db (ti_while_checking i db))"

lemma performs_away [performs_rules]:
  "quiet_others i \<Longrightarrow> performs (while_away (ti_while_deciding i))"
  "quiet_others i \<Longrightarrow> performs (while_away (ti_while_checking i))"
  by (auto simp: run_units.performs_def while_away_def quiet_others_def)

lemma op_performs_record_signed [op_rules]: "op_performs (record_signed_unit E i run t r p d)"
proof (rule run_units.op_performsI)
  fix db a db'
  assume "record_signed_unit E i run t r p d db = Inr (a, db')"
  moreover have "op_performs (op_bind (add_decisions run t None (tr_decisions r)) (\<lambda>_.
           op_bind (in_unit (turn_update_state (tn_id t) (tn_state t) (Some (ti_now i)) (Some ''termination_requested'') None))
             (\<lambda>_. op_return (None :: action_record option))))"
    by (intro op_rules)
  moreover have "op_performs (op_bind (add_decisions run t (Some (dp_attempt d)) (tr_decisions r)) (\<lambda>ids.
           case map_of (rev ids) (dp_attempt d) of None \<Rightarrow> (\<lambda>_. Inl LookupFault) | Some decision \<Rightarrow>
           op_bind (in_unit (action_add (rn_id run) (tn_id t) decision (tn_expected_sequence t) (sp_kind p)
             (JObj (sp_message p)) (str_lower (sp_digest p)) (to_checksum_address (te_lib E) (sp_signer p)) (sp_signature p))) (\<lambda>a.
           op_bind (in_unit (turn_update_state (tn_id t) BROADCASTING None None None)) (\<lambda>_.
           op_bind (decision_events E run t r (Some p) (Some (dp_attempt d))) (\<lambda>_.
           op_bind (in_unit (append_event (rn_id run) ''turn.signed'' (signed_event t p a))) (\<lambda>_.
             op_return (Some a)))))))"
    by (intro run_units.op_performs_bind op_performs_decisions)
       (auto split: option.split intro!: op_rules)
  ultimately show "unit_step\<^sup>*\<^sup>* db db'"
    unfolding record_signed_unit_def run_units.op_performs_def by (auto split: if_splits)
qed

lemma performs_record_response:
  assumes "quiet_others i"
  shows "performs (record_response E i run t r)"
proof -
  have "performs (record_signed E i run t r)"
    unfolding record_signed_def
    by (intro performs_rules)
       (auto split: option.split intro!: performs_rules op_rules assms)
  moreover have "op_performs (record_failure_unit E i run t r cause c)" for cause c
    unfolding record_failure_unit_def by (intro op_rules)
  ultimately show ?thesis
    unfolding record_response_def Let_def by (auto intro!: performs_rules)
qed

lemma performs_advance:
  assumes "quiet_others i"
  shows "performs (advance E i run)"
proof -
  note rec = performs_record_response [OF assms]
  have refused: "performs (turn_refused E i run t f)" for t f
    unfolding turn_refused_def by (auto intro!: performs_rules)
  have asked: "performs (asked E i run t reply h)" if "\<And>f. performs (h f)" for t reply h
    unfolding asked_def using that
    by (auto intro!: run_units.performs_bind performs_away assms rec run_units.performs_return split: agent_reply.split)
  have restore: "performs (restore_and_ask E i run t)" for t
    unfolding restore_and_ask_def
    by (auto intro!: run_units.performs_return performs_finish_refused asked refused split: agent_reply.split)
  have ask: "performs (ask_turn E i run t)" for t
    unfolding ask_turn_def by (intro performs_rules op_rules asked restore refused)
  have rpc: "performs (rpc_value v)" for v :: "string + 'x"
    by (cases v) (auto simp: rpc_value_def intro: performs_rules)
  have stale: "performs (stale_turn i t)" for t
    unfolding stale_turn_def by (intro run_units.performs_bind rpc) (auto split: sum.split intro: performs_rules)
  have unit: "op_performs (begin_unit run b)" for b
  proof (rule run_units.op_performsI)
    fix db a db'
    assume b: "begin_unit run b db = Inr (a, db')"
    have "op_performs (op_bind (in_unit (turn_add (rn_id run) n (bo_party b) (bo_expected_sequence b)
       (JObj (bo_document b)) (bo_hash b))) (\<lambda>t. op_bind (in_unit (append_event (rn_id run) ''turn.started'' d))
       (\<lambda>_. op_return t)))" for n d
      by (intro op_rules) simp
    with b show "unit_step\<^sup>*\<^sup>* db db'" by (auto simp: begin_unit_def Let_def run_units.op_performs_def)
  qed
  have begun: "performs (begin_turn E i run)"
    unfolding begin_turn_def
    by (intro run_units.performs_bind run_units.performs_if run_units.performs_read rpc)
       (auto split: sum.split intro!: performs_rules unit ask)
  show ?thesis
    unfolding advance_def
    by (intro run_units.performs_read) (auto split: option.split intro!: performs_rules begun stale ask)
qed

lemma performs_close_turn [performs_rules]: "performs (close_turn now run)"
  unfolding close_turn_def by (intro run_units.performs_read) (auto split: option.split intro!: performs_rules)

end
