(* ===== verification/Run_Driver.thy ===== *)
theory Run_Driver
  imports Turn_Facts
begin

section \<open>Driving a run\<close>

text \<open>
  services/api/src/api/controller/driver.py: one tick of a driven run. The indexer's poll and the
  setup's step are arguments that act on the backend (\<open>tick_in\<close>), with the node's answers and the
  clock readings; the turn executor and the relay are the models of \<open>Backend_Turn\<close> and \<open>Relay\<close>.
  Metrics, RPC counting, logging, the heartbeat and the sleeping loop are left out. The two outage
  windows are state of the driver, returned with the progress; an exception leaves them as they were.
\<close>

datatype progress = ADVANCED | WAITING | IDLE

datatype setup_status = PROGRESSED | SETUP_WAITING | DONE | FAILED | SESSION_REFUSED
  | SETUP_AGENT_UNAVAILABLE | SETUP_RECOVERY_REQUIRED

record setup_step =
  su_status :: setup_status
  su_cause :: "string option"

record poll_report =
  pr_head_block :: int
  pr_reset :: "outbox_row list"
  pr_indexed :: "chain_event list"
  pr_included :: "outbox_row list"
  pr_reverted :: "outbox_row list"
  pr_confirmed :: "outbox_row list"
  pr_finalized :: "outbox_row list"
  pr_dropped :: "outbox_row list"
  pr_terminal :: "(uuid \<times> bool option) list"
  pr_problems :: "(uuid \<times> string) list"

text \<open>A terminal report carries whether its settlement check passed, for a settlement only.\<close>

record 'l driver_env =
  de_turn :: "'l turn_env"
  de_holder :: string
  de_lease_ttl :: int
  de_outage_limit :: int
  de_default_threshold :: int
  de_encode_expire :: "string \<Rightarrow> string + bytes"
  de_encode_abort :: "string \<Rightarrow> int \<Rightarrow> string + bytes"

record tick_in =
  ki_now :: int
  ki_failed_at :: int
  ki_ended_at :: int
  ki_poll :: "poll_report ctl"
  ki_stuck_node :: node
  ki_stuck_nodes :: "uuid \<Rightarrow> node"
  ki_reorg_nodes :: "uuid \<Rightarrow> node"
  ki_resend_nodes :: "uuid \<Rightarrow> node"
  ki_setup :: "run_row \<Rightarrow> setup_step ctl"
  ki_turn :: turn_in
  ki_chain_time :: "string + int"
  ki_send_node :: node

abbreviation env_relay :: "'l driver_env \<Rightarrow> relay_env" where "env_relay E \<equiv> te_relay (de_turn E)"
abbreviation env_explorer :: "'l driver_env \<Rightarrow> string option" where "env_explorer E \<equiv> te_explorer (de_turn E)"

subsection \<open>Outages, thresholds and the lease\<close>

definition outage_failed :: "int \<Rightarrow> int \<Rightarrow> int option \<Rightarrow> bool \<times> int option" where
  "outage_failed limit now since =
     (let start = (case since of None \<Rightarrow> now | Some s \<Rightarrow> s) in (limit \<le> now - start, Some start))"

definition confirmation_threshold :: "args \<Rightarrow> int \<Rightarrow> controller_error + int" where
  "confirmation_threshold public_config fallback = (case map_of public_config ''confirmation_threshold'' of
     None \<Rightarrow> Inr fallback
   | Some (JInt n) \<Rightarrow> if n < 1 then Inl InvalidRunConfigError else Inr n
   | Some _ \<Rightarrow> Inl InvalidRunConfigError)"

definition on_leases :: "(lease_db \<Rightarrow> persistence_error + 'a \<times> lease_db) \<Rightarrow> 'a db_op" where
  "on_leases f db = result_bind (f (bk_leases db)) (\<lambda>(a, l). Inr (a, db\<lparr>bk_leases := l\<rparr>))"

definition hold :: "'l driver_env \<Rightarrow> int \<Rightarrow> uuid \<Rightarrow> bool ctl" where
  "hold E now run =
     ctl_bind (unit_of_work (in_unit (on_leases (acquire run (de_holder E) (de_lease_ttl E) now 0))))
       (\<lambda>l. ctl_return (l \<noteq> None))"

definition driven :: "run_row \<Rightarrow> backend \<Rightarrow> bool" where
  "driven r db =
     (if rn_outcome_kind r \<noteq> O_PENDING then False
      else if rn_state r \<in> {PREPARING, RUNNING} then True
      else if rn_state r \<notin> {PAUSED, RECOVERY_REQUIRED} then False
      else if rn_termination_cause r \<noteq> None then True
      else if rn_state r = RECOVERY_REQUIRED then False
      else rn_cause r = Some ''step'' \<or> open_turn (rn_id r) db \<noteq> None)"

definition load_run :: "uuid \<Rightarrow> run_row ctl" where
  "load_run run = ctl_read (run_get run) (\<lambda>r. case r of None \<Rightarrow> ctl_raise LookupFault | Some r \<Rightarrow> ctl_return r)"

definition set_up :: "uuid \<Rightarrow> backend \<Rightarrow> bool" where
  "set_up run db = list_ex (\<lambda>s. bs_stage s = POST_SETUP) (snapshots_for_run run (bk_snapshots db))"

subsection \<open>Poll and record\<close>

definition entry_json :: "full_entry \<Rightarrow> json" where
  "entry_json e =
     JObj [(''sequence'', JInt (tl_sequence e)), (''kind'', JStr (tl_kind e)),
       (''quote_amount_minor'', json_opt JStr (tl_quote_amount e)), (''valid_until_ts'', json_opt JInt (tl_valid_until e)),
       (''offer_hash'', json_opt JStr (tl_offer_hash e)), (''references_offer_hash'', json_opt JStr (tl_references e)),
       (''reason_code'', json_opt JInt (tl_reason_code e)), (''reason'', json_opt JStr (tl_reason e)),
       (''actor'', json_opt JStr (tl_actor e)),
       (''tx'', JObj [(''tx_hash'', JStr (et_tx_hash (tl_tx e))), (''status'', JStr (et_status (tl_tx e))),
          (''block_number'', json_opt JInt (et_block_number (tl_tx e))),
          (''block_hash'', json_opt JStr (et_block_hash (tl_tx e))),
          (''confirmations'', JInt (et_confirmations (tl_tx e))),
          (''explorer_url'', json_opt JStr (et_explorer_url (tl_tx e)))]),
       (''sentence'', json_opt JStr (tl_sentence e)), (''recorded_at'', JStr (tl_recorded_at e))]"

definition replaced_rows :: "outbox_row list \<Rightarrow> backend \<Rightarrow> outbox_row list" where
  "replaced_rows successors db = concat (map (\<lambda>s. case ob_replaces s of
     None \<Rightarrow> [] | Some i \<Rightarrow> (case outbox_get i (bk_outbox db) of None \<Rightarrow> [] | Some r \<Rightarrow> [r])) successors)"

text \<open>One row per id and status, the first reported.\<close>

fun first_of_each :: "outbox_row list \<Rightarrow> (uuid \<times> tx_status) list \<Rightarrow> outbox_row list" where
  "first_of_each [] seen = []"
| "first_of_each (r # rs) seen =
     (if (ob_id r, ob_status r) \<in> set seen then first_of_each rs seen
      else r # first_of_each rs ((ob_id r, ob_status r) # seen))"

definition changed_rows :: "uuid \<Rightarrow> poll_report \<Rightarrow> outbox_row list \<Rightarrow> backend \<Rightarrow> outbox_row list" where
  "changed_rows run p successors db =
     first_of_each (filter (\<lambda>r. ob_run r = run)
       (replaced_rows successors db @ successors @ pr_dropped p @ pr_included p @ pr_reverted p @
        pr_confirmed p @ pr_finalized p @ pr_reset p)) []"

definition wanted_entries :: "uuid \<Rightarrow> poll_report \<Rightarrow> (string \<times> string) list" where
  "wanted_entries run p =
     concat (map (\<lambda>e. case map_of TIMELINE_KIND (ce_name e) of None \<Rightarrow> []
         | Some k \<Rightarrow> if ce_run e = Some run then [(ce_tx_hash e, k)] else []) (pr_indexed p)) @
     map (\<lambda>r. (ob_tx_hash r, ''execution_failure'')) (filter (\<lambda>r. ob_run r = run) (pr_reverted p))"

definition report_entries ::
  "'l driver_env \<Rightarrow> run_row \<Rightarrow> poll_report \<Rightarrow> action_record list \<Rightarrow> backend \<Rightarrow> controller_error + json list" where
  "report_entries E r p actions db =
     result_bind (confirmation_threshold (rn_public_config r) (de_default_threshold E)) (\<lambda>threshold.
     case build_timeline (te_isoformat (de_turn E)) (canonical_for_run (rn_id r) (bk_chain db))
            (outbox_list_for_run (rn_id r) (bk_outbox db)) (map (\<lambda>a. (ar_id a, ar_signer a, ar_sequence a)) actions)
            \<lparr>tc_threshold = threshold, tc_explorer = env_explorer E\<rparr> of
       Inl f \<Rightarrow> Inl (RowFault f)
     | Inr timeline \<Rightarrow> Inr (map entry_json
         (filter (\<lambda>e. (et_tx_hash (tl_tx e), tl_kind e) \<in> set (wanted_entries (rn_id r) p)) timeline)))"

definition report_unit :: "'l driver_env \<Rightarrow> run_row \<Rightarrow> poll_report \<Rightarrow> outbox_row list \<Rightarrow> unit unit_op" where
  "report_unit E r p changed db =
     (let run = rn_id r; actions = actions_for_run run db;
          digest_of = (\<lambda>row. case ob_action row of None \<Rightarrow> None | Some a \<Rightarrow>
            map_option ar_digest (find (\<lambda>x. ar_id x = a) actions))
      in op_bind (append_docs run ''tx.status''
           (map (\<lambda>row. tx_status_event row (digest_of row) (Some (pr_head_block p)) (env_explorer E)) changed)) (\<lambda>_ db.
         result_bind (report_entries E r p actions db) (\<lambda>docs. append_docs run ''chain.event'' docs db)) db)"

definition record_report :: "'l driver_env \<Rightarrow> run_row \<Rightarrow> poll_report \<Rightarrow> outbox_row list \<Rightarrow> unit ctl" where
  "record_report E r p successors = ctl_read (changed_rows (rn_id r) p successors) (\<lambda>changed.
     if changed = [] \<and> wanted_entries (rn_id r) p = [] then ctl_return ()
     else unit_of_work (report_unit E r p changed))"

subsection \<open>Reorgs and reconciliation\<close>

definition AFTER_LIMIT :: nat where "AFTER_LIMIT = 500"

definition acted_on_reorg :: "run_event list \<Rightarrow> bool" where
  "acted_on_reorg later = list_ex (\<lambda>e. ev_type e = ''run.state'' \<and>
     (case ev_data e of JObj kvs \<Rightarrow> map_of kvs ''state_cause'' = Some (JStr ''reorg'') | _ \<Rightarrow> False)) later"

definition reorg_pending :: "uuid \<Rightarrow> backend \<Rightarrow> bool" where
  "reorg_pending run db = (case latest_event run ''chain.reorg'' db of
     None \<Rightarrow> False | Some e \<Rightarrow> \<not> acted_on_reorg (events_after run (ev_cursor e) AFTER_LIMIT db))"

fun reconciliation_value :: "reconciliation \<Rightarrow> string" where
  "reconciliation_value MINED = ''mined''" | "reconciliation_value IN_POOL = ''in_pool''"
| "reconciliation_value REBROADCAST = ''rebroadcast''" | "reconciliation_value SUPERSEDED = ''superseded''"
| "reconciliation_value NONCE_CONFLICT = ''nonce_conflict''" | "reconciliation_value UNREACHABLE = ''unreachable''"
| "reconciliation_value REFUSED = ''refused''"

definition BAD_RECONCILIATIONS :: "reconciliation set" where
  "BAD_RECONCILIATIONS = {NONCE_CONFLICT, UNREACHABLE, REFUSED}"

definition reconcile_run :: "'l driver_env \<Rightarrow> (uuid \<Rightarrow> node) \<Rightarrow> uuid \<Rightarrow> bool ctl" where
  "reconcile_run E nodes run = ctl_bind (run_relay (reconcile (env_relay E) nodes run)) (\<lambda>results.
     case find (\<lambda>r. rr_outcome r \<in> BAD_RECONCILIATIONS) results of
       None \<Rightarrow> ctl_return True
     | Some r \<Rightarrow> ctl_bind (recovery run (reconciliation_value (rr_outcome r))) (\<lambda>_. ctl_return False))"

definition handle_reorg :: "'l driver_env \<Rightarrow> (uuid \<Rightarrow> node) \<Rightarrow> run_row \<Rightarrow> unit ctl" where
  "handle_reorg E nodes r =
     (if rn_state r \<notin> {PREPARING, RUNNING, PAUSED} then ctl_return ()
      else ctl_read (reorg_pending (rn_id r)) (\<lambda>pending.
        if \<not> pending then ctl_return ()
        else ctl_bind (move (rn_id r) (if rn_state r = PREPARING then PREPARING else PAUSED) (Some ''reorg'')
                 (Some [rn_state r]) ''transition'' True) (\<lambda>_.
             ctl_bind (reconcile_run E nodes (rn_id r)) (\<lambda>_. ctl_return ()))))"

text \<open>The results of the second reconciliation, in order: no answer is an outage, a refusal a person's.\<close>

fun resend_results :: "uuid \<Rightarrow> reconcile_result list \<Rightarrow> bool ctl" where
  "resend_results run [] = ctl_return False"
| "resend_results run (r # rs) =
     (if rr_outcome r = UNREACHABLE then ctl_raise (RpcFault ''a pending transaction could not be sent again'')
      else if rr_outcome r \<in> BAD_RECONCILIATIONS
      then ctl_bind (recovery run (reconciliation_value (rr_outcome r))) (\<lambda>_. ctl_return True)
      else resend_results run rs)"

definition resend_refused :: "'l driver_env \<Rightarrow> (uuid \<Rightarrow> node) \<Rightarrow> run_row \<Rightarrow> bool ctl" where
  "resend_refused E nodes r = ctl_read id (\<lambda>db.
     if \<not> list_ex (\<lambda>row. ob_status row = TX_PENDING \<and> ob_attempts row > 0)
            (outbox_unfinished (re_collation (env_relay E)) (rn_id r) (bk_outbox db))
     then ctl_return False
     else ctl_bind (run_relay (reconcile (env_relay E) nodes (rn_id r))) (resend_results (rn_id r)))"

subsection \<open>The outcome\<close>

definition finish_run :: "'l driver_env \<Rightarrow> uuid \<Rightarrow> unit ctl" where
  "finish_run E run = unit_of_work (in_unit (on_leases (\<lambda>l.
     Inr ((), lease_release run (de_holder E) (release_active_run run l)))))"

definition record_terminal :: "'l driver_env \<Rightarrow> int \<Rightarrow> run_row \<Rightarrow> bool option \<Rightarrow> unit ctl" where
  "record_terminal E now r settlement =
     (if rn_outcome_kind r \<noteq> O_PENDING then ctl_return ()
      else ctl_bind (ctl_result (confirmation_threshold (rn_public_config r) (de_default_threshold E))) (\<lambda>threshold.
      ctl_read id (\<lambda>db. case derive_outcome (canonical_for_run (rn_id r) (bk_chain db)) threshold of
        Inl f \<Rightarrow> ctl_raise (RowFault f)
      | Inr None \<Rightarrow> ctl_return ()
      | Inr (Some out) \<Rightarrow>
          if oc_kind out = O_SETTLED \<and> settlement \<noteq> Some True
          then recovery (rn_id r) ''settlement_check_failed''
          else let target = (if set_up (rn_id r) db \<and> rn_state r \<noteq> PREPARING then TERMINAL else FAILED_SETUP)
          in if \<not> allowed (rn_state r) target then ctl_return ()
             else ctl_bind (close_turn now r) (\<lambda>_.
                  ctl_bind (unit_of_work (record_terminal_unit (rn_id r) out now target)) (\<lambda>recorded.
                    if recorded = None then ctl_return () else finish_run E (rn_id r))))))"

fun record_terminals :: "'l driver_env \<Rightarrow> int \<Rightarrow> uuid \<Rightarrow> (uuid \<times> bool option) list \<Rightarrow> unit ctl" where
  "record_terminals E now run [] = ctl_return ()"
| "record_terminals E now run ((i, settlement) # ts) =
     (if i = run
      then ctl_bind (load_run run) (\<lambda>r. ctl_bind (record_terminal E now r settlement) (\<lambda>_. record_terminals E now run ts))
      else record_terminals E now run ts)"

definition sync :: "'l driver_env \<Rightarrow> tick_in \<Rightarrow> run_row \<Rightarrow> unit ctl" where
  "sync E k r =
     ctl_bind (ki_poll k) (\<lambda>p.
     ctl_bind (run_relay (replace_stuck (env_relay E) (ki_stuck_node k) (ki_stuck_nodes k) (rn_id r))) (\<lambda>successors.
     ctl_bind (record_report E r p successors) (\<lambda>_.
     case find (\<lambda>(i, _). i = rn_id r) (pr_problems p) of
       Some (_, problem) \<Rightarrow> recovery (rn_id r) problem
     | None \<Rightarrow>
         ctl_bind (load_run (rn_id r)) (\<lambda>current.
         ctl_bind (handle_reorg E (ki_reorg_nodes k) current) (\<lambda>_.
           record_terminals E (ki_ended_at k) (rn_id r) (pr_terminal p))))))"

subsection \<open>Ending a session early\<close>

definition request_end :: "uuid \<Rightarrow> string \<Rightarrow> int option \<Rightarrow> unit ctl" where
  "request_end run cause abort_code =
     unit_of_work (op_bind (in_unit (request_termination run cause abort_code)) (\<lambda>_. op_return ()))"

definition termination_rows :: "uuid \<Rightarrow> backend \<Rightarrow> outbox_row list" where
  "termination_rows run db =
     filter (\<lambda>r. ob_kind r \<in> {ABORT_SESSION, EXPIRE_SESSION}) (outbox_list_for_run run (bk_outbox db))"

definition codec_value :: "string + 'a \<Rightarrow> 'a ctl" where
  "codec_value r = (case r of Inl m \<Rightarrow> ctl_raise (CodecFault m) | Inr a \<Rightarrow> ctl_return a)"

definition send_termination :: "'l driver_env \<Rightarrow> node \<Rightarrow> run_row \<Rightarrow> tx_kind \<Rightarrow> int option \<Rightarrow> unit ctl" where
  "send_termination E nd r kind abort_code =
     (let session = (case rn_session r of None \<Rightarrow> ''None'' | Some s \<Rightarrow> s);
          expire = (kind = EXPIRE_SESSION)
      in ctl_bind (codec_value (if expire then de_encode_expire E session
                    else de_encode_abort E session (case abort_code of None \<Rightarrow> 1 | Some c \<Rightarrow> if c = 0 then 1 else c))) (\<lambda>data.
         ctl_bind (run_relay (submit_call (env_relay E) nd (rn_id r) kind (re_exchange (env_relay E)) data (\<not> expire) 0)) (\<lambda>row.
         ctl_bind (unit_of_work (in_unit (append_event (rn_id r) ''tx.status''
                     (tx_status_event row None None (env_explorer E))))) (\<lambda>_. ctl_return ()))))"

definition event_names :: "uuid \<Rightarrow> backend \<Rightarrow> string list" where
  "event_names run db = map ce_name (canonical_for_run run (bk_chain db))"

definition terminating :: "'l driver_env \<Rightarrow> tick_in \<Rightarrow> run_row \<Rightarrow> progress ctl" where
  "terminating E k r = ctl_read id (\<lambda>db.
     let rows = termination_rows (rn_id r) db; names = event_names (rn_id r) db in
     if list_ex (\<lambda>row. live_status (ob_status row)) rows then ctl_return WAITING
     else if set names \<inter> fst ` set TERMINAL_EVENTS \<noteq> {} then ctl_return WAITING
     else if ''SessionOpened'' \<notin> set names then ctl_return WAITING
     else ctl_bind (rpc_value (ki_chain_time k)) (\<lambda>now.
       let expired = (case rn_expires_at r of None \<Rightarrow> False | Some e \<Rightarrow> e \<le> now) in
       if rows \<noteq> [] \<and> \<not> (expired \<and> \<not> list_ex (\<lambda>row. ob_kind row = EXPIRE_SESSION) rows)
       then ctl_bind (recovery (rn_id r) ''termination_reverted'') (\<lambda>_. ctl_return IDLE)
       else if expired
       then ctl_bind (send_termination E (ki_send_node k) r EXPIRE_SESSION None) (\<lambda>_. ctl_return ADVANCED)
       else if rn_termination_code r \<noteq> None
       then ctl_bind (send_termination E (ki_send_node k) r ABORT_SESSION (rn_termination_code r)) (\<lambda>_. ctl_return ADVANCED)
       else ctl_return WAITING))"

definition sessionless :: "run_row \<Rightarrow> backend \<Rightarrow> bool" where
  "sessionless r db = (case rn_session r of
     None \<Rightarrow> True
   | Some _ \<Rightarrow>
       \<not> list_ex (\<lambda>row. ob_kind row = CREATE_SESSION \<and> live_status (ob_status row)) (outbox_list_for_run (rn_id r) (bk_outbox db)) \<and>
       ''SessionOpened'' \<notin> set (event_names (rn_id r) db))"

definition end_without_session :: "'l driver_env \<Rightarrow> run_row \<Rightarrow> unit ctl" where
  "end_without_session E r = suppress_invalid
     (ctl_bind (move (rn_id r) FAILED_SETUP (rn_termination_cause r) (Some [PREPARING, RECOVERY_REQUIRED]) ''transition'' False)
        (\<lambda>_. finish_run E (rn_id r)))"

subsection \<open>Act\<close>

definition fault :: "'l driver_env \<Rightarrow> tick_in \<Rightarrow> run_row \<Rightarrow> bool \<Rightarrow> string option \<Rightarrow> int option \<Rightarrow> (progress \<times> int option) ctl" where
  "fault E k r unavailable cause agent_since =
     (let (over, since) = (if unavailable then outage_failed (de_outage_limit E) (ki_failed_at k) agent_since
                           else (True, agent_since))
      in if \<not> over then ctl_return (WAITING, since)
         else ctl_bind (recovery (rn_id r) (case cause of None \<Rightarrow> ''agent_unavailable''
                          | Some c \<Rightarrow> if c = [] then ''agent_unavailable'' else c))
                (\<lambda>_. ctl_return (IDLE, since)))"

definition setup_done :: "run_row \<Rightarrow> run_row ctl" where
  "setup_done r =
     (if rn_cause r = Some ''start'' then move (rn_id r) RUNNING None (Some [PREPARING]) ''transition'' False
      else move (rn_id r) PAUSED (Some (if rn_cause r = Some ''step'' then ''step'' else ''session_open''))
             (Some [PREPARING]) ''transition'' False)"

definition on_setup :: "'l driver_env \<Rightarrow> tick_in \<Rightarrow> run_row \<Rightarrow> int option \<Rightarrow> setup_step \<Rightarrow> (progress \<times> int option) ctl" where
  "on_setup E k r agent_since s =
     (let since = (if su_status s = SETUP_AGENT_UNAVAILABLE then agent_since else None) in
      case su_status s of
        PROGRESSED \<Rightarrow> ctl_return (ADVANCED, since)
      | SETUP_WAITING \<Rightarrow> ctl_return (WAITING, since)
      | DONE \<Rightarrow> ctl_bind (setup_done r) (\<lambda>_. ctl_return (ADVANCED, since))
      | FAILED \<Rightarrow>
          ctl_bind (move (rn_id r) FAILED_SETUP (su_cause s) (Some [PREPARING]) ''transition'' False) (\<lambda>_.
          ctl_bind (finish_run E (rn_id r)) (\<lambda>_. ctl_return (IDLE, since)))
      | SESSION_REFUSED \<Rightarrow>
          ctl_bind (request_end (rn_id r) ''session_refused'' (Some EXECUTION_FAILURE)) (\<lambda>_. ctl_return (ADVANCED, since))
      | _ \<Rightarrow> fault E k r (su_status s = SETUP_AGENT_UNAVAILABLE) (su_cause s) since)"

definition on_turn :: "'l driver_env \<Rightarrow> tick_in \<Rightarrow> run_row \<Rightarrow> int option \<Rightarrow> turn_step \<Rightarrow> (progress \<times> int option) ctl" where
  "on_turn E k r agent_since s =
     (let since = (if st_status s = AGENT_UNAVAILABLE then agent_since else None) in
      if st_status s \<in> {IN_FLIGHT, NOT_READY, RETRY} then ctl_return (WAITING, since)
      else if st_status s = TS_CONFIRMED
      then ctl_bind (if rn_state r = PAUSED \<and> rn_cause r = Some ''step''
                     then suppress_invalid (ctl_bind
                            (move (rn_id r) PAUSED (Some ''step_complete'') (Some [PAUSED]) ''transition'' False)
                            (\<lambda>_. ctl_return ()))
                     else ctl_return ()) (\<lambda>_. ctl_return (ADVANCED, since))
      else if st_status s = DEADLINE_PASSED
      then ctl_bind (request_end (rn_id r) ''session_deadline'' None) (\<lambda>_. ctl_return (ADVANCED, since))
      else if st_status s \<in> {TS_MODEL_FAILED, TS_BUDGET_EXHAUSTED, TS_EXECUTION_FAILED, ABANDONED}
      then ctl_return (ADVANCED, since)
      else fault E k r (st_status s = AGENT_UNAVAILABLE) (st_cause s) since)"

definition act :: "'l driver_env \<Rightarrow> tick_in \<Rightarrow> run_row \<Rightarrow> int option \<Rightarrow> (progress \<times> int option) ctl" where
  "act E k r agent_since =
     (if rn_termination_cause r \<noteq> None
      then ctl_bind (terminating E k r) (\<lambda>p. ctl_return (p, agent_since))
      else if rn_state r = PREPARING then ctl_bind (ki_setup k r) (on_setup E k r agent_since)
      else ctl_bind (advance (de_turn E) (ki_turn k) r) (on_turn E k r agent_since))"

subsection \<open>The tick\<close>

text \<open>Progress, and what the two outage windows are afterwards: the RPC's and the agents'.\<close>

type_synonym outages = "int option \<times> int option"

definition tick_body :: "'l driver_env \<Rightarrow> tick_in \<Rightarrow> run_row \<Rightarrow> outages \<Rightarrow> (progress \<times> outages) ctl" where
  "tick_body E k r outages =
     ctl_bind (sync E k r) (\<lambda>_.
     ctl_bind (resend_refused E (ki_resend_nodes k) r) (\<lambda>stopped.
     if stopped then ctl_return (IDLE, outages)
     else ctl_bind (load_run (rn_id r)) (\<lambda>r.
     ctl_read (driven r) (\<lambda>go.
     if \<not> go then ctl_return (IDLE, outages)
     else ctl_bind (act E k r (snd outages)) (\<lambda>(p, agent_since). ctl_return (p, (None, agent_since)))))))"

definition tick :: "'l driver_env \<Rightarrow> tick_in \<Rightarrow> uuid \<Rightarrow> outages \<Rightarrow> (progress \<times> outages) ctl" where
  "tick E k run outages = ctl_bind (load_run run) (\<lambda>r.
     ctl_read (driven r) (\<lambda>go.
     if \<not> go then ctl_return (IDLE, outages)
     else ctl_bind (hold E (ki_now k) run) (\<lambda>held.
     if \<not> held then ctl_return (IDLE, outages)
     else ctl_read (sessionless r) (\<lambda>none.
     if rn_termination_cause r \<noteq> None \<and> none
     then ctl_bind (end_without_session E r) (\<lambda>_. ctl_return (IDLE, outages))
     else ctl_catch (tick_body E k r outages) (\<lambda>e. case e of
       RpcFault _ \<Rightarrow>
         (let (over, since) = outage_failed (de_outage_limit E) (ki_failed_at k) (fst outages) in
          if over then ctl_bind (recovery run ''rpc_timeout'') (\<lambda>_. ctl_return (IDLE, (since, snd outages)))
          else ctl_return (WAITING, (since, snd outages)))
     | _ \<Rightarrow> ctl_raise e)))))"

definition guarded_tick :: "'l driver_env \<Rightarrow> tick_in \<Rightarrow> uuid \<Rightarrow> outages \<Rightarrow> (progress \<times> outages) ctl" where
  "guarded_tick E k run outages = ctl_catch (tick E k run outages) (\<lambda>_.
     ctl_catch (ctl_bind (recovery run ''internal_error'') (\<lambda>_. ctl_return (IDLE, outages)))
       (\<lambda>_. ctl_return (IDLE, outages)))"

end
