(* ===== verification/Driver_Facts.thy ===== *)
theory Driver_Facts
  imports Run_Driver
begin

section \<open>What a tick does\<close>

text \<open>
  Every operation of the driver is a sequence of units of work, whatever the indexer, the setup and
  the other processes commit in between, as long as they too commit units of work
  (\<open>performs_tick\<close>). Then: a reorg is acted on once, of two racing steps one is accepted, an outcome
  is recorded only from the chain and for a settlement only with its check passed, and recording it
  ends the run.
\<close>

lemma op_performs_leases [op_rules]: "op_performs (in_unit (on_leases f))"
  by (rule op_performs_elsewhere) (auto simp: on_leases_def result_simps)

lemma op_performs_record_terminal [op_rules]: "op_performs (record_terminal_unit run out at target)"
  by (rule run_units.op_performsI) (auto intro!: r_into_rtranclp unit_step.ended)

lemma performs_hold [performs_rules]: "performs (hold E now run)"
  unfolding hold_def by (intro performs_rules op_rules)

lemma performs_load [performs_rules]: "performs (load_run run)"
  unfolding load_run_def by (intro run_units.performs_read) (auto split: option.split intro: performs_rules)

lemma performs_rpc_value [performs_rules]: "performs (rpc_value v)"
  by (cases v) (auto simp: rpc_value_def intro: performs_rules)

lemma performs_codec_value [performs_rules]: "performs (codec_value v)"
  by (cases v) (auto simp: codec_value_def intro: performs_rules)

lemma performs_record_report [performs_rules]: "performs (record_report E r p ss)"
proof -
  have "op_performs (report_unit E r p changed)" for changed
  proof (rule run_units.op_performsI)
    fix db a db'
    assume "report_unit E r p changed db = Inr (a, db')"
    then obtain docs db1 docs' where "append_docs (rn_id r) ''tx.status'' docs db = Inr ((), db1)"
      and "append_docs (rn_id r) ''chain.event'' docs' db1 = Inr (a, db')"
      by (auto simp: report_unit_def Let_def op_bind_def result_simps)
    moreover have "op_performs (append_docs (rn_id r) ''tx.status'' ds)"
      and "op_performs (append_docs (rn_id r) ''chain.event'' ds)" for ds
      by (rule op_performs_docs; simp)+
    ultimately show "unit_step\<^sup>*\<^sup>* db db'" unfolding run_units.op_performs_def by (meson rtranclp_trans)
  qed
  then show ?thesis unfolding record_report_def by (intro performs_rules)
qed

lemma performs_reconcile [performs_rules]: "performs (reconcile_run E nodes run)"
  unfolding reconcile_run_def
  by (intro run_units.performs_bind performs_relay) (auto split: option.split intro!: performs_rules)

lemma performs_handle_reorg [performs_rules]: "performs (handle_reorg E nodes r)"
  unfolding handle_reorg_def by (intro performs_rules)

lemma performs_resend_results [performs_rules]: "performs (resend_results run rs)"
  by (induction rs) (auto intro!: performs_rules)

lemma performs_resend [performs_rules]: "performs (resend_refused E nodes r)"
  unfolding resend_refused_def by (intro performs_rules)

lemma performs_finish_run [performs_rules]: "performs (finish_run E run)"
  unfolding finish_run_def by (intro performs_rules op_rules)

lemma performs_record_terminal [performs_rules]: "performs (record_terminal E now r s)"
  unfolding record_terminal_def Let_def
  by (intro run_units.performs_if run_units.performs_bind run_units.performs_read)
     (auto split: sum.split option.split intro!: performs_rules op_rules)

lemma performs_record_terminals [performs_rules]: "performs (record_terminals E now run ts)"
  by (induction ts) (auto intro!: performs_rules)

lemma performs_sync:
  assumes "performs (ki_poll k)"
  shows "performs (sync E k r)"
  unfolding sync_def
  by (intro run_units.performs_bind performs_relay assms performs_record_report)
     (auto split: option.split intro!: performs_rules)

lemma performs_request_end [performs_rules]: "performs (request_end run cause c)"
  unfolding request_end_def by (intro performs_rules op_rules)

lemma performs_send [performs_rules]: "performs (send_termination E nd r kind c)"
  unfolding send_termination_def Let_def by (intro performs_rules op_rules) simp

lemma performs_terminating [performs_rules]: "performs (terminating E k r)"
  unfolding terminating_def Let_def by (intro performs_rules)

lemma performs_end_without_session [performs_rules]: "performs (end_without_session E r)"
  unfolding end_without_session_def by (intro performs_rules)

lemma performs_fault [performs_rules]: "performs (fault E k r u c s)"
  unfolding fault_def by (cases u) (auto simp: outage_failed_def Let_def intro!: performs_rules)

lemma performs_on_setup [performs_rules]: "performs (on_setup E k r a s)"
  unfolding on_setup_def Let_def setup_done_def
  by (cases "su_status s") (auto intro!: performs_rules)

lemma performs_on_turn [performs_rules]: "performs (on_turn E k r a s)"
  unfolding on_turn_def Let_def by (intro performs_rules)

text \<open>What the parts of a tick that are arguments must do: commit units of work.\<close>

definition well_behaved :: "tick_in \<Rightarrow> bool" where
  "well_behaved k \<longleftrightarrow> performs (ki_poll k) \<and> (\<forall>r. performs (ki_setup k r)) \<and> quiet_others (ki_turn k)"

lemma performs_tick:
  assumes "well_behaved k"
  shows "performs (tick E k run outages)"
proof -
  have act: "performs (act E k r s)" for r s
    using assms performs_advance unfolding act_def well_behaved_def by (auto intro!: performs_rules)
  have "performs (tick_body E k r outages)" for r
    using assms unfolding tick_body_def well_behaved_def
    by (intro run_units.performs_bind performs_sync performs_resend run_units.performs_if performs_load run_units.performs_read act)
       (auto intro!: performs_rules split: prod.split)
  then show ?thesis
    unfolding tick_def
    by (intro run_units.performs_bind performs_load run_units.performs_read run_units.performs_if performs_hold run_units.performs_catch)
       (auto simp: outage_failed_def Let_def split: controller_error.split prod.split intro!: performs_rules)
qed

lemma performs_guarded_tick: "well_behaved k \<Longrightarrow> performs (guarded_tick E k run outages)"
  unfolding guarded_tick_def by (intro performs_rules performs_tick)

subsection \<open>The event log\<close>

lemma filter_cursor:
  "map ev_cursor es = map int [1..<length es + 1] \<Longrightarrow> filter (\<lambda>e. c < ev_cursor e) es = drop (nat c) es"
proof (induction es rule: rev_induct)
  case Nil
  then show ?case by simp
next
  case (snoc e es)
  from snoc.prems have "map ev_cursor es = map int [1..<length es + 1]" and "ev_cursor e = int (length es) + 1"
    by simp_all
  with snoc.IH show ?case by (auto simp: nat_le_iff)
qed

lemma cursors_sorted: "cursors_ok es \<Longrightarrow> sorted (map ev_cursor es)"
  unfolding cursors_ok_def by (simp add: sorted_map del: upt_Suc upt.simps)

lemma events_after_eq:
  assumes "cursors_ok (events_of run db)"
  shows "events_after run c limit db = take limit (drop (nat c) (events_of run db))"
proof -
  have "filter (\<lambda>e. c < ev_cursor e) (events_of run db) = drop (nat c) (events_of run db)"
    using assms by (intro filter_cursor) (simp add: cursors_ok_def)
  moreover have "sorted (map ev_cursor (drop (nat c) (events_of run db)))"
    using cursors_sorted [OF assms] by (simp add: drop_map [symmetric] sorted_wrt_drop)
  ultimately show ?thesis by (simp add: events_after_def sorted_sort_id sort_key_id_if_sorted)
qed

lemma latest_event_eq:
  assumes "cursors_ok (events_of run db)"
  shows "latest_event run ty db =
    (let es = filter (\<lambda>e. ev_type e = ty) (events_of run db) in if es = [] then None else Some (last es))"
proof -
  have "sorted (map ev_cursor (filter (\<lambda>e. ev_type e = ty) (events_of run db)))"
    by (rule sorted_filter) (rule cursors_sorted [OF assms])
  then have s: "sort_key ev_cursor (filter (\<lambda>e. ev_type e = ty) (events_of run db)) = filter (\<lambda>e. ev_type e = ty) (events_of run db)"
    by (rule sort_key_id_if_sorted)
  show ?thesis
    unfolding latest_event_def s Let_def
    by (cases "filter (\<lambda>e. ev_type e = ty) (events_of run db)" rule: rev_cases) simp_all
qed

subsection \<open>A reorg is acted on once\<close>

lemma unit_steps_events: "unit_step\<^sup>*\<^sup>* db db' \<Longrightarrow> \<exists>es. bk_events db' = bk_events db @ es"
proof (induction rule: rtranclp_induct)
  case (step y z)
  then obtain es fs where "bk_events y = bk_events db @ es" "bk_events z = bk_events y @ fs"
    using unit_step_events by blast
  then show ?case by simp
qed simp

lemma cursor_in_log:
  assumes "cursors_ok es" "e \<in> set es"
  shows "1 \<le> ev_cursor e \<and> ev_cursor e \<le> int (length es)"
proof -
  have "ev_cursor e \<in> set (map ev_cursor es)" using assms(2) by simp
  with assms(1) show ?thesis by (auto simp: cursors_ok_def simp del: upt_Suc)
qed

lemma move_logs:
  assumes "move run target cause expect operation True db = (Inr r, db1)"
  obtains e where "bk_events db1 = bk_events db @ [e]" "ev_run e = run" "ev_type e = ''run.state''"
    "run_state_doc r = Inr (ev_data e)" "rn_cause r = cause" "rn_state r = target"
proof -
  have "move_unit run target cause expect operation True db = Inr (r, db1)"
    using assms by (auto simp: move_def unit_of_work_def split: sum.splits)
  then show ?thesis
  proof (cases rule: move_unit_cases)
    case (2 s db0)
    have r: "rn_id r = run" "rn_cause r = cause" "rn_state r = target"
      using 2(3) run_get_Some by (fastforce simp: run_update_def split: option.splits)+
    obtain d e where "run_state_doc r = Inr d" "append_event run ''run.state'' d db0 = Inr (e, db1)"
      using 2(4) r(1) by (auto simp: append_run_state_def op_simps split: sum.splits)
    moreover have "bk_events db0 = bk_events db" using 2(3) run_update_frame by blast
    ultimately show ?thesis using r by (intro that [of e]) (auto simp: append_event_Inr)
  qed simp
qed

lemma reorg_acted:
  assumes ok: "run_ok db" and e: "latest_event run ''chain.reorg'' db = Some e"
    and few: "length (events_of run db) < nat (ev_cursor e) + AFTER_LIMIT"
    and m: "move run target (Some ''reorg'') expect operation True db = (Inr r, db1)"
    and later: "unit_step\<^sup>*\<^sup>* db1 db2" and same: "latest_event run ''chain.reorg'' db2 = Some e"
  shows "\<not> reorg_pending run db2"
proof -
  obtain s where s: "bk_events db1 = bk_events db @ [s]" "ev_run s = run" "ev_type s = ''run.state''"
    "run_state_doc r = Inr (ev_data s)" "rn_cause r = Some ''reorg''"
    using m by (rule move_logs)
  have "unit_step\<^sup>*\<^sup>* db db1" by (rule run_units.performsD [OF performs_move m])
  with later have "run_ok db2" using unit_steps_ok ok by blast
  then have c: "cursors_ok (events_of run db2)" and c0: "cursors_ok (events_of run db)" using ok by (simp_all add: run_ok_def)
  obtain es where "bk_events db2 = bk_events db1 @ es" using unit_steps_events [OF later] by blast
  with s have ev: "events_of run db2 = events_of run db @ s # filter (\<lambda>x. ev_run x = run) es"
    by (simp add: events_of_def)
  have "e \<in> set (events_of run db)"
    using e latest_event_eq [OF c0, of "''chain.reorg''"] by (auto simp: Let_def split: if_splits dest: last_in_set)
  from cursor_in_log [OF c0 this] have k: "nat (ev_cursor e) \<le> length (events_of run db)" by (simp add: nat_le_iff)
  have "s \<in> set (take AFTER_LIMIT (drop (nat (ev_cursor e)) (events_of run db2)))"
  proof -
    let ?n = "length (events_of run db) - nat (ev_cursor e)"
    have "drop (nat (ev_cursor e)) (events_of run db2)
        = drop (nat (ev_cursor e)) (events_of run db) @ s # filter (\<lambda>x. ev_run x = run) es"
      using k by (simp add: ev)
    moreover have "?n < AFTER_LIMIT" using few k by arith
    ultimately show ?thesis by (simp add: take_Cons')
  qed
  then have "s \<in> set (events_after run (ev_cursor e) AFTER_LIMIT db2)" by (simp only: events_after_eq [OF c])
  moreover have "case ev_data s of JObj kvs \<Rightarrow> map_of kvs ''state_cause'' = Some (JStr ''reorg'') | _ \<Rightarrow> False"
  proof -
    obtain a where "JObj [(''state'', JStr (run_state_value (rn_state r))), (''state_cause'', JStr ''reorg''), (''outcome'', a)]
        = ev_data s"
      using s(4,5) by (auto simp: run_state_doc_def result_simps json_opt_def)
    from this [symmetric] show ?thesis by simp
  qed
  ultimately have "acted_on_reorg (events_after run (ev_cursor e) AFTER_LIMIT db2)"
    using s(3) unfolding acted_on_reorg_def list_ex_iff by blast
  with same show ?thesis by (simp add: reorg_pending_def)
qed

lemma handle_reorg_idle: "\<not> reorg_pending (rn_id r) db \<Longrightarrow> handle_reorg E nodes r db = (Inr (), db)"
  by (simp add: handle_reorg_def ctl_return_def ctl_read_def)

text \<open>
  The look back is bounded: once 500 other events stand between a reorg and the event that acted on
  it, the reorg is pending again, whatever came later.
\<close>

lemma reorg_forgotten:
  assumes ok: "run_ok db" and e: "latest_event run ''chain.reorg'' db = Some e"
    and between: "\<not> acted_on_reorg (take AFTER_LIMIT (drop (nat (ev_cursor e)) (events_of run db)))"
  shows "reorg_pending run db"
  using assms by (simp add: reorg_pending_def events_after_eq run_ok_def)

subsection \<open>Recording the outcome\<close>

lemma append_docs_total:
  "run_get run db \<noteq> None \<Longrightarrow> \<exists>db'. append_docs run ty ds db = Inr ((), db') \<and> bk_runs db' = bk_runs db \<and> bk_leases db' = bk_leases db"
proof (induction ds arbitrary: db)
  case Nil
  then show ?case by (simp add: append_docs_Nil)
next
  case (Cons d ds)
  let ?e = "\<lparr>ev_run = run, ev_cursor = last_cursor run db + 1, ev_type = ty, ev_data = d\<rparr>"
  let ?db = "db\<lparr>bk_events := bk_events db @ [?e]\<rparr>"
  have a: "append_event run ty d db = Inr (?e, ?db)" using Cons.prems by (simp add: append_event_Inr)
  have "run_get run ?db \<noteq> None" using Cons.prems by (simp add: run_get_def)
  from Cons.IH [OF this] obtain db' where "append_docs run ty ds ?db = Inr ((), db')"
    "bk_runs db' = bk_runs db" "bk_leases db' = bk_leases db" by auto
  with a show ?case by (auto simp: append_docs_Cons)
qed

lemma turn_update_total:
  "t \<in> set (bk_turns db) \<Longrightarrow> \<exists>u db'. turn_update_state (tn_id t) st f c d db = Inr (u, db') \<and>
     bk_runs db' = bk_runs db \<and> bk_leases db' = bk_leases db \<and> bk_snapshots db' = bk_snapshots db \<and> bk_events db' = bk_events db"
proof -
  assume "t \<in> set (bk_turns db)"
  then have "turn_get (tn_id t) db \<noteq> None" by (auto simp: turn_get_def find_None_iff)
  then show ?thesis by (auto simp: turn_update_state_def Let_def)
qed

lemma open_turn_in: "open_turn run db = Some t \<Longrightarrow> t \<in> set (bk_turns db)"
proof -
  assume "open_turn run db = Some t"
  then have "t \<in> set (turns_for_run run db)"
    by (cases "turns_for_run run db" rule: rev_cases) (auto simp: open_turn_def split: if_splits)
  then show ?thesis by (simp add: turns_for_run_def)
qed

lemma close_turn_total:
  "\<exists>db'. close_turn now r db = (Inr (), db') \<and> bk_runs db' = bk_runs db \<and> bk_leases db' = bk_leases db \<and>
     bk_snapshots db' = bk_snapshots db"
proof (cases "open_turn (rn_id r) db")
  case None
  then show ?thesis by (simp add: close_turn_def ctl_read_def ctl_return_def)
next
  case (Some t)
  have "\<exists>db'. finish_turn now t st c d None db = (Inr (), db') \<and> bk_runs db' = bk_runs db \<and> bk_leases db' = bk_leases db \<and>
     bk_snapshots db' = bk_snapshots db" for st c d
    using turn_update_total [OF open_turn_in [OF Some], of st "Some now" c d]
    by (auto simp: finish_turn_def unit_of_work_def op_bind_def in_unit_def op_return_def)
  with Some show ?thesis by (auto simp: close_turn_def ctl_read_def split: option.split)
qed

lemma derived_actor:
  assumes "derive_outcome events th = Inr (Some out)"
  shows "oc_kind out \<noteq> O_PENDING \<and>
    (case oc_kind out of O_SETTLED \<Rightarrow> oc_actor out \<in> {P_BUYER, P_SELLER} \<and> oc_reason_code out = None
       | O_CLOSED \<Rightarrow> oc_actor out \<in> {P_BUYER, P_SELLER} \<and> oc_reason_code out \<noteq> None
       | O_EXPIRED \<Rightarrow> oc_actor out = P_ANYONE \<and> oc_reason_code out = None
       | O_ABORTED \<Rightarrow> oc_actor out = P_OPERATOR \<and> oc_reason_code out \<noteq> None | O_PENDING \<Rightarrow> False)"
proof -
  obtain p t where "outcome_from events p t = Inr out"
    using assms by (auto simp: derive_outcome_def result_simps split: option.splits if_splits)
  moreover have "as_actor x \<in> {P_BUYER, P_SELLER}" for x by (cases x) auto
  ultimately show ?thesis
    by (auto simp: outcome_from_def Let_def TERMINAL_EVENTS_def result_simps split: option.splits if_splits)
qed

definition reason_ok :: "outcome \<Rightarrow> bool" where
  "reason_ok out \<longleftrightarrow> (case oc_reason_code out of None \<Rightarrow> True
     | Some c \<Rightarrow> 1 \<le> c \<and> c \<le> (if oc_kind out = O_CLOSED then 3 else 4))"

definition terminal_state :: "run_row \<Rightarrow> backend \<Rightarrow> run_state" where
  "terminal_state r db = (if set_up (rn_id r) db \<and> rn_state r \<noteq> PREPARING then TERMINAL else FAILED_SETUP)"

definition with_outcome :: "outcome \<Rightarrow> int \<Rightarrow> run_state \<Rightarrow> run_row \<Rightarrow> run_row" where
  "with_outcome out now target r = r\<lparr>rn_outcome_kind := oc_kind out, rn_outcome_reason := oc_reason_code out,
     rn_outcome_actor := Some (oc_actor out), rn_outcome_tx := Some (oc_tx_hash out),
     rn_terminal_at := Some now, rn_state := target, rn_cause := or_else (rn_termination_cause r) (rn_cause r)\<rparr>"

lemma with_outcome_ok:
  assumes "derive_outcome events th = Inr (Some out)" "reason_ok out" "target \<in> FINISHED"
    and "run_refusal others r = None"
  shows "run_refusal others (with_outcome out now target r) = None"
proof -
  have "OUTCOME_OK (with_outcome out now target r)"
    using derived_actor [OF assms(1)] assms(2,3)
    by (cases "oc_kind out"; cases "oc_reason_code out")
       (auto simp: with_outcome_def OUTCOME_OK_def reason_ok_def FINISHED_def)
  moreover have "TERMINATION_OK (with_outcome out now target r) \<longleftrightarrow> TERMINATION_OK r"
    by (simp add: TERMINATION_OK_def with_outcome_def cong: option.case_cong)
  moreover have "rn_expires_at (with_outcome out now target r) = rn_expires_at r"
    "rn_session (with_outcome out now target r) = rn_session r"
    by (simp_all add: with_outcome_def)
  ultimately show ?thesis using assms(4) by (auto simp: run_refusal_def split: if_splits)
qed

lemma record_terminal_unit_total:
  assumes g: "run_get i db = Some r" and p: "rn_outcome_kind r = O_PENDING" and al: "allowed (rn_state r) target"
    and ok: "run_refusal (filter (\<lambda>s. rn_id s \<noteq> i) (bk_runs db)) (with_outcome out now target r) = None"
  shows "\<exists>db'. record_terminal_unit i out now target db = Inr (Some (with_outcome out now target r), db') \<and>
    run_get i db' = Some (with_outcome out now target r) \<and> bk_leases db' = bk_leases db"
proof -
  let ?r = "with_outcome out now target r"
  let ?f = "\<lambda>s. s\<lparr>rn_outcome_kind := oc_kind out, rn_outcome_reason := oc_reason_code out,
       rn_outcome_actor := Some (oc_actor out), rn_outcome_tx := Some (oc_tx_hash out),
       rn_terminal_at := Some now, rn_state := target, rn_cause := or_else (rn_termination_cause r) (rn_cause r)\<rparr>"
  have i: "rn_id r = i" using run_get_Some [OF g] by simp
  have f: "?f r = ?r" by (simp add: with_outcome_def)
  define db1 where "db1 = db\<lparr>bk_runs := map (\<lambda>s. if rn_id s = i then ?f s else s) (bk_runs db)\<rparr>"
  have u: "run_update i ?f db = Inr (?r, db1)"
    using g ok by (simp only: run_update_def option.case f db1_def)
  have g1: "run_get i db1 = Some ?r" using run_get_update(1) [OF _ u, of i] by simp
  have "OUTCOME_OK ?r" using ok by (auto simp: run_refusal_def split: if_splits)
  then obtain d where d: "run_state_doc ?r = Inr d" using outcome_doc_total by blast
  have ri: "rn_id ?r = i" using i by (simp add: with_outcome_def)
  let ?e = "\<lparr>ev_run = i, ev_cursor = last_cursor i db1 + 1, ev_type = ''run.state'', ev_data = d\<rparr>"
  define db2 where "db2 = db1\<lparr>bk_events := bk_events db1 @ [?e]\<rparr>"
  have a: "append_run_state ?r db1 = Inr (?r, db2)"
    using d g1 by (simp add: append_run_state_def ri op_bind_def in_unit_def append_event_def op_return_def db2_def Let_def)
  have g2: "run_get i db2 = Some ?r" using g1 by (simp add: run_get_def db2_def)
  then obtain db' where docs: "append_docs i ''balances'' (balances_docs (filter (\<lambda>s. bs_stage s \<in> TERMINAL_STAGES)
      (snapshots_for_run i (bk_snapshots db2)))) db2 = Inr ((), db')"
    and db': "bk_runs db' = bk_runs db2" "bk_leases db' = bk_leases db2"
    using append_docs_total by blast
  have "record_terminal_unit i out now target db = Inr (Some ?r, db')"
    using g p al u a docs
    by (simp add: record_terminal_unit_def record_outcome_def op_bind_def in_unit_def op_return_def)
  moreover have "run_get i db' = Some ?r" using g2 run_get_cong [OF db'(1)] by simp
  moreover have "bk_leases db' = bk_leases db" using db' by (simp add: db2_def db1_def)
  ultimately show ?thesis by blast
qed

lemma record_terminal_ends:
  assumes g: "run_get (rn_id r) db = Some r" and p: "rn_outcome_kind r = O_PENDING"
    and th: "confirmation_threshold (rn_public_config r) (de_default_threshold E) = Inr th"
    and out: "derive_outcome (canonical_for_run (rn_id r) (bk_chain db)) th = Inr (Some out)" "reason_ok out"
    and chk: "oc_kind out = O_SETTLED \<Longrightarrow> settlement = Some True"
    and al: "allowed (rn_state r) (terminal_state r db)"
    and row: "run_refusal (filter (\<lambda>s. rn_id s \<noteq> rn_id r) (bk_runs db)) r = None"
  shows "\<exists>db'. record_terminal E now r settlement db = (Inr (), db') \<and>
    run_get (rn_id r) db' = Some (with_outcome out now (terminal_state r db) r) \<and>
    active_run_id (bk_leases db') \<noteq> Some (rn_id r) \<and>
    (case map_of (ld_leases (bk_leases db')) (rn_id r) of None \<Rightarrow> True | Some l \<Rightarrow> le_holder l \<noteq> de_holder E)"
proof -
  let ?t = "terminal_state r db"
  obtain db1 where c: "close_turn now r db = (Inr (), db1)" and db1: "bk_runs db1 = bk_runs db"
    using close_turn_total by blast
  have g1: "run_get (rn_id r) db1 = Some r" using g run_get_cong [OF db1] by simp
  have "run_refusal (filter (\<lambda>s. rn_id s \<noteq> rn_id r) (bk_runs db1)) (with_outcome out now ?t r) = None"
    unfolding db1 by (rule with_outcome_ok [OF out _ row]) (simp add: terminal_state_def FINISHED_def)
  from record_terminal_unit_total [OF g1 p al this] obtain db2 where
    u: "record_terminal_unit (rn_id r) out now ?t db1 = Inr (Some (with_outcome out now ?t r), db2)"
    and g2: "run_get (rn_id r) db2 = Some (with_outcome out now ?t r)"
    by blast
  define ld where "ld = lease_release (rn_id r) (de_holder E) (release_active_run (rn_id r) (bk_leases db2))"
  have "record_terminal E now r settlement db = (Inr (), db2\<lparr>bk_leases := ld\<rparr>)"
    using p th out chk al c u
    by (auto simp: record_terminal_def ctl_bind_def ctl_result_def ctl_read_def terminal_state_def Let_def
        unit_of_work_def finish_run_def in_unit_def on_leases_def ld_def)
  moreover have "run_get (rn_id r) (db2\<lparr>bk_leases := ld\<rparr>) = run_get (rn_id r) db2" by (rule run_get_cong) simp
  moreover have "active_run_id ld \<noteq> Some (rn_id r)"
    by (auto simp: ld_def lease_release_def active_run_id_def release_active_run_def split: option.split)
  moreover have "case map_of (ld_leases ld) (rn_id r) of None \<Rightarrow> True | Some l \<Rightarrow> le_holder l \<noteq> de_holder E"
    by (auto simp: ld_def lease_release_def release_active_run_def delete_conv split: option.splits)
  ultimately show ?thesis using g2 by auto
qed

text \<open>What an outcome rests on: whatever a tick records, the chain said it.\<close>

lemma record_terminal_only:
  assumes "record_terminal E now r settlement db = (x, db')" "run_get (rn_id r) db = Some q"
    and "run_get (rn_id r) db' = Some q'" "rn_outcome_kind q = O_PENDING" "rn_outcome_kind q' \<noteq> O_PENDING"
  shows "\<exists>th out. confirmation_threshold (rn_public_config r) (de_default_threshold E) = Inr th \<and>
    derive_outcome (canonical_for_run (rn_id r) (bk_chain db)) th = Inr (Some out) \<and>
    (oc_kind out = O_SETTLED \<longrightarrow> settlement = Some True)"
proof (rule ccontr)
  assume none: "\<not> ?thesis"
  have unchanged: "rn_outcome_kind q' = O_PENDING" if "run_get (rn_id r) db' = run_get (rn_id r) db"
    using that assms(2-4) by simp
  have rec: "recovery (rn_id r) c db = (x, db') \<Longrightarrow> rn_outcome_kind q' = O_PENDING" for c
  proof -
    assume a: "recovery (rn_id r) c db = (x, db')"
    then have "db' = db \<or> (\<exists>y. move (rn_id r) RECOVERY_REQUIRED (Some c) (Some ACTIVE_list) ''transition'' False db = (y, db'))"
      by (auto simp: recovery_def ctl_read_def ctl_return_def suppress_invalid_def ctl_catch_def ctl_bind_def ctl_raise_def
          split: option.splits if_splits sum.splits prod.splits)
    then show ?thesis
    proof
      assume "\<exists>y. move (rn_id r) RECOVERY_REQUIRED (Some c) (Some ACTIVE_list) ''transition'' False db = (y, db')"
      then obtain y where y: "move (rn_id r) RECOVERY_REQUIRED (Some c) (Some ACTIVE_list) ''transition'' False db = (y, db')" ..
      show ?thesis
      proof (cases y)
        case (Inl e)
        with y have "db' = db" by (auto simp: move_def unit_of_work_def split: sum.splits)
        with unchanged show ?thesis by simp
      next
        case (Inr s)
        with y have "move_unit (rn_id r) RECOVERY_REQUIRED (Some c) (Some ACTIVE_list) ''transition'' False db = Inr (s, db')"
          by (auto simp: move_def unit_of_work_def split: sum.splits)
        then show ?thesis
        proof (cases rule: move_unit_cases)
          case (2 s0 db0)
          have "run_get (rn_id r) db' = Some s"
            using run_get_update(1) [OF _ 2(3), of "rn_id r"] run_get_cong [OF append_run_state_runs [OF 2(4)]] by simp
          moreover have "rn_outcome_kind s = rn_outcome_kind s0"
            using 2(1,3) by (auto simp: run_update_def split: option.splits)
          ultimately show ?thesis using 2(1) assms(2-4) by simp
        qed (use unchanged in simp)
      qed
    qed (use unchanged in simp)
  qed
  show False
    using assms none unchanged rec
    by (auto simp: record_terminal_def ctl_bind_def ctl_result_def ctl_read_def ctl_return_def ctl_raise_def
        split: sum.splits option.splits if_splits prod.splits)
qed

end
