(* ===== verification/Turn_Safety.thy ===== *)
theory Turn_Safety
  imports Turn_Facts
begin

section \<open>What a turn signs into the run\<close>

text \<open>
  A step of the executor adds at most one signed action, which passed the check and was committed
  while no termination of the run was recorded; and a turn that has its action is never put to the
  agent again. The parts of an action that no later write changes are its \<open>action_core\<close>.
\<close>

definition action_core ::
  "action_record \<Rightarrow> uuid \<times> uuid \<times> uuid \<times> uuid \<times> int \<times> db_action_kind \<times> json \<times> string \<times> string \<times> string" where
  "action_core a = (ar_id a, ar_run a, ar_turn a, ar_decision a, ar_sequence a, ar_kind a, ar_message a,
     ar_digest a, ar_signer a, ar_signature a)"

definition cores :: "backend \<Rightarrow> (uuid \<times> uuid \<times> uuid \<times> uuid \<times> int \<times> db_action_kind \<times> json \<times> string \<times> string \<times> string) list" where
  "cores db = map action_core (bk_actions db)"

locale action_keeper = unit_system +
  assumes keeping: "cores db' = cores db \<Longrightarrow> bk_runs db' = bk_runs db \<Longrightarrow> unit db db'"
begin

lemma op_keeps:
  "(\<And>db a db'. f db = Inr (a, db') \<Longrightarrow> cores db' = cores db \<and> bk_runs db' = bk_runs db) \<Longrightarrow> op_performs (in_unit f)"
  by (rule op_performsI) (auto simp: in_unit_Inr intro!: r_into_rtranclp keeping)

lemma keeps_turn_update [op_rules]: "op_performs (in_unit (turn_update_state t st f c d))"
  by (rule op_keeps) (auto simp: turn_update_state_def cores_def Let_def split: option.splits)

lemma keeps_event [op_rules]: "op_performs (in_unit (append_event run ty d))"
  by (rule op_keeps) (auto simp: append_event_Inr cores_def)

lemma keeps_docs [op_rules]: "op_performs (append_docs run ty ds)"
proof (induction ds)
  case Nil
  then show ?case by (simp add: append_docs_def op_performs_return)
next
  case (Cons d ds)
  have "op_performs (op_bind (in_unit (append_event run ty d)) (\<lambda>_. append_docs run ty ds))"
    by (intro op_performs_bind keeps_event Cons)
  then show ?case by (simp add: append_docs_def)
qed

lemma keeps_decision_add [op_rules]: "op_performs (in_unit (decision_add t run p a raw s ok c f au))"
  by (rule op_keeps) (auto simp: decision_add_def cores_def Let_def split: if_splits)

lemma keeps_decisions [op_rules]: "op_performs (add_decisions run t au ds)"
  by (induction ds) (auto intro!: op_performs_bind op_performs_return keeps_decision_add)

lemma keeps_decision_events [op_rules]: "op_performs (decision_events E run t r p au)"
proof (rule op_performsI)
  fix db a db'
  assume "decision_events E run t r p au db = Inr (a, db')"
  then obtain docs where "append_docs (rn_id run) ''turn.decision'' docs db = Inr (a, db')"
    by (auto simp: decision_events_def result_simps)
  with keeps_docs [of "rn_id run" "''turn.decision''" docs] show "unit\<^sup>*\<^sup>* db db'" by (simp add: op_performs_def)
qed

lemma keeps_turn_add [op_rules]: "op_performs (in_unit (turn_add run t p n ob h))"
  by (rule op_keeps) (auto simp: turn_add_def cores_def Let_def split: if_splits)

lemma cores_relay: "cores (relay_store w db) = cores db"
  by (auto simp: cores_def relay_store_def action_core_def split: option.split)

lemma keeps_relay [performs_rules]: "performs (run_relay m)"
proof (rule performsI)
  fix s r s'
  assume "run_relay m s = (r, s')"
  then obtain w where "s' = relay_store w s"
    by (auto simp: run_relay_def split: prod.splits sum.splits)
  moreover have "bk_runs (relay_store w s) = bk_runs s" by (simp add: relay_store_def)
  ultimately show "unit\<^sup>*\<^sup>* s s'" using cores_relay by (intro r_into_rtranclp keeping) simp_all
qed

lemma keeps_submit [performs_rules]: "performs (submit_turn E i run t a)"
  unfolding submit_turn_def
  by (intro performs_bind performs_return performs_op keeps_relay op_performs_bind keeps_turn_update keeps_event)

lemma keeps_finish [performs_rules]: "performs (finish_turn now t st c d None)"
  unfolding finish_turn_def by (auto intro!: performs_op op_performs_bind op_performs_return keeps_turn_update)

lemma keeps_finish_refused [performs_rules]: "performs (finish_refused i t cause)"
  unfolding finish_refused_def by (intro performs_bind keeps_finish performs_return)

lemma keeps_rpc [performs_rules]: "performs (rpc_value v)"
  by (cases v) (auto simp: rpc_value_def intro: performs_raise performs_return)

lemma keeps_stale [performs_rules]: "performs (stale_turn i t)"
  unfolding stale_turn_def
  by (intro performs_bind keeps_rpc) (auto split: sum.split intro: performs_raise performs_return)

end

interpretation core_units: action_keeper "\<lambda>db db'. cores db' = cores db"
  by unfold_locales

interpretation row_units: action_keeper "\<lambda>db db'. cores db' = cores db \<and> bk_runs db' = bk_runs db"
  by unfold_locales auto

lemma core_steps: "(\<lambda>db db'. cores db' = cores db)\<^sup>*\<^sup>* s t \<Longrightarrow> cores t = cores s"
  by (induction rule: rtranclp_induct) auto

lemma row_steps:
  "(\<lambda>db db'. cores db' = cores db \<and> bk_runs db' = bk_runs db)\<^sup>*\<^sup>* s t \<Longrightarrow> cores t = cores s \<and> bk_runs t = bk_runs s"
  by (induction rule: rtranclp_induct) auto

subsection \<open>Every new action is justified\<close>

text \<open>
  \<open>added E run db db'\<close>: the actions of \<open>db'\<close> are those of \<open>db\<close> and one more, for a turn of the run,
  that passed the check on some earlier state and holds exactly what the agent signed; and no
  termination of the run was recorded when it was committed, nor is one at \<open>db'\<close>.
\<close>

definition added :: "'l turn_env \<Rightarrow> run_row \<Rightarrow> backend \<Rightarrow> backend \<Rightarrow> bool" where
  "added E run db db' \<longleftrightarrow> (\<exists>a t p checked.
     cores db' = cores db @ [action_core a] \<and> ar_run a = rn_id run \<and> ar_turn a = tn_id t \<and>
     ar_sequence a = tn_expected_sequence t \<and> ar_kind a = sp_kind p \<and> ar_message a = JObj (sp_message p) \<and>
     ar_signature a = sp_signature p \<and> action_problem E run t p checked = None \<and>
     (\<forall>r. run_get (rn_id run) db' = Some r \<longrightarrow> rn_termination_cause r = None))"

definition gains :: "'l turn_env \<Rightarrow> run_row \<Rightarrow> 'a ctl \<Rightarrow> bool" where
  "gains E run m \<longleftrightarrow> (\<forall>db x db'. m db = (x, db') \<longrightarrow> cores db' = cores db \<or> added E run db db')"

lemma gains_none: "core_units.performs m \<Longrightarrow> gains E run m"
  unfolding gains_def using core_units.performsD core_steps by blast

lemma gains_bind: "core_units.performs m \<Longrightarrow> (\<And>a. gains E run (f a)) \<Longrightarrow> gains E run (ctl_bind m f)"
proof -
  assume m: "core_units.performs m" and f: "\<And>a. gains E run (f a)"
  show "gains E run (ctl_bind m f)"
    unfolding gains_def
  proof (intro allI impI)
    fix db x db'
    assume r: "ctl_bind m f db = (x, db')"
    obtain y db1 where y: "m db = (y, db1)" by force
    have c: "cores db1 = cores db" using core_units.performsD [OF m y] core_steps by blast
    show "cores db' = cores db \<or> added E run db db'"
    proof (cases y)
      case (Inl e)
      with r y c show ?thesis by (simp add: ctl_bind_def)
    next
      case (Inr a)
      with r y have "f a db1 = (x, db')" by (simp add: ctl_bind_def)
      with f [of a] have "cores db' = cores db1 \<or> added E run db1 db'" unfolding gains_def by blast
      then show ?thesis by (simp only: added_def c)
    qed
  qed
qed

lemma gains_if: "gains E run m \<Longrightarrow> gains E run n \<Longrightarrow> gains E run (if b then m else n)"
  by simp

lemma gains_read: "(\<And>a. gains E run (f a)) \<Longrightarrow> gains E run (ctl_read g f)"
  by (simp add: gains_def ctl_read_def)

lemma action_add_cores:
  "action_add run t d n k m dig s sig db = Inr (a, db') \<Longrightarrow> cores db' = cores db @ [action_core a] \<and>
     bk_runs db' = bk_runs db \<and> ar_run a = run \<and> ar_turn a = t \<and> ar_sequence a = n \<and> ar_kind a = k \<and>
     ar_message a = m \<and> ar_signature a = sig"
  by (auto simp: action_add_def cores_def Let_def split: if_splits)

lemma row_op: "row_units.op_performs f \<Longrightarrow> f db = Inr (a, db') \<Longrightarrow> cores db' = cores db \<and> bk_runs db' = bk_runs db"
  unfolding row_units.op_performs_def using row_steps by blast

lemma record_signed_unit_None:
  assumes "record_signed_unit E i run t r p d db = Inr (None, db')"
  shows "cores db' = cores db"
proof -
  have "row_units.op_performs (op_bind (add_decisions run t None (tr_decisions r)) (\<lambda>_.
           op_bind (in_unit (turn_update_state (tn_id t) (tn_state t) (Some (ti_now i)) (Some ''termination_requested'') None))
             (\<lambda>_. op_return (None :: action_record option))))"
    by (intro row_units.op_performs_bind row_units.keeps_decisions row_units.keeps_turn_update row_units.op_performs_return)
  from row_op [OF this] assms show ?thesis
    by (auto simp: record_signed_unit_def op_bind_Inr op_return_Inr split: if_splits option.splits)
qed

lemma record_signed_unit_Some:
  assumes "record_signed_unit E i run t r p d db = Inr (Some a, db')"
  shows "cores db' = cores db @ [action_core a] \<and> bk_runs db' = bk_runs db \<and>
     (\<forall>q. run_get (rn_id run) db = Some q \<longrightarrow> rn_termination_cause q = None) \<and>
     ar_run a = rn_id run \<and> ar_turn a = tn_id t \<and> ar_sequence a = tn_expected_sequence t \<and>
     ar_kind a = sp_kind p \<and> ar_message a = JObj (sp_message p) \<and> ar_signature a = sp_signature p"
proof -
  have none: "\<forall>q. run_get (rn_id run) db = Some q \<longrightarrow> rn_termination_cause q = None"
    using assms by (auto simp: record_signed_unit_def op_bind_Inr op_return_Inr split: if_splits)
  with assms obtain ids db1 decision db2 db3 db4 u v w where
    "add_decisions run t (Some (dp_attempt d)) (tr_decisions r) db = Inr (ids, db1)"
    "action_add (rn_id run) (tn_id t) decision (tn_expected_sequence t) (sp_kind p)
       (JObj (sp_message p)) (str_lower (sp_digest p)) (to_checksum_address (te_lib E) (sp_signer p)) (sp_signature p) db1 = Inr (a, db2)"
    "in_unit (turn_update_state (tn_id t) BROADCASTING None None None) db2 = Inr (u, db3)"
    "decision_events E run t r (Some p) (Some (dp_attempt d)) db3 = Inr (v, db4)"
    "in_unit (append_event (rn_id run) ''turn.signed'' (signed_event t p a)) db4 = Inr (w, db')"
    by (auto simp: record_signed_unit_def op_bind_Inr in_unit_Inr op_return_Inr split: option.splits)
  with row_op [OF row_units.keeps_decisions] row_op [OF row_units.keeps_turn_update]
    row_op [OF row_units.keeps_decision_events] row_op [OF row_units.keeps_event] action_add_cores none
  show ?thesis by metis
qed

definition others_sign_nothing :: "turn_in \<Rightarrow> bool" where
  "others_sign_nothing i \<longleftrightarrow> (\<forall>db. cores (ti_while_deciding i db) = cores db) \<and> (\<forall>db. cores (ti_while_checking i db) = cores db)"

lemma gains_record_signed:
  assumes "others_sign_nothing i"
  shows "gains E run (record_signed E i run t r)"
  unfolding gains_def
proof (intro allI impI)
  fix db x db'
  assume res: "record_signed E i run t r db = (x, db')"
  have refused: "cores db' = cores db" if "finish_refused i t c db = (x, db')" for c
    using core_units.performsD [OF core_units.keeps_finish_refused that] core_steps by blast
  show "cores db' = cores db \<or> added E run db db'"
  proof (cases "tr_signed_action r")
    case None
    with res refused show ?thesis by (auto simp: record_signed_def ctl_read_def)
  next
    case (Some p)
    show ?thesis
    proof (cases "authorised_attempt (tr_decisions r)")
      case None
      with res refused Some show ?thesis by (auto simp: record_signed_def ctl_read_def)
    next
      case au: (Some d)
      show ?thesis
      proof (cases "action_problem E run t p db")
        case (Some q)
        with res refused \<open>tr_signed_action r = Some p\<close> au show ?thesis by (auto simp: record_signed_def ctl_read_def)
      next
        case ok: None
        let ?db = "ti_while_checking i db"
        have c: "cores ?db = cores db" using assms by (simp add: others_sign_nothing_def)
        show ?thesis
        proof (cases "record_signed_unit E i run t r p d ?db")
          case (Inl e)
          with res Some au ok c show ?thesis
            by (simp add: record_signed_def ctl_read_def ctl_bind_def while_away_def unit_of_work_def)
        next
          case (Inr y)
          obtain ao db1 where y: "y = (ao, db1)" by force
          show ?thesis
          proof (cases ao)
            case None
            with res Some au ok Inr y have "db' = db1"
              by (simp add: record_signed_def ctl_read_def ctl_bind_def while_away_def unit_of_work_def ctl_return_def)
            with record_signed_unit_None Inr y None c show ?thesis by metis
          next
            case a: (Some a)
            with res Some au ok Inr y have s: "submit_turn E i run t a db1 = (x, db')"
              by (simp add: record_signed_def ctl_read_def ctl_bind_def while_away_def unit_of_work_def)
            have k: "cores db' = cores db1 \<and> bk_runs db' = bk_runs db1"
              using row_units.performsD [OF row_units.keeps_submit s] row_steps by blast
            note u = record_signed_unit_Some [OF Inr [unfolded y a]]
            have "run_get (rn_id run) db' = run_get (rn_id run) ?db"
              by (rule run_get_cong) (use k u in simp)
            with k u c ok have "added E run db db'" unfolding added_def by metis
            then show ?thesis ..
          qed
        qed
      qed
    qed
  qed
qed

lemma gains_advance:
  assumes others: "others_sign_nothing i"
  shows "gains E run (advance E i run)"
proof -
  have fin: "core_units.performs (finish_turn now t st c d term)" for now t st c d "term"
  proof (rule core_units.performsI)
    fix s r s'
    assume f: "finish_turn now t st c d term s = (r, s')"
    have "cores s' = cores s"
    proof (cases "term")
      case None
      with f core_units.performsD [OF core_units.keeps_finish] core_steps show ?thesis by blast
    next
      case (Some ca)
      with f show ?thesis
        by (cases ca) (auto simp: finish_turn_def unit_of_work_def op_bind_def in_unit_def op_return_def result_bind_def
          turn_update_state_def request_termination_def run_update_def cores_def Let_def split: sum.splits option.splits if_splits)
    qed
    then show "(\<lambda>db db'. cores db' = cores db)\<^sup>*\<^sup>* s s'" by (rule r_into_rtranclp)
  qed
  have away: "core_units.performs (while_away (ti_while_deciding i))"
    using others by (auto simp: core_units.performs_def while_away_def others_sign_nothing_def)
  have fail: "core_units.performs (unit_of_work (record_failure_unit E i run t r cause c))" for t r cause c
  proof -
    have "core_units.op_performs (in_unit (request_termination (rn_id run) cause (Some c)))"
      by (rule core_units.op_performsI)
         (auto simp: in_unit_Inr request_termination_def run_update_def cores_def split: option.splits if_splits)
    then show ?thesis
      unfolding record_failure_unit_def
      by (intro core_units.performs_op core_units.op_performs_bind core_units.keeps_decisions
          core_units.keeps_turn_update core_units.keeps_decision_events core_units.op_performs_return)
  qed
  have resp: "gains E run (record_response E i run t r)" for t r
    unfolding record_response_def Let_def
    by (intro gains_if gains_record_signed others gains_none core_units.keeps_finish_refused
        core_units.performs_bind fail core_units.performs_return)
  have refused: "gains E run (turn_refused E i run t f)" for t f
    unfolding turn_refused_def
    by (auto intro!: gains_none core_units.performs_bind core_units.performs_read fin core_units.performs_return
        core_units.keeps_finish_refused)
  have asked: "gains E run (asked E i run t reply h)" if "\<And>f. gains E run (h f)" for t reply h
    unfolding asked_def using that resp
    by (intro gains_bind away) (auto split: agent_reply.split intro!: gains_none core_units.performs_return)
  have restore: "gains E run (restore_and_ask E i run t)" for t
    unfolding restore_and_ask_def using asked refused
    by (auto split: agent_reply.split intro!: gains_none core_units.performs_return core_units.keeps_finish_refused)
  have ask: "gains E run (ask_turn E i run t)" for t
    unfolding ask_turn_def using restore refused
    by (intro gains_bind asked) (auto intro!: core_units.performs_op core_units.keeps_turn_update core_units.performs_return)
  have unit: "core_units.performs (unit_of_work (begin_unit run b))" for b
  proof (rule core_units.performs_op, rule core_units.op_performsI)
    fix db a db'
    assume "begin_unit run b db = Inr (a, db')"
    then have "cores db' = cores db"
      by (auto simp: begin_unit_def Let_def op_bind_Inr in_unit_Inr op_return_Inr turn_add_def append_event_Inr cores_def
          split: if_splits)
    then show "(\<lambda>db db'. cores db' = cores db)\<^sup>*\<^sup>* db db'" by (rule r_into_rtranclp)
  qed
  have begun: "gains E run (begin_turn E i run)"
    unfolding begin_turn_def
    by (intro gains_bind gains_if gains_read core_units.keeps_rpc)
       (auto split: sum.split intro!: gains_none [OF core_units.performs_return] gains_bind [OF unit ask])
  have follow: "core_units.performs (follow_turn E i run t a)" for t a
    unfolding follow_turn_def
    by (auto intro!: core_units.keeps_submit core_units.performs_bind fin core_units.performs_return
        core_units.performs_op core_units.keeps_turn_update)
  show ?thesis
    unfolding advance_def
    by (intro gains_read)
       (auto split: option.split intro!: begun gains_none [OF follow] gains_bind [OF core_units.keeps_stale] ask
          gains_none [OF core_units.performs_bind] fin core_units.performs_return)
qed

text \<open>A turn that has its action is seen through without the agent.\<close>

lemma advance_resumes:
  assumes "open_turn (rn_id run) db = Some t" "action_for (actions_for_run (rn_id run) db) t = Some a"
  shows "advance E i run db = follow_turn E i run t a db"
  using assms by (simp add: advance_def ctl_read_def)

end
