(* ===== verification/Turn_Agreement.thy ===== *)
theory Turn_Agreement
  imports Turn_Check Signing
begin

section \<open>What the agent signs is what the backend accepts\<close>

text \<open>
  The agent builds and signs a typed message (services/agent/src/agent/signing/messages.py); the
  backend reads the same message back from JSON, rebuilds its digest and checks every field
  (\<open>TurnExecutor._check\<close> of services/api/src/api/turns/executor.py). The two were written apart: here
  they are shown to agree, so that an honest agent's action is never refused.
\<close>

fun payload_kind :: "action_kind \<Rightarrow> db_action_kind" where
  "payload_kind OfferAction = AK_OFFER"
| "payload_kind AcceptAction = AK_ACCEPT"
| "payload_kind CloseAction = AK_CLOSE"

text \<open>The signed action as \<open>SignedActionPayload\<close> reads it off the wire.\<close>

definition payload_of :: "signed_action \<Rightarrow> signed_payload" where
  "payload_of a = \<lparr>sp_kind = payload_kind (sg_kind a), sp_message = sg_typed_message a,
     sp_digest = sg_digest a, sp_signature = sg_signature a, sp_signer = sg_signer a\<rparr>"

text \<open>
  What eth_account documents of a local account: its address is checksummed, a signature is 65 bytes
  with the low half of \<open>s\<close>, and recovery gives the address back.
\<close>

definition signer_ok :: "('a) eth_lib_scheme \<Rightarrow> run_signer \<Rightarrow> bool" where
  "signer_ok L signer \<longleftrightarrow>
     Address L (JStr (rs_address signer)) = Inr (rs_address signer) \<and>
     (\<forall>dig. length dig = 32 \<longrightarrow>
        length (rs_sign_digest signer dig) = 65 \<and>
        signature_is_canonical (rs_sign_digest signer dig) \<and>
        (\<exists>a. recover_hash L dig (rs_sign_digest signer dig) = Some a \<and>
             to_checksum_address L a = rs_address signer))"

text \<open>The observation the decision was taken on, as the backend built it.\<close>

definition decision_fits :: "approved_session \<Rightarrow> valid_decision \<Rightarrow> json \<Rightarrow> bool" where
  "decision_fits s d observation = (case d of
     ValidOffer amount \<Rightarrow> 0 < amount \<and> 0 < ap_offer_lifetime_s s
   | ValidAccept h \<Rightarrow> is_digest h \<and>
       (\<exists>active. jget observation ''active_offer'' = Inr active \<and> active \<noteq> JNull \<and>
          jfield active ''offer_hash'' = Inr (JStr h))
   | ValidWalkAway r c \<Rightarrow> c \<in> {1, 2, 3})"

definition observed_session :: "approved_session \<Rightarrow> int \<Rightarrow> json \<Rightarrow> args \<Rightarrow> bool" where
  "observed_session s t observation opened \<longleftrightarrow>
     observed_times observation = Inr (t, ap_expires_at s) \<and>
     arg_of opened ''sessionId'' = Inr (JStr (ap_session_id s)) \<and>
     arg_of opened ''configHash'' = Inr (JStr (ap_config_hash s))"

lemma int_of_arg_int_str: "0 \<le> i \<Longrightarrow> int_of_arg (JStr (int_str i)) = Inr i"
  using all_digits_dec [of "nat i"] by (simp add: int_str_def)

lemma hex_bytes_of_digest:
  "is_digest h \<Longrightarrow> hex_bytes (drop 2 h) = Inr (digest_to_bytes h)"
  by (auto simp: is_digest_def hex_bytes_def digest_to_bytes_def)

lemma hex_bytes_to_hex: "hex_bytes (to_hex bs) = Inr bs"
  by (simp add: hex_bytes_def)

lemma digest_text: "is_digest h \<Longrightarrow> CHR ''0'' # CHR ''x'' # to_hex (digest_to_bytes h) = h"
  by (auto simp: is_digest_def digest_to_bytes_def)

lemmas field_simps' = arg_of_def text_arg_def int_arg_def hex_arg_def

lemma message_of_built:
  assumes "build_message d s seq t signer = (kind, msg, typed)"
    and "is_digest (ap_session_id s)" and "is_digest (ap_config_hash s)"
    and "decision_fits s d observation"
  shows "message_of (payload_kind kind) typed = Inr msg"
  using assms
  by (cases d) (auto simp: build_message_def Let_def message_of_def field_simps' hex_bytes_of_digest
      int_of_arg_int_str decision_fits_def hex_bytes_to_hex simp del: int_of_arg.simps(2))

lemma built_fields:
  assumes "build_message d s seq t signer = (kind, msg, typed)"
  shows "set (map fst typed) = set (MESSAGE_FIELDS (payload_kind kind))"
    and "text_arg typed (SIGNER_FIELD (payload_kind kind)) = Inr (rs_address signer)"
    and "arg_of typed ''sequence'' = Inr (JInt seq)"
    and "arg_of typed ''sessionId'' = Inr (JStr (ap_session_id s))"
    and "arg_of typed ''configHash'' = Inr (JStr (ap_config_hash s))"
  using assms by (cases d; auto simp: build_message_def Let_def field_simps')+

lemma built_terms:
  assumes "build_message d s seq t signer = (kind, msg, typed)" and "t < ap_expires_at s"
    and "decision_fits s d observation" and "observed_session s t observation opened"
  shows "terms_hold (payload_kind kind) typed observation = Inr True"
  using assms
  by (cases d) (auto simp: build_message_def Let_def terms_hold_def field_simps' decision_fits_def
      observed_session_def int_of_arg_int_str offer_valid_until_def digest_text
      simp del: int_of_arg.simps(2))

lemma digest_length:
  "eth_lib_ok L \<Longrightarrow> digest L d m = Inr dig \<Longrightarrow> length dig = 32"
  by (auto simp: digest_Inr eth_lib_okD(1))

lemma honest_signature:
  assumes "signer_ok L signer" and "length dig = 32"
  shows "signature_holds L dig (''0x'' @ to_hex (rs_sign_digest signer dig)) (rs_address signer) = Inr True"
  using assms
  by (auto simp: signer_ok_def signature_holds_def hex_bytes_def removeprefix_0x_def as_row_def
      recover_signer_def)

lemma signed_action_checks:
  assumes "eth_lib_ok L" and "signer_ok L signer"
    and "is_digest (ap_session_id s)" and "is_digest (ap_config_hash s)"
    and "sign_decision L d (Some s) seq t signer = Inr a"
    and "decision_fits s d observation" and "observed_session s t observation opened"
  shows "check_action L (approved_domain s) (payload_of a) seq observation
           (Some (rs_address signer)) (Some opened) = None"
proof -
  from assms(5) obtain kind msg typed dig where t: "t < ap_expires_at s"
    and b: "build_message d s seq t signer = (kind, msg, typed)"
    and g: "digest L (approved_domain s) msg = Inr dig"
    and a: "a = \<lparr>sg_kind = kind, sg_typed_message = typed, sg_digest = ''0x'' @ to_hex dig,
             sg_signature = ''0x'' @ to_hex (rs_sign_digest signer dig), sg_signer = rs_address signer\<rparr>"
    by (auto simp: sign_decision_Inr)
  have len: "length dig = 32" using digest_length [OF assms(1) g] .
  have claimed: "Digest (JStr (''0x'' @ to_hex dig)) = Inr (''0x'' @ to_hex dig)"
    by (rule Digest_fixed) (use len in \<open>auto simp: is_digest_def\<close>)
  have me: "Address L (JStr (rs_address signer)) = Inr (rs_address signer)"
    using assms(2) by (simp add: signer_ok_def)
  have session: "same_session typed opened = Inr True"
    using assms(7) by (simp add: same_session_def built_fields [OF b] observed_session_def)
  have dg: "message_digest L (approved_domain s) (payload_kind kind) typed = Inr dig"
    by (simp add: message_digest_def message_of_built [OF b assms(3,4,6)] g as_row_def)
  have "action_checks L (approved_domain s) (payload_of a) seq observation (rs_address signer) opened =
      Inr (map (\<lambda>k. (k, True)) [''fields'', ''signer'', ''message signer'', ''sequence'', ''session'',
        ''terms'', ''digest'', ''signature''])"
    using claimed honest_signature [OF assms(2) len] built_fields(1) [OF b]
    by (simp add: action_checks_def Let_def payload_of_def a me session dg as_row_def
        built_fields(2-5) [OF b] built_terms [OF b t assms(6,7)] Digest_of_bytes_def len)
  then show ?thesis by (simp add: check_action_def Let_def)
qed

end
