(* ===== verification/Backend_Samples.thy ===== *)
theory Backend_Samples
  imports Driver_Facts Turn_Safety Turn_Agreement Relay_Properties Agent_Samples
begin

section \<open>A small backend, for the witnesses about runs, turns and the driver\<close>

text \<open>
  One run, created and moved to \<open>running\<close> by the units of work themselves, and an environment
  whose node answers as in the relay's sample and whose indexer reports nothing.
\<close>

definition empty_backend :: backend where
  "empty_backend = \<lparr>bk_scenarios = [], bk_runs = [], bk_mandates = [], bk_wallets = [], bk_turns = [], bk_decisions = [], bk_actions = [], bk_events = [],
     bk_leases = \<lparr>ld_active = None, ld_leases = []\<rparr>, bk_outbox = [], bk_chain = [], bk_snapshots = [], bk_sent = []\<rparr>"

definition demo_new :: new_run where
  "demo_new = \<lparr>rn_name = ''demo'', rn_deployment = ''local'', rn_public_config = [], rn_limits = [],
     rn_buyer_policy = DETERMINISTIC_KIND, rn_seller_policy = DETERMINISTIC_KIND, rn_mode = LIVE, rn_scenario = None,
     rn_parent = None, rn_buyer_model = None, rn_seller_model = None, rn_buyer_effort = None, rn_seller_effort = None\<rparr>"

definition started :: "run_row ctl" where
  "started = ctl_bind (unit_of_work (create_unit demo_new (\<lambda>_. op_return ([], [])))) (\<lambda>_.
     ctl_bind (move 0 VALIDATED None None ''transition'' False) (\<lambda>_.
     ctl_bind (move 0 PREPARING (Some ''start'') None ''transition'' False) (\<lambda>_.
       move 0 RUNNING None None ''transition'' False)))"

definition paused :: "run_row ctl" where
  "paused = ctl_bind started (\<lambda>_. move 0 PAUSED (Some ''requested'') None ''transition'' False)"

definition demo_db :: backend where "demo_db = snd (started empty_backend)"
definition paused_db :: backend where "paused_db = snd (paused empty_backend)"

definition demo_run :: run_row where
  "demo_run = \<lparr>rn_name = ''demo'', rn_deployment = ''local'', rn_public_config = [], rn_limits = [],
     rn_buyer_policy = DETERMINISTIC_KIND, rn_seller_policy = DETERMINISTIC_KIND, rn_mode = LIVE, rn_scenario = None,
     rn_parent = None, rn_buyer_model = None, rn_seller_model = None, rn_buyer_effort = None, rn_seller_effort = None,
     rn_id = 0, rn_policy_versions = [], rn_prompt_versions = [], rn_state = RUNNING, rn_cause = None, rn_outcome_kind = O_PENDING, rn_outcome_reason = None, rn_outcome_actor = None,
     rn_outcome_tx = None, rn_session = None, rn_config_hash = None, rn_expires_at = None, rn_started_at = None,
     rn_terminal_at = None, rn_termination_cause = None, rn_termination_code = None\<rparr>"

lemma empty_ok: "run_ok empty_backend"
  by (simp add: run_ok_def empty_backend_def events_of_def cursors_ok_def)

lemma performs_started [performs_rules]: "performs started"
proof -
  have "other_tables (\<lambda>_. op_return ([], []) :: versions unit_op)"
    by (simp add: other_tables_def op_return_def)
  then have "op_performs (create_unit demo_new (\<lambda>_. op_return ([], [])))"
    by (intro run_units.op_performsI) (blast intro: r_into_rtranclp unit_step.created)
  then show ?thesis unfolding started_def by (intro performs_rules)
qed

lemma performs_paused: "performs paused"
  unfolding paused_def by (intro performs_rules)

lemma demo_reached: "unit_step\<^sup>*\<^sup>* empty_backend demo_db" "unit_step\<^sup>*\<^sup>* empty_backend paused_db"
  using performs_started performs_paused by (simp_all add: demo_db_def paused_db_def run_units.performs_def)

lemma demo_ok: "run_ok demo_db" and paused_ok: "run_ok paused_db"
  using unit_steps_ok [OF demo_reached(1) empty_ok] unit_steps_ok [OF demo_reached(2) empty_ok] .

lemma demo_rows: "bk_runs demo_db = [demo_run]"
  unfolding demo_db_def empty_backend_def demo_run_def by code_simp

lemma demo_get: "run_get 0 demo_db = Some demo_run"
  by (simp add: run_get_def demo_rows) (simp add: demo_run_def)


lemma started_cause: "rn_id demo_run = 0" "rn_state demo_run = RUNNING" "rn_cause demo_run = None"
  "rn_outcome_kind demo_run = O_PENDING" "rn_termination_cause demo_run = None" "rn_public_config demo_run = []"
  by (simp_all add: demo_run_def)

subsection \<open>Its environment\<close>

definition demo_turn_env :: "unit turn_env" where
  "demo_turn_env = \<lparr>te_lib = sample_lib, te_domain = Domain 31337 (addr CHR ''e''), te_relay = backend_env,
     te_explorer = None, te_retries = 2, te_sentence = (\<lambda>_ _ _. Inr None), te_isoformat = int_str\<rparr>"

definition demo_driver :: "unit driver_env" where
  "demo_driver = \<lparr>de_turn = demo_turn_env, de_holder = ''api-1'', de_lease_ttl = 30, de_outage_limit = 60,
     de_default_threshold = 1, de_encode_expire = (\<lambda>_. Inr []), de_encode_abort = (\<lambda>_ _. Inr [])\<rparr>"

definition demo_turn_in :: turn_in where
  "demo_turn_in = \<lparr>ti_chain_time = Inr 1000, ti_build = (\<lambda>_ _ _. Inl ''not the turn of either''),
     ti_ask = (\<lambda>_. Unavailable), ti_restore = Unavailable, ti_ask_again = (\<lambda>_. Unavailable),
     ti_while_deciding = id, ti_while_checking = id, ti_node = sample_node, ti_while_relaying = id, ti_now = 1000\<rparr>"

definition quiet_report :: poll_report where
  "quiet_report = \<lparr>pr_head_block = 100, pr_reset = [], pr_indexed = [], pr_included = [], pr_reverted = [],
     pr_confirmed = [], pr_finalized = [], pr_dropped = [], pr_terminal = [], pr_problems = []\<rparr>"

definition demo_tick_in :: tick_in where
  "demo_tick_in = \<lparr>ki_now = 1000, ki_failed_at = 1000, ki_ended_at = 1000, ki_poll = ctl_return quiet_report,
     ki_stuck_node = sample_node, ki_stuck_nodes = (\<lambda>_. sample_node), ki_reorg_nodes = (\<lambda>_. sample_node),
     ki_resend_nodes = (\<lambda>_. sample_node), ki_setup = (\<lambda>_. ctl_return \<lparr>su_status = SETUP_WAITING, su_cause = None\<rparr>),
     ki_turn = demo_turn_in, ki_chain_time = Inr 1000, ki_send_node = sample_node\<rparr>"

lemma demo_well_behaved: "well_behaved demo_tick_in"
  by (simp add: well_behaved_def demo_tick_in_def demo_turn_in_def quiet_others_def run_units.performs_return)

lemma demo_signs_nothing: "others_sign_nothing demo_turn_in"
  by (simp add: others_sign_nothing_def demo_turn_in_def)

end
