(* ===== verification/Budget.thy ===== *)
theory Budget
  imports Prelude Complex_Main
begin

section \<open>The model budget\<close>

text \<open>
  services/agent/src/agent/budget/prices.py and guard.py. Amounts of dollars are rationals: the
  code's \<open>Decimal\<close> sums and products are exact up to 28 significant digits, far beyond any token
  count times any rate. \<open>str\<close> of a decimal, used only in a refusal's text, is the argument
  \<open>usd_text\<close>. A price table is the mapping its validated document becomes; reading the file and
  the pydantic validation are not modelled.
\<close>

record token_usage =
  tu_input :: int
  tu_output :: int
  tu_cache_read :: int
  tu_cache_creation :: int
  tu_cache_creation_1h :: int

definition usage_as_record :: "token_usage \<Rightarrow> (string \<times> int) list" where
  "usage_as_record u =
     [(''input_tokens'', tu_input u), (''output_tokens'', tu_output u),
      (''cache_read_input_tokens'', tu_cache_read u),
      (''cache_creation_input_tokens'', tu_cache_creation u)]"

record model_price =
  mp_model_id :: string
  mp_input :: rat
  mp_output :: rat
  mp_cache_write_5m :: rat
  mp_cache_write_1h :: rat
  mp_cache_read :: rat

definition MILLION :: rat where "MILLION = 1000000"

definition quantize_up :: "rat \<Rightarrow> rat" where
  "quantize_up v = of_int \<lceil>v * MILLION\<rceil> / MILLION"

definition usd :: "rat \<Rightarrow> rat" where
  "usd tokens_times_rate = quantize_up (tokens_times_rate / MILLION)"

definition bound_usd :: "model_price \<Rightarrow> int \<Rightarrow> int \<Rightarrow> rat" where
  "bound_usd p input_tokens max_tokens =
     (let dearest_input = max (max (max (mp_input p) (mp_cache_write_5m p)) (mp_cache_write_1h p)) (mp_cache_read p)
      in usd (of_int input_tokens * dearest_input + of_int max_tokens * mp_output p))"

definition cost_usd :: "model_price \<Rightarrow> token_usage \<Rightarrow> rat" where
  "cost_usd p u =
     (let written_5m = tu_cache_creation u - tu_cache_creation_1h u
      in usd (of_int (tu_input u) * mp_input p + of_int (tu_output u) * mp_output p
           + of_int (tu_cache_read u) * mp_cache_read p + of_int written_5m * mp_cache_write_5m p
           + of_int (tu_cache_creation_1h u) * mp_cache_write_1h p))"

definition price_of :: "(string \<times> model_price) list \<Rightarrow> string \<Rightarrow> model_price option" where
  "price_of table model_id = map_of table model_id"

text \<open>A JSON object as \<open>json.load\<close> pairs it, refusing a key given twice.\<close>

fun unique_pairs :: "(string \<times> json) list \<Rightarrow> (string \<times> json) list \<Rightarrow> (string \<times> json) list option" where
  "unique_pairs [] document = Some document"
| "unique_pairs ((key, v) # pairs) document =
     (if has_key document key then None else unique_pairs pairs (document @ [(key, v)]))"

subsection \<open>The guard\<close>

datatype refusal_reason = CALL_CEILING | UNKNOWN_PRICE | SPEND_CEILING

record budget_limits =
  bl_call_ceiling :: int
  bl_spend_ceiling :: rat

definition BudgetLimits :: "int \<Rightarrow> rat \<Rightarrow> budget_limits option" where
  "BudgetLimits calls spend = (if calls < 0 \<or> spend < 0 then None
     else Some \<lparr>bl_call_ceiling = calls, bl_spend_ceiling = spend\<rparr>)"

datatype admit_result =
    Admission "rat option"
  | BudgetRefusal refusal_reason string "rat option"

record budget_guard =
  bg_limits :: budget_limits
  bg_price :: "model_price option"
  bg_allow_unknown :: bool
  bg_calls :: int
  bg_spent :: rat

definition BudgetGuard :: "budget_limits \<Rightarrow> model_price option \<Rightarrow> bool \<Rightarrow> budget_guard" where
  "BudgetGuard l p allow = \<lparr>bg_limits = l, bg_price = p, bg_allow_unknown = allow, bg_calls = 0, bg_spent = 0\<rparr>"

definition spent_usd :: "budget_guard \<Rightarrow> rat option" where
  "spent_usd g = (case bg_price g of None \<Rightarrow> None | Some _ \<Rightarrow> Some (bg_spent g))"

text \<open>\<open>None\<close> is the \<open>ValueError\<close> of a call that is not one.\<close>

definition admit :: "(rat \<Rightarrow> string) \<Rightarrow> int \<Rightarrow> int \<Rightarrow> budget_guard \<Rightarrow> (admit_result \<times> budget_guard) option" where
  "admit usd_text input_tokens max_tokens g =
     (if input_tokens < 0 \<or> max_tokens < 1 then None
      else let limit = bl_call_ceiling (bg_limits g) in
        if bg_calls g + 1 > limit
        then Some (BudgetRefusal CALL_CEILING (int_str (bg_calls g) @ '' of '' @ int_str limit @ '' model calls made'') None, g)
        else case bg_price g of
          None \<Rightarrow>
            if \<not> bg_allow_unknown g
            then Some (BudgetRefusal UNKNOWN_PRICE
              ''the model price table does not price this model, and unknown prices are not allowed'' None, g)
            else Some (Admission None, g\<lparr>bg_calls := bg_calls g + 1\<rparr>)
        | Some p \<Rightarrow>
            (let estimate = bound_usd p input_tokens max_tokens in
             if bg_spent g + estimate > bl_spend_ceiling (bg_limits g)
             then Some (BudgetRefusal SPEND_CEILING
               (''USD '' @ usd_text (bg_spent g) @ '' spent and USD '' @ usd_text estimate @
                '' at most for this call would cross the USD '' @ usd_text (bl_spend_ceiling (bg_limits g)) @ '' ceiling'')
               (Some estimate), g)
             else Some (Admission (Some estimate), g\<lparr>bg_calls := bg_calls g + 1\<rparr>)))"

definition settle :: "rat option \<Rightarrow> token_usage option \<Rightarrow> budget_guard \<Rightarrow> rat option \<times> budget_guard" where
  "settle estimated usage g = (case bg_price g of
     None \<Rightarrow> (None, g)
   | Some p \<Rightarrow> (case usage of
       None \<Rightarrow> (None, g\<lparr>bg_spent := bg_spent g + (case estimated of None \<Rightarrow> 0 | Some e \<Rightarrow> e)\<rparr>)
     | Some u \<Rightarrow> (let reported = cost_usd p u in (Some reported, g\<lparr>bg_spent := bg_spent g + reported\<rparr>))))"

subsection \<open>Metering\<close>

text \<open>
  What a spend ceiling needs of a pricing: the bound a call is admitted at is at least whatever it
  can cost, and is not negative. A meter that charges the reported cost, or the bound when nothing
  was reported, then never crosses a ceiling it checks the bound against.
\<close>

locale metering =
  fixes valid :: "'q \<Rightarrow> bool"
    and bound :: "'q \<Rightarrow> rat"
    and cost :: "'q \<Rightarrow> 'u \<Rightarrow> rat"
    and fits :: "'q \<Rightarrow> 'u \<Rightarrow> bool"
  assumes cost_le_bound: "valid q \<Longrightarrow> fits q u \<Longrightarrow> cost q u \<le> bound q"
    and cost_nonneg: "valid q \<Longrightarrow> fits q u \<Longrightarrow> 0 \<le> cost q u"
    and bound_nonneg: "valid q \<Longrightarrow> 0 \<le> bound q"
begin

definition charge :: "'q \<Rightarrow> 'u option \<Rightarrow> rat" where
  "charge q usage = (case usage of None \<Rightarrow> bound q | Some u \<Rightarrow> cost q u)"

lemma charge_le: "valid q \<Longrightarrow> (\<And>u. usage = Some u \<Longrightarrow> fits q u) \<Longrightarrow> charge q usage \<le> bound q"
  by (cases usage) (auto simp: charge_def cost_le_bound)

lemma charge_nonneg: "valid q \<Longrightarrow> (\<And>u. usage = Some u \<Longrightarrow> fits q u) \<Longrightarrow> 0 \<le> charge q usage"
  by (cases usage) (auto simp: charge_def cost_nonneg bound_nonneg)

lemma under_ceiling:
  assumes "valid q" "\<And>u. usage = Some u \<Longrightarrow> fits q u" "spent + bound q \<le> limit"
  shows "spent + charge q usage \<le> limit"
proof -
  have "charge q usage \<le> bound q" by (rule charge_le) (use assms in auto)
  with assms(3) show ?thesis by linarith
qed

end

definition rates_ok :: "model_price \<Rightarrow> bool" where
  "rates_ok p \<longleftrightarrow> 0 \<le> mp_input p \<and> 0 \<le> mp_output p \<and> 0 \<le> mp_cache_write_5m p \<and> 0 \<le> mp_cache_write_1h p \<and> 0 \<le> mp_cache_read p"

definition valid_query :: "model_price \<times> int \<times> int \<Rightarrow> bool" where
  "valid_query q \<longleftrightarrow> (case q of (p, i, m) \<Rightarrow> rates_ok p \<and> 0 \<le> i \<and> 0 \<le> m)"

definition usage_within :: "int \<Rightarrow> int \<Rightarrow> token_usage \<Rightarrow> bool" where
  "usage_within i m u \<longleftrightarrow> 0 \<le> tu_input u \<and> 0 \<le> tu_cache_read u \<and> 0 \<le> tu_cache_creation_1h u \<and>
     tu_cache_creation_1h u \<le> tu_cache_creation u \<and> 0 \<le> tu_output u \<and>
     tu_input u + tu_cache_read u + tu_cache_creation u \<le> i \<and> tu_output u \<le> m"

lemma usd_mono: "a \<le> b \<Longrightarrow> usd a \<le> usd b"
  by (simp add: usd_def quantize_up_def MILLION_def divide_right_mono ceiling_mono)

lemma usd_nonneg: "0 \<le> a \<Longrightarrow> 0 \<le> usd a"
  by (simp add: usd_def quantize_up_def MILLION_def)

lemma usd_ge: "a / MILLION \<le> usd a"
  by (simp add: usd_def quantize_up_def MILLION_def divide_right_mono)

lemma weighted_le:
  fixes r :: rat
  assumes "0 \<le> a" "x \<le> r"
  shows "of_int a * x \<le> of_int a * r"
  using assms by (simp add: mult_left_mono)

lemma cost_within_bound:
  assumes "rates_ok p" and u: "usage_within i m u"
  shows "cost_usd p u \<le> bound_usd p i m" "0 \<le> cost_usd p u"
proof -
  let ?r = "max (max (max (mp_input p) (mp_cache_write_5m p)) (mp_cache_write_1h p)) (mp_cache_read p)"
  let ?w = "tu_cache_creation u - tu_cache_creation_1h u"
  have le: "mp_input p \<le> ?r" "mp_cache_write_5m p \<le> ?r" "mp_cache_write_1h p \<le> ?r" "mp_cache_read p \<le> ?r"
    by simp_all
  have r: "0 \<le> ?r" using assms(1) by (auto simp: rates_ok_def)
  have pos: "0 \<le> tu_input u" "0 \<le> tu_cache_read u" "0 \<le> ?w" "0 \<le> tu_cache_creation_1h u"
    using u by (simp_all add: usage_within_def)
  have "of_int (tu_input u) * mp_input p + of_int (tu_cache_read u) * mp_cache_read p
      + of_int ?w * mp_cache_write_5m p + of_int (tu_cache_creation_1h u) * mp_cache_write_1h p
    \<le> of_int (tu_input u + tu_cache_read u + tu_cache_creation u) * ?r"
    using weighted_le [OF pos(1) le(1)] weighted_le [OF pos(2) le(4)] weighted_le [OF pos(3) le(2)]
      weighted_le [OF pos(4) le(3)]
    by (simp add: algebra_simps)
  also have "\<dots> \<le> of_int i * ?r"
    using u r by (intro mult_right_mono) (simp_all add: usage_within_def flip: of_int_add)
  finally have inputs: "of_int (tu_input u) * mp_input p + of_int (tu_cache_read u) * mp_cache_read p
      + of_int ?w * mp_cache_write_5m p + of_int (tu_cache_creation_1h u) * mp_cache_write_1h p \<le> of_int i * ?r" .
  have "of_int (tu_output u) * mp_output p \<le> of_int m * mp_output p"
    using u assms(1) by (intro mult_right_mono) (simp_all add: usage_within_def rates_ok_def)
  with inputs show "cost_usd p u \<le> bound_usd p i m"
    unfolding cost_usd_def bound_usd_def Let_def by (intro usd_mono) linarith
  show "0 \<le> cost_usd p u"
    using pos u assms(1) unfolding cost_usd_def Let_def
    by (intro usd_nonneg add_nonneg_nonneg mult_nonneg_nonneg) (simp_all add: usage_within_def rates_ok_def)
qed

interpretation meter: metering valid_query "\<lambda>(p, i, m). bound_usd p i m" "\<lambda>(p, i, m). cost_usd p"
  "\<lambda>(p, i, m). usage_within i m"
proof
  fix q :: "model_price \<times> int \<times> int" and u
  obtain p i m where q: "q = (p, i, m)" by (cases q)
  show "(\<lambda>(p, i, m). cost_usd p) q u \<le> (\<lambda>(p, i, m). bound_usd p i m) q" "0 \<le> (\<lambda>(p, i, m). cost_usd p) q u"
    if "valid_query q" "(\<lambda>(p, i, m). usage_within i m) q u"
    using that cost_within_bound by (simp_all add: q valid_query_def)
next
  fix q :: "model_price \<times> int \<times> int"
  assume "valid_query q"
  then show "0 \<le> (\<lambda>(p, i, m). bound_usd p i m) q"
    by (auto simp: valid_query_def bound_usd_def Let_def rates_ok_def intro!: usd_nonneg add_nonneg_nonneg mult_nonneg_nonneg)
qed

subsection \<open>A run's calls\<close>

text \<open>One call: its token count and cap, and the usage reported if it was sent and answered.\<close>

type_synonym model_call = "int \<times> int \<times> token_usage option"

definition guarded_call :: "(rat \<Rightarrow> string) \<Rightarrow> model_call \<Rightarrow> budget_guard \<Rightarrow> budget_guard" where
  "guarded_call usd_text c g = (case c of (i, m, usage) \<Rightarrow>
     (case admit usd_text i m g of
        None \<Rightarrow> g
      | Some (Admission e, g') \<Rightarrow> snd (settle e usage g')
      | Some (BudgetRefusal _ _ _, g') \<Rightarrow> g'))"

definition guarded_calls :: "(rat \<Rightarrow> string) \<Rightarrow> model_call list \<Rightarrow> budget_guard \<Rightarrow> budget_guard" where
  "guarded_calls usd_text cs g = foldl (\<lambda>g c. guarded_call usd_text c g) g cs"

definition honest_call :: "model_call \<Rightarrow> bool" where
  "honest_call c \<longleftrightarrow> (case c of (i, m, None) \<Rightarrow> True | (i, m, Some u) \<Rightarrow> usage_within i m u)"

definition guard_ok :: "budget_guard \<Rightarrow> bool" where
  "guard_ok g \<longleftrightarrow> 0 \<le> bg_calls g \<and> bg_calls g \<le> bl_call_ceiling (bg_limits g) \<and> 0 \<le> bg_spent g \<and>
     bg_spent g \<le> bl_spend_ceiling (bg_limits g) \<and>
     (case bg_price g of None \<Rightarrow> True | Some p \<Rightarrow> rates_ok p)"

lemma guard_ok_new:
  "\<lbrakk>BudgetLimits c s = Some l; \<And>p. price = Some p \<Longrightarrow> rates_ok p\<rbrakk> \<Longrightarrow> guard_ok (BudgetGuard l price allow)"
  by (auto simp: BudgetLimits_def BudgetGuard_def guard_ok_def split: if_splits option.splits)

lemma admit_cases:
  assumes "admit t i m g = Some (r, g')"
  shows "case r of
      Admission e \<Rightarrow> 0 \<le> i \<and> 1 \<le> m \<and> bg_calls g < bl_call_ceiling (bg_limits g) \<and> g' = g\<lparr>bg_calls := bg_calls g + 1\<rparr> \<and>
        (case bg_price g of
           None \<Rightarrow> e = None \<and> bg_allow_unknown g
         | Some p \<Rightarrow> e = Some (bound_usd p i m) \<and> bg_spent g + bound_usd p i m \<le> bl_spend_ceiling (bg_limits g))
    | BudgetRefusal reason d e \<Rightarrow> g' = g \<and>
        (case reason of
           CALL_CEILING \<Rightarrow> bl_call_ceiling (bg_limits g) \<le> bg_calls g
         | UNKNOWN_PRICE \<Rightarrow> bg_price g = None \<and> \<not> bg_allow_unknown g
         | SPEND_CEILING \<Rightarrow> \<exists>p. bg_price g = Some p \<and> bl_spend_ceiling (bg_limits g) < bg_spent g + bound_usd p i m)"
  using assms by (auto simp: admit_def Let_def split: if_splits option.splits)

lemma guarded_call_limits [simp]:
  "bg_limits (guarded_call t c g) = bg_limits g" "bg_price (guarded_call t c g) = bg_price g"
  by (auto simp: guarded_call_def settle_def Let_def split: prod.splits option.splits admit_result.splits
      dest!: admit_cases)

lemma guarded_call_ok:
  assumes "guard_ok g" "honest_call c"
  shows "guard_ok (guarded_call t c g)"
proof -
  obtain i m usage where c: "c = (i, m, usage)" by (cases c)
  show ?thesis
  proof (cases "admit t i m g")
    case None
    with assms show ?thesis by (simp add: c guarded_call_def)
  next
    case (Some rg)
    obtain r g' where rg: "rg = (r, g')" by force
    show ?thesis
    proof (cases r)
      case (BudgetRefusal x d e)
      with Some rg admit_cases [of t i m g r g'] assms show ?thesis by (simp add: c guarded_call_def)
    next
      case (Admission e)
      note a = admit_cases [OF Some [unfolded rg Admission], simplified]
      show ?thesis
      proof (cases "bg_price g")
        case None
        with Some rg Admission a assms(1) show ?thesis
          by (simp add: c guarded_call_def settle_def guard_ok_def)
      next
        case (Some p)
        have v: "valid_query (p, i, m)" using a assms(1) Some by (simp add: valid_query_def guard_ok_def)
        have f: "usage_within i m u" if "usage = Some u" for u
          using assms(2) that by (simp add: honest_call_def c)
        have s: "bg_spent g + meter.charge (p, i, m) usage \<le> bl_spend_ceiling (bg_limits g)"
          using a Some f by (intro meter.under_ceiling [OF v]) simp_all
        have n: "0 \<le> meter.charge (p, i, m) usage" using f by (intro meter.charge_nonneg [OF v]) simp
        have g: "guarded_call t c g = g\<lparr>bg_calls := bg_calls g + 1, bg_spent := bg_spent g + meter.charge (p, i, m) usage\<rparr>"
          using \<open>admit t i m g = Some rg\<close> rg Admission a Some
          by (simp add: c guarded_call_def settle_def meter.charge_def Let_def split: option.split)
        show ?thesis using a assms(1) s n Some by (simp add: g guard_ok_def)
      qed
    qed
  qed
qed

lemma guarded_calls_ok: "\<lbrakk>guard_ok g; list_all honest_call cs\<rbrakk> \<Longrightarrow> guard_ok (guarded_calls t cs g)"
  unfolding guarded_calls_def by (induction cs arbitrary: g) (simp_all add: guarded_call_ok)

lemma guarded_calls_limits [simp]: "bg_limits (guarded_calls t cs g) = bg_limits g"
  unfolding guarded_calls_def by (induction cs arbitrary: g) simp_all

end
