(* ===== verification/Backend_Properties.thy ===== *)
theory Backend_Properties
  imports Backend_Samples Budget
begin

section \<open>What the backend guarantees of a run\<close>

text \<open>
  The run's row and event stream under any interleaving of units of work, the driver's tick, the
  turn executor and the agent's model budget. The inputs of the witnesses are those of
  \<open>Backend_Samples\<close>.
\<close>

subsection \<open>Runs\<close>

text \<open>
  C11: Whatever units of work commit, in whatever order and from whatever process, every run's row keeps
  the constraints on its outcome and its termination, each run's events stay numbered 1, 2, 3, ...
  without a gap, and the last run.state event of a run shows its row as it is.
\<close>

theorem runs_stay_consistent:
  assumes "run_ok db" and "unit_step\<^sup>*\<^sup>* db db'" and "run_get i db' = Some r"
  shows "OUTCOME_OK r \<and> TERMINATION_OK r \<and>
     map ev_cursor (events_of i db') = map int [1..<length (events_of i db') + 1] \<and>
     run_state_doc r = Inr (ev_data (last (state_events i db')))"
  using unit_steps_ok [OF assms(2,1)] run_get_Some [OF assms(3)]
  by (auto simp: run_ok_def list_all_iff stream_ok_def cursors_ok_def)

theorem runs_stay_consistent_witness:
  "OUTCOME_OK demo_run \<and> TERMINATION_OK demo_run \<and>
   map ev_cursor (events_of 0 demo_db) = map int [1..<length (events_of 0 demo_db) + 1] \<and>
   run_state_doc demo_run = Inr (ev_data (last (state_events 0 demo_db)))"
  using runs_stay_consistent [OF empty_ok demo_reached(1) demo_get] by blast

text \<open>
  C6: No interleaving of units of work moves a run's state outside the transition table, changes an
  outcome once recorded, or changes or forgets a recorded termination.
\<close>

theorem runs_only_advance:
  assumes "unit_step\<^sup>*\<^sup>* db db'" and "run_get i db = Some r"
  shows "\<exists>r'. run_get i db' = Some r' \<and> allowed\<^sup>*\<^sup>* (rn_state r) (rn_state r') \<and>
     (rn_outcome_kind r \<noteq> O_PENDING \<longrightarrow> rn_outcome_kind r' = rn_outcome_kind r \<and>
        rn_outcome_reason r' = rn_outcome_reason r \<and> rn_outcome_actor r' = rn_outcome_actor r \<and>
        rn_outcome_tx r' = rn_outcome_tx r) \<and>
     (rn_termination_cause r \<noteq> None \<longrightarrow> rn_termination_cause r' = rn_termination_cause r \<and>
        rn_termination_code r' = rn_termination_code r)"
  using unit_steps_advance [OF assms] by (auto simp: run_advance_def outcome_of_row_def)

theorem runs_only_advance_witness:
  "\<exists>r'. run_get 0 (snd (move 0 PAUSED (Some ''requested'') None ''transition'' False demo_db)) = Some r' \<and>
     allowed\<^sup>*\<^sup>* RUNNING (rn_state r')"
proof -
  have "unit_step\<^sup>*\<^sup>* demo_db (snd (move 0 PAUSED (Some ''requested'') None ''transition'' False demo_db))"
    using performs_move by (simp add: run_units.performs_def)
  from runs_only_advance [OF this demo_get] show ?thesis by (auto simp: demo_run_def)
qed

text \<open>
  C30: Of two requests for a single step of a paused run only one is accepted: from the moment the first
  is recorded until the turn moves the run on, every other is refused and writes nothing.
\<close>

theorem one_step_at_a_time:
  assumes "begin_step i db = (Inr r, db1)" and "run_get i db2 = run_get i db1"
  shows "begin_step i db2 = (Inl TurnInProgressError, db2)"
proof -
  have "begin_step_unit i db = Inr (r, db1)"
    using assms(1) by (auto simp: begin_step_def unit_of_work_def split: sum.splits)
  then have "run_get i db1 = Some r \<and> rn_state r = PAUSED \<and> rn_cause r = Some ''step''"
  proof (cases rule: begin_step_unit_cases)
    case (1 s db0)
    have "run_get i db1 = Some r"
      using run_get_update(1) [OF _ 1(4), of i] run_get_cong [OF append_run_state_runs [OF 1(5)]] by simp
    with 1 show ?thesis by (auto simp: run_update_def split: option.splits)
  qed
  with assms(2) show ?thesis by (simp add: begin_step_def begin_step_unit_def unit_of_work_def)
qed

lemma paused_steps: "\<exists>r db1. begin_step 0 paused_db = (Inr r, db1)"
proof -
  have "case begin_step 0 paused_db of (Inr r, db1) \<Rightarrow> True | _ \<Rightarrow> False"
    unfolding paused_db_def empty_backend_def by code_simp
  then show ?thesis by (cases "begin_step 0 paused_db") (auto split: sum.splits)
qed

theorem one_step_at_a_time_witness:
  "\<exists>db1. begin_step 0 db1 = (Inl TurnInProgressError, db1)"
  using paused_steps one_step_at_a_time [of 0 paused_db] by metis


subsection \<open>A tick\<close>



lemma tick_undriven: "run_get i db = Some r \<Longrightarrow> \<not> driven r db \<Longrightarrow> tick E k i outages db = (Inr (IDLE, outages), db)"
  by (simp add: tick_def load_run_def ctl_read_def ctl_bind_def ctl_return_def)

text \<open>
  C31: A backend process that does not hold a run's lease leaves the run alone: while another holder's
  lease is live, a tick reads, writes nothing and reports itself idle.
\<close>

theorem tick_needs_the_lease:
  assumes "run_get i db = Some r" and "map_of (ld_leases (bk_leases db)) i = Some l"
    and "le_holder l \<noteq> de_holder E" and "ki_now k < le_expires_at l"
  shows "guarded_tick E k i outages db = (Inr (IDLE, outages), db)"
proof -
  have "hold E (ki_now k) i db = (Inr False, db)"
    using acquire_live_refused [OF assms(2-4)]
    by (simp add: hold_def ctl_bind_def ctl_return_def unit_of_work_def in_unit_def on_leases_def)
  then have "tick E k i outages db = (Inr (IDLE, outages), db)"
    using tick_undriven [OF assms(1)] assms(1)
    by (cases "driven r db") (simp_all add: tick_def load_run_def ctl_read_def ctl_bind_def ctl_return_def)
  then show ?thesis by (simp add: guarded_tick_def ctl_catch_def)
qed

definition leased_elsewhere :: backend where
  "leased_elsewhere = demo_db\<lparr>bk_leases :=
     \<lparr>ld_active = Some 0, ld_leases = [(0, \<lparr>le_holder = ''api-2'', le_expires_at = 1030, le_nonce_next = 0\<rparr>)]\<rparr>\<rparr>"

theorem tick_needs_the_lease_witness:
  "guarded_tick demo_driver demo_tick_in 0 (None, None) leased_elsewhere = (Inr (IDLE, (None, None)), leased_elsewhere)"
proof -
  have "run_get 0 leased_elsewhere = Some demo_run"
    using demo_get by (simp add: run_get_def leased_elsewhere_def)
  then show ?thesis
    by (rule tick_needs_the_lease [where l = "\<lparr>le_holder = ''api-2'', le_expires_at = 1030, le_nonce_next = 0\<rparr>"])
       (simp_all add: leased_elsewhere_def demo_driver_def demo_tick_in_def)
qed

subsection \<open>Reorganisations\<close>


lemma acted_later:
  assumes ok: "run_ok db" "run_ok db2" and e: "latest_event i ''chain.reorg'' db = Some e"
    and later: "unit_step\<^sup>*\<^sup>* db db2" and same: "latest_event i ''chain.reorg'' db2 = Some e"
    and "\<not> reorg_pending i db"
  shows "\<not> reorg_pending i db2"
proof -
  have c: "cursors_ok (events_of i db)" "cursors_ok (events_of i db2)" using ok by (simp_all add: run_ok_def)
  obtain es where "bk_events db2 = bk_events db @ es" using unit_steps_events [OF later] by blast
  then have ev: "events_of i db2 = events_of i db @ filter (\<lambda>x. ev_run x = i) es" by (simp add: events_of_def)
  have "set (take AFTER_LIMIT (drop (nat (ev_cursor e)) (events_of i db)))
      \<subseteq> set (take AFTER_LIMIT (drop (nat (ev_cursor e)) (events_of i db2)))"
    unfolding ev by (simp add: drop_append)
  then show ?thesis
    using assms(6) e same
    by (auto simp: reorg_pending_def events_after_eq [OF c(1)] events_after_eq [OF c(2)] acted_on_reorg_def list_ex_iff)
qed


text \<open>
  C10: A reorganisation is acted on once. After the driver has handled the reorganisations of a
  preparing, running or paused run (and fewer than 500 events of the run came after the last
  chain.reorg), no later tick, whatever was committed in between, moves the run or reconciles its
  transactions for it again, until the indexer reports another one.
\<close>

theorem reorg_acted_on_once:
  assumes "run_ok db" and "rn_state r \<in> {PREPARING, RUNNING, PAUSED}"
    and "handle_reorg E nodes r db = (Inr (), db1)"
    and "latest_event (rn_id r) ''chain.reorg'' db = Some e"
    and "length (events_of (rn_id r) db) < nat (ev_cursor e) + AFTER_LIMIT"
    and "unit_step\<^sup>*\<^sup>* db1 db2" and "latest_event (rn_id r) ''chain.reorg'' db2 = Some e" and "rn_id r' = rn_id r"
  shows "handle_reorg E' nodes' r' db2 = (Inr (), db2)"
proof -
  have st: "unit_step\<^sup>*\<^sup>* db db1" by (rule run_units.performsD [OF performs_handle_reorg assms(3)])
  from this assms(6) have st2: "unit_step\<^sup>*\<^sup>* db db2" by (rule rtranclp_trans)
  have "\<not> reorg_pending (rn_id r) db2"
  proof (cases "reorg_pending (rn_id r) db")
    case False
    show ?thesis by (rule acted_later [OF assms(1) unit_steps_ok [OF st2 assms(1)] assms(4) st2 assms(7) False])
  next
    case True
    then obtain s dbm u where m: "move (rn_id r) (if rn_state r = PREPARING then PREPARING else PAUSED) (Some ''reorg'')
        (Some [rn_state r]) ''transition'' True db = (Inr s, dbm)"
      and rec: "ctl_bind (reconcile_run E nodes (rn_id r)) (\<lambda>_. ctl_return ()) dbm = (u, db1)"
      using assms(2,3) by (auto simp: handle_reorg_def ctl_read_def ctl_bind_def [of "move _ _ _ _ _ _"]
          split: prod.splits sum.splits)
    have "performs (ctl_bind (reconcile_run E nodes (rn_id r)) (\<lambda>_. ctl_return ()))" by (intro performs_rules)
    from run_units.performsD [OF this rec] assms(6) have "unit_step\<^sup>*\<^sup>* dbm db2" by (rule rtranclp_trans)
    from reorg_acted [OF assms(1,4,5) m this assms(7)] show ?thesis .
  qed
  with assms(8) show ?thesis using handle_reorg_idle [of r' db2] by simp
qed

definition reorged :: backend where
  "reorged = (case append_event 0 ''chain.reorg'' JNull demo_db of Inl _ \<Rightarrow> demo_db | Inr (_, db) \<Rightarrow> db)"


lemma relay_store_view: "bk_actions db = [] \<Longrightarrow> relay_store (relay_view db) db = db"
  by (simp add: relay_store_def relay_view_def)

lemma reconcile_nothing:
  assumes "bk_outbox db = []" "bk_actions db = []"
  shows "reconcile_run E nodes i db = (Inr True, db)"
  using assms relay_store_view [OF assms(2)]
  by (simp add: reconcile_run_def run_relay_def reconcile_def outbox_unfinished_def by_sender_nonce_def
      ctl_bind_def ctl_return_def relay_view_def [of db])

definition acted :: backend where
  "acted = snd (move 0 PAUSED (Some ''reorg'') (Some [RUNNING]) ''transition'' True reorged)"

lemma reorged_facts:
  "run_ok reorged"
  "bk_outbox acted = []" "bk_actions acted = []"
  "reorg_pending 0 reorged"
  "isl (fst (move 0 PAUSED (Some ''reorg'') (Some [RUNNING]) ''transition'' True reorged)) = False"
  "map_option ev_cursor (latest_event 0 ''chain.reorg'' reorged) = Some 5"
  "latest_event 0 ''chain.reorg'' acted = latest_event 0 ''chain.reorg'' reorged"
  "length (events_of 0 reorged) = 5"
proof -
  have "unit_step\<^sup>*\<^sup>* demo_db reorged"
    by (auto simp: reorged_def split: sum.splits intro!: r_into_rtranclp unit_step.logged)
  then show "run_ok reorged" using unit_steps_ok demo_ok by blast
qed code_simp+

lemma reorged_handled: "handle_reorg demo_driver nodes demo_run reorged = (Inr (), acted)"
proof -
  obtain s where m: "move 0 PAUSED (Some ''reorg'') (Some [RUNNING]) ''transition'' True reorged = (Inr s, acted)"
    using reorged_facts(5) unfolding acted_def
    by (cases "move 0 PAUSED (Some ''reorg'') (Some [RUNNING]) ''transition'' True reorged";
        cases "fst (move 0 PAUSED (Some ''reorg'') (Some [RUNNING]) ''transition'' True reorged)") auto
  show ?thesis
    by (simp add: handle_reorg_def ctl_read_def ctl_return_def started_cause reorged_facts(4) ctl_bind_def m
        reconcile_nothing [OF reorged_facts(2,3)])
qed

theorem reorg_acted_on_once_witness:
  "handle_reorg demo_driver (\<lambda>_. sample_node) demo_run acted = (Inr (), acted)"
proof -
  obtain e where e: "latest_event 0 ''chain.reorg'' reorged = Some e" "ev_cursor e = 5"
    using reorged_facts(6) by auto
  show ?thesis
    by (rule reorg_acted_on_once [OF reorged_facts(1) _ reorged_handled, where e = e])
       (use e reorged_facts(7,8) in \<open>simp_all add: started_cause AFTER_LIMIT_def\<close>)
qed


subsection \<open>Outcomes\<close>











subsection \<open>Turns\<close>









text \<open>
  C8: An honest agent's action is never refused: whatever the agent signs for a turn, the backend's
  check of it finds nothing wrong, for every kind of action, given only that the observation the two
  worked from shows the session's deadline, the chain time and the active offer the decision names.
\<close>

theorem honest_action_accepted:
  assumes "eth_lib_ok L" and "signer_ok L signer"
    and "is_digest (ap_session_id s)" and "is_digest (ap_config_hash s)"
    and "sign_decision L d (Some s) seq t signer = Inr a"
    and "decision_fits s d observation" and "observed_session s t observation opened"
  shows "check_action L (approved_domain s) (payload_of a) seq observation
    (Some (rs_address signer)) (Some opened) = None"
  using signed_action_checks [OF assms] .

definition honest_lib :: eth_lib where
  "honest_lib = sample_lib\<lparr>recover_hash := \<lambda>_ _. Some (addr CHR ''1'')\<rparr>"

definition honest_signer :: run_signer where
  "honest_signer = sample_signer\<lparr>rs_sign_digest := \<lambda>_. replicate 63 0 @ [1, 27]\<rparr>"

definition honest_observation :: json where
  "honest_observation = JObj [(''chain_time'', JInt 1000), (''session'', JObj [(''expires_at'', JInt 2000)]), (''active_offer'', JNull)]"

lemma honest_lib_ok: "eth_lib_ok honest_lib"
proof -
  have f: "keccak honest_lib = keccak sample_lib" "abi_encode honest_lib = abi_encode sample_lib"
    "to_checksum_address honest_lib = to_checksum_address sample_lib"
    by (simp_all add: honest_lib_def)
  have g: "abi_wf honest_lib x = abi_wf sample_lib x" for x by (cases x) (simp_all add: f)
  show ?thesis using sample_lib_ok unfolding eth_lib_ok_def f g .
qed

lemma honest_signer_ok: "signer_ok honest_lib honest_signer"
proof -
  have "signature_is_canonical (replicate 63 0 @ [1, 27])" by code_simp
  moreover have "sample_checksum (addr CHR ''1'') = addr CHR ''1''" by (rule sample_addresses) simp
  moreover have "Address honest_lib (JStr (addr CHR ''1'')) = Inr (sample_checksum (addr CHR ''1''))"
    unfolding honest_lib_def sample_lib_def addr_def by code_simp
  ultimately show ?thesis by (simp add: signer_ok_def honest_signer_def sample_signer_def honest_lib_def sample_lib_def)
qed

theorem honest_action_accepted_witness:
  "\<exists>a. sign_decision honest_lib (ValidOffer 7) (Some sample_approval) 1 1000 honest_signer = Inr a \<and>
     check_action honest_lib (approved_domain sample_approval) (payload_of a) 1 honest_observation
       (Some (addr CHR ''1''))
       (Some [(''sessionId'', JStr (hash32 7)), (''configHash'', JStr sample_config)]) = None"
proof -
  have ids: "is_digest (ap_session_id sample_approval)" "is_digest (ap_config_hash sample_approval)"
    using sample_config_digest is_digest_bytes by (auto simp: sample_approval_def hash32_def is_digest_def simp del: to_hex.simps)
      (metis length_replicate)
  have "signable_values sample_approval 1 1000 (ValidOffer 7)"
    using ids by (simp add: signable_values_def is_sequence_def is_amount_def UINT64_MAX_def UINT256_MAX_def
        offer_valid_until_def sample_approval_def)
  moreover have "party sample_approval (kd_role (rs_derivation honest_signer)) = rs_address honest_signer"
    by (simp add: honest_signer_def sample_signer_def sample_approval_def party_def)
  ultimately obtain a where a: "sign_decision honest_lib (ValidOffer 7) (Some sample_approval) 1 1000 honest_signer = Inr a"
    using sign_decision_total [OF honest_lib_ok, of sample_approval 1 1000 "ValidOffer 7" honest_signer]
    by (auto simp: sample_approval_def)
  have "decision_fits sample_approval (ValidOffer 7) honest_observation"
    by (simp add: decision_fits_def sample_approval_def)
  moreover have "observed_session sample_approval 1000 honest_observation
      [(''sessionId'', JStr (hash32 7)), (''configHash'', JStr sample_config)]"
    by (simp add: observed_session_def observed_times_def honest_observation_def jfield_def arg_of_def sample_approval_def)
  ultimately have "check_action honest_lib (approved_domain sample_approval) (payload_of a) 1 honest_observation
      (Some (rs_address honest_signer)) (Some [(''sessionId'', JStr (hash32 7)), (''configHash'', JStr sample_config)]) = None"
    using honest_action_accepted [OF honest_lib_ok honest_signer_ok ids a] by blast
  with a show ?thesis by (auto simp: honest_signer_def sample_signer_def)
qed


subsection \<open>Stored text\<close>


subsection \<open>The model budget\<close>





end
