(* ===== verification/Spec2Isabelle.thy ===== *)
theory Spec2Isabelle
  imports Protocol_Properties Agent_Properties Relay_Properties Backend_Properties Chain_Rows
begin

text \<open>
  A verification library of the agentic negotiation sandbox.
\<close>

end
